(* ===== verification/Prelude.thy ===== *)
theory Prelude
  imports Main "HOL-Library.Word" "HOL-Library.List_Lexorder" "HOL-Library.Product_Lexorder"
    "HOL-Library.Char_ord"
begin

text \<open>
  What every component of the model shares: the types of the Go values that appear
  everywhere (byte slices, UUIDs, instants), the error values of the program, the
  sequencing of fallible effectful calls (Go's \<^verbatim>\<open>if err != nil { return err }\<close>),
  the table primitives the SQL statements are written with, and the generic lemmas
  and lemma collections the component proofs use.
\<close>

section \<open>Types\<close>

type_synonym byte = "8 word"
type_synonym bytes = "byte list"

text \<open>\<^verbatim>\<open>uuid.UUID\<close> is an array of 16 bytes; PostgreSQL orders UUIDs by these bytes, most
  significant first, which is the order of the 128-bit word.\<close>

type_synonym uuid = "128 word"

text \<open>Instants and durations are counted in microseconds, the resolution of the
  \<^verbatim>\<open>TIMESTAMPTZ\<close> columns they are stored in.\<close>

type_synonym time = int
type_synonym duration = int

abbreviation uuidNil :: uuid where "uuidNil \<equiv> 0"

abbreviation millisecond :: duration where "millisecond \<equiv> 1000"
abbreviation second :: duration where "second \<equiv> 1000000"
abbreviation minute :: duration where "minute \<equiv> 60000000"
abbreviation hour :: duration where "hour \<equiv> 3600000000"

section \<open>Errors\<close>

text \<open>What PostgreSQL reports when it refuses a statement. \<open>DriverFault\<close> stands for every
  reason the schema does not explain (a lost connection, a timeout, a malformed value).\<close>

datatype sqlErr =
    UniqueViolation
  | CheckViolation
  | NotNullViolation
  | ForeignKeyViolation
  | DriverFault

text \<open>The error values of the program: the sentinels of \<^verbatim>\<open>domain/auth\<close>, \<^verbatim>\<open>clientapi\<close>,
  \<^verbatim>\<open>outbox\<close> and \<^verbatim>\<open>push\<close>, the texts made by \<^verbatim>\<open>fmt.Errorf\<close>, and wrapped errors.\<close>

datatype err =
    ErrInvalidPublicKey
  | ErrInvalidSessionID
  | ErrSessionNotFound
  | ErrSessionExpired
  | ErrSessionNotAuthenticated
  | ErrInvalidSignature
  | ErrInvalidDeviceID
  | ErrInvalidClientNonce
  | ErrInvalidEventID
  | ErrSubscriptionNotFound
  | ErrNotFound
  | ErrForbidden
  | ErrConflict
  | ErrProfileRequired
  | ErrOutboxInvalidDeviceID
  | ErrDisabled
  | ErrSQL sqlErr
  | ErrMsg string
  | ErrWrap string err

text \<open>\<^verbatim>\<open>errors.Is\<close> follows the wrapped errors.\<close>

fun errIs :: "err \<Rightarrow> err \<Rightarrow> bool" where
  "errIs (ErrWrap msg e) target \<longleftrightarrow> ErrWrap msg e = target \<or> errIs e target"
| "errIs e target \<longleftrightarrow> e = target"

section \<open>Fallible effectful calls\<close>

text \<open>A call ends with a value, with an error value, or in a panic that unwinds the caller.\<close>

datatype 'a outcome = Ret 'a | Err err | Panic string

type_synonym ('s, 'a) go = "'s \<Rightarrow> 'a outcome \<times> 's"

definition ret :: "'a \<Rightarrow> ('s, 'a) go" where
  "ret x s = (Ret x, s)"

definition fail :: "err \<Rightarrow> ('s, 'a) go" where
  "fail e s = (Err e, s)"

definition panic :: "string \<Rightarrow> ('s, 'a) go" where
  "panic p s = (Panic p, s)"

text \<open>\<open>x, err := m; if err != nil { return err }; k x\<close>.\<close>

definition andThen :: "('s, 'a) go \<Rightarrow> ('a \<Rightarrow> ('s, 'b) go) \<Rightarrow> ('s, 'b) go" where
  "andThen m k s = (case m s of
       (Ret x, s') \<Rightarrow> k x s'
     | (Err e, s') \<Rightarrow> (Err e, s')
     | (Panic p, s') \<Rightarrow> (Panic p, s'))"

text \<open>\<open>_ = m; k\<close>: the error is dropped, a panic is not.\<close>

definition ignoreErr :: "('s, 'a) go \<Rightarrow> ('s, 'b) go \<Rightarrow> ('s, 'b) go" where
  "ignoreErr m k s = (case m s of
       (Ret _, s') \<Rightarrow> k s'
     | (Err _, s') \<Rightarrow> k s'
     | (Panic p, s') \<Rightarrow> (Panic p, s'))"

text \<open>\<open>x, err := m; if err != nil { h err }\<close>, a caller that inspects the error.\<close>

definition onErr :: "('s, 'a) go \<Rightarrow> (err \<Rightarrow> ('s, 'a) go) \<Rightarrow> ('s, 'a) go" where
  "onErr m h s = (case m s of
       (Ret x, s') \<Rightarrow> (Ret x, s')
     | (Err e, s') \<Rightarrow> h e s'
     | (Panic p, s') \<Rightarrow> (Panic p, s'))"

definition wrapErr :: "string \<Rightarrow> ('s, 'a) go \<Rightarrow> ('s, 'a) go" where
  "wrapErr msg m = onErr m (\<lambda>e. fail (ErrWrap msg e))"

definition guardErr :: "bool \<Rightarrow> err \<Rightarrow> ('s, 'a) go \<Rightarrow> ('s, 'a) go" where
  "guardErr bad e k = (if bad then fail e else k)"

text \<open>\<open>for _, x := range xs { if err := f(x); err != nil { return err } }\<close>.\<close>

fun forEach :: "('a \<Rightarrow> ('s, unit) go) \<Rightarrow> 'a list \<Rightarrow> ('s, unit) go" where
  "forEach f [] = ret ()"
| "forEach f (x # xs) = andThen (f x) (\<lambda>_. forEach f xs)"

text \<open>\<open>for _, x := range xs { _ = f(x) }\<close>.\<close>

fun forEachIgnore :: "('a \<Rightarrow> ('s, 'b) go) \<Rightarrow> 'a list \<Rightarrow> ('s, unit) go" where
  "forEachIgnore f [] = ret ()"
| "forEachIgnore f (x # xs) = ignoreErr (f x) (forEachIgnore f xs)"

text \<open>A loop that appends one result per item and stops at the first error.\<close>

fun mapEach :: "('a \<Rightarrow> ('s, 'b) go) \<Rightarrow> 'a list \<Rightarrow> ('s, 'b list) go" where
  "mapEach f [] = ret []"
| "mapEach f (x # xs) = andThen (f x) (\<lambda>y. andThen (mapEach f xs) (\<lambda>ys. ret (y # ys)))"

section \<open>Table primitives\<close>

text \<open>A table is the list of its rows. \<^verbatim>\<open>UPDATE t SET f WHERE p\<close>, \<^verbatim>\<open>DELETE FROM t WHERE p\<close>
  and \<^verbatim>\<open>SELECT ... ORDER BY k LIMIT n OFFSET o\<close> on such a list.\<close>

definition updWhere :: "('r \<Rightarrow> bool) \<Rightarrow> ('r \<Rightarrow> 'r) \<Rightarrow> 'r list \<Rightarrow> 'r list" where
  "updWhere p f rs = map (\<lambda>r. if p r then f r else r) rs"

definition delWhere :: "('r \<Rightarrow> bool) \<Rightarrow> 'r list \<Rightarrow> 'r list" where
  "delWhere p rs = filter (\<lambda>r. \<not> p r) rs"

definition countWhere :: "('r \<Rightarrow> bool) \<Rightarrow> 'r list \<Rightarrow> int" where
  "countWhere p rs = int (length (filter p rs))"

definition limitOffset :: "int \<Rightarrow> int \<Rightarrow> 'r list \<Rightarrow> 'r list" where
  "limitOffset limit offset rs = take (nat limit) (drop (nat offset) rs)"

text \<open>\<^verbatim>\<open>INSERT ... ON CONFLICT (k) DO UPDATE\<close>: the conflicting row is changed by \<open>f\<close>, or the new row
  is added.\<close>

definition upsertBy :: "('r \<Rightarrow> 'k) \<Rightarrow> ('r \<Rightarrow> 'r) \<Rightarrow> 'r \<Rightarrow> 'r list \<Rightarrow> 'r list" where
  "upsertBy k f r rs =
     (if k r \<in> set (map k rs) then updWhere (\<lambda>x. k x = k r) f rs else rs @ [r])"

section \<open>Lemma collections\<close>

named_theorems go_simps \<open>evaluation of the sequencing combinators\<close>
named_theorems keeps_intros \<open>preservation rules for sequenced calls\<close>
named_theorems atomic_intros \<open>calls that leave the database alone unless they return\<close>

declare ret_def [go_simps] fail_def [go_simps] panic_def [go_simps]
declare andThen_def [go_simps] ignoreErr_def [go_simps] onErr_def [go_simps]
declare wrapErr_def [go_simps] guardErr_def [go_simps]

section \<open>Invariants kept by sequenced calls\<close>

text \<open>\<open>keeps I m\<close>: the call leaves a state that satisfies \<open>I\<close> in a state that satisfies \<open>I\<close>,
  whatever it returns.\<close>

definition keeps :: "('s \<Rightarrow> bool) \<Rightarrow> ('s, 'a) go \<Rightarrow> bool" where
  "keeps I m \<longleftrightarrow> (\<forall>s. I s \<longrightarrow> I (snd (m s)))"

lemma keepsI [intro?]: "(\<And>s. I s \<Longrightarrow> I (snd (m s))) \<Longrightarrow> keeps I m"
  by (simp add: keeps_def)

lemma keepsD: "keeps I m \<Longrightarrow> I s \<Longrightarrow> I (snd (m s))"
  by (simp add: keeps_def)

lemma keeps_ret [keeps_intros]: "keeps I (ret x)"
  by (simp add: keeps_def ret_def)

lemma keeps_fail [keeps_intros]: "keeps I (fail e)"
  by (simp add: keeps_def fail_def)

lemma keeps_panic [keeps_intros]: "keeps I (panic p)"
  by (simp add: keeps_def panic_def)

lemma keeps_andThen [keeps_intros]:
  assumes "keeps I m" and "\<And>x. keeps I (k x)"
  shows "keeps I (andThen m k)"
  using assms by (fastforce simp: keeps_def andThen_def split: prod.splits outcome.splits)

lemma keeps_ignoreErr [keeps_intros]:
  assumes "keeps I m" and "keeps I k"
  shows "keeps I (ignoreErr m k)"
  using assms by (fastforce simp: keeps_def ignoreErr_def split: prod.splits outcome.splits)

lemma keeps_onErr [keeps_intros]:
  assumes "keeps I m" and "\<And>e. keeps I (h e)"
  shows "keeps I (onErr m h)"
  using assms by (fastforce simp: keeps_def onErr_def split: prod.splits outcome.splits)

lemma keeps_wrapErr [keeps_intros]: "keeps I m \<Longrightarrow> keeps I (wrapErr msg m)"
  by (simp add: wrapErr_def keeps_onErr keeps_fail)

lemma keeps_guardErr [keeps_intros]: "keeps I k \<Longrightarrow> keeps I (guardErr bad e k)"
  by (simp add: guardErr_def keeps_fail)

lemma keeps_if [keeps_intros]:
  "(b \<Longrightarrow> keeps I m) \<Longrightarrow> (\<not> b \<Longrightarrow> keeps I m') \<Longrightarrow> keeps I (if b then m else m')"
  by simp

lemma keeps_case_option [keeps_intros]:
  "(opt = None \<Longrightarrow> keeps I m) \<Longrightarrow> (\<And>x. opt = Some x \<Longrightarrow> keeps I (f x)) \<Longrightarrow>
     keeps I (case opt of None \<Rightarrow> m | Some x \<Rightarrow> f x)"
  by (cases opt) simp_all

lemma keeps_case_prod [keeps_intros]:
  "(\<And>x y. keeps I (f x y)) \<Longrightarrow> keeps I (case p of (x, y) \<Rightarrow> f x y)"
  by (cases p) simp_all

lemma keeps_Let [keeps_intros]: "keeps I (f x) \<Longrightarrow> keeps I (let y = x in f y)"
  by simp

lemma keeps_forEach [keeps_intros]:
  assumes "\<And>x. x \<in> set xs \<Longrightarrow> keeps I (f x)"
  shows "keeps I (forEach f xs)"
  using assms by (induction xs) (auto intro: keeps_ret keeps_andThen)

lemma keeps_forEachIgnore [keeps_intros]:
  assumes "\<And>x. x \<in> set xs \<Longrightarrow> keeps I (f x)"
  shows "keeps I (forEachIgnore f xs)"
  using assms by (induction xs) (auto intro: keeps_ret keeps_ignoreErr)

lemma keeps_mapEach [keeps_intros]:
  assumes "\<And>x. x \<in> set xs \<Longrightarrow> keeps I (f x)"
  shows "keeps I (mapEach f xs)"
  using assms by (induction xs) (auto intro!: keeps_ret keeps_andThen)

section \<open>Triples\<close>

text \<open>\<open>hoare P m Q E\<close>: from a state that satisfies \<open>P\<close>, a call that returns leaves a value and a state
  that satisfy \<open>Q\<close>, and one that fails or panics leaves a state that satisfies \<open>E\<close>.\<close>

definition hoare ::
  "('s \<Rightarrow> bool) \<Rightarrow> ('s, 'a) go \<Rightarrow> ('a \<Rightarrow> 's \<Rightarrow> bool) \<Rightarrow> ('s \<Rightarrow> bool) \<Rightarrow> bool" where
  "hoare P m Q E \<longleftrightarrow> (\<forall>s. P s \<longrightarrow>
     (case m s of (Ret x, t) \<Rightarrow> Q x t | (Err e, t) \<Rightarrow> E t | (Panic p, t) \<Rightarrow> E t))"

lemma hoareD:
  assumes "hoare P m Q E" and "P s"
  shows "m s = (Ret x, t) \<Longrightarrow> Q x t" and "m s = (Err e, t) \<Longrightarrow> E t" and "m s = (Panic p, t) \<Longrightarrow> E t"
  using assms by (auto simp: hoare_def dest: spec [of _ s])

lemma hoare_weaken:
  assumes "hoare P' m Q' E'" and "\<And>s. P s \<Longrightarrow> P' s" and "\<And>x s. Q' x s \<Longrightarrow> Q x s"
    and "\<And>s. E' s \<Longrightarrow> E s"
  shows "hoare P m Q E"
  using assms by (fastforce simp: hoare_def split: prod.splits outcome.splits)

lemma hoare_pre: "hoare P' m Q E \<Longrightarrow> (\<And>s. P s \<Longrightarrow> P' s) \<Longrightarrow> hoare P m Q E"
  by (erule hoare_weaken) simp_all

lemma keeps_hoare:
  fixes m :: "('a, 'b) go"
  shows "keeps I m \<longleftrightarrow> hoare I m (\<lambda>_. I) I"
proof -
  have "(case r of (Ret x, t) \<Rightarrow> I t | (Err e, t) \<Rightarrow> I t | (Panic p, t) \<Rightarrow> I t) = I (snd r)"
    for r :: "'b outcome \<times> 'a"
    by (cases r; cases "fst r") auto
  then show ?thesis by (simp add: keeps_def hoare_def)
qed

lemma hoare_snd:
  assumes "hoare P m (\<lambda>_. Q) Q" and "P s"
  shows "Q (snd (m s))"
  using hoareD [OF assms] by (cases "m s"; cases "fst (m s)") auto

text \<open>A call that has no error to return.\<close>

definition noErr :: "('s, 'a) go \<Rightarrow> bool" where
  "noErr m \<longleftrightarrow> (\<forall>s e. fst (m s) \<noteq> Err e)"

lemma noErrD: "noErr m \<Longrightarrow> m s \<noteq> (Err e, t)"
  by (metis fst_conv noErr_def)

lemma noErr_ret: "noErr (ret x)"
  by (simp add: noErr_def ret_def)

lemma noErr_andThen: "noErr m \<Longrightarrow> (\<And>x. noErr (k x)) \<Longrightarrow> noErr (andThen m k)"
proof -
  assume m: "noErr m" and k: "\<And>x. noErr (k x)"
  have "fst (andThen m k s) \<noteq> Err e" for s e
  proof (cases "m s")
    case (Pair r t)
    then have "r \<noteq> Err e'" for e' using m by (auto simp: noErr_def dest: spec [of _ s])
    then show ?thesis using Pair k by (cases r) (auto simp: andThen_def noErr_def)
  qed
  then show ?thesis by (simp add: noErr_def)
qed

lemma noErr_forEach: "(\<And>x. noErr (f x)) \<Longrightarrow> noErr (forEach f xs)"
  by (induction xs) (auto intro: noErr_ret noErr_andThen)

lemma hoare_ret: "hoare (Q x) (ret x) Q E"
  by (simp add: hoare_def ret_def)

lemma hoare_fail: "hoare E (fail e) Q E"
  by (simp add: hoare_def fail_def)

lemma hoare_andThen:
  assumes "hoare P m R E" and "\<And>x. hoare (R x) (k x) Q E"
  shows "hoare P (andThen m k) Q E"
  unfolding hoare_def
proof (intro allI impI)
  fix s assume P: "P s"
  show "case andThen m k s of (Ret x, t) \<Rightarrow> Q x t | (Err e, t) \<Rightarrow> E t | (Panic p, t) \<Rightarrow> E t"
  proof (cases "m s")
    case (Pair r t)
    then show ?thesis
      using hoareD [OF assms(1) P] assms(2)
      by (cases r) (auto simp: andThen_def hoare_def)
  qed
qed

lemma hoare_wrapErr: "hoare P m Q E \<Longrightarrow> hoare P (wrapErr msg m) Q E"
  by (fastforce simp: hoare_def wrapErr_def onErr_def fail_def split: prod.splits outcome.splits)

lemma hoare_if:
  "(b \<Longrightarrow> hoare P m Q E) \<Longrightarrow> (\<not> b \<Longrightarrow> hoare P m' Q E) \<Longrightarrow> hoare P (if b then m else m') Q E"
  by simp

lemma hoare_guardErr:
  "(\<And>s. bad \<Longrightarrow> P s \<Longrightarrow> E s) \<Longrightarrow> (\<not> bad \<Longrightarrow> hoare P k Q E) \<Longrightarrow> hoare P (guardErr bad e k) Q E"
  by (auto simp: guardErr_def hoare_def fail_def)

lemma hoare_keeps:
  assumes "keeps P m" and "\<And>s. P s \<Longrightarrow> E s"
  shows "hoare P m (\<lambda>_. P) E"
  using assms(1) unfolding keeps_hoare by (rule hoare_weaken) (use assms(2) in auto)

text \<open>A loop: \<open>L xs\<close> holds before the items \<open>xs\<close> are processed.\<close>

lemma hoare_forEach:
  assumes "\<And>x xs. hoare (L (x # xs)) (f x) (\<lambda>_. L xs) E"
  shows "hoare (L xs) (forEach f xs) (\<lambda>_. L []) E"
  by (induction xs) (auto intro: hoare_ret hoare_andThen assms)

lemma hoare_conj:
  assumes "hoare P m Q E" and "hoare P' m Q' E'"
  shows "hoare (\<lambda>s. P s \<and> P' s) m (\<lambda>x s. Q x s \<and> Q' x s) (\<lambda>s. E s \<and> E' s)"
  unfolding hoare_def
proof (intro allI impI)
  fix s assume "P s \<and> P' s"
  then show "case m s of (Ret x, t) \<Rightarrow> Q x t \<and> Q' x t | (Err e, t) \<Rightarrow> E t \<and> E' t | (Panic p, t) \<Rightarrow> E t \<and> E' t"
    using hoareD [OF assms(1), of s] hoareD [OF assms(2), of s]
    by (cases "m s"; cases "fst (m s)") auto
qed

lemma hoare_RetI: "(\<And>s x t. P s \<Longrightarrow> m s = (Ret x, t) \<Longrightarrow> Q x t) \<Longrightarrow> hoare P m Q (\<lambda>_. True)"
  by (simp add: hoare_def split: prod.split outcome.split)

lemma hoare_fact: "(\<And>s. P s \<Longrightarrow> F) \<Longrightarrow> (F \<Longrightarrow> hoare P m Q E) \<Longrightarrow> hoare P m Q E"
  by (auto simp: hoare_def)

section \<open>Calls that return\<close>

text \<open>\<open>returns P m Q\<close>: from a state that satisfies \<open>P\<close> the call returns, with a value and a state that satisfy
  \<open>Q\<close>.\<close>

definition returns :: "('s \<Rightarrow> bool) \<Rightarrow> ('s, 'a) go \<Rightarrow> ('a \<Rightarrow> 's \<Rightarrow> bool) \<Rightarrow> bool" where
  "returns P m Q \<longleftrightarrow> (\<forall>s. P s \<longrightarrow> (\<exists>x t. m s = (Ret x, t) \<and> Q x t))"

lemma returnsD: "returns P m Q \<Longrightarrow> P s \<Longrightarrow> \<exists>x t. m s = (Ret x, t) \<and> Q x t"
  by (simp add: returns_def)

lemma returns_ret: "returns (Q x) (ret x) Q"
  by (simp add: returns_def ret_def)

lemma returns_weaken:
  "returns P' m Q' \<Longrightarrow> (\<And>s. P s \<Longrightarrow> P' s) \<Longrightarrow> (\<And>x s. Q' x s \<Longrightarrow> Q x s) \<Longrightarrow> returns P m Q"
  unfolding returns_def by blast

lemma returns_andThen:
  assumes "returns P m R" and "\<And>x. returns (R x) (k x) Q"
  shows "returns P (andThen m k) Q"
  unfolding returns_def
proof (intro allI impI)
  fix s assume "P s"
  then obtain x t where "m s = (Ret x, t)" and "R x t" using assms(1) by (auto simp: returns_def)
  then show "\<exists>x t. andThen m k s = (Ret x, t) \<and> Q x t"
    using assms(2) [of x] by (simp add: andThen_def returns_def)
qed

lemma returns_wrapErr: "returns P m Q \<Longrightarrow> returns P (wrapErr msg m) Q"
  by (fastforce simp: returns_def wrapErr_def onErr_def)

lemma returns_guardErr: "\<not> bad \<Longrightarrow> returns P m Q \<Longrightarrow> returns P (guardErr bad e m) Q"
  by (simp add: guardErr_def)

lemma returns_hoare: "returns P m Q \<Longrightarrow> hoare P m Q' E \<Longrightarrow> returns P m (\<lambda>x s. Q x s \<and> Q' x s)"
  unfolding returns_def using hoareD(1) by metis

lemma returns_conj:
  "returns P m Q \<Longrightarrow> hoare P' m Q' E \<Longrightarrow> returns (\<lambda>s. P s \<and> P' s) m (\<lambda>x s. Q x s \<and> Q' x s)"
  unfolding returns_def using hoareD(1) by metis

lemma returns_forEach:
  assumes "\<And>x xs. returns (L (x # xs)) (f x) (\<lambda>_. L xs)"
  shows "returns (L xs) (forEach f xs) (\<lambda>_. L [])"
  by (induction xs) (auto intro: returns_ret returns_andThen assms)

text \<open>A call that returned passed through each of its parts.\<close>

lemma andThen_RetE:
  assumes "andThen m k s = (Ret y, t)"
  obtains x u where "m s = (Ret x, u)" and "k x u = (Ret y, t)"
  using assms by (auto simp: andThen_def split: prod.splits outcome.splits)

lemma wrapErr_Ret [simp]: "wrapErr msg m s = (Ret x, t) \<longleftrightarrow> m s = (Ret x, t)"
  by (auto simp: wrapErr_def onErr_def fail_def split: prod.splits outcome.splits)

lemma guardErr_RetE:
  assumes "guardErr bad e k s = (Ret y, t)"
  obtains "\<not> bad" and "k s = (Ret y, t)"
  using assms by (auto simp: guardErr_def fail_def split: if_splits)

lemma ret_eq [simp]: "ret x s = (Ret y, t) \<longleftrightarrow> y = x \<and> t = s"
  by (auto simp: ret_def)

lemma fail_not_Ret [simp]: "fail e s \<noteq> (Ret y, t)"
  by (simp add: fail_def)

section \<open>Rows\<close>

lemma set_updWhere: "set (updWhere p f rs) = {if p r then f r else r | r. r \<in> set rs}"
  by (auto simp: updWhere_def)

lemma set_delWhere [simp]: "set (delWhere p rs) = {r \<in> set rs. \<not> p r}"
  by (auto simp: delWhere_def)

lemma length_updWhere [simp]: "length (updWhere p f rs) = length rs"
  by (simp add: updWhere_def)

lemma map_updWhere: "(\<And>r. p r \<Longrightarrow> k (f r) = k r) \<Longrightarrow> map k (updWhere p f rs) = map k rs"
  by (auto simp: updWhere_def)

lemma updWhere_idle: "(\<And>r. r \<in> set rs \<Longrightarrow> \<not> p r) \<Longrightarrow> updWhere p f rs = rs"
  by (induction rs) (auto simp: updWhere_def)

lemma in_updWhereE:
  assumes "r \<in> set (updWhere p f rs)"
  obtains q where "q \<in> set rs" and "r = (if p q then f q else q)"
  using assms by (auto simp: updWhere_def)

lemma distinct_map_delWhere: "distinct (map k rs) \<Longrightarrow> distinct (map k (delWhere p rs))"
  by (simp add: delWhere_def distinct_map_filter)

lemma distinct_map_inj: "distinct (map k rs) \<Longrightarrow> r \<in> set rs \<Longrightarrow> q \<in> set rs \<Longrightarrow> k r = k q \<Longrightarrow> r = q"
  by (auto simp: distinct_map inj_on_def)

lemma find_Some_in: "find p xs = Some x \<Longrightarrow> x \<in> set xs \<and> p x"
  by (auto simp: find_Some_iff)

lemma find_None_all: "find p xs = None \<longleftrightarrow> (\<forall>x\<in>set xs. \<not> p x)"
  by (auto simp: find_None_iff)

lemma find_by_key:
  assumes "distinct (map k rs)" and "r \<in> set rs"
  shows "find (\<lambda>x. k x = k r) rs = Some r"
  using assms by (induction rs) (auto simp: rev_image_eqI)

lemma map_upsertBy:
  assumes "\<And>x. k x = k r \<Longrightarrow> k (f x) = k x"
  shows "map k (upsertBy k f r rs) = (if k r \<in> set (map k rs) then map k rs else map k rs @ [k r])"
  using assms unfolding upsertBy_def by (auto simp: updWhere_def)

lemma distinct_map_upsertBy:
  assumes "distinct (map k rs)" and "\<And>x. k x = k r \<Longrightarrow> k (f x) = k x"
  shows "distinct (map k (upsertBy k f r rs))"
  using assms by (auto simp: map_upsertBy)

lemma find_updWhere:
  assumes "\<And>x. p x \<Longrightarrow> q (f x) = q x"
  shows "find q (updWhere p f rs) = map_option (\<lambda>x. if p x then f x else x) (find q rs)"
  using assms by (induction rs) (auto simp: updWhere_def)

lemma find_upsertBy:
  assumes "\<And>x. k x = k r \<Longrightarrow> k (f x) = k x"
  shows "find (\<lambda>x. k x = key) (upsertBy k f r rs) =
     (if key = k r then (case find (\<lambda>x. k x = key) rs of None \<Rightarrow> Some r | Some x \<Rightarrow> Some (f x))
      else find (\<lambda>x. k x = key) rs)"
proof (cases "k r \<in> set (map k rs)")
  case True
  then have eq: "upsertBy k f r rs = updWhere (\<lambda>x. k x = k r) f rs" by (simp add: upsertBy_def)
  have upd: "find (\<lambda>x. k x = key) (updWhere (\<lambda>x. k x = k r) f rs)
      = map_option (\<lambda>x. if k x = k r then f x else x) (find (\<lambda>x. k x = key) rs)"
    using assms by (intro find_updWhere) simp
  show ?thesis
  proof (cases "find (\<lambda>x. k x = key) rs")
    case None
    moreover from this have "key \<noteq> k r" using True by (auto simp: find_None_iff)
    ultimately show ?thesis by (simp add: eq upd)
  next
    case (Some x)
    moreover from this have "k x = key" by (auto dest: find_Some_in)
    ultimately show ?thesis unfolding eq upd by (cases "key = k r") simp_all
  qed
next
  case False
  then have "find (\<lambda>x. k x = k r) rs = None" by (auto simp: find_None_iff rev_image_eqI)
  moreover have "find q (xs @ [r]) = (case find q xs of None \<Rightarrow> if q r then Some r else None | Some y \<Rightarrow> Some y)"
    for q and xs by (induction xs) auto
  ultimately show ?thesis
    using False by (auto simp: upsertBy_def split: option.splits)
qed

lemma set_limitOffset_subset: "set (limitOffset n o' rs) \<subseteq> set rs"
  by (auto simp: limitOffset_def dest: in_set_takeD in_set_dropD)

lemma length_limitOffset: "length (limitOffset n o' rs) \<le> nat n"
  by (simp add: limitOffset_def)

lemma sorted_limitOffset: "sorted (map k rs) \<Longrightarrow> sorted (map k (limitOffset n o' rs))"
  by (simp add: limitOffset_def sorted_wrt_drop sorted_wrt_take flip: take_map drop_map)

section \<open>Reachable states\<close>

text \<open>An invariant of a transition system: it holds in the start states and every step keeps it.
  The components with a state machine interpret this locale on their own step relations.\<close>

inductive reachable :: "('s \<Rightarrow> bool) \<Rightarrow> ('s \<Rightarrow> 's \<Rightarrow> bool) \<Rightarrow> 's \<Rightarrow> bool" for start step where
  reach_start: "start s \<Longrightarrow> reachable start step s"
| reach_step: "reachable start step s \<Longrightarrow> step s t \<Longrightarrow> reachable start step t"

locale invariant_system =
  fixes start :: "'s \<Rightarrow> bool" and step :: "'s \<Rightarrow> 's \<Rightarrow> bool" and I :: "'s \<Rightarrow> bool"
  assumes start_inv: "start s \<Longrightarrow> I s"
    and step_inv: "step s t \<Longrightarrow> I s \<Longrightarrow> I t"
begin

lemma reachable_inv: "reachable start step s \<Longrightarrow> I s"
  by (induction rule: reachable.induct) (auto intro: start_inv step_inv)

end

end
