(* ===== verification/GoLib.thy ===== *)
theory GoLib
  imports Prelude
begin

text \<open>
  The functions of the Go standard library the program computes with: conversions between
  integer widths, \<^verbatim>\<open>strings.TrimSpace\<close>, \<^verbatim>\<open>strconv.Itoa\<close> and \<^verbatim>\<open>strconv.Atoi\<close>,
  \<^verbatim>\<open>encoding/base64\<close> (RawURLEncoding, StdEncoding), \<^verbatim>\<open>encoding/hex\<close>,
  \<^verbatim>\<open>binary.BigEndian\<close> and \<^verbatim>\<open>bytes.Compare\<close>. A Go string is its UTF-8 bytes, one
  \<^typ>\<open>char\<close> each.
\<close>

section \<open>Integer widths\<close>

definition wrapInt16 :: "int \<Rightarrow> int" where
  "wrapInt16 x = (x + 32768) mod 65536 - 32768"

definition wrapInt64 :: "int \<Rightarrow> int" where
  "wrapInt64 x = (x + 9223372036854775808) mod 18446744073709551616 - 9223372036854775808"

definition maxInt64 :: int where "maxInt64 = 9223372036854775807"

lemma wrapInt64_id: "- 9223372036854775808 \<le> x \<Longrightarrow> x \<le> maxInt64 \<Longrightarrow> wrapInt64 x = x"
  by (simp add: wrapInt64_def maxInt64_def)

lemma wrapInt16_range: "- 32768 \<le> wrapInt16 x \<and> wrapInt16 x \<le> 32767"
proof -
  have "0 \<le> (x + 32768) mod 65536" and "(x + 32768) mod 65536 < 65536" by simp_all
  then show ?thesis unfolding wrapInt16_def by linarith
qed

section \<open>Strings and byte slices\<close>

definition stringBytes :: "string \<Rightarrow> bytes" where
  "stringBytes s = map (\<lambda>c. of_nat (of_char c)) s"

definition bytesString :: "bytes \<Rightarrow> string" where
  "bytesString b = map (\<lambda>x. char_of (unat x)) b"

lemma bytesString_stringBytes [simp]: "bytesString (stringBytes s) = s"
  by (induction s) (simp_all add: bytesString_def stringBytes_def unat_of_nat)

text \<open>\<^verbatim>\<open>strings.TrimSpace\<close>: the runes for which \<^verbatim>\<open>unicode.IsSpace\<close> holds, by their UTF-8 bytes.\<close>

definition spaceRunes :: "string list" where
  "spaceRunes =
     [[CHR 0x09], [CHR 0x0A], [CHR 0x0B], [CHR 0x0C], [CHR 0x0D], [CHR 0x20],
      [CHR 0xC2, CHR 0x85], [CHR 0xC2, CHR 0xA0], [CHR 0xE1, CHR 0x9A, CHR 0x80],
      [CHR 0xE2, CHR 0x80, CHR 0x80], [CHR 0xE2, CHR 0x80, CHR 0x81],
      [CHR 0xE2, CHR 0x80, CHR 0x82], [CHR 0xE2, CHR 0x80, CHR 0x83],
      [CHR 0xE2, CHR 0x80, CHR 0x84], [CHR 0xE2, CHR 0x80, CHR 0x85],
      [CHR 0xE2, CHR 0x80, CHR 0x86], [CHR 0xE2, CHR 0x80, CHR 0x87],
      [CHR 0xE2, CHR 0x80, CHR 0x88], [CHR 0xE2, CHR 0x80, CHR 0x89],
      [CHR 0xE2, CHR 0x80, CHR 0x8A], [CHR 0xE2, CHR 0x80, CHR 0xA8],
      [CHR 0xE2, CHR 0x80, CHR 0xA9], [CHR 0xE2, CHR 0x80, CHR 0xAF],
      [CHR 0xE2, CHR 0x81, CHR 0x9F], [CHR 0xE3, CHR 0x80, CHR 0x80]]"

fun stripPrefix :: "string \<Rightarrow> string \<Rightarrow> string option" where
  "stripPrefix [] s = Some s"
| "stripPrefix (p # ps) [] = None"
| "stripPrefix (p # ps) (c # s) = (if p = c then stripPrefix ps s else None)"

fun stripAny :: "string list \<Rightarrow> string \<Rightarrow> string option" where
  "stripAny [] s = None"
| "stripAny (p # ps) s = (case stripPrefix p s of Some t \<Rightarrow> Some t | None \<Rightarrow> stripAny ps s)"

function trimWith :: "string list \<Rightarrow> string \<Rightarrow> string" where
  "trimWith pats s = (case stripAny pats s of
       None \<Rightarrow> s
     | Some t \<Rightarrow> if length t < length s then trimWith pats t else s)"
  by pat_completeness auto
termination
  by (relation "measure (\<lambda>(pats, s). length s)") auto

declare trimWith.simps [simp del]

definition trimSpace :: "string \<Rightarrow> string" where
  "trimSpace s = rev (trimWith (map rev spaceRunes) (rev (trimWith spaceRunes s)))"

abbreviation isBlank :: "string \<Rightarrow> bool" where
  "isBlank s \<equiv> trimSpace s = []"

lemma trimWith_Nil [simp]: "trimWith pats [] = []"
  by (simp add: trimWith.simps split: option.splits)

lemma trimSpace_Nil [simp]: "trimSpace [] = []"
  by (simp add: trimSpace_def)

lemma trimWith_stop: "stripAny pats s = None \<Longrightarrow> trimWith pats s = s"
  by (simp add: trimWith.simps)

lemma stripPrefix_length: "stripPrefix p s = Some t \<Longrightarrow> length t \<le> length s"
  by (induction p s rule: stripPrefix.induct) (auto split: if_splits)

lemma trimWith_length: "length (trimWith pats s) \<le> length s"
proof (induction pats s rule: trimWith.induct)
  case (1 pats s)
  then show ?case
    by (subst trimWith.simps) (auto split: option.split)
qed

lemma trimSpace_length: "length (trimSpace s) \<le> length s"
  using trimWith_length [of "map rev spaceRunes" "rev (trimWith spaceRunes s)"]
    trimWith_length [of spaceRunes s]
  by (simp add: trimSpace_def)

section \<open>Decimal numbers\<close>

definition digitChar :: "nat \<Rightarrow> char" where
  "digitChar d = char_of (48 + d)"

definition digitVal :: "char \<Rightarrow> nat option" where
  "digitVal c = (let v = (of_char c :: nat) in if 48 \<le> v \<and> v \<le> 57 then Some (v - 48) else None)"

fun natToDec :: "nat \<Rightarrow> string" where
  "natToDec n = (if n < 10 then [digitChar n] else natToDec (n div 10) @ [digitChar (n mod 10)])"

declare natToDec.simps [simp del]

definition itoa :: "int \<Rightarrow> string" where
  "itoa i = (if i < 0 then CHR ''-'' # natToDec (nat (- i)) else natToDec (nat i))"

fun decDigits :: "nat \<Rightarrow> string \<Rightarrow> nat option" where
  "decDigits acc [] = Some acc"
| "decDigits acc (c # cs) = (case digitVal c of None \<Rightarrow> None | Some d \<Rightarrow> decDigits (10 * acc + d) cs)"

definition decNat :: "string \<Rightarrow> nat option" where
  "decNat s = (if s = [] then None else decDigits 0 s)"

definition inInt64 :: "int \<Rightarrow> int option" where
  "inInt64 i = (if - 9223372036854775808 \<le> i \<and> i \<le> maxInt64 then Some i else None)"

definition atoi :: "string \<Rightarrow> int option" where
  "atoi s = (case s of
       [] \<Rightarrow> None
     | c # cs \<Rightarrow>
         if c = CHR ''-'' then Option.bind (decNat cs) (\<lambda>n. inInt64 (- int n))
         else if c = CHR ''+'' then Option.bind (decNat cs) (\<lambda>n. inInt64 (int n))
         else Option.bind (decNat s) (\<lambda>n. inInt64 (int n)))"

lemma digitVal_digitChar [simp]: "d < 10 \<Longrightarrow> digitVal (digitChar d) = Some d"
  by (simp add: digitVal_def digitChar_def)

lemma decDigits_append:
  "decDigits acc (xs @ ys) = Option.bind (decDigits acc xs) (\<lambda>a. decDigits a ys)"
  by (induction xs arbitrary: acc) (auto split: option.splits)

lemma decDigits_natToDec: "decDigits 0 (natToDec n) = Some n"
proof (induction n rule: natToDec.induct)
  case (1 n)
  then show ?case
    by (cases "n < 10") (simp_all add: natToDec.simps [of n] decDigits_append)
qed

lemma natToDec_nonempty: "natToDec n \<noteq> []"
  by (subst natToDec.simps) simp

lemma natToDec_digits: "c \<in> set (natToDec n) \<Longrightarrow> \<exists>d<10. c = digitChar d"
proof (induction n rule: natToDec.induct)
  case (1 n)
  then show ?case
    by (cases "n < 10") (auto simp: natToDec.simps [of n] intro: exI [of _ "n mod 10"])
qed

lemma digitVal_sign: "digitVal (CHR ''-'') = None" "digitVal (CHR ''+'') = None"
  by (simp_all add: digitVal_def)

lemma digitChar_not_sign: "d < 10 \<Longrightarrow> digitChar d \<noteq> CHR ''-'' \<and> digitChar d \<noteq> CHR ''+''"
  by (metis digitVal_digitChar digitVal_sign option.distinct(1))

lemma atoi_itoa:
  assumes "0 \<le> i" and "i \<le> maxInt64"
  shows "atoi (itoa i) = Some i"
proof -
  obtain c cs where cs: "natToDec (nat i) = c # cs"
    using natToDec_nonempty by (cases "natToDec (nat i)") auto
  then have "c \<noteq> CHR ''-''" and "c \<noteq> CHR ''+''"
    using natToDec_digits [of c "nat i"] digitChar_not_sign by auto
  then show ?thesis
    using assms decDigits_natToDec [of "nat i"]
    by (simp add: atoi_def itoa_def cs decNat_def inInt64_def maxInt64_def)
qed

section \<open>Base 64 and hexadecimal\<close>

text \<open>The 64 digits; the last two are given by the alphabet.\<close>

definition b64Digit :: "char \<Rightarrow> char \<Rightarrow> nat \<Rightarrow> char" where
  "b64Digit c62 c63 n =
     (if n < 26 then char_of (65 + n)
      else if n < 52 then char_of (71 + n)
      else if n < 62 then char_of (n - 4)
      else if n = 62 then c62 else c63)"

definition urlDigit :: "nat \<Rightarrow> char" where
  "urlDigit = b64Digit (CHR ''-'') (CHR ''_'')"

definition urlVal :: "char \<Rightarrow> nat option" where
  "urlVal c = (let v = (of_char c :: nat) in
     if 65 \<le> v \<and> v \<le> 90 then Some (v - 65)
     else if 97 \<le> v \<and> v \<le> 122 then Some (v - 71)
     else if 48 \<le> v \<and> v \<le> 57 then Some (v + 4)
     else if v = 45 then Some 62
     else if v = 95 then Some 63
     else None)"

fun b64Sextets :: "bytes \<Rightarrow> nat list" where
  "b64Sextets [] = []"
| "b64Sextets [a] = [unat a div 4, unat a mod 4 * 16]"
| "b64Sextets [a, b] = [unat a div 4, unat a mod 4 * 16 + unat b div 16, unat b mod 16 * 4]"
| "b64Sextets (a # b # c # rest) =
     unat a div 4 # (unat a mod 4 * 16 + unat b div 16)
       # (unat b mod 16 * 4 + unat c div 64) # unat c mod 64 # b64Sextets rest"

fun b64Bytes :: "nat list \<Rightarrow> bytes option" where
  "b64Bytes [] = Some []"
| "b64Bytes [p] = None"
| "b64Bytes [p, q] = Some [of_nat (p * 4 + q div 16)]"
| "b64Bytes [p, q, r] = Some [of_nat (p * 4 + q div 16), of_nat (q mod 16 * 16 + r div 4)]"
| "b64Bytes (p # q # r # s # rest) =
     map_option (\<lambda>bs. of_nat (p * 4 + q div 16) # of_nat (q mod 16 * 16 + r div 4)
                       # of_nat (r mod 4 * 64 + s) # bs) (b64Bytes rest)"

definition rawURLEncode :: "bytes \<Rightarrow> string" where
  "rawURLEncode b = map urlDigit (b64Sextets b)"

text \<open>\<^verbatim>\<open>DecodeString\<close> skips carriage returns and newlines and, not being strict, ignores
  the unused bits of the last digit.\<close>

definition rawURLDecode :: "string \<Rightarrow> bytes option" where
  "rawURLDecode s =
     Option.bind (those (map urlVal (filter (\<lambda>c. c \<noteq> CHR 0x0A \<and> c \<noteq> CHR 0x0D) s))) b64Bytes"

definition stdEncode :: "bytes \<Rightarrow> string" where
  "stdEncode b = (let ds = map (b64Digit (CHR ''+'') (CHR ''/'')) (b64Sextets b)
                  in ds @ replicate ((4 - length ds mod 4) mod 4) (CHR ''=''))"

definition hexDigit :: "nat \<Rightarrow> char" where
  "hexDigit n = (if n < 10 then char_of (48 + n) else char_of (87 + n))"

fun hexEncode :: "bytes \<Rightarrow> string" where
  "hexEncode [] = []"
| "hexEncode (b # bs) = hexDigit (unat b div 16) # hexDigit (unat b mod 16) # hexEncode bs"

lemma byte_bound: "unat (b :: byte) < 256"
  using unsigned_less [of b, where 'a = nat] by simp

lemma b64Sextets_bound: "n \<in> set (b64Sextets b) \<Longrightarrow> n < 64"
proof (induction b rule: b64Sextets.induct)
  case (4 a b c rest)
  moreover have "unat a < 256" "unat b < 256" "unat c < 256"
    by (simp_all add: byte_bound)
  ultimately show ?case by (auto; linarith)
next
  case (2 a)
  moreover have "unat a < 256" by (simp add: byte_bound)
  ultimately show ?case by (auto; linarith)
next
  case (3 a b)
  moreover have "unat a < 256" "unat b < 256"
    by (simp_all add: byte_bound)
  ultimately show ?case by (auto; linarith)
qed simp

lemma urlVal_urlDigit [simp]: "n < 64 \<Longrightarrow> urlVal (urlDigit n) = Some n"
  by (auto simp: urlVal_def urlDigit_def b64Digit_def Let_def)

lemma urlDigit_not_newline: "n < 64 \<Longrightarrow> urlDigit n \<noteq> CHR 0x0A \<and> urlDigit n \<noteq> CHR 0x0D"
proof -
  have "urlVal (CHR 0x0A) = None" and "urlVal (CHR 0x0D) = None"
    by (simp_all add: urlVal_def)
  then show "n < 64 \<Longrightarrow> ?thesis"
    by (metis urlVal_urlDigit option.distinct(1))
qed

lemma byte_join: "unat (b :: byte) div k * k + unat b mod k = unat b"
  by (rule div_mult_mod_eq)

lemma base_split: "(q :: nat) < k \<Longrightarrow> (p * k + q) div k = p" "q < k \<Longrightarrow> (p * k + q) mod k = q"
  by simp_all

lemma byte_div: "unat (b :: byte) div 16 < 16" "unat (b :: byte) div 64 < 4"
  using byte_bound [of b] by linarith+

lemma b64Bytes_b64Sextets: "b64Bytes (b64Sextets b) = Some b"
proof (induction b rule: b64Sextets.induct)
  case (4 a b c rest)
  then show ?case by (simp add: base_split byte_div byte_join)
next
  case (3 a b)
  then show ?case by (simp add: base_split byte_div byte_join)
qed (simp_all add: byte_join)

lemma those_map_urlVal:
  "(\<And>n. n \<in> set ns \<Longrightarrow> n < 64) \<Longrightarrow> those (map urlVal (map urlDigit ns)) = Some ns"
  by (induction ns) simp_all

lemma rawURLDecode_rawURLEncode: "rawURLDecode (rawURLEncode b) = Some b"
proof -
  have "filter (\<lambda>c. c \<noteq> CHR 0x0A \<and> c \<noteq> CHR 0x0D) (map urlDigit (b64Sextets b))
        = map urlDigit (b64Sextets b)"
    using b64Sextets_bound urlDigit_not_newline by (auto simp: filter_id_conv)
  then show ?thesis
    using b64Sextets_bound
    by (simp add: rawURLDecode_def rawURLEncode_def those_map_urlVal b64Bytes_b64Sextets
        del: map_map)
qed

section \<open>Big-endian integers\<close>

definition bigEndianUint64 :: "bytes \<Rightarrow> 64 word" where
  "bigEndianUint64 b = word_rcat (take 8 b)"

definition putUint32 :: "32 word \<Rightarrow> bytes" where
  "putUint32 w = [ucast (drop_bit 24 w), ucast (drop_bit 16 w), ucast (drop_bit 8 w), ucast w]"

section \<open>Byte slice comparison\<close>

text \<open>\<^verbatim>\<open>bytes.Compare\<close> is lexicographic on unsigned bytes, a proper prefix being smaller.\<close>

definition bytesCompare :: "bytes \<Rightarrow> bytes \<Rightarrow> int" where
  "bytesCompare a b = (if a < b then -1 else if a = b then 0 else 1)"

end
