(* ===== verification/EventBus.thy ===== *)
theory EventBus
  imports GoLib "HOL-Library.AList"
begin

text \<open>
  The in-process notifier \<^verbatim>\<open>platform/eventbus/bus.go\<close>. A subscriber's channel has a buffer of one
  token; it lives on a heap of channels, since the subscriber keeps its end after the bus
  has dropped it. Sending on a closed channel panics. \<open>NotifyKey\<close> copies the channels
  under the read lock and sends after releasing it, so it is given in two halves.
\<close>

section \<open>State and operations\<close>

record chan =
  chFull :: bool
  chClosed :: bool

record Bus =
  busSubs :: "(string \<times> (64 word \<times> nat) list) list"
  busNext :: "64 word"
  busChans :: "chan list"

definition newBus :: Bus where
  "newBus = \<lparr>busSubs = [], busNext = 0, busChans = []\<rparr>"

definition keyString :: "bytes \<Rightarrow> string" where
  "keyString userPublicKey = (if userPublicKey = [] then [] else hexEncode userPublicKey)"

definition subsOf :: "string \<Rightarrow> Bus \<Rightarrow> (64 word \<times> nat) list" where
  "subsOf key b = (case map_of (busSubs b) key of None \<Rightarrow> [] | Some m \<Rightarrow> m)"

text \<open>\<open>SubscribeKey\<close> returns the new channel and the id its unsubscribe closure captured.\<close>

definition SubscribeKey :: "string \<Rightarrow> (Bus, nat \<times> 64 word) go" where
  "SubscribeKey key b =
     (let ch = length (busChans b); i = busNext b + 1
      in (Ret (ch, i),
          b\<lparr>busNext := i,
            busChans := busChans b @ [\<lparr>chFull = False, chClosed = False\<rparr>],
            busSubs := AList.update key (AList.update i ch (subsOf key b)) (busSubs b)\<rparr>))"

definition Subscribe :: "bytes \<Rightarrow> (Bus, nat \<times> 64 word) go" where
  "Subscribe userPublicKey = SubscribeKey (keyString userPublicKey)"

text \<open>The closure returned by \<open>SubscribeKey\<close>.\<close>

definition Unsubscribe :: "string \<Rightarrow> 64 word \<Rightarrow> (Bus, unit) go" where
  "Unsubscribe key i b =
     (case map_of (busSubs b) key of
        None \<Rightarrow> (Ret (), b)
      | Some m \<Rightarrow>
          let m' = AList.delete i m;
              b' = (case map_of m i of
                      None \<Rightarrow> b
                    | Some c \<Rightarrow> b\<lparr>busChans := (busChans b)[c := (busChans b ! c)\<lparr>chClosed := True\<rparr>],
                                  busSubs := AList.update key m' (busSubs b)\<rparr>)
          in (Ret (), if m' = [] then b'\<lparr>busSubs := AList.delete key (busSubs b')\<rparr> else b'))"

definition notifySnapshot :: "string \<Rightarrow> Bus \<Rightarrow> nat list" where
  "notifySnapshot key b = map snd (subsOf key b)"

definition trySend :: "nat \<Rightarrow> (Bus, unit) go" where
  "trySend c b =
     (if chClosed (busChans b ! c) then (Panic ''send on closed channel'', b)
      else (Ret (), b\<lparr>busChans := (busChans b)[c := (busChans b ! c)\<lparr>chFull := True\<rparr>]\<rparr>))"

definition notifySend :: "nat list \<Rightarrow> (Bus, unit) go" where
  "notifySend chs = forEach trySend chs"

definition NotifyKey :: "string \<Rightarrow> (Bus, unit) go" where
  "NotifyKey key b = notifySend (notifySnapshot key b) b"

definition Notify :: "bytes \<Rightarrow> (Bus, unit) go" where
  "Notify userPublicKey = NotifyKey (keyString userPublicKey)"

text \<open>A subscriber that waits on its channel takes the token.\<close>

definition chanRecv :: "nat \<Rightarrow> Bus \<Rightarrow> Bus" where
  "chanRecv c b = b\<lparr>busChans := (busChans b)[c := (busChans b ! c)\<lparr>chFull := False\<rparr>]\<rparr>"

section \<open>Invariant\<close>

definition busLookup :: "Bus \<Rightarrow> string \<Rightarrow> 64 word \<Rightarrow> nat option" where
  "busLookup b k i = Option.bind (map_of (busSubs b) k) (\<lambda>m. map_of m i)"

text \<open>Every registered channel is allocated and open, and registered once; no key has an empty
  set of subscribers.\<close>

definition busOk :: "Bus \<Rightarrow> bool" where
  "busOk b \<longleftrightarrow> distinct (map fst (busSubs b))
     \<and> (\<forall>(k, m) \<in> set (busSubs b). m \<noteq> [] \<and> distinct (map fst m))
     \<and> (\<forall>k i c. busLookup b k i = Some c \<longrightarrow> c < length (busChans b) \<and> \<not> chClosed (busChans b ! c))
     \<and> (\<forall>k i k' i' c. busLookup b k i = Some c \<longrightarrow> busLookup b k' i' = Some c \<longrightarrow> k = k' \<and> i = i')"

lemma busOk_new: "busOk newBus"
  by (simp add: busOk_def newBus_def busLookup_def)

lemma busOkD:
  assumes "busOk b"
  shows "distinct (map fst (busSubs b))"
    and "(k, m) \<in> set (busSubs b) \<Longrightarrow> m \<noteq> [] \<and> distinct (map fst m)"
    and "busLookup b k i = Some c \<Longrightarrow> c < length (busChans b) \<and> \<not> chClosed (busChans b ! c)"
    and "busLookup b k i = Some c \<Longrightarrow> busLookup b k' i' = Some c \<Longrightarrow> k = k' \<and> i = i'"
  using assms unfolding busOk_def by blast+

lemma subsOf_lookup: "map_of (subsOf k b) i = busLookup b k i"
  by (simp add: subsOf_def busLookup_def split: option.splits)

lemma subsOf_distinct: "busOk b \<Longrightarrow> distinct (map fst (subsOf k b))"
  by (auto simp: subsOf_def split: option.splits dest!: map_of_SomeD dest: busOkD(2))

lemma in_subsOf: "busOk b \<Longrightarrow> (i, c) \<in> set (subsOf k b) \<longleftrightarrow> busLookup b k i = Some c"
  by (simp add: subsOf_distinct subsOf_lookup [symmetric])

lemma busLookup_subscribe:
  "busLookup (snd (SubscribeKey key b)) k i =
     (if k = key \<and> i = busNext b + 1 then Some (length (busChans b)) else busLookup b k i)"
  by (auto simp: SubscribeKey_def Let_def busLookup_def update_conv' subsOf_def split: option.splits)

lemma in_set_updateE:
  assumes "x \<in> set (AList.update k v al)" and "distinct (map fst al)"
  obtains "x = (k, v)" | "fst x \<noteq> k" and "x \<in> set al"
proof -
  have "map_of (AList.update k v al) (fst x) = Some (snd x)"
    using assms by (simp add: distinct_update)
  then show ?thesis
    using that assms(2) by (cases x) (auto simp: update_conv' split: if_splits)
qed

lemma update_nonempty: "AList.update k v al \<noteq> []"
  by (cases al) auto

lemma busOk_subscribe: "busOk b \<Longrightarrow> busOk (snd (SubscribeKey key b))"
proof -
  assume ok: "busOk b"
  let ?b = "snd (SubscribeKey key b)"
  have subs: "busSubs ?b = AList.update key
      (AList.update (busNext b + 1) (length (busChans b)) (subsOf key b)) (busSubs b)"
    and chs: "busChans ?b = busChans b @ [\<lparr>chFull = False, chClosed = False\<rparr>]"
    by (simp_all add: SubscribeKey_def Let_def)
  have fresh: "busLookup b k i = Some c \<Longrightarrow> c \<noteq> length (busChans b)" for k i c
    using busOkD(3) [OF ok] by fastforce
  have "m \<noteq> [] \<and> distinct (map fst m)" if "(k, m) \<in> set (busSubs ?b)" for k m
    using that busOkD(1) [OF ok] unfolding subs
    by (auto elim!: in_set_updateE simp: update_nonempty update_nonempty [symmetric] distinct_update subsOf_distinct [OF ok]
        dest: busOkD(2) [OF ok])
  moreover have "distinct (map fst (busSubs ?b))"
    using busOkD(1) [OF ok] by (simp add: subs distinct_update)
  moreover have "c < length (busChans ?b) \<and> \<not> chClosed (busChans ?b ! c)"
    if "busLookup ?b k i = Some c" for k i c
    using that busOkD(3) [OF ok]
    by (auto simp: busLookup_subscribe chs nth_append split: if_splits dest: less_SucI)
  moreover have "k = k' \<and> i = i'"
    if "busLookup ?b k i = Some c" and "busLookup ?b k' i' = Some c" for k i k' i' c
    using that fresh busOkD(4) [OF ok] by (auto simp: busLookup_subscribe split: if_splits)
  ultimately show ?thesis unfolding busOk_def by blast
qed

lemma delete_Nil_iff: "AList.delete i m = [] \<longleftrightarrow> fst ` set m \<subseteq> {i}"
  by (auto simp: AList.delete_eq filter_empty_conv)

lemma busLookup_unsubscribe:
  "busLookup (snd (Unsubscribe key i b)) k j = (if k = key \<and> j = i then None else busLookup b k j)"
proof (cases "map_of (busSubs b) key")
  case None
  then show ?thesis by (auto simp: Unsubscribe_def busLookup_def)
next
  case (Some m)
  have "map_of m j = None" if "AList.delete i m = []" and "j \<noteq> i"
    using that by (auto simp: delete_Nil_iff map_of_eq_None_iff)
  then show ?thesis
    using Some
    by (auto simp: Unsubscribe_def busLookup_def Let_def update_conv' delete_conv'
        split: option.splits)
qed

lemma busChans_unsubscribe:
  "busChans (snd (Unsubscribe key i b)) =
     (case busLookup b key i of
        None \<Rightarrow> busChans b
      | Some c \<Rightarrow> (busChans b)[c := (busChans b ! c)\<lparr>chClosed := True\<rparr>])"
  by (auto simp: Unsubscribe_def busLookup_def Let_def split: option.splits)

lemma busSubs_unsubscribe:
  assumes "busOk b"
  shows "distinct (map fst (busSubs (snd (Unsubscribe key i b))))"
    and "(k, m) \<in> set (busSubs (snd (Unsubscribe key i b))) \<Longrightarrow> m \<noteq> [] \<and> distinct (map fst m)"
proof -
  show "distinct (map fst (busSubs (snd (Unsubscribe key i b))))"
    using busOkD(1) [OF assms]
    by (auto simp: Unsubscribe_def Let_def distinct_update distinct_delete split: option.splits)
  show "m \<noteq> [] \<and> distinct (map fst m)"
    if km: "(k, m) \<in> set (busSubs (snd (Unsubscribe key i b)))"
  proof (cases "map_of (busSubs b) key")
    case None
    then show ?thesis using km busOkD(2) [OF assms] by (simp add: Unsubscribe_def)
  next
    case (Some m0)
    have m0: "distinct (map fst m0)"
      using busOkD(2) [OF assms map_of_SomeD [OF Some]] by simp
    have upd: "x = (key, AList.delete i m0) \<or> x \<in> set (busSubs b)"
      if "x \<in> set (AList.update key (AList.delete i m0) (busSubs b))" for x
      using that busOkD(1) [OF assms] by (auto elim: in_set_updateE)
    have "(k, m) \<in> set (busSubs b) \<or> m = AList.delete i m0 \<and> AList.delete i m0 \<noteq> []"
      using km upd [of "(k, m)"] Some
      by (auto simp: Unsubscribe_def Let_def AList.delete_eq split: option.splits if_splits)
    then show ?thesis
      using busOkD(2) [OF assms] m0 by (auto simp: distinct_delete)
  qed
qed

lemma busOk_unsubscribe: "busOk b \<Longrightarrow> busOk (snd (Unsubscribe key i b))"
proof -
  assume ok: "busOk b"
  let ?b = "snd (Unsubscribe key i b)"
  have "c < length (busChans ?b) \<and> \<not> chClosed (busChans ?b ! c)"
    if l: "busLookup ?b k j = Some c" for k j c
  proof -
    have c: "busLookup b k j = Some c" and ne: "k \<noteq> key \<or> j \<noteq> i"
      using l by (auto simp: busLookup_unsubscribe split: if_splits)
    have "d \<noteq> c" if "busLookup b key i = Some d" for d
      using that c ne busOkD(4) [OF ok] by blast
    then show ?thesis
      using busOkD(3) [OF ok c] by (auto simp: busChans_unsubscribe split: option.splits)
  qed
  moreover have "k = k' \<and> j = j'"
    if "busLookup ?b k j = Some c" and "busLookup ?b k' j' = Some c" for k j k' j' c
    using that busOkD(4) [OF ok] by (auto simp: busLookup_unsubscribe split: if_splits)
  ultimately show ?thesis
    using busSubs_unsubscribe [OF ok] unfolding busOk_def by blast
qed

section \<open>Delivery of notifications\<close>

definition markAt :: "nat list \<Rightarrow> chan list \<Rightarrow> chan list" where
  "markAt chs xs =
     map (\<lambda>c. if c \<in> set chs then (xs ! c)\<lparr>chFull := True\<rparr> else xs ! c) [0..<length xs]"

definition markFull :: "nat list \<Rightarrow> Bus \<Rightarrow> Bus" where
  "markFull chs b = b\<lparr>busChans := markAt chs (busChans b)\<rparr>"

lemma nth_markFull:
  "c < length (busChans b) \<Longrightarrow>
     busChans (markFull chs b) ! c =
       (if c \<in> set chs then (busChans b ! c)\<lparr>chFull := True\<rparr> else busChans b ! c)"
  by (simp add: markFull_def markAt_def)

lemma markFull_Nil [simp]: "markFull [] b = b"
  by (simp add: markFull_def markAt_def map_nth)

lemma markAt_Cons: "markAt chs (xs[c := (xs ! c)\<lparr>chFull := True\<rparr>]) = markAt (c # chs) xs"
  by (rule nth_equalityI; cases "c < length xs") (auto simp: markAt_def nth_list_update)

lemma notifySend_open:
  assumes "\<forall>c \<in> set chs. c < length (busChans b) \<and> \<not> chClosed (busChans b ! c)"
  shows "notifySend chs b = (Ret (), markFull chs b)"
  using assms
proof (induction chs arbitrary: b)
  case Nil
  then show ?case by (simp add: notifySend_def ret_def)
next
  case (Cons c chs)
  let ?b = "b\<lparr>busChans := (busChans b)[c := (busChans b ! c)\<lparr>chFull := True\<rparr>]\<rparr>"
  have "notifySend chs ?b = (Ret (), markFull chs ?b)"
    using Cons.prems by (intro Cons.IH) (auto simp: nth_list_update)
  moreover have "markFull chs ?b = markFull (c # chs) b"
    by (simp add: markFull_def markAt_Cons)
  ultimately show ?case
    using Cons.prems by (simp add: notifySend_def andThen_def trySend_def)
qed

lemma notifySnapshot_ok:
  assumes "busOk b"
  shows "\<forall>c \<in> set (notifySnapshot key b). c < length (busChans b) \<and> \<not> chClosed (busChans b ! c)"
  using assms by (auto simp: notifySnapshot_def in_subsOf dest: busOkD(3))

lemma NotifyKey_ok: "busOk b \<Longrightarrow> NotifyKey key b = (Ret (), markFull (notifySnapshot key b) b)"
  by (simp add: NotifyKey_def notifySend_open notifySnapshot_ok)

lemma markFull_frame:
  "busSubs (markFull chs b) = busSubs b" "length (busChans (markFull chs b)) = length (busChans b)"
  "busLookup (markFull chs b) = busLookup b"
  by (simp_all add: fun_eq_iff busLookup_def markFull_def markAt_def)

lemma busOk_markFull: "busOk b \<Longrightarrow> busOk (markFull chs b)"
  by (simp add: busOk_def markFull_frame nth_markFull cong: conj_cong)

section \<open>Properties\<close>

lemma chClosed_update [simp]: "chClosed (xs[c := (xs ! c)\<lparr>chFull := v\<rparr>] ! k) = chClosed (xs ! k)"
  by (cases "c < length xs"; cases "k = c") (simp_all add: list_update_beyond)

lemma in_notifySnapshot:
  assumes "busOk b"
  shows "c \<in> set (notifySnapshot key b) \<longleftrightarrow> (\<exists>i. busLookup b key i = Some c)"
  by (force simp: notifySnapshot_def in_subsOf [OF assms, symmetric])

lemma busOk_recv: "busOk b \<Longrightarrow> busOk (chanRecv c b)"
proof -
  have "busLookup (chanRecv c b) = busLookup b"
    by (simp add: fun_eq_iff busLookup_def chanRecv_def)
  then show "busOk b \<Longrightarrow> ?thesis"
    by (simp add: busOk_def chanRecv_def cong: conj_cong)
qed

lemma snd_NotifyKey: "busOk b \<Longrightarrow> snd (NotifyKey key b) = markFull (notifySnapshot key b) b"
  by (simp add: NotifyKey_ok)

text \<open>The bus used by calls that do not overlap.\<close>

inductive busStep :: "Bus \<Rightarrow> Bus \<Rightarrow> bool" where
  bus_subscribe: "busStep b (snd (SubscribeKey key b))"
| bus_unsubscribe: "busStep b (snd (Unsubscribe key i b))"
| bus_notify: "busStep b (snd (NotifyKey key b))"
| bus_receive: "busStep b (chanRecv c b)"

inductive_cases busStepE: "busStep b b'"

interpretation busm: invariant_system "\<lambda>b. b = newBus" busStep busOk
proof
  show "busOk b'" if "busStep b b'" "busOk b" for b b'
    using that by (elim busStepE) (simp_all add: busOk_subscribe busOk_unsubscribe busOk_markFull busOk_recv snd_NotifyKey)
qed (simp add: busOk_new)

text \<open>As long as calls on the bus do not overlap, a notification never panics, and it leaves a token with exactly
  the channels registered under its key: every other channel is as it was, no channel is opened or
  closed, and no registration changes.\<close>

lemma notify_reaches_subscribers:
  assumes "reachable (\<lambda>b. b = newBus) busStep b"
  shows "\<exists>b'. NotifyKey key b = (Ret (), b') \<and> busSubs b' = busSubs b
     \<and> length (busChans b') = length (busChans b)
     \<and> (\<forall>c < length (busChans b). chClosed (busChans b' ! c) = chClosed (busChans b ! c)
          \<and> (chFull (busChans b' ! c) \<longleftrightarrow> chFull (busChans b ! c) \<or> (\<exists>i. busLookup b key i = Some c)))"
proof -
  have ok: "busOk b" by (rule busm.reachable_inv [OF assms])
  then show ?thesis
    by (intro exI [of _ "markFull (notifySnapshot key b) b"])
      (simp add: NotifyKey_ok markFull_frame nth_markFull in_notifySnapshot)
qed

definition sampleBus :: Bus where
  "sampleBus = snd (SubscribeKey ''k'' newBus)"

lemma sampleBus_reachable: "reachable (\<lambda>b. b = newBus) busStep sampleBus"
  unfolding sampleBus_def by (rule reach_step [OF reach_start]) (rule refl, rule bus_subscribe)

lemma notifySend_closed:
  assumes "c \<in> set chs" and "chClosed (busChans b ! c)"
  shows "\<exists>p. fst (notifySend chs b) = Panic p"
  using assms
proof (induction chs arbitrary: b)
  case (Cons x chs)
  show ?case
  proof (cases "chClosed (busChans b ! x)")
    case True
    then show ?thesis by (simp add: notifySend_def andThen_def trySend_def)
  next
    case False
    let ?b = "b\<lparr>busChans := (busChans b)[x := (busChans b ! x)\<lparr>chFull := True\<rparr>]\<rparr>"
    have "c \<in> set chs" "chClosed (busChans ?b ! c)"
      using Cons.prems False by auto
    from Cons.IH [OF this] False show ?thesis
      by (simp add: notifySend_def andThen_def trySend_def)
  qed
qed simp

text \<open>C13: The lock is released before the sends, so a subscriber that leaves between the two halves of a
  notification makes the notifier send on a closed channel: it panics.\<close>

theorem notify_unsubscribe_race_panics:
  assumes "busOk b" and "busLookup b key i = Some c"
  shows "\<exists>p. fst (notifySend (notifySnapshot key b) (snd (Unsubscribe key i b))) = Panic p"
proof (rule notifySend_closed)
  show "c \<in> set (notifySnapshot key b)"
    using assms(2) by (auto simp: in_notifySnapshot [OF assms(1)])
  show "chClosed (busChans (snd (Unsubscribe key i b)) ! c)"
    using assms(2) busOkD(3) [OF assms] by (simp add: busChans_unsubscribe)
qed

theorem notify_unsubscribe_race_panics_witness:
  "\<exists>p. fst (notifySend (notifySnapshot ''k'' sampleBus) (snd (Unsubscribe ''k'' 1 sampleBus))) = Panic p"
  by (rule notify_unsubscribe_race_panics [OF busm.reachable_inv [OF sampleBus_reachable], of _ _ 0])
    (simp add: sampleBus_def busLookup_subscribe newBus_def)

end
