(* ===== verification/Schema.thy ===== *)
theory Schema
  imports EventBus
begin

text \<open>
  The data of the program and where it lives: the Go structs of \<^verbatim>\<open>domain/auth\<close>,
  \<^verbatim>\<open>application/clientapi/types.go\<close> and \<^verbatim>\<open>application/outbox\<close>, the PostgreSQL tables
  of \<^verbatim>\<open>db/migrations\<close> as lists of rows, the environment (clock, random source, UUID
  generator, signature scheme, codecs, database faults), the world the calls thread,
  and SQL statements.
\<close>

section \<open>Dynamic values\<close>

text \<open>\<^verbatim>\<open>any\<close>, by the dynamic types the program builds or switches on. A nil byte slice is
  told from an empty one, since the database driver sends it as \<^verbatim>\<open>NULL\<close>.\<close>

datatype any =
    GNil
  | GBool bool
  | GInt int
  | GInt32 int
  | GInt64 int
  | GUint int
  | GUint16 int
  | GUint32 int
  | GUint64 int
  | GFloat64 int
  | GString string
  | GNilBytes
  | GBytes bytes
  | GUUID uuid
  | GTime time
  | GList "any list"
  | GByteSlices "bytes option list"
  | GMap "(string \<times> any) list"
  | GMapList "(string \<times> any) list list"
  | GMapAny "(any \<times> any) list"

type_synonym payload = "(string \<times> any) list"

text \<open>A byte slice that may be nil.\<close>

type_synonym slice = "bytes option"

definition sliceBytes :: "slice \<Rightarrow> bytes" where
  "sliceBytes s = (case s of None \<Rightarrow> [] | Some b \<Rightarrow> b)"

definition sliceAny :: "slice \<Rightarrow> any" where
  "sliceAny s = (case s of None \<Rightarrow> GNilBytes | Some b \<Rightarrow> GBytes b)"

section \<open>Rows\<close>

record Session =
  sesSessionID :: uuid
  sesUserPublicKey :: bytes
  sesClaimedPublicIP :: string
  sesDeviceID :: string
  sesClientNonce :: bytes
  sesChallengePayload :: bytes
  sesIsAuthenticated :: bool
  sesAuthenticatedAt :: "time option"
  sesExpiresAt :: time
  sesCreatedAt :: time
  sesUpdatedAt :: time

record Subscription =
  subSubscriptionID :: uuid
  subSessionID :: uuid
  subUserPublicKey :: bytes
  subCreatedAt :: time
  subUnsubscribedAt :: "time option"

record Event =
  evEventID :: uuid
  evUserPublicKey :: bytes
  evReplyToRequestID :: "uuid option"
  evEventType :: string
  evPayload :: payload
  evAvailableAt :: time
  evExpiresAt :: time
  evDeliveredAt :: "time option"
  evCreatedAt :: time

record OutboxRow =
  obEventID :: uuid
  obDeviceID :: string
  obSegmentID :: string
  obEventType :: string
  obPayload :: bytes
  obStatus :: int
  obSendAfter :: time
  obInflightUntil :: "time option"
  obAttempts :: int
  obCreatedAt :: time
  obExpiresAt :: time
  obAckedAt :: "time option"
  obLastSentAt :: "time option"
  obLastError :: "string option"

record OutboxSegment =
  sgDeviceID :: string
  sgSegmentID :: string
  sgHeadEventID :: "uuid option"
  sgInflightEventID :: "uuid option"
  sgUpdatedAt :: time

text \<open>\<open>appoutbox.Event\<close>, what the dispatcher hands on.\<close>

record OutboxEvent =
  oeEventID :: uuid
  oeDeviceID :: string
  oeSegmentID :: string
  oeEventType :: string
  oePayload :: payload
  oeCreatedAt :: time
  oeExpiresAt :: time
  oeInflightUntil :: "time option"
  oeLastSentAt :: "time option"
  oeAttempts :: int

text \<open>A row of \<open>profiles\<close> (columns that may be \<^verbatim>\<open>NULL\<close> are options) and the struct it is read
  into.\<close>

record ProfileRow =
  prPublicKey :: bytes
  prUsername :: "string option"
  prDisplayName :: "string option"
  prBio :: "string option"
  prAvatarHash :: "string option"
  prAvatarBytes :: "bytes option"
  prAvatarContentType :: "string option"
  prLastSeenAt :: time
  prCreatedAt :: time
  prUpdatedAt :: time
  prDeletedAt :: "time option"

record ProfileRecord =
  pfPublicKey :: bytes
  pfUsername :: string
  pfDisplayName :: string
  pfBio :: string
  pfAvatarHash :: string
  pfAvatarBytes :: bytes
  pfContentType :: string
  pfLastSeenAt :: time
  pfUpdatedAt :: time
  pfDeletedAt :: "time option"

record AvatarRecord =
  avBytes :: bytes
  avContentType :: string

record BanStatus =
  bnPublicKey :: bytes
  bnIsBanned :: bool
  bnReason :: "string option"
  bnBannedAt :: time
  bnExpiresAt :: "time option"

record BanStatusRecord =
  bsIsBanned :: bool
  bsReason :: string
  bsBannedAt :: time
  bsExpiresAt :: "time option"

record DeviceRecord =
  dvID :: uuid
  dvSessionID :: "uuid option"
  dvUserPublicKey :: bytes
  dvDeviceID :: string
  dvPlatform :: int
  dvPushToken :: string
  dvIsEnabled :: bool
  dvUpdatedAt :: time

record KeyPackageRecord =
  kpID :: uuid
  kpUserPublicKey :: bytes
  kpDeviceID :: string
  kpKeyPackageBytes :: bytes
  kpIsLastResort :: bool
  kpCreatedAt :: time
  kpExpiresAt :: time

record ChatRoomGroupInfoRecord =
  giRoomID :: uuid
  giUploaderPublicKey :: bytes
  giGroupInfoBytes :: bytes
  giCreatedAt :: time
  giUpdatedAt :: time

record ChatRoomWelcomeRecord =
  wlRoomID :: uuid
  wlTargetUserPublicKey :: bytes
  wlSenderPublicKey :: bytes
  wlWelcomeBytes :: bytes
  wlCreatedAt :: time
  wlUpdatedAt :: time

record DirectRoomRecord =
  drRoomID :: uuid
  drLeftUserPublicKey :: bytes
  drRightUserPublicKey :: bytes
  drCreatedAt :: time

record FriendRecord =
  frID :: uuid
  frUserPublicKey :: bytes
  frFriendPublicKey :: bytes
  frAcceptedAt :: time

record FriendRequestRecord =
  fqRequestID :: uuid
  fqSenderPublicKey :: bytes
  fqReceiverPublicKey :: bytes
  fqState :: int
  fqCreatedAt :: time
  fqUpdatedAt :: time

record ChatRoomRow =
  crRoomID :: uuid
  crOwnerPublicKey :: bytes
  crTitle :: string
  crDescription :: "string option"
  crVisibility :: int
  crAvatarHash :: "string option"
  crAvatarBytes :: "bytes option"
  crAvatarContentType :: "string option"
  crStateID :: "uuid option"
  crCreatedAt :: time
  crUpdatedAt :: time
  crDeletedAt :: "time option"

record ChatRoomRecord =
  rmRoomID :: uuid
  rmOwnerPublicKey :: bytes
  rmTitle :: string
  rmDescription :: string
  rmVisibility :: int
  rmAvatarHash :: string
  rmAvatarBytes :: bytes
  rmAvatarContentType :: string
  rmStateID :: "uuid option"
  rmCreatedAt :: time
  rmUpdatedAt :: time
  rmDeletedAt :: "time option"

record ChatRoomStateRecord =
  stID :: uuid
  stRoomID :: uuid
  stGroupID :: uuid
  stEpoch :: int
  stTreeBytes :: slice
  stTreeHash :: slice
  stCreatedAt :: time

record ChatMemberRecord =
  cmRoomID :: uuid
  cmUserPublicKey :: bytes
  cmRole :: int
  cmNotificationLevel :: int
  cmJoinedAt :: time
  cmLeftAt :: "time option"

record ChatMemberPermissionRecord =
  pmPermissionID :: uuid
  pmRoomID :: uuid
  pmUserPublicKey :: bytes
  pmPermissionKey :: string
  pmIsAllowed :: bool
  pmCreatedAt :: time
  pmUpdatedAt :: time

record ChatInvitationRecord =
  ivInvitationID :: uuid
  ivRoomID :: uuid
  ivInviterPublicKey :: bytes
  ivInviteePublicKey :: bytes
  ivExpiresAt :: "time option"
  ivInviteToken :: bytes
  ivInviteTokenSignature :: bytes
  ivState :: int
  ivCreatedAt :: time
  ivUpdatedAt :: time

record UsageStat =
  utRequests :: int
  utBytesIn :: int
  utBytesOut :: int

record UsageRow =
  usUserPublicKey :: bytes
  usKind :: string
  usBucketStart :: time
  usStat :: UsageStat
  usUpdatedAt :: time

section \<open>The database\<close>

record database =
  tProfiles :: "ProfileRow list"
  tAuthSessions :: "Session list"
  tEventSubscriptions :: "Subscription list"
  tUserEvents :: "Event list"
  tDevices :: "DeviceRecord list"
  tKeyPackages :: "KeyPackageRecord list"
  tFriendRequests :: "FriendRequestRecord list"
  tFriends :: "FriendRecord list"
  tChatRooms :: "ChatRoomRow list"
  tChatRoomStates :: "ChatRoomStateRecord list"
  tChatMembers :: "ChatMemberRecord list"
  tPermissions :: "ChatMemberPermissionRecord list"
  tInvitations :: "ChatInvitationRecord list"
  tBanStatuses :: "BanStatus list"
  tGroupInfos :: "ChatRoomGroupInfoRecord list"
  tWelcomes :: "ChatRoomWelcomeRecord list"
  tDirectRooms :: "DirectRoomRecord list"
  tUsageStats :: "UsageRow list"
  tOutbox :: "OutboxRow list"
  tOutboxSegments :: "OutboxSegment list"

definition emptyDb :: database where
  "emptyDb = \<lparr>tProfiles = [], tAuthSessions = [], tEventSubscriptions = [], tUserEvents = [],
     tDevices = [], tKeyPackages = [], tFriendRequests = [], tFriends = [], tChatRooms = [],
     tChatRoomStates = [], tChatMembers = [], tPermissions = [], tInvitations = [],
     tBanStatuses = [], tGroupInfos = [], tWelcomes = [], tDirectRooms = [], tUsageStats = [],
     tOutbox = [], tOutboxSegments = []\<rparr>"

section \<open>Environment and world\<close>

text \<open>
  What the program calls and does not define. The \<open>n\<close>-th reading of the clock, the \<open>n\<close>-th UUID
  and the \<open>n\<close>-th read of the random source are functions of \<open>n\<close>; \<open>eFault n\<close> says that the
  \<open>n\<close>-th SQL statement fails for a reason the schema does not explain. \<open>eVerify\<close> is the
  Ed25519 check on well-sized keys; \<open>eUuid...\<close> is \<^verbatim>\<open>google/uuid\<close>, whose \<^verbatim>\<open>Parse\<close> returns what it read so far
  with the error; \<open>eCbor...\<close> is
  \<^verbatim>\<open>fxamacker/cbor\<close>; \<open>eRFC3339\<close> and \<open>eParseTime\<close> format and parse instants;
  \<open>eParseIP\<close> is \<^verbatim>\<open>net.ParseIP\<close>; \<open>eInet\<close>, \<open>eLower\<close> and \<open>eCollate\<close> are PostgreSQL's
  \<^verbatim>\<open>host(x::inet)\<close>, \<^verbatim>\<open>LOWER\<close> and the sort key of the database's collation.
\<close>

record env =
  eClock :: "nat \<Rightarrow> time"
  eUUID :: "nat \<Rightarrow> uuid"
  eRand :: "nat \<Rightarrow> bytes option"
  eFault :: "nat \<Rightarrow> bool"
  eVerify :: "bytes \<Rightarrow> bytes \<Rightarrow> bytes \<Rightarrow> bool"
  eUuidString :: "uuid \<Rightarrow> string"
  eUuidParse :: "string \<Rightarrow> uuid \<times> bool"
  eUuidFromBytes :: "bytes \<Rightarrow> uuid option"
  eUuidSHA1 :: "string \<Rightarrow> uuid"
  eCborPayload :: "payload \<Rightarrow> bytes option"
  eUncborPayload :: "bytes \<Rightarrow> payload option"
  eCborChallenge :: "string \<Rightarrow> 64 word \<Rightarrow> 64 word \<Rightarrow> bytes \<Rightarrow> bytes option"
  eRFC3339 :: "time \<Rightarrow> string"
  eParseTime :: "string \<Rightarrow> time option"
  eParseIP :: "string \<Rightarrow> bool"
  eInet :: "string \<Rightarrow> string option"
  eLower :: "string \<Rightarrow> string"
  eCollate :: "string \<Rightarrow> string"

record world =
  db :: database
  nClock :: nat
  nUUID :: nat
  nRand :: nat
  nStmt :: nat
  wBus :: Bus
  wPushQueue :: "OutboxEvent list"

type_synonym 'a io = "(world, 'a) go"

definition clockNow :: "env \<Rightarrow> time io" where
  "clockNow env w = (Ret (eClock env (nClock w)), w\<lparr>nClock := Suc (nClock w)\<rparr>)"

definition uuidNew :: "env \<Rightarrow> uuid io" where
  "uuidNew env w = (Ret (eUUID env (nUUID w)), w\<lparr>nUUID := Suc (nUUID w)\<rparr>)"

text \<open>\<^verbatim>\<open>Read\<close> fills a buffer of \<open>n\<close> zero bytes.\<close>

definition randomRead :: "env \<Rightarrow> nat \<Rightarrow> bytes io" where
  "randomRead env n w = (case eRand env (nRand w) of
       None \<Rightarrow> (Err (ErrMsg ''random source''), w\<lparr>nRand := Suc (nRand w)\<rparr>)
     | Some b \<Rightarrow> (Ret (take n (b @ replicate n 0)), w\<lparr>nRand := Suc (nRand w)\<rparr>))"

definition onBus :: "(Bus, 'a) go \<Rightarrow> 'a io" where
  "onBus m w = (let (r, b) = m (wBus w) in (r, w\<lparr>wBus := b\<rparr>))"

section \<open>SQL statements\<close>

text \<open>A statement maps a database to a result and a database, or is refused. A refused or faulty
  statement changes nothing.\<close>

type_synonym 'a stmt = "database \<Rightarrow> sqlErr + ('a \<times> database)"

definition sql :: "env \<Rightarrow> 'a stmt \<Rightarrow> 'a io" where
  "sql env f w =
     (let w' = w\<lparr>nStmt := Suc (nStmt w)\<rparr>
      in if eFault env (nStmt w) then (Err (ErrSQL DriverFault), w')
         else case f (db w) of
                Inl e \<Rightarrow> (Err (ErrSQL e), w')
              | Inr (x, d) \<Rightarrow> (Ret x, w'\<lparr>db := d\<rparr>))"

definition sqlQuery :: "env \<Rightarrow> (database \<Rightarrow> 'a) \<Rightarrow> 'a io" where
  "sqlQuery env q = sql env (\<lambda>d. Inr (q d, d))"

definition sqlExec :: "env \<Rightarrow> (database \<Rightarrow> database) \<Rightarrow> unit io" where
  "sqlExec env f = sql env (\<lambda>d. Inr ((), f d))"

text \<open>An \<^verbatim>\<open>INSERT\<close>: the first refused constraint, or the changed database.\<close>

definition checkAll :: "(bool \<times> sqlErr) list \<Rightarrow> (database \<Rightarrow> database) \<Rightarrow> unit stmt" where
  "checkAll cs f d = (case find (\<lambda>(ok, e). \<not> ok) cs of
       None \<Rightarrow> Inr ((), f d)
     | Some (_, e) \<Rightarrow> Inl e)"

end
