(* ===== verification/Store.thy ===== *)
theory Store
  imports Schema
begin

text \<open>
  Transactions (\<^verbatim>\<open>repository/postgres/store.go\<close>, \<^verbatim>\<open>domain/tx/manager.go\<close>) and what every
  repository and service proof uses of SQL statements: an invariant of the database is kept
  by a call when each of its statements keeps it, and a transaction that does not return a
  value leaves the database as it was.
\<close>

section \<open>Opening the database\<close>

text \<open>\<open>sqlOpen\<close> is \<^verbatim>\<open>sql.Open\<close> on the connection string, \<open>ping\<close> the first round trip to the server; the settings of the
  connection pool are left out.\<close>

definition Open :: "(string \<Rightarrow> err option) \<Rightarrow> (string \<Rightarrow> err option) \<Rightarrow> string \<Rightarrow> err option" where
  "Open sqlOpen ping dsn =
     (case sqlOpen dsn of
        Some e \<Rightarrow> Some (ErrWrap ''open postgres'' e)
      | None \<Rightarrow> (case ping dsn of Some e \<Rightarrow> Some (ErrWrap ''ping postgres'' e) | None \<Rightarrow> None))"

section \<open>Transactions\<close>

text \<open>The transaction, if any, a context carries. The connection a repository then uses
  (\<^verbatim>\<open>currentDBTX\<close>) makes no difference to a statement: calls run one after the other.\<close>

datatype ctx = NoTx | InTx

definition currentTx :: "ctx \<Rightarrow> bool" where
  "currentTx ctx \<longleftrightarrow> ctx = InTx"

text \<open>\<^verbatim>\<open>BEGIN\<close> and \<^verbatim>\<open>COMMIT\<close> are statements that may fail like any other.\<close>

definition sqlNop :: "env \<Rightarrow> unit io" where
  "sqlNop env = sqlExec env (\<lambda>d. d)"

definition rollbackTo :: "database \<Rightarrow> 'a outcome \<times> world \<Rightarrow> 'a outcome \<times> world" where
  "rollbackTo d r = (fst r, (snd r)\<lparr>db := d\<rparr>)"

text \<open>A panic in \<open>fn\<close> unwinds past the call; the transaction it leaves open is never committed.\<close>

definition WithinTransaction :: "env \<Rightarrow> ctx \<Rightarrow> (ctx \<Rightarrow> 'a io) \<Rightarrow> 'a io" where
  "WithinTransaction env ctx fn =
     (if currentTx ctx then fn ctx
      else andThen (wrapErr ''begin transaction'' (sqlNop env)) (\<lambda>_ w.
        case andThen (fn InTx) (\<lambda>x.
               andThen (wrapErr ''commit transaction'' (sqlNop env)) (\<lambda>_. ret x)) w of
          (Ret x, w') \<Rightarrow> (Ret x, w')
        | (Err e, w') \<Rightarrow> rollbackTo (db w) (Err e, w')
        | (Panic p, w') \<Rightarrow> rollbackTo (db w) (Panic p, w')))"

section \<open>Database invariants\<close>

definition dbInv :: "(database \<Rightarrow> bool) \<Rightarrow> world \<Rightarrow> bool" where
  "dbInv P w \<longleftrightarrow> P (db w)"

lemma keeps_sql [keeps_intros]:
  assumes "\<And>d x d'. P d \<Longrightarrow> f d = Inr (x, d') \<Longrightarrow> P d'"
  shows "keeps (dbInv P) (sql env f)"
  using assms by (auto simp: keeps_def dbInv_def sql_def Let_def split: sum.splits prod.splits)

lemma keeps_sqlQuery [keeps_intros]: "keeps (dbInv P) (sqlQuery env q)"
  unfolding sqlQuery_def by (rule keeps_sql) simp

lemma keeps_sqlExec [keeps_intros]:
  "(\<And>d. P d \<Longrightarrow> P (f d)) \<Longrightarrow> keeps (dbInv P) (sqlExec env f)"
  unfolding sqlExec_def by (rule keeps_sql) auto

lemma keeps_clockNow [keeps_intros]: "keeps (dbInv P) (clockNow env)"
  by (simp add: keeps_def dbInv_def clockNow_def)

lemma keeps_uuidNew [keeps_intros]: "keeps (dbInv P) (uuidNew env)"
  by (simp add: keeps_def dbInv_def uuidNew_def)

lemma keeps_randomRead [keeps_intros]: "keeps (dbInv P) (randomRead env n)"
  by (simp add: keeps_def dbInv_def randomRead_def split: option.splits)

lemma keeps_onBus [keeps_intros]: "keeps (dbInv P) (onBus m)"
  by (simp add: keeps_def dbInv_def onBus_def Let_def split: prod.splits)

lemma keeps_sqlNop [keeps_intros]: "keeps (dbInv P) (sqlNop env)"
  unfolding sqlNop_def by (rule keeps_sqlExec)

lemma keeps_WithinTransaction [keeps_intros]:
  assumes "\<And>c. keeps (dbInv P) (fn c)"
  shows "keeps (dbInv P) (WithinTransaction env ctx fn)"
proof -
  let ?body = "andThen (fn InTx) (\<lambda>x. andThen (wrapErr ''commit transaction'' (sqlNop env)) (\<lambda>_. ret x))"
  have body: "keeps (dbInv P) ?body"
    by (intro keeps_intros assms)
  have "keeps (dbInv P) (\<lambda>w. case ?body w of
      (Ret x, w') \<Rightarrow> (Ret x, w')
    | (Err e, w') \<Rightarrow> rollbackTo (db w) (Err e, w')
    | (Panic p, w') \<Rightarrow> rollbackTo (db w) (Panic p, w'))"
    using body by (auto simp: keeps_def dbInv_def rollbackTo_def split: prod.splits outcome.splits)
  then show ?thesis
    unfolding WithinTransaction_def by (intro keeps_intros assms)
qed

text \<open>Triples of statements; a statement that fails changes nothing.\<close>

lemma hoare_sql:
  assumes "\<And>d x d'. P d \<Longrightarrow> f d = Inr (x, d') \<Longrightarrow> Q x d'" and "\<And>d. P d \<Longrightarrow> E d"
  shows "hoare (dbInv P) (sql env f) (\<lambda>x. dbInv (Q x)) (dbInv E)"
  using assms by (auto simp: hoare_def dbInv_def sql_def Let_def split: sum.splits prod.splits)

lemma hoare_sqlExec:
  assumes "\<And>d. P d \<Longrightarrow> Q () (f d)" and "\<And>d. P d \<Longrightarrow> E d"
  shows "hoare (dbInv P) (sqlExec env f) (\<lambda>x. dbInv (Q x)) (dbInv E)"
  unfolding sqlExec_def by (rule hoare_sql) (use assms in auto)

lemma hoare_sqlQuery:
  assumes "\<And>d. P d \<Longrightarrow> Q (q d) d" and "\<And>d. P d \<Longrightarrow> E d"
  shows "hoare (dbInv P) (sqlQuery env q) (\<lambda>x. dbInv (Q x)) (dbInv E)"
  unfolding sqlQuery_def by (rule hoare_sql) (use assms in auto)

lemma checkAll_Inr: "checkAll cs f d = Inr (x, d') \<longleftrightarrow> list_all fst cs \<and> d' = f d"
proof -
  have "find (\<lambda>(ok, e). \<not> ok) cs = None \<longleftrightarrow> list_all fst cs"
    by (auto simp: find_None_iff list_all_iff)
  then show ?thesis
    by (auto simp: checkAll_def split: option.splits prod.splits)
qed

text \<open>A statement that did not fail.\<close>

lemma sql_RetE:
  assumes "sql env f w = (Ret x, w')"
  obtains d where "f (db w) = Inr (x, d)" and "w' = w\<lparr>nStmt := Suc (nStmt w), db := d\<rparr>"
  using assms by (auto simp: sql_def Let_def split: if_splits sum.splits prod.splits)

lemma sqlQuery_RetE:
  assumes "sqlQuery env q w = (Ret x, w')"
  obtains "x = q (db w)" and "w' = w\<lparr>nStmt := Suc (nStmt w)\<rparr>"
  using assms unfolding sqlQuery_def by (auto elim!: sql_RetE)

lemma sqlExec_RetE:
  assumes "sqlExec env f w = (Ret x, w')"
  obtains "w' = w\<lparr>nStmt := Suc (nStmt w), db := f (db w)\<rparr>"
  using assms unfolding sqlExec_def by (auto elim!: sql_RetE)

lemma sql_not_Ret_db: "sql env f w = (r, w') \<Longrightarrow> (\<And>x. r \<noteq> Ret x) \<Longrightarrow> db w' = db w"
  by (auto simp: sql_def Let_def split: if_splits sum.splits)

lemma sqlQuery_db [simp]: "db (snd (sqlQuery env q w)) = db w"
  by (auto simp: sqlQuery_def sql_def Let_def)

lemma sqlNop_db [simp]: "db (snd (sqlNop env w)) = db w"
  by (auto simp: sqlNop_def sqlExec_def sql_def Let_def)

lemma sqlNop_cases:
  obtains "sqlNop env w = (Ret (), w\<lparr>nStmt := Suc (nStmt w)\<rparr>)"
  | "sqlNop env w = (Err (ErrSQL DriverFault), w\<lparr>nStmt := Suc (nStmt w)\<rparr>)"
  by (cases "eFault env (nStmt w)") (auto simp: sqlNop_def sqlExec_def sql_def Let_def)

text \<open>Statements never fail under this schedule.\<close>

definition noFaults :: "env \<Rightarrow> bool" where
  "noFaults env \<longleftrightarrow> (\<forall>n. \<not> eFault env n)"

lemma sql_noFaults:
  "noFaults env \<Longrightarrow> sql env f w =
     (case f (db w) of
        Inl e \<Rightarrow> (Err (ErrSQL e), w\<lparr>nStmt := Suc (nStmt w)\<rparr>)
      | Inr (x, d) \<Rightarrow> (Ret x, w\<lparr>nStmt := Suc (nStmt w), db := d\<rparr>))"
  by (simp add: sql_def noFaults_def Let_def)

section \<open>The transaction manager's contract\<close>

text \<open>\<^verbatim>\<open>domain/tx/manager.go\<close>: what the services rely on. A call that does not return a value
  leaves the database as it found it; one that does has run its body once, on the database it
  found, and left what the body left.\<close>

locale tx_manager =
  fixes within :: "(ctx \<Rightarrow> 'a io) \<Rightarrow> 'a io"
  assumes tx_failed: "within fn w = (r, w') \<Longrightarrow> \<forall>x. r \<noteq> Ret x \<Longrightarrow> db w' = db w"
    and tx_returned: "within fn w = (Ret x, w') \<Longrightarrow>
      \<exists>u v. fn InTx u = (Ret x, v) \<and> u = w\<lparr>nStmt := nStmt u\<rparr> \<and> w' = v\<lparr>nStmt := nStmt w'\<rparr>"
begin

lemma tx_all_or_nothing:
  assumes "within fn w = (r, w')"
  obtains "db w' = db w"
  | x u v where "r = Ret x" and "fn InTx u = (Ret x, v)" and "u = w\<lparr>nStmt := nStmt u\<rparr>"
      and "w' = v\<lparr>nStmt := nStmt w'\<rparr>"
proof (cases r)
  case (Ret x)
  then show thesis using tx_returned [of fn w x w'] assms that(2) by blast
qed (use tx_failed [OF assms] that(1) in simp_all)

lemma tx_RetE:
  assumes "within fn w = (Ret x, w')"
  obtains u v where "fn InTx u = (Ret x, v)" and "db u = db w" and "db w' = db v"
    and "wBus u = wBus w" and "wBus w' = wBus v" and "nClock u = nClock w" and "nUUID u = nUUID w"
proof -
  obtain u v where "fn InTx u = (Ret x, v)" and u: "u = w\<lparr>nStmt := nStmt u\<rparr>"
    and w': "w' = v\<lparr>nStmt := nStmt w'\<rparr>"
    using tx_returned [OF assms] by blast
  moreover have "db u = db w" "wBus u = wBus w" "nClock u = nClock w" "nUUID u = nUUID w"
    by (subst u, simp)+
  moreover have "db w' = db v" "wBus w' = wBus v"
    by (subst w', simp)+
  ultimately show ?thesis using that by blast
qed

end

lemma WithinTransaction_failed:
  assumes "WithinTransaction env NoTx fn w = (r, w')" and "\<forall>x. r \<noteq> Ret x"
  shows "db w' = db w"
  using assms
  by (cases rule: sqlNop_cases [of env w])
    (auto simp: WithinTransaction_def currentTx_def rollbackTo_def go_simps
      split: prod.splits outcome.splits)

lemma WithinTransaction_returned:
  assumes "WithinTransaction env NoTx fn w = (Ret x, w')"
  shows "\<exists>u v. fn InTx u = (Ret x, v) \<and> u = w\<lparr>nStmt := nStmt u\<rparr> \<and> w' = v\<lparr>nStmt := nStmt w'\<rparr>"
proof -
  let ?u = "w\<lparr>nStmt := Suc (nStmt w)\<rparr>"
  have "andThen (fn InTx) (\<lambda>x. andThen (wrapErr ''commit transaction'' (sqlNop env)) (\<lambda>_. ret x)) ?u
      = (Ret x, w')"
    using assms
    by (cases rule: sqlNop_cases [of env w])
      (auto simp: WithinTransaction_def currentTx_def rollbackTo_def
        andThen_def wrapErr_def onErr_def fail_def
        split: prod.splits outcome.splits)
  then obtain v where "fn InTx ?u = (Ret x, v)" and "w' = snd (sqlNop env v)"
    by (auto elim!: andThen_RetE)
  then show ?thesis
    by (intro exI [of _ ?u] exI [of _ v])
      (cases rule: sqlNop_cases [of env v]; simp)
qed

interpretation txm: tx_manager "WithinTransaction env NoTx" for env
  by unfold_locales (fact WithinTransaction_failed, fact WithinTransaction_returned)

text \<open>A transaction: whatever its body does before it fails is undone.\<close>

lemma hoare_WithinTransaction:
  assumes "hoare (dbInv P) (fn InTx) (\<lambda>x. dbInv (Q x)) E"
  shows "hoare (dbInv P) (WithinTransaction env NoTx fn) (\<lambda>x. dbInv (Q x)) (dbInv P)"
  unfolding hoare_def
proof (intro allI impI)
  fix w assume P: "dbInv P w"
  show "case WithinTransaction env NoTx fn w of (Ret x, t) \<Rightarrow> dbInv (Q x) t
      | (Err e, t) \<Rightarrow> dbInv P t | (Panic p, t) \<Rightarrow> dbInv P t"
  proof (cases "WithinTransaction env NoTx fn w")
    case (Pair r t)
    show ?thesis
    proof (cases r)
      case (Ret x)
      then obtain u v where "fn InTx u = (Ret x, v)" "db u = db w" "db t = db v"
        using Pair by (auto elim: txm.tx_RetE)
      then show ?thesis
        using hoareD(1) [OF assms, of u x v] P Pair Ret by (simp add: dbInv_def)
    qed (use Pair P txm.tx_failed [OF Pair] in \<open>simp_all add: dbInv_def\<close>)
  qed
qed

lemma hoare_clockNow: "hoare (dbInv P) (clockNow env) (\<lambda>_. dbInv P) (dbInv P)"
  using keeps_clockNow by (simp add: keeps_hoare)

lemma hoare_uuidNew: "hoare (dbInv P) (uuidNew env) (\<lambda>_. dbInv P) (dbInv P)"
  using keeps_uuidNew by (simp add: keeps_hoare)

section \<open>Statements that return\<close>

lemma returns_sql:
  assumes "noFaults env" and "\<And>d. P d \<Longrightarrow> \<exists>x d'. f d = Inr (x, d') \<and> Q x d'"
  shows "returns (dbInv P) (sql env f) (\<lambda>x. dbInv (Q x))"
  unfolding returns_def sql_noFaults [OF assms(1)] dbInv_def using assms(2) by fastforce

lemma returns_sqlExec:
  assumes "noFaults env" and "\<And>d. P d \<Longrightarrow> Q () (f d)"
  shows "returns (dbInv P) (sqlExec env f) (\<lambda>x. dbInv (Q x))"
  unfolding sqlExec_def by (rule returns_sql) (use assms in auto)

lemma returns_sqlQuery:
  assumes "noFaults env" and "\<And>d. P d \<Longrightarrow> Q (q d) d"
  shows "returns (dbInv P) (sqlQuery env q) (\<lambda>x. dbInv (Q x))"
  unfolding sqlQuery_def by (rule returns_sql) (use assms in auto)

lemma sqlNop_noFaults: "noFaults env \<Longrightarrow> sqlNop env w = (Ret (), w\<lparr>nStmt := Suc (nStmt w)\<rparr>)"
  by (simp add: sqlNop_def sqlExec_def sql_noFaults)

lemma returns_WithinTransaction:
  assumes "noFaults env" and "returns (dbInv P) (fn InTx) (\<lambda>x. dbInv (Q x))"
  shows "returns (dbInv P) (WithinTransaction env NoTx fn) (\<lambda>x. dbInv (Q x))"
  unfolding returns_def
proof (intro allI impI)
  fix w assume "dbInv P w"
  then have "dbInv P (w\<lparr>nStmt := Suc (nStmt w)\<rparr>)" by (simp add: dbInv_def)
  then obtain x v where "fn InTx (w\<lparr>nStmt := Suc (nStmt w)\<rparr>) = (Ret x, v)" and "dbInv (Q x) v"
    using returnsD [OF assms(2)] by blast
  then show "\<exists>x t. WithinTransaction env NoTx fn w = (Ret x, t) \<and> dbInv (Q x) t"
    by (simp add: WithinTransaction_def currentTx_def andThen_def wrapErr_def onErr_def ret_def
        sqlNop_noFaults [OF assms(1)] dbInv_def)
qed

section \<open>Calls that change nothing unless they return\<close>

definition readonly :: "'a io \<Rightarrow> bool" where
  "readonly m \<longleftrightarrow> (\<forall>w. db (snd (m w)) = db w)"

definition atomic :: "'a io \<Rightarrow> bool" where
  "atomic m \<longleftrightarrow> (\<forall>w r w'. m w = (r, w') \<longrightarrow> (\<forall>x. r \<noteq> Ret x) \<longrightarrow> db w' = db w)"

lemma atomicD: "atomic m \<Longrightarrow> m w = (r, w') \<Longrightarrow> \<forall>x. r \<noteq> Ret x \<Longrightarrow> db w' = db w"
  by (simp add: atomic_def)

lemma readonlyI: "(\<And>P. keeps (dbInv P) m) \<Longrightarrow> readonly m"
proof -
  assume "\<And>P. keeps (dbInv P) m"
  then have "dbInv ((=) (db w)) (snd (m w))" for w
    by (rule keepsD) (simp add: dbInv_def)
  then show ?thesis by (simp add: readonly_def dbInv_def)
qed

lemma keeps_readonly: "readonly m \<Longrightarrow> keeps (dbInv P) m"
  by (simp add: keeps_def dbInv_def readonly_def)

lemma readonly_atomic: "readonly m \<Longrightarrow> atomic m"
  by (metis atomic_def readonly_def snd_conv)

lemma atomic_ret [atomic_intros]: "atomic (ret x)"
  by (simp add: atomic_def ret_def)

lemma atomic_fail [atomic_intros]: "atomic (fail e)"
  by (simp add: atomic_def fail_def)

lemma atomic_sql [atomic_intros]: "atomic (sql env f)"
  unfolding atomic_def by (auto intro: sql_not_Ret_db)

lemma atomic_sqlExec [atomic_intros]: "atomic (sqlExec env f)"
  unfolding sqlExec_def by (rule atomic_sql)

lemma atomic_sqlQuery [atomic_intros]: "atomic (sqlQuery env f)"
  unfolding sqlQuery_def by (rule atomic_sql)

lemma atomic_WithinTransaction [atomic_intros]: "atomic (WithinTransaction env NoTx fn)"
  unfolding atomic_def using txm.tx_failed by blast

lemma atomic_guardErr [atomic_intros]: "atomic m \<Longrightarrow> atomic (guardErr bad e m)"
  by (simp add: guardErr_def atomic_fail)

lemma atomic_if [atomic_intros]: "(b \<Longrightarrow> atomic m) \<Longrightarrow> (\<not> b \<Longrightarrow> atomic m') \<Longrightarrow> atomic (if b then m else m')"
  by simp

lemma atomic_wrapErr [atomic_intros]: "atomic m \<Longrightarrow> atomic (wrapErr msg m)"
  unfolding atomic_def wrapErr_def onErr_def fail_def
  by (auto split: prod.splits outcome.splits)

text \<open>Reading first, or only building the answer last, keeps a call atomic.\<close>

lemma atomic_read_first:
  assumes "readonly m" and "\<And>x. atomic (k x)"
  shows "atomic (andThen m k)"
proof -
  have "db u = db w" if "m w = (r, u)" for w r u
    using assms(1) that by (metis readonly_def snd_conv)
  then show ?thesis
    using assms(2) unfolding atomic_def andThen_def
    by (fastforce split: prod.splits outcome.splits)
qed

lemma atomic_then_ret: "atomic m \<Longrightarrow> atomic (andThen m (\<lambda>x. ret (f x)))"
  unfolding atomic_def andThen_def ret_def by (auto split: prod.splits outcome.splits)

lemma readonly_clockNow: "readonly (clockNow env)"
  by (rule readonlyI) (rule keeps_clockNow)

lemma readonly_uuidNew: "readonly (uuidNew env)"
  by (rule readonlyI) (rule keeps_uuidNew)

lemma readonly_sqlQuery: "readonly (sqlQuery env q)"
  by (rule readonlyI) (rule keeps_sqlQuery)

section \<open>What statements and transactions do not touch\<close>

text \<open>\<open>offDb I\<close>: the predicate reads neither the database nor the number of statements.\<close>

definition offDb :: "(world \<Rightarrow> bool) \<Rightarrow> bool" where
  "offDb I \<longleftrightarrow> (\<forall>w d n. I (w\<lparr>db := d\<rparr>) = I w \<and> I (w\<lparr>nStmt := n\<rparr>) = I w)"

lemma keeps_offDb_sql: "offDb I \<Longrightarrow> keeps I (sql env f)"
  by (auto simp: keeps_def offDb_def sql_def Let_def split: sum.splits)

lemma keeps_offDb_statements:
  "offDb I \<Longrightarrow> keeps I (sqlExec env g)" "offDb I \<Longrightarrow> keeps I (sqlQuery env k)" "offDb I \<Longrightarrow> keeps I (sqlNop env)"
  by (simp_all add: sqlExec_def sqlQuery_def sqlNop_def keeps_offDb_sql)

lemma keeps_offDb_rollback:
  assumes "offDb I" and "keeps I m"
  shows "keeps I (\<lambda>w. case m w of
          (Ret x, w') \<Rightarrow> (Ret x, w')
        | (Err e, w') \<Rightarrow> rollbackTo (db w) (Err e, w')
        | (Panic p, w') \<Rightarrow> rollbackTo (db w) (Panic p, w'))"
proof
  fix w assume "I w"
  then have "I (snd (m w))" by (rule keepsD [OF assms(2)])
  then show "I (snd (case m w of
          (Ret x, w') \<Rightarrow> (Ret x, w')
        | (Err e, w') \<Rightarrow> rollbackTo (db w) (Err e, w')
        | (Panic p, w') \<Rightarrow> rollbackTo (db w) (Panic p, w')))"
    using assms(1) by (cases "m w"; cases "fst (m w)") (auto simp: offDb_def rollbackTo_def)
qed

lemma keeps_offDb_WithinTransaction:
  assumes "offDb I" and "keeps I (fn InTx)"
  shows "keeps I (WithinTransaction env NoTx fn)"
proof -
  have "keeps I (andThen (fn InTx) (\<lambda>x.
      andThen (wrapErr ''commit transaction'' (sqlNop env)) (\<lambda>_. ret x)))"
    by (intro keeps_andThen keeps_wrapErr keeps_ret keeps_offDb_statements assms)
  note keeps_offDb_rollback [OF assms(1) this]
  then show ?thesis
    unfolding WithinTransaction_def currentTx_def
    by simp (intro keeps_andThen keeps_wrapErr keeps_offDb_statements assms(1))
qed

end
