(* ===== verification/OutboxRepo.thy ===== *)
theory OutboxRepo
  imports Store
begin

text \<open>
  The device outbox of \<^verbatim>\<open>repository/postgres/auth_repository_outbox.go\<close>. Every event for a user
  is queued once per device of the user, in a segment (a room, or the event's type); a
  segment's head is the one event that may be sent, and it stays the head until the device
  acknowledges it, it expires, or its attempts run out.
\<close>

section \<open>Operations\<close>

definition StatusPending :: int where "StatusPending = 0"
definition StatusInFlight :: int where "StatusInFlight = 1"
definition StatusAcked :: int where "StatusAcked = 2"
definition StatusDropped :: int where "StatusDropped = 3"

definition ErrNoRows :: err where "ErrNoRows = ErrMsg ''sql: no rows in result set''"

text \<open>The string a payload holds under a key, if it holds one.\<close>

definition payloadString :: "payload \<Rightarrow> string \<Rightarrow> string option" where
  "payloadString p k = (case map_of p k of Some (GString s) \<Rightarrow> Some s | _ \<Rightarrow> None)"

definition outboxSegmentID :: "Event \<Rightarrow> string" where
  "outboxSegmentID event =
     (case find (\<lambda>key. case payloadString (evPayload event) key of
                          Some v \<Rightarrow> trimSpace v \<noteq> []
                        | None \<Rightarrow> False) [''roomId'', ''chatId'', ''segmentId''] of
        Some key \<Rightarrow> the (payloadString (evPayload event) key)
      | None \<Rightarrow> ''global:'' @ evEventType event)"

definition targetDevices :: "env \<Rightarrow> bytes \<Rightarrow> database \<Rightarrow> string list" where
  "targetDevices env userPublicKey d =
     sort_key (eCollate env) (remdups (filter (\<lambda>i. i \<noteq> [])
       (map sesDeviceID (filter (\<lambda>s. sesUserPublicKey s = userPublicKey \<and> sesIsAuthenticated s)
          (tAuthSessions d))
        @ map dvDeviceID (filter (\<lambda>v. dvUserPublicKey v = userPublicKey) (tDevices d)))))"

definition listTargetDeviceIDs :: "env \<Rightarrow> bytes \<Rightarrow> string list io" where
  "listTargetDeviceIDs env userPublicKey =
     wrapErr ''query outbox devices'' (sqlQuery env (targetDevices env userPublicKey))"

text \<open>\<^verbatim>\<open>uuid.NewSHA1(NameSpaceOID, eventID ":" deviceID)\<close>.\<close>

definition outboxEventID :: "env \<Rightarrow> uuid \<Rightarrow> string \<Rightarrow> uuid" where
  "outboxEventID env eventID deviceID = eUuidSHA1 env (eUuidString env eventID @ '':'' @ deviceID)"

definition outboxRow :: "env \<Rightarrow> Event \<Rightarrow> bytes \<Rightarrow> string \<Rightarrow> OutboxRow" where
  "outboxRow env event payload deviceID =
     \<lparr>obEventID = outboxEventID env (evEventID event) deviceID, obDeviceID = deviceID,
      obSegmentID = outboxSegmentID event, obEventType = evEventType event, obPayload = payload,
      obStatus = StatusPending, obSendAfter = evAvailableAt event, obInflightUntil = None,
      obAttempts = 0, obCreatedAt = evCreatedAt event, obExpiresAt = evExpiresAt event,
      obAckedAt = None, obLastSentAt = None, obLastError = None\<rparr>"

definition insertOutbox :: "env \<Rightarrow> OutboxRow \<Rightarrow> unit io" where
  "insertOutbox env row = sql env (\<lambda>d.
     checkAll [(obDeviceID row \<noteq> [], CheckViolation), (obSegmentID row \<noteq> [], CheckViolation)]
       (\<lambda>d. if obEventID row \<in> obEventID ` set (tOutbox d) then d
            else d\<lparr>tOutbox := tOutbox d @ [row]\<rparr>) d)"

definition segKey :: "OutboxSegment \<Rightarrow> string \<times> string" where
  "segKey s = (sgDeviceID s, sgSegmentID s)"

definition rowKey :: "OutboxRow \<Rightarrow> string \<times> string" where
  "rowKey o' = (obDeviceID o', obSegmentID o')"

text \<open>A segment without a head gets the row as its head; one with a head keeps it.\<close>

definition pushSegment :: "OutboxRow \<Rightarrow> OutboxSegment list \<Rightarrow> OutboxSegment list" where
  "pushSegment row = upsertBy segKey
     (\<lambda>s. s\<lparr>sgHeadEventID := (case sgHeadEventID s of None \<Rightarrow> Some (obEventID row) | Some h \<Rightarrow> Some h),
             sgUpdatedAt := obCreatedAt row\<rparr>)
     \<lparr>sgDeviceID = obDeviceID row, sgSegmentID = obSegmentID row,
      sgHeadEventID = Some (obEventID row), sgInflightEventID = None, sgUpdatedAt = obCreatedAt row\<rparr>"

definition upsertSegment :: "env \<Rightarrow> OutboxRow \<Rightarrow> unit io" where
  "upsertSegment env row =
     sqlExec env (\<lambda>d. d\<lparr>tOutboxSegments := pushSegment row (tOutboxSegments d)\<rparr>)"

definition enqueueFor :: "env \<Rightarrow> Event \<Rightarrow> bytes \<Rightarrow> string \<Rightarrow> unit io" where
  "enqueueFor env event payload deviceID =
     andThen (wrapErr ''insert outbox event'' (insertOutbox env (outboxRow env event payload deviceID)))
       (\<lambda>_. wrapErr ''upsert outbox segment'' (upsertSegment env (outboxRow env event payload deviceID)))"

definition appendOutbox :: "env \<Rightarrow> Event \<Rightarrow> unit io" where
  "appendOutbox env event =
     andThen (listTargetDeviceIDs env (evUserPublicKey event)) (\<lambda>deviceIDs.
       if deviceIDs = [] then ret ()
       else case eCborPayload env (evPayload event) of
              None \<Rightarrow> fail (ErrWrap ''marshal outbox payload'' (ErrMsg ''cbor''))
            | Some payload \<Rightarrow> forEach (enqueueFor env event payload) deviceIDs)"

text \<open>\<^verbatim>\<open>scanOutboxEvent\<close> on the row a query returned, if it returned one.\<close>

definition scanOutboxEvent :: "env \<Rightarrow> OutboxRow option \<Rightarrow> OutboxEvent io" where
  "scanOutboxEvent env row =
     (case row of
        None \<Rightarrow> fail (ErrWrap ''scan outbox event'' ErrNoRows)
      | Some r \<Rightarrow> (case eUncborPayload env (obPayload r) of
            None \<Rightarrow> fail (ErrWrap ''unmarshal outbox payload'' (ErrMsg ''cbor''))
          | Some p \<Rightarrow> ret \<lparr>oeEventID = obEventID r, oeDeviceID = obDeviceID r,
              oeSegmentID = obSegmentID r, oeEventType = obEventType r, oePayload = p,
              oeCreatedAt = obCreatedAt r, oeExpiresAt = obExpiresAt r,
              oeInflightUntil = obInflightUntil r, oeLastSentAt = obLastSentAt r,
              oeAttempts = obAttempts r\<rparr>))"

definition unsettled :: "OutboxRow \<Rightarrow> bool" where
  "unsettled o' \<longleftrightarrow> obStatus o' = StatusPending \<or> obStatus o' = StatusInFlight"

definition dropRows :: "string \<Rightarrow> string \<Rightarrow> time \<Rightarrow> string \<Rightarrow> database \<Rightarrow> database" where
  "dropRows deviceID segmentID fromCreatedAt reason d =
     d\<lparr>tOutbox := updWhere
        (\<lambda>o'. rowKey o' = (deviceID, segmentID) \<and> fromCreatedAt \<le> obCreatedAt o' \<and> unsettled o')
        (\<lambda>o'. o'\<lparr>obStatus := StatusDropped, obLastError := Some reason\<rparr>) (tOutbox d)\<rparr>"

definition clearSegment :: "string \<Rightarrow> string \<Rightarrow> time \<Rightarrow> database \<Rightarrow> database" where
  "clearSegment deviceID segmentID now d =
     d\<lparr>tOutboxSegments := updWhere (\<lambda>s. segKey s = (deviceID, segmentID))
        (\<lambda>s. s\<lparr>sgHeadEventID := None, sgInflightEventID := None, sgUpdatedAt := now\<rparr>)
        (tOutboxSegments d)\<rparr>"

definition dropSegmentTail :: "env \<Rightarrow> string \<Rightarrow> string \<Rightarrow> time \<Rightarrow> time \<Rightarrow> string \<Rightarrow> unit io" where
  "dropSegmentTail env deviceID segmentID fromCreatedAt now reason =
     andThen (wrapErr ''drop outbox tail''
        (sqlExec env (dropRows deviceID segmentID fromCreatedAt reason)))
     (\<lambda>_. wrapErr ''clear dropped outbox segment''
        (sqlExec env (clearSegment deviceID segmentID now)))"

text \<open>\<open>candidate\<close>: a segment whose head is due, expired, or has waited for its acknowledgement too
  long.\<close>

record candidate =
  cdDeviceID :: string
  cdSegmentID :: string
  cdEventID :: uuid
  cdStatus :: int
  cdAttempts :: int
  cdCreatedAt :: time
  cdExpiresAt :: time

text \<open>\<^verbatim>\<open>FROM outbox_segments s JOIN outbox o ON o.event_id = s.head_event_id\<close>.\<close>

definition joinHeads :: "(OutboxRow \<Rightarrow> bool) \<Rightarrow> database \<Rightarrow> candidate list" where
  "joinHeads p d = concat (map (\<lambda>s. map (\<lambda>o'.
       \<lparr>cdDeviceID = sgDeviceID s, cdSegmentID = sgSegmentID s, cdEventID = obEventID o',
        cdStatus = obStatus o', cdAttempts = obAttempts o', cdCreatedAt = obCreatedAt o',
        cdExpiresAt = obExpiresAt o'\<rparr>)
     (filter (\<lambda>o'. sgHeadEventID s = Some (obEventID o') \<and> p o') (tOutbox d))) (tOutboxSegments d))"

definition claimable :: "time \<Rightarrow> OutboxRow \<Rightarrow> bool" where
  "claimable now o' \<longleftrightarrow> obExpiresAt o' \<le> now
     \<or> obStatus o' = StatusPending \<and> obSendAfter o' \<le> now
     \<or> obStatus o' = StatusInFlight
         \<and> (case obInflightUntil o' of None \<Rightarrow> False | Some t \<Rightarrow> t \<le> now)"

definition claimCandidates :: "time \<Rightarrow> int \<Rightarrow> database \<Rightarrow> candidate list" where
  "claimCandidates now batchSize d =
     limitOffset batchSize 0 (sort_key cdCreatedAt (joinHeads (claimable now) d))"

definition markInFlight :: "time \<Rightarrow> time \<Rightarrow> OutboxRow \<Rightarrow> OutboxRow" where
  "markInFlight now inflightUntil o' = o'\<lparr>obStatus := StatusInFlight, obAttempts := obAttempts o' + 1,
     obLastSentAt := Some now, obInflightUntil := Some inflightUntil, obSendAfter := inflightUntil,
     obLastError := None\<rparr>"

definition claimOne :: "env \<Rightarrow> time \<Rightarrow> duration \<Rightarrow> candidate \<Rightarrow> OutboxEvent io" where
  "claimOne env now ackTimeout item =
     andThen (wrapErr ''scan outbox event'' (sql env (\<lambda>d.
       let rows = updWhere (\<lambda>o'. obEventID o' = cdEventID item)
                    (markInFlight now (now + ackTimeout)) (tOutbox d)
       in Inr (find (\<lambda>o'. obEventID o' = cdEventID item) rows, d\<lparr>tOutbox := rows\<rparr>)))) (\<lambda>row.
     andThen (scanOutboxEvent env row) (\<lambda>event.
     andThen (wrapErr ''mark segment inflight'' (sqlExec env (\<lambda>d. d\<lparr>tOutboxSegments :=
       updWhere (\<lambda>s. segKey s = (cdDeviceID item, cdSegmentID item))
         (\<lambda>s. s\<lparr>sgInflightEventID := Some (cdEventID item), sgUpdatedAt := now\<rparr>)
         (tOutboxSegments d)\<rparr>))) (\<lambda>_. ret event)))"

definition exhausted :: "time \<Rightarrow> int \<Rightarrow> candidate \<Rightarrow> bool" where
  "exhausted now maxAttempts item \<longleftrightarrow> cdExpiresAt item \<le> now \<or> cdAttempts item + 1 > maxAttempts"

fun claimLoop :: "env \<Rightarrow> time \<Rightarrow> duration \<Rightarrow> int \<Rightarrow> candidate list \<Rightarrow> OutboxEvent list io" where
  "claimLoop env now ackTimeout maxAttempts [] = ret []"
| "claimLoop env now ackTimeout maxAttempts (item # items) =
     (if exhausted now maxAttempts item
      then andThen (dropSegmentTail env (cdDeviceID item) (cdSegmentID item) (cdCreatedAt item) now
                      ''expired_or_attempts_exceeded'')
             (\<lambda>_. claimLoop env now ackTimeout maxAttempts items)
      else andThen (claimOne env now ackTimeout item) (\<lambda>event.
             andThen (claimLoop env now ackTimeout maxAttempts items) (\<lambda>events.
               ret (event # events))))"

definition ClaimPending :: "env \<Rightarrow> ctx \<Rightarrow> time \<Rightarrow> int \<Rightarrow> duration \<Rightarrow> int \<Rightarrow> OutboxEvent list io" where
  "ClaimPending env ctx now batchSize ackTimeout maxAttempts =
     (if batchSize \<le> 0 then ret []
      else if \<not> currentTx ctx then fail (ErrMsg ''outbox claim requires transaction'')
      else andThen (wrapErr ''select outbox segments'' (sqlQuery env (claimCandidates now batchSize)))
             (claimLoop env now ackTimeout maxAttempts))"

definition ListInflight :: "env \<Rightarrow> string \<Rightarrow> time \<Rightarrow> int \<Rightarrow> OutboxEvent list io" where
  "ListInflight env deviceID now limit =
     andThen (wrapErr ''query inflight outbox'' (sqlQuery env (\<lambda>d.
       limitOffset limit 0 (sort_key obCreatedAt (filter
         (\<lambda>o'. obDeviceID o' = deviceID \<and> obStatus o' = StatusInFlight
             \<and> (case obInflightUntil o' of None \<Rightarrow> False | Some t \<Rightarrow> now < t)) (tOutbox d))))))
     (mapEach (\<lambda>r. scanOutboxEvent env (Some r)))"

definition ackRow :: "time \<Rightarrow> uuid \<Rightarrow> database \<Rightarrow> database" where
  "ackRow now eventID d = d\<lparr>tOutbox := updWhere (\<lambda>o'. obEventID o' = eventID)
     (\<lambda>o'. o'\<lparr>obStatus := StatusAcked, obAckedAt := Some now\<rparr>) (tOutbox d)\<rparr>"

text \<open>The event that becomes the head after \<open>eventID\<close>: the oldest unexpired unsettled one.\<close>

definition nextHead :: "time \<Rightarrow> uuid \<Rightarrow> string \<Rightarrow> string \<Rightarrow> database \<Rightarrow> uuid option" where
  "nextHead now eventID deviceID segmentID d =
     (case sort_key obCreatedAt (filter
         (\<lambda>o'. rowKey o' = (deviceID, segmentID) \<and> unsettled o' \<and> now < obExpiresAt o'
             \<and> obEventID o' \<noteq> eventID) (tOutbox d)) of
        [] \<Rightarrow> None
      | o' # _ \<Rightarrow> Some (obEventID o'))"

definition setHead :: "time \<Rightarrow> string \<Rightarrow> string \<Rightarrow> uuid option \<Rightarrow> database \<Rightarrow> database" where
  "setHead now deviceID segmentID h d = d\<lparr>tOutboxSegments :=
     updWhere (\<lambda>s. segKey s = (deviceID, segmentID))
       (\<lambda>s. s\<lparr>sgHeadEventID := h, sgInflightEventID := None, sgUpdatedAt := now\<rparr>)
       (tOutboxSegments d)\<rparr>"

definition clearInflight :: "time \<Rightarrow> uuid \<Rightarrow> string \<Rightarrow> string \<Rightarrow> database \<Rightarrow> database" where
  "clearInflight now eventID deviceID segmentID d = d\<lparr>tOutboxSegments :=
     updWhere (\<lambda>s. segKey s = (deviceID, segmentID) \<and> sgInflightEventID s = Some eventID)
       (\<lambda>s. s\<lparr>sgInflightEventID := None, sgUpdatedAt := now\<rparr>) (tOutboxSegments d)\<rparr>"

definition AcknowledgeOutbox :: "env \<Rightarrow> ctx \<Rightarrow> time \<Rightarrow> uuid \<Rightarrow> string \<Rightarrow> string \<Rightarrow> unit io" where
  "AcknowledgeOutbox env ctx now eventID deviceID segmentID =
     (if \<not> currentTx ctx then fail (ErrMsg ''outbox ack requires transaction'')
      else andThen (wrapErr ''select outbox event for ack'' (sqlQuery env (\<lambda>d.
        find (\<lambda>o'. obEventID o' = eventID \<and> obDeviceID o' = deviceID) (tOutbox d)))) (\<lambda>found.
      case found of
        None \<Rightarrow> ret ()
      | Some row \<Rightarrow>
          if segmentID \<noteq> [] \<and> segmentID \<noteq> obSegmentID row then ret ()
          else if obStatus row = StatusAcked then ret ()
          else
            andThen (wrapErr ''ack outbox event'' (sqlExec env (ackRow now eventID))) (\<lambda>_.
            andThen (wrapErr ''select outbox head'' (sqlQuery env (\<lambda>d.
              map_option (\<lambda>s. case sgHeadEventID s of None \<Rightarrow> uuidNil | Some h \<Rightarrow> h)
                (find (\<lambda>s. segKey s = (deviceID, obSegmentID row)) (tOutboxSegments d))))) (\<lambda>headEventID.
            if headEventID \<noteq> Some eventID
            then wrapErr ''clear non-head inflight outbox event''
                   (sqlExec env (clearInflight now eventID deviceID (obSegmentID row)))
            else
              andThen (wrapErr ''select next outbox head'' (sqlQuery env
                (nextHead now eventID deviceID (obSegmentID row)))) (\<lambda>nextEventID.
              wrapErr ''advance outbox head''
                (sqlExec env (setHead now deviceID (obSegmentID row) nextEventID)))))))"

definition expiredHeads :: "time \<Rightarrow> int \<Rightarrow> database \<Rightarrow> candidate list" where
  "expiredHeads now batchSize d =
     limitOffset batchSize 0 (sort_key cdCreatedAt (joinHeads (\<lambda>o'. obExpiresAt o' \<le> now) d))"

definition DropExpiredHeads :: "env \<Rightarrow> time \<Rightarrow> int \<Rightarrow> int io" where
  "DropExpiredHeads env now batchSize =
     andThen (wrapErr ''query expired outbox heads'' (sqlQuery env (expiredHeads now batchSize)))
       (\<lambda>rows. andThen (forEach (\<lambda>c. dropSegmentTail env (cdDeviceID c) (cdSegmentID c) (cdCreatedAt c)
                 now ''expired_head'') rows) (\<lambda>_. ret (int (length rows))))"

definition terminalIDs :: "int \<Rightarrow> time \<Rightarrow> int \<Rightarrow> database \<Rightarrow> uuid list" where
  "terminalIDs status olderThan limit d = map obEventID (limitOffset limit 0 (sort_key obCreatedAt
     (filter (\<lambda>o'. obStatus o' = status
         \<and> (case obAckedAt o' of None \<Rightarrow> obExpiresAt o' | Some t \<Rightarrow> t) \<le> olderThan) (tOutbox d))))"

definition DeleteTerminal :: "env \<Rightarrow> int \<Rightarrow> time \<Rightarrow> int \<Rightarrow> int io" where
  "DeleteTerminal env status olderThan limit =
     wrapErr ''delete terminal outbox events'' (sql env (\<lambda>d.
       let p = (\<lambda>o'. obEventID o' \<in> set (terminalIDs status olderThan limit d))
       in Inr (countWhere p (tOutbox d), d\<lparr>tOutbox := delWhere p (tOutbox d)\<rparr>)))"

end
