(* ===== verification/OutboxInv.thy ===== *)
theory OutboxInv
  imports OutboxRepo
begin

text \<open>
  The invariant of the outbox tables: event ids and segment keys are unique, a segment's head
  belongs to the segment, an event in flight is the head of its segment, and no event has been
  sent more often than the configured maximum. Every repository operation keeps it at each of
  its statements, so it also holds where an operation stops at a failed statement outside a
  transaction.
\<close>

section \<open>The invariant\<close>

definition isHead :: "OutboxSegment list \<Rightarrow> OutboxRow \<Rightarrow> bool" where
  "isHead ss r \<longleftrightarrow> (\<exists>s\<in>set ss. segKey s = rowKey r \<and> sgHeadEventID s = Some (obEventID r))"

definition outboxOk :: "int \<Rightarrow> OutboxRow list \<Rightarrow> OutboxSegment list \<Rightarrow> bool" where
  "outboxOk maxAttempts rs ss \<longleftrightarrow> distinct (map obEventID rs) \<and> distinct (map segKey ss)
     \<and> (\<forall>s\<in>set ss. \<forall>r\<in>set rs. sgHeadEventID s = Some (obEventID r) \<longrightarrow> rowKey r = segKey s)
     \<and> (\<forall>r\<in>set rs. obStatus r = StatusInFlight \<longrightarrow> isHead ss r)
     \<and> (\<forall>r\<in>set rs. 0 \<le> obAttempts r \<and> obAttempts r \<le> maxAttempts)"

definition outboxWf :: "int \<Rightarrow> database \<Rightarrow> bool" where
  "outboxWf maxAttempts d \<longleftrightarrow> outboxOk maxAttempts (tOutbox d) (tOutboxSegments d)"

lemmas status_simps [simp] =
  StatusPending_def StatusInFlight_def StatusAcked_def StatusDropped_def

lemma outboxOkD:
  assumes "outboxOk M rs ss"
  shows "distinct (map obEventID rs)" and "distinct (map segKey ss)"
    and "s \<in> set ss \<Longrightarrow> r \<in> set rs \<Longrightarrow> sgHeadEventID s = Some (obEventID r) \<Longrightarrow> rowKey r = segKey s"
    and "r \<in> set rs \<Longrightarrow> obStatus r = StatusInFlight \<Longrightarrow> isHead ss r"
    and "r \<in> set rs \<Longrightarrow> 0 \<le> obAttempts r \<and> obAttempts r \<le> M"
  using assms by (auto simp: outboxOk_def)

text \<open>The point of the invariant: at most one event per segment is in flight.\<close>

lemma outboxOk_single:
  assumes ok: "outboxOk M rs ss" and r: "r \<in> set rs" "obStatus r = StatusInFlight"
    and q: "q \<in> set rs" "obStatus q = StatusInFlight" and key: "rowKey r = rowKey q"
  shows "r = q"
proof -
  obtain s where "s \<in> set ss" "segKey s = rowKey r" "sgHeadEventID s = Some (obEventID r)"
    using outboxOkD(4) [OF ok r] by (auto simp: isHead_def)
  moreover obtain t where "t \<in> set ss" "segKey t = rowKey q" "sgHeadEventID t = Some (obEventID q)"
    using outboxOkD(4) [OF ok q] by (auto simp: isHead_def)
  ultimately have "obEventID r = obEventID q"
    using distinct_map_inj [OF outboxOkD(2) [OF ok], of s t] key by simp
  then show ?thesis
    by (rule distinct_map_inj [OF outboxOkD(1) [OF ok] r(1) q(1)])
qed

lemma outboxOk_head:
  assumes ok: "outboxOk M rs ss" and r: "r \<in> set rs" "obStatus r = StatusInFlight"
    and s: "s \<in> set ss" "rowKey r = segKey s"
  shows "sgHeadEventID s = Some (obEventID r)"
proof -
  obtain t where t: "t \<in> set ss" "segKey t = rowKey r" and h: "sgHeadEventID t = Some (obEventID r)"
    using outboxOkD(4) [OF ok r] by (auto simp: isHead_def)
  have "t = s"
    by (rule distinct_map_inj [OF outboxOkD(2) [OF ok] t(1) s(1)]) (simp only: t(2) s(2))
  then show ?thesis using h by simp
qed

section \<open>Changes of rows and of segments\<close>

lemma outboxOk_updRows:
  assumes ok: "outboxOk M rs ss"
    and same: "\<And>r. p r \<Longrightarrow> obEventID (f r) = obEventID r \<and> rowKey (f r) = rowKey r"
    and status: "\<And>r. r \<in> set rs \<Longrightarrow> p r \<Longrightarrow> obStatus (f r) = StatusInFlight \<Longrightarrow> isHead ss r"
    and att: "\<And>r. r \<in> set rs \<Longrightarrow> p r \<Longrightarrow> 0 \<le> obAttempts (f r) \<and> obAttempts (f r) \<le> M"
  shows "outboxOk M (updWhere p f rs) ss"
  unfolding outboxOk_def
proof (intro conjI ballI impI)
  show "distinct (map obEventID (updWhere p f rs))"
    using outboxOkD(1) [OF ok] same by (simp add: map_updWhere)
  show "distinct (map segKey ss)" by (rule outboxOkD(2) [OF ok])
next
  fix s r assume "s \<in> set ss" "r \<in> set (updWhere p f rs)" "sgHeadEventID s = Some (obEventID r)"
  then show "rowKey r = segKey s"
    using outboxOkD(3) [OF ok] same by (auto elim!: in_updWhereE split: if_splits)
next
  fix r assume r: "r \<in> set (updWhere p f rs)" "obStatus r = StatusInFlight"
  obtain q where q: "q \<in> set rs" "r = (if p q then f q else q)" using r(1) by (rule in_updWhereE)
  then have "isHead ss q" using r(2) status outboxOkD(4) [OF ok] by (auto split: if_splits)
  then show "isHead ss r" using q(2) same by (auto simp: isHead_def)
next
  fix r assume "r \<in> set (updWhere p f rs)"
  then show "0 \<le> obAttempts r" and "obAttempts r \<le> M"
    using att outboxOkD(5) [OF ok] by (auto elim!: in_updWhereE split: if_splits)
qed

lemma outboxOk_updSegs:
  assumes ok: "outboxOk M rs ss"
    and same: "\<And>s. p s \<Longrightarrow> segKey (f s) = segKey s"
    and hd: "\<And>s r. s \<in> set ss \<Longrightarrow> p s \<Longrightarrow> r \<in> set rs \<Longrightarrow> sgHeadEventID (f s) = Some (obEventID r) \<Longrightarrow>
      rowKey r = segKey s"
    and infl: "\<And>s r. s \<in> set ss \<Longrightarrow> p s \<Longrightarrow> r \<in> set rs \<Longrightarrow> rowKey r = segKey s \<Longrightarrow>
      obStatus r = StatusInFlight \<Longrightarrow> sgHeadEventID (f s) = Some (obEventID r)"
  shows "outboxOk M rs (updWhere p f ss)"
  unfolding outboxOk_def
proof (intro conjI ballI impI)
  show "distinct (map segKey (updWhere p f ss))"
    using outboxOkD(2) [OF ok] same by (simp add: map_updWhere)
  show "distinct (map obEventID rs)" by (rule outboxOkD(1) [OF ok])
next
  fix s r assume "s \<in> set (updWhere p f ss)" "r \<in> set rs" "sgHeadEventID s = Some (obEventID r)"
  then show "rowKey r = segKey s"
    using outboxOkD(3) [OF ok] same hd by (auto elim!: in_updWhereE split: if_splits)
next
  fix r assume r: "r \<in> set rs" "obStatus r = StatusInFlight"
  then obtain s where s: "s \<in> set ss" "segKey s = rowKey r" "sgHeadEventID s = Some (obEventID r)"
    using outboxOkD(4) [OF ok] by (auto simp: isHead_def)
  then have "(if p s then f s else s) \<in> set (updWhere p f ss)"
    by (auto simp: set_updWhere)
  then show "isHead (updWhere p f ss) r"
    using s same infl [OF s(1) _ r(1) _ r(2)]
    unfolding isHead_def by (intro bexI [of _ "if p s then f s else s"]) auto
qed (use outboxOkD(5) [OF ok] in auto)

lemma outboxOk_delRows:
  assumes "outboxOk M rs ss"
  shows "outboxOk M (delWhere p rs) ss"
  using assms by (auto simp: outboxOk_def distinct_map_delWhere)

section \<open>Statements\<close>

lemma outboxWf_dropRows: "outboxWf M d \<Longrightarrow> outboxWf M (dropRows dev seg t reason d)"
  unfolding outboxWf_def dropRows_def
  by (simp, rule outboxOk_updRows) (auto simp: rowKey_def dest: outboxOkD(5))

lemma outboxWf_clearSegment:
  assumes "outboxWf M d"
    and "\<And>r. r \<in> set (tOutbox d) \<Longrightarrow> rowKey r = (dev, seg) \<Longrightarrow> obStatus r \<noteq> StatusInFlight"
  shows "outboxWf M (clearSegment dev seg now d)"
  using assms unfolding outboxWf_def clearSegment_def
  by (simp, intro outboxOk_updSegs) (auto simp: segKey_def)

lemma outboxWf_ackRow: "outboxWf M d \<Longrightarrow> outboxWf M (ackRow now i d)"
  unfolding outboxWf_def ackRow_def
  by (simp, rule outboxOk_updRows) (auto simp: rowKey_def dest: outboxOkD(5))

text \<open>A change of a segment that keeps its head.\<close>

lemma outboxOk_sameHead:
  assumes ok: "outboxOk M rs ss"
    and "\<And>s. segKey (f s) = segKey s \<and> sgHeadEventID (f s) = sgHeadEventID s"
  shows "outboxOk M rs (updWhere p f ss)"
proof (rule outboxOk_updSegs [OF ok])
  fix s r assume "s \<in> set ss" "r \<in> set rs" "sgHeadEventID (f s) = Some (obEventID r)"
  then show "rowKey r = segKey s" using outboxOkD(3) [OF ok] assms(2) by simp
next
  fix s r assume "s \<in> set ss" "r \<in> set rs" "rowKey r = segKey s" "obStatus r = StatusInFlight"
  then show "sgHeadEventID (f s) = Some (obEventID r)"
    using outboxOk_head [OF ok] assms(2) by metis
qed (simp add: assms(2))

lemma outboxWf_clearInflight: "outboxWf M d \<Longrightarrow> outboxWf M (clearInflight now i dev seg d)"
  unfolding outboxWf_def clearInflight_def by (simp add: outboxOk_sameHead segKey_def)

lemma nextHead_SomeD:
  assumes "nextHead now i dev seg d = Some h"
  obtains r where "r \<in> set (tOutbox d)" and "obEventID r = h" and "rowKey r = (dev, seg)"
    and "unsettled r" and "now < obExpiresAt r" and "h \<noteq> i"
proof -
  let ?xs = "filter (\<lambda>o'. rowKey o' = (dev, seg) \<and> unsettled o' \<and> now < obExpiresAt o'
             \<and> obEventID o' \<noteq> i) (tOutbox d)"
  obtain r rest where "sort_key obCreatedAt ?xs = r # rest" and "obEventID r = h"
    using assms by (auto simp: nextHead_def split: list.splits)
  then have "r \<in> set (sort_key obCreatedAt ?xs)" and h: "obEventID r = h"
    by simp_all
  then have "r \<in> set ?xs" by (simp only: set_sort)
  then show thesis using that h by auto
qed

lemma outboxWf_setHead:
  assumes wf: "outboxWf M d"
    and none: "\<And>r. r \<in> set (tOutbox d) \<Longrightarrow> rowKey r = (dev, seg) \<Longrightarrow> obStatus r = StatusInFlight \<Longrightarrow>
      h = Some (obEventID r)"
    and here: "\<And>r. r \<in> set (tOutbox d) \<Longrightarrow> h = Some (obEventID r) \<Longrightarrow> rowKey r = (dev, seg)"
  shows "outboxWf M (setHead now dev seg h d)"
  using wf unfolding outboxWf_def setHead_def
  by (simp, intro outboxOk_updSegs) (auto simp: segKey_def dest: none here)

text \<open>A new row whose id no row and no head uses.\<close>

lemma outboxOk_insert:
  assumes ok: "outboxOk M rs ss" and "0 \<le> M"
    and "obEventID r \<notin> obEventID ` set rs" and "Some (obEventID r) \<notin> sgHeadEventID ` set ss"
    and "obStatus r = StatusPending" and "obAttempts r = 0"
  shows "outboxOk M (rs @ [r]) ss"
  using assms unfolding outboxOk_def by (fastforce simp: rev_image_eqI)

lemma outboxOk_upsert:
  assumes ok: "outboxOk M rs ss"
    and same: "\<And>s. segKey s = segKey n \<Longrightarrow> segKey (f s) = segKey s"
    and newHead: "sgHeadEventID n = Some h"
    and here: "\<And>r. r \<in> set rs \<Longrightarrow> obEventID r = h \<Longrightarrow> rowKey r = segKey n"
    and hd: "\<And>s. sgHeadEventID (f s) = (case sgHeadEventID s of None \<Rightarrow> Some h | Some i \<Rightarrow> Some i)"
  shows "outboxOk M rs (upsertBy segKey f n ss)"
proof (cases "segKey n \<in> set (map segKey ss)")
  case True
  have "outboxOk M rs (updWhere (\<lambda>s. segKey s = segKey n) f ss)"
  proof (rule outboxOk_updSegs [OF ok])
    fix s r assume "s \<in> set ss" "segKey s = segKey n" "r \<in> set rs" "sgHeadEventID (f s) = Some (obEventID r)"
    then show "rowKey r = segKey s"
      using outboxOkD(3) [OF ok, of s r] here [of r] hd [of s] by (auto split: option.splits)
  next
    fix s r assume "s \<in> set ss" "r \<in> set rs" "rowKey r = segKey s" "obStatus r = StatusInFlight"
    then show "sgHeadEventID (f s) = Some (obEventID r)"
      using outboxOk_head [OF ok, of r s] hd [of s] by simp
  qed (use same in simp)
  then show ?thesis using True by (simp add: upsertBy_def)
next
  case False
  then have fresh: "\<And>s. s \<in> set ss \<Longrightarrow> segKey s \<noteq> segKey n" by (metis image_eqI set_map)
  have "outboxOk M rs (ss @ [n])"
    using ok newHead here fresh unfolding outboxOk_def isHead_def
    by (auto simp: rev_image_eqI) metis+
  then show ?thesis using False by (simp add: upsertBy_def)
qed

section \<open>Claiming\<close>

definition candKey :: "candidate \<Rightarrow> string \<times> string" where
  "candKey c = (cdDeviceID c, cdSegmentID c)"

text \<open>A candidate still describes the head it was read from.\<close>

definition candOk :: "OutboxRow list \<Rightarrow> OutboxSegment list \<Rightarrow> candidate \<Rightarrow> bool" where
  "candOk rs ss c \<longleftrightarrow>
     (\<forall>r\<in>set rs. obEventID r = cdEventID c \<longrightarrow>
        rowKey r = candKey c \<and> obCreatedAt r = cdCreatedAt c \<and> obAttempts r = cdAttempts c)
     \<and> (\<exists>s\<in>set ss. segKey s = candKey c \<and> sgHeadEventID s = Some (cdEventID c))"

definition claimReady :: "int \<Rightarrow> candidate list \<Rightarrow> database \<Rightarrow> bool" where
  "claimReady M items d \<longleftrightarrow> outboxWf M d \<and> distinct (map candKey items)
     \<and> (\<forall>c\<in>set items. candOk (tOutbox d) (tOutboxSegments d) c)"

lemma joinHeads_cand:
  assumes wf: "outboxWf M d" and c: "c \<in> set (joinHeads p d)"
  shows "candOk (tOutbox d) (tOutboxSegments d) c"
proof -
  obtain s r where s: "s \<in> set (tOutboxSegments d)" and r: "r \<in> set (tOutbox d)"
    and h: "sgHeadEventID s = Some (obEventID r)" and
    c: "cdDeviceID c = sgDeviceID s" "cdSegmentID c = sgSegmentID s" "cdEventID c = obEventID r"
      "cdCreatedAt c = obCreatedAt r" "cdAttempts c = obAttempts r"
    using c by (auto simp: joinHeads_def)
  have ok: "outboxOk M (tOutbox d) (tOutboxSegments d)" using wf by (simp add: outboxWf_def)
  have "q = r" if "q \<in> set (tOutbox d)" "obEventID q = obEventID r" for q
    by (rule distinct_map_inj [OF outboxOkD(1) [OF ok] that(1) r that(2)])
  then show ?thesis
    using outboxOkD(3) [OF ok s r h] s h c
    by (auto simp: candOk_def candKey_def segKey_def)
qed

lemma filter_unique:
  assumes "distinct (map k xs)" and "\<And>x y. P x \<Longrightarrow> P y \<Longrightarrow> k x = k y"
  shows "length (filter P xs) \<le> 1"
  using assms(1)
proof (induction xs)
  case (Cons x xs)
  have "\<not> P y" if "P x" "y \<in> set xs" for y
    using that Cons.prems assms(2) [of x y] by auto
  then have "filter P xs = []" if "P x"
    using that by (simp add: filter_empty_conv)
  then show ?case using Cons by (cases "P x") simp_all
qed simp

lemma distinct_concat_keys:
  assumes "distinct (map h ss)" and "\<And>s. distinct (map k (g s))"
    and "\<And>s x. x \<in> set (g s) \<Longrightarrow> k x = h s"
  shows "distinct (map k (concat (map g ss)))"
  using assms(1)
proof (induction ss)
  case (Cons s ss)
  have "k x \<noteq> k y" if x: "x \<in> set (g s)" and t: "t \<in> set ss" "y \<in> set (g t)" for x y t
    using assms(3) [OF x] assms(3) [OF t(2)] t(1) Cons.prems by (auto simp: rev_image_eqI)
  then show ?case using Cons assms(2) [of s] by fastforce
qed simp

lemma joinHeads_distinct:
  assumes "distinct (map obEventID (tOutbox d))" and "distinct (map segKey (tOutboxSegments d))"
  shows "distinct (map candKey (joinHeads p d))"
  unfolding joinHeads_def
proof (rule distinct_concat_keys [OF assms(2)])
  fix s
  have "length (filter (\<lambda>o'. sgHeadEventID s = Some (obEventID o') \<and> p o') (tOutbox d)) \<le> 1"
    by (rule filter_unique [OF assms(1)]) simp
  moreover have "length xs \<le> 1 \<Longrightarrow> distinct (map k (map f xs))" for k f and xs :: "OutboxRow list"
    by (cases xs) auto
  ultimately show "distinct (map candKey (map (\<lambda>o'.
       \<lparr>cdDeviceID = sgDeviceID s, cdSegmentID = sgSegmentID s, cdEventID = obEventID o',
        cdStatus = obStatus o', cdAttempts = obAttempts o', cdCreatedAt = obCreatedAt o',
        cdExpiresAt = obExpiresAt o'\<rparr>)
     (filter (\<lambda>o'. sgHeadEventID s = Some (obEventID o') \<and> p o') (tOutbox d))))" by blast
qed (auto simp: candKey_def segKey_def)

lemma limitOffset_distinct: "distinct (map k xs) \<Longrightarrow> distinct (map k (limitOffset n o' xs))"
  by (simp add: limitOffset_def flip: take_map drop_map)

lemma distinct_map_sort: "distinct (map k (sort_key g xs)) \<longleftrightarrow> distinct (map k xs)"
  by (simp add: distinct_map)

lemma claimReady_query:
  assumes wf: "outboxWf M d"
  shows "claimReady M (limitOffset n 0 (sort_key cdCreatedAt (joinHeads p d))) d"
proof -
  have "c \<in> set (joinHeads p d)" if "c \<in> set (limitOffset n 0 (sort_key cdCreatedAt (joinHeads p d)))" for c
    using that set_limitOffset_subset by fastforce
  then show ?thesis
    using wf joinHeads_cand [OF wf] joinHeads_distinct
    by (auto simp: claimReady_def limitOffset_distinct distinct_map_sort outboxWf_def outboxOkD(1,2))
qed

text \<open>A change of rows that keeps ids, keys, times and attempts keeps the candidates.\<close>

lemma candOk_updRows:
  assumes "candOk rs ss c"
    and "\<And>r. obEventID (f r) = obEventID r \<and> rowKey (f r) = rowKey r \<and> obCreatedAt (f r) = obCreatedAt r
      \<and> obAttempts (f r) = obAttempts r"
  shows "candOk (updWhere p f rs) ss c"
  using assms unfolding candOk_def by (fastforce elim: in_updWhereE split: if_splits)

lemma claimReady_dropRows:
  assumes "claimReady M items d"
  shows "claimReady M items (dropRows dev seg t reason d)"
proof -
  have "tOutboxSegments (dropRows dev seg t reason d) = tOutboxSegments d"
    by (simp add: dropRows_def)
  moreover have "candOk (tOutbox (dropRows dev seg t reason d)) ss c" if "candOk (tOutbox d) ss c" for ss c
    using that unfolding dropRows_def by (simp add: candOk_updRows rowKey_def)
  ultimately show ?thesis
    using assms by (simp add: claimReady_def outboxWf_dropRows)
qed

text \<open>Once the tail from the head on is dropped, nothing of the segment is in flight.\<close>

lemma dropRows_settles:
  assumes ready: "claimReady M (c # cs) d"
    and r: "r \<in> set (tOutbox (dropRows (cdDeviceID c) (cdSegmentID c) (cdCreatedAt c) reason d))"
      "rowKey r = candKey c"
  shows "obStatus r \<noteq> StatusInFlight"
proof
  assume inflight: "obStatus r = StatusInFlight"
  let ?d = "dropRows (cdDeviceID c) (cdSegmentID c) (cdCreatedAt c) reason d"
  have "claimReady M (c # cs) ?d" by (rule claimReady_dropRows [OF ready])
  then have ok: "outboxOk M (tOutbox ?d) (tOutboxSegments ?d)"
    and cand: "candOk (tOutbox ?d) (tOutboxSegments ?d) c"
    by (simp_all add: claimReady_def outboxWf_def)
  obtain s where s: "s \<in> set (tOutboxSegments ?d)" "segKey s = candKey c" "sgHeadEventID s = Some (cdEventID c)"
    using cand by (auto simp: candOk_def)
  have "sgHeadEventID s = Some (obEventID r)"
    by (rule outboxOk_head [OF ok r(1) inflight s(1)]) (simp only: r(2) s(2))
  then have "obCreatedAt r = cdCreatedAt c"
    using s(3) cand r(1) by (simp add: candOk_def)
  with r inflight show False
    by (auto simp: dropRows_def candKey_def unsettled_def rowKey_def elim!: in_updWhereE split: if_splits)
qed

lemma claimReady_clearSegment:
  assumes "claimReady M (c # cs) d"
    and "\<And>r. r \<in> set (tOutbox d) \<Longrightarrow> rowKey r = candKey c \<Longrightarrow> obStatus r \<noteq> StatusInFlight"
  shows "claimReady M cs (clearSegment (cdDeviceID c) (cdSegmentID c) now d)"
proof -
  have "candOk (tOutbox d) (tOutboxSegments (clearSegment (cdDeviceID c) (cdSegmentID c) now d)) c'"
    if c': "candOk (tOutbox d) (tOutboxSegments d) c'" "candKey c' \<noteq> candKey c" for c'
  proof -
    obtain s where s: "s \<in> set (tOutboxSegments d)" "segKey s = candKey c'"
        "sgHeadEventID s = Some (cdEventID c')"
      using c'(1) by (auto simp: candOk_def)
    then have "s \<in> set (tOutboxSegments (clearSegment (cdDeviceID c) (cdSegmentID c) now d))"
      using c'(2) by (auto simp: clearSegment_def set_updWhere candKey_def intro!: exI [of _ s])
    then show ?thesis using c'(1) s unfolding candOk_def by blast
  qed
  moreover have "candKey c' \<noteq> candKey c" if "c' \<in> set cs" for c'
    using assms(1) that by (auto simp: claimReady_def intro: rev_image_eqI)
  moreover have "outboxWf M (clearSegment (cdDeviceID c) (cdSegmentID c) now d)"
    by (rule outboxWf_clearSegment) (use assms in \<open>auto simp: claimReady_def candKey_def\<close>)
  moreover have "tOutbox (clearSegment (cdDeviceID c) (cdSegmentID c) now d) = tOutbox d"
    by (simp add: clearSegment_def)
  ultimately show ?thesis
    using assms(1) by (simp add: claimReady_def)
qed

lemma claimReady_wf: "claimReady M cs d \<Longrightarrow> outboxWf M d"
  by (simp add: claimReady_def)

lemma hoare_dropSegmentTail:
  "hoare (dbInv (claimReady M (c # cs)))
     (dropSegmentTail env (cdDeviceID c) (cdSegmentID c) (cdCreatedAt c) now reason)
     (\<lambda>_. dbInv (claimReady M cs)) (dbInv (outboxWf M))"
  unfolding dropSegmentTail_def
proof (rule hoare_andThen)
  let ?R = "\<lambda>d. claimReady M (c # cs) d
    \<and> (\<forall>r\<in>set (tOutbox d). rowKey r = candKey c \<longrightarrow> obStatus r \<noteq> StatusInFlight)"
  show "hoare (dbInv (claimReady M (c # cs)))
      (wrapErr ''drop outbox tail''
        (sqlExec env (dropRows (cdDeviceID c) (cdSegmentID c) (cdCreatedAt c) reason)))
      (\<lambda>_. dbInv ?R) (dbInv (outboxWf M))"
    by (intro hoare_wrapErr hoare_sqlExec conjI ballI impI)
      (auto intro: claimReady_dropRows claimReady_wf dest: dropRows_settles)
  show "hoare (dbInv ?R)
      (wrapErr ''clear dropped outbox segment''
        (sqlExec env (clearSegment (cdDeviceID c) (cdSegmentID c) now)))
      (\<lambda>_. dbInv (claimReady M cs)) (dbInv (outboxWf M))"
    by (intro hoare_wrapErr hoare_sqlExec) (auto intro: claimReady_clearSegment claimReady_wf)
qed

text \<open>Sending a candidate's event.\<close>

definition markRows :: "time \<Rightarrow> duration \<Rightarrow> candidate \<Rightarrow> OutboxRow list \<Rightarrow> OutboxRow list" where
  "markRows now ackTimeout c rs =
     updWhere (\<lambda>o'. obEventID o' = cdEventID c) (markInFlight now (now + ackTimeout)) rs"

lemma markInFlight_same [simp]:
  "obEventID (markInFlight now u r) = obEventID r" "rowKey (markInFlight now u r) = rowKey r"
  "obCreatedAt (markInFlight now u r) = obCreatedAt r" "obAttempts (markInFlight now u r) = obAttempts r + 1"
  by (simp_all add: markInFlight_def rowKey_def)

lemma outboxOk_markRows:
  assumes ok: "outboxOk M rs ss" and cand: "candOk rs ss c" and att: "cdAttempts c + 1 \<le> M"
  shows "outboxOk M (markRows now u c rs) ss"
  unfolding markRows_def
proof (rule outboxOk_updRows [OF ok])
  fix r assume r: "r \<in> set rs" "obEventID r = cdEventID c"
  then show "isHead ss r" using cand by (auto simp: candOk_def isHead_def)
  show "0 \<le> obAttempts (markInFlight now (now + u) r) \<and> obAttempts (markInFlight now (now + u) r) \<le> M"
    using r cand att outboxOkD(5) [OF ok r(1)] by (simp add: candOk_def)
qed simp

lemma candOk_markRows:
  assumes "candOk rs ss c" and "candOk rs ss c'" and "candKey c' \<noteq> candKey c"
  shows "candOk (markRows now u c rs) ss c'"
proof -
  have "obEventID r \<noteq> cdEventID c" if "r \<in> set rs" "obEventID r = cdEventID c'" for r
    using that assms by (auto simp: candOk_def)
  then show ?thesis
    using assms(2) unfolding candOk_def markRows_def
    by (fastforce elim!: in_updWhereE split: if_splits)
qed

lemma claimReady_markRows:
  assumes ready: "claimReady M (c # cs) d" and att: "cdAttempts c + 1 \<le> M"
  shows "claimReady M cs (d\<lparr>tOutbox := markRows now u c (tOutbox d)\<rparr>)"
proof -
  have "candKey c' \<noteq> candKey c" if "c' \<in> set cs" for c'
    using ready that by (auto simp: claimReady_def intro: rev_image_eqI)
  then show ?thesis
    using ready att by (auto simp: claimReady_def outboxWf_def outboxOk_markRows candOk_markRows)
qed

lemma claimReady_sameHead:
  assumes "claimReady M cs d"
    and "\<And>s. segKey (f s) = segKey s \<and> sgHeadEventID (f s) = sgHeadEventID s"
  shows "claimReady M cs (d\<lparr>tOutboxSegments := updWhere p f (tOutboxSegments d)\<rparr>)"
proof -
  have "candOk rs (updWhere p f ss) c" if cand: "candOk rs ss c" for rs ss c
  proof -
    obtain s where s: "s \<in> set ss" "segKey s = candKey c" "sgHeadEventID s = Some (cdEventID c)"
      using cand by (auto simp: candOk_def)
    then have "(if p s then f s else s) \<in> set (updWhere p f ss)"
      by (auto simp: set_updWhere)
    moreover have "segKey (if p s then f s else s) = candKey c
        \<and> sgHeadEventID (if p s then f s else s) = Some (cdEventID c)"
      using s assms(2) by simp
    ultimately show ?thesis
      using cand unfolding candOk_def by blast
  qed
  then show ?thesis
    using assms by (simp add: claimReady_def outboxWf_def outboxOk_sameHead)
qed

lemma keeps_scanOutboxEvent [keeps_intros]: "keeps I (scanOutboxEvent env row)"
  unfolding scanOutboxEvent_def by (intro keeps_intros)

lemma hoare_claimOne:
  assumes "cdAttempts c + 1 \<le> M"
  shows "hoare (dbInv (claimReady M (c # cs))) (claimOne env now u c)
     (\<lambda>_. dbInv (claimReady M cs)) (dbInv (outboxWf M))"
  unfolding claimOne_def
proof (rule hoare_andThen)
  let ?Q = "\<lambda>_. dbInv (claimReady M cs)" and ?E = "dbInv (outboxWf M)"
  show "hoare (dbInv (claimReady M (c # cs))) (wrapErr ''scan outbox event'' (sql env (\<lambda>d.
       let rows = updWhere (\<lambda>o'. obEventID o' = cdEventID c) (markInFlight now (now + u)) (tOutbox d)
       in Inr (find (\<lambda>o'. obEventID o' = cdEventID c) rows, d\<lparr>tOutbox := rows\<rparr>)))) ?Q ?E"
    by (intro hoare_wrapErr hoare_sql)
      (auto simp: Let_def markRows_def [symmetric] intro: claimReady_wf claimReady_markRows [OF _ assms])
  fix row
  show "hoare (?Q row) (andThen (scanOutboxEvent env row) (\<lambda>event.
     andThen (wrapErr ''mark segment inflight'' (sqlExec env (\<lambda>d. d\<lparr>tOutboxSegments :=
       updWhere (\<lambda>s. segKey s = (cdDeviceID c, cdSegmentID c))
         (\<lambda>s. s\<lparr>sgInflightEventID := Some (cdEventID c), sgUpdatedAt := now\<rparr>)
         (tOutboxSegments d)\<rparr>))) (\<lambda>_. ret event))) ?Q ?E"
  proof (rule hoare_andThen)
    show "hoare (?Q row) (scanOutboxEvent env row) ?Q ?E"
      using keeps_scanOutboxEvent [of "?Q row" env row]
      by (auto simp: keeps_hoare dbInv_def elim!: hoare_weaken intro: claimReady_wf)
    show "hoare (?Q event) (andThen (wrapErr ''mark segment inflight'' (sqlExec env (\<lambda>d. d\<lparr>tOutboxSegments :=
       updWhere (\<lambda>s. segKey s = (cdDeviceID c, cdSegmentID c))
         (\<lambda>s. s\<lparr>sgInflightEventID := Some (cdEventID c), sgUpdatedAt := now\<rparr>)
         (tOutboxSegments d)\<rparr>))) (\<lambda>_. ret event)) ?Q ?E" for event
      by (rule hoare_andThen [where R = ?Q])
        (auto intro!: hoare_wrapErr hoare_sqlExec hoare_ret claimReady_sameHead
          intro: claimReady_wf simp: segKey_def)
  qed
qed

lemma hoare_claimLoop:
  "hoare (dbInv (claimReady M cs)) (claimLoop env now u M cs)
     (\<lambda>_. dbInv (outboxWf M)) (dbInv (outboxWf M))"
proof (induction cs)
  case Nil
  then show ?case
    by (auto intro: hoare_pre [OF hoare_ret] simp: dbInv_def claimReady_wf)
next
  case (Cons c cs)
  have "hoare (dbInv (claimReady M (c # cs))) (andThen (claimOne env now u c) (\<lambda>event.
      andThen (claimLoop env now u M cs) (\<lambda>events. ret (event # events))))
      (\<lambda>_. dbInv (outboxWf M)) (dbInv (outboxWf M))" if "cdAttempts c + 1 \<le> M"
    by (rule hoare_andThen [OF hoare_claimOne [OF that]],
        rule hoare_andThen [where R = "\<lambda>_. dbInv (outboxWf M)"], rule Cons.IH, rule hoare_ret)
  then show ?case
    by (auto simp: exhausted_def intro: hoare_andThen hoare_dropSegmentTail Cons.IH)
qed

lemma keeps_ClaimPending:
  "keeps (dbInv (outboxWf M)) (ClaimPending env ctx now n u M)"
proof -
  have "hoare (dbInv (outboxWf M))
      (andThen (wrapErr ''select outbox segments'' (sqlQuery env (claimCandidates now n)))
        (claimLoop env now u M)) (\<lambda>_. dbInv (outboxWf M)) (dbInv (outboxWf M))"
    by (rule hoare_andThen [where R = "\<lambda>cs. dbInv (claimReady M cs)"])
      (auto intro!: hoare_wrapErr hoare_sqlQuery hoare_claimLoop
        simp: claimCandidates_def claimReady_query)
  then show ?thesis
    unfolding ClaimPending_def by (intro keeps_if keeps_ret keeps_fail) (simp add: keeps_hoare)
qed

lemma keeps_DropExpiredHeads: "keeps (dbInv (outboxWf M)) (DropExpiredHeads env now n)"
  unfolding DropExpiredHeads_def keeps_hoare
proof (rule hoare_andThen [where R = "\<lambda>cs. dbInv (claimReady M cs)"])
  show "hoare (dbInv (outboxWf M)) (wrapErr ''query expired outbox heads'' (sqlQuery env (expiredHeads now n)))
      (\<lambda>cs. dbInv (claimReady M cs)) (dbInv (outboxWf M))"
    by (intro hoare_wrapErr hoare_sqlQuery) (simp_all add: expiredHeads_def claimReady_query)
  show "hoare (dbInv (claimReady M cs)) (andThen (forEach (\<lambda>c. dropSegmentTail env (cdDeviceID c)
      (cdSegmentID c) (cdCreatedAt c) now ''expired_head'') cs) (\<lambda>_. ret (int (length cs))))
      (\<lambda>_. dbInv (outboxWf M)) (dbInv (outboxWf M))" for cs
    by (rule hoare_andThen, rule hoare_forEach [where L = "\<lambda>cs. dbInv (claimReady M cs)"],
        rule hoare_dropSegmentTail)
      (auto intro: hoare_pre [OF hoare_ret] simp: dbInv_def claimReady_wf)
qed

lemma keeps_DeleteTerminal: "keeps (dbInv (outboxWf M)) (DeleteTerminal env st t n)"
  unfolding DeleteTerminal_def
  by (intro keeps_intros) (auto simp: Let_def outboxWf_def intro: outboxOk_delRows)

section \<open>Acknowledging\<close>

definition settledHead :: "int \<Rightarrow> string \<Rightarrow> string \<Rightarrow> database \<Rightarrow> bool" where
  "settledHead M dev seg d \<longleftrightarrow> outboxWf M d
     \<and> (\<forall>r\<in>set (tOutbox d). rowKey r = (dev, seg) \<longrightarrow> obStatus r \<noteq> StatusInFlight)"

lemma settledHeadI:
  assumes wf: "outboxWf M d" and acked: "\<forall>r\<in>set (tOutbox d). obEventID r = i \<longrightarrow> obStatus r = StatusAcked"
    and head: "map_option (\<lambda>s. case sgHeadEventID s of None \<Rightarrow> uuidNil | Some h \<Rightarrow> h)
      (find (\<lambda>s. segKey s = (dev, seg)) (tOutboxSegments d)) = Some i"
  shows "settledHead M dev seg d"
proof -
  have ok: "outboxOk M (tOutbox d) (tOutboxSegments d)" using wf by (simp add: outboxWf_def)
  obtain s where s: "find (\<lambda>s. segKey s = (dev, seg)) (tOutboxSegments d) = Some s"
    and i: "i = (case sgHeadEventID s of None \<Rightarrow> uuidNil | Some h \<Rightarrow> h)"
    using head by auto
  have "obStatus r \<noteq> StatusInFlight" if r: "r \<in> set (tOutbox d)" "rowKey r = (dev, seg)" for r
  proof
    assume "obStatus r = StatusInFlight"
    moreover have "s \<in> set (tOutboxSegments d)" "segKey s = (dev, seg)"
      using find_Some_in [OF s] by auto
    ultimately have "sgHeadEventID s = Some (obEventID r)"
      using outboxOk_head [OF ok r(1)] r(2) by simp
    then show False using i acked r(1) \<open>obStatus r = StatusInFlight\<close> by auto
  qed
  then show ?thesis using wf by (simp add: settledHead_def)
qed

lemma outboxWf_advance:
  assumes "settledHead M dev seg d"
  shows "outboxWf M (setHead now dev seg (nextHead now i dev seg d) d)"
proof (rule outboxWf_setHead)
  show "outboxWf M d" using assms by (simp add: settledHead_def)
  fix r assume r: "r \<in> set (tOutbox d)"
  show "nextHead now i dev seg d = Some (obEventID r)"
    if "rowKey r = (dev, seg)" "obStatus r = StatusInFlight"
    using assms that r by (simp add: settledHead_def)
  assume "nextHead now i dev seg d = Some (obEventID r)"
  then obtain q where q: "q \<in> set (tOutbox d)" "obEventID q = obEventID r" "rowKey q = (dev, seg)"
    by (rule nextHead_SomeD)
  moreover have "distinct (map obEventID (tOutbox d))"
    using assms by (auto simp: settledHead_def outboxWf_def dest: outboxOkD(1))
  ultimately show "rowKey r = (dev, seg)" using distinct_map_inj [of obEventID "tOutbox d" q r] r by simp
qed

lemma hoare_case_found:
  assumes "hoare P m Q E" and "\<And>x. hoare P (f x) Q E"
  shows "hoare P (case r of None \<Rightarrow> m | Some x \<Rightarrow> f x) Q E"
  using assms by (cases r) auto

lemma keeps_AcknowledgeOutbox:
  "keeps (dbInv (outboxWf M)) (AcknowledgeOutbox env ctx now i dev seg)"
proof -
  let ?W = "dbInv (outboxWf M)"
  let ?acked = "\<lambda>d. outboxWf M d \<and> (\<forall>r\<in>set (tOutbox d). obEventID r = i \<longrightarrow> obStatus r = StatusAcked)"
  have advance: "hoare (dbInv (settledHead M dev sid)) (andThen
      (wrapErr ''select next outbox head'' (sqlQuery env (nextHead now i dev sid))) (\<lambda>n.
      wrapErr ''advance outbox head'' (sqlExec env (setHead now dev sid n)))) (\<lambda>_. ?W) ?W" for sid
    by (rule hoare_andThen [where R = "\<lambda>n. dbInv (\<lambda>d. settledHead M dev sid d \<and> n = nextHead now i dev sid d)"])
      (auto intro!: hoare_wrapErr hoare_sqlQuery hoare_sqlExec outboxWf_advance simp: settledHead_def)
  have clear: "hoare (dbInv ?acked) (wrapErr ''clear non-head inflight outbox event''
      (sqlExec env (clearInflight now i dev sid))) (\<lambda>_. ?W) ?W" for sid
    by (intro hoare_wrapErr hoare_sqlExec) (auto intro: outboxWf_clearInflight)
  have ackRow: "hoare ?W (wrapErr ''ack outbox event'' (sqlExec env (ackRow now i))) (\<lambda>_. dbInv ?acked) ?W"
    by (intro hoare_wrapErr hoare_sqlExec conjI outboxWf_ackRow)
      (auto simp: ackRow_def elim!: in_updWhereE split: if_splits)
  have rest: "hoare (dbInv ?acked) (andThen (wrapErr ''select outbox head'' (sqlQuery env (\<lambda>d.
        map_option (\<lambda>s. case sgHeadEventID s of None \<Rightarrow> uuidNil | Some h \<Rightarrow> h)
          (find (\<lambda>s. segKey s = (dev, sid)) (tOutboxSegments d))))) (\<lambda>headEventID.
      if headEventID \<noteq> Some i
      then wrapErr ''clear non-head inflight outbox event'' (sqlExec env (clearInflight now i dev sid))
      else andThen (wrapErr ''select next outbox head'' (sqlQuery env (nextHead now i dev sid)))
        (\<lambda>n. wrapErr ''advance outbox head'' (sqlExec env (setHead now dev sid n))))) (\<lambda>_. ?W) ?W" for sid
    by (rule hoare_andThen [where R = "\<lambda>h. dbInv (\<lambda>d. ?acked d \<and> (h = Some i \<longrightarrow> settledHead M dev sid d))"])
      (auto intro!: hoare_wrapErr hoare_sqlQuery hoare_if hoare_pre [OF advance] hoare_pre [OF clear]
        settledHeadI simp: dbInv_def)
  show ?thesis
    unfolding AcknowledgeOutbox_def keeps_hoare
    by (intro hoare_if hoare_andThen [where R = "\<lambda>_. ?W"] hoare_case_found
        hoare_ret hoare_andThen [OF ackRow rest])
      (auto intro: hoare_fail hoare_ret hoare_wrapErr hoare_sqlQuery)
qed

section \<open>Enqueueing\<close>

text \<open>The ids the outbox rows of an event get are in use nowhere yet. They are name-based UUIDs of the
  event's random UUID and the device, so two of them differ unless \<^verbatim>\<open>google/uuid\<close> repeats
  itself or SHA-1 collides.\<close>

definition freshIDs :: "env \<Rightarrow> uuid \<Rightarrow> string list \<Rightarrow> database \<Rightarrow> bool" where
  "freshIDs env i devs d \<longleftrightarrow> distinct (map (outboxEventID env i) devs)
     \<and> (\<forall>dev\<in>set devs. outboxEventID env i dev \<notin> obEventID ` set (tOutbox d)
          \<and> Some (outboxEventID env i dev) \<notin> sgHeadEventID ` set (tOutboxSegments d))"

definition freshEvent :: "env \<Rightarrow> Event \<Rightarrow> database \<Rightarrow> bool" where
  "freshEvent env event d \<longleftrightarrow>
     freshIDs env (evEventID event) (targetDevices env (evUserPublicKey event) d) d"

definition enqReady :: "int \<Rightarrow> env \<Rightarrow> uuid \<Rightarrow> string list \<Rightarrow> database \<Rightarrow> bool" where
  "enqReady M env i devs d \<longleftrightarrow> outboxWf M d \<and> freshIDs env i devs d"

lemma outboxRow_sel [simp]:
  "obEventID (outboxRow env e p dev) = outboxEventID env (evEventID e) dev"
  "obDeviceID (outboxRow env e p dev) = dev" "obSegmentID (outboxRow env e p dev) = outboxSegmentID e"
  "obStatus (outboxRow env e p dev) = StatusPending" "obAttempts (outboxRow env e p dev) = 0"
  "rowKey (outboxRow env e p dev) = (dev, outboxSegmentID e)"
  by (simp_all add: outboxRow_def rowKey_def)

lemma outboxOk_pushSegment:
  assumes "outboxOk M rs ss" and "\<And>r. r \<in> set rs \<Longrightarrow> obEventID r = obEventID row \<Longrightarrow> rowKey r = rowKey row"
  shows "outboxOk M rs (pushSegment row ss)"
  unfolding pushSegment_def
  by (rule outboxOk_upsert [OF assms(1), where h = "obEventID row"])
    (use assms(2) in \<open>auto simp: segKey_def rowKey_def split: option.splits\<close>)

lemma heads_pushSegment:
  assumes "Some i \<in> sgHeadEventID ` set (pushSegment row ss)"
  shows "i = obEventID row \<or> Some i \<in> sgHeadEventID ` set ss"
  using assms unfolding pushSegment_def upsertBy_def
  by (auto simp: set_updWhere rev_image_eqI split: if_splits option.splits)

lemma freshIDs_pushSegment:
  assumes "freshIDs env i devs d" and "obEventID row \<notin> outboxEventID env i ` set devs"
  shows "freshIDs env i devs (d\<lparr>tOutboxSegments := pushSegment row (tOutboxSegments d)\<rparr>)"
proof -
  have "Some (outboxEventID env i dev) \<notin> sgHeadEventID ` set (pushSegment row (tOutboxSegments d))"
    if "dev \<in> set devs" for dev
    using that assms heads_pushSegment [of "outboxEventID env i dev" row "tOutboxSegments d"]
    unfolding freshIDs_def by (metis image_eqI)
  then show ?thesis using assms(1) by (simp add: freshIDs_def)
qed

lemma hoare_enqueueFor:
  assumes "0 \<le> M"
  shows "hoare (dbInv (enqReady M env (evEventID e) (dev # devs))) (enqueueFor env e p dev)
     (\<lambda>_. dbInv (enqReady M env (evEventID e) devs)) (dbInv (outboxWf M))"
  unfolding enqueueFor_def
proof (rule hoare_andThen)
  let ?i = "outboxEventID env (evEventID e)"
  let ?R = "\<lambda>d. enqReady M env (evEventID e) devs d \<and> ?i dev \<notin> ?i ` set devs
    \<and> (\<forall>r\<in>set (tOutbox d). obEventID r = ?i dev \<longrightarrow> rowKey r = (dev, outboxSegmentID e))"
  show "hoare (dbInv (enqReady M env (evEventID e) (dev # devs)))
      (wrapErr ''insert outbox event'' (insertOutbox env (outboxRow env e p dev)))
      (\<lambda>_. dbInv ?R) (dbInv (outboxWf M))"
    unfolding insertOutbox_def
    by (intro hoare_wrapErr hoare_sql)
      (auto simp: checkAll_Inr enqReady_def outboxWf_def freshIDs_def intro!: outboxOk_insert assms
        intro: rev_image_eqI)
  show "hoare (dbInv ?R) (wrapErr ''upsert outbox segment'' (upsertSegment env (outboxRow env e p dev)))
      (\<lambda>_. dbInv (enqReady M env (evEventID e) devs)) (dbInv (outboxWf M))"
    unfolding upsertSegment_def
    by (intro hoare_wrapErr hoare_sqlExec)
      (auto simp: enqReady_def outboxWf_def intro!: outboxOk_pushSegment freshIDs_pushSegment)
qed

lemma hoare_appendOutbox:
  assumes "0 \<le> M"
  shows "hoare (dbInv (\<lambda>d. outboxWf M d \<and> freshEvent env e d)) (appendOutbox env e)
     (\<lambda>_. dbInv (outboxWf M)) (dbInv (outboxWf M))"
  unfolding appendOutbox_def
proof (rule hoare_andThen)
  show "hoare (dbInv (\<lambda>d. outboxWf M d \<and> freshEvent env e d)) (listTargetDeviceIDs env (evUserPublicKey e))
      (\<lambda>devs. dbInv (enqReady M env (evEventID e) devs)) (dbInv (outboxWf M))"
    unfolding listTargetDeviceIDs_def
    by (intro hoare_wrapErr hoare_sqlQuery) (simp_all add: enqReady_def freshEvent_def)
  have enq: "hoare (dbInv (enqReady M env (evEventID e) devs)) (forEach (enqueueFor env e p) devs)
      (\<lambda>_. dbInv (outboxWf M)) (dbInv (outboxWf M))" for p devs
    by (rule hoare_weaken [OF hoare_forEach [where L = "\<lambda>devs. dbInv (enqReady M env (evEventID e) devs)",
            OF hoare_enqueueFor [OF assms]]])
      (simp_all add: dbInv_def enqReady_def)
  show "hoare (dbInv (enqReady M env (evEventID e) devs)) (if devs = [] then ret () else
      case eCborPayload env (evPayload e) of
        None \<Rightarrow> fail (ErrWrap ''marshal outbox payload'' (ErrMsg ''cbor''))
      | Some payload \<Rightarrow> forEach (enqueueFor env e payload) devs)
      (\<lambda>_. dbInv (outboxWf M)) (dbInv (outboxWf M))" for devs
    by (intro hoare_if hoare_case_found enq hoare_pre [OF hoare_ret] hoare_pre [OF hoare_fail])
      (simp_all add: dbInv_def enqReady_def)
qed

end
