(* ===== verification/AuthRepo.thy ===== *)
theory AuthRepo
  imports OutboxInv
begin

text \<open>
  Sessions, event subscriptions and user events:
  \<^verbatim>\<open>repository/postgres/auth_repository.go\<close>, with the JSON form in which an event's payload is
  stored, and the decorator of \<^verbatim>\<open>platform/eventbus/notifying_events.go\<close> that wakes the bus after an append.
\<close>

section \<open>Payloads as JSON\<close>

text \<open>A number read back from JSON is a \<^verbatim>\<open>float64\<close>: integers beyond 53 bits are rounded to the
  nearest, ties to even.\<close>

function shiftsTo53 :: "nat \<Rightarrow> nat" where
  "shiftsTo53 m = (if m < 9007199254740992 then 0 else Suc (shiftsTo53 (m div 2)))"
  by auto
termination by (relation "measure id") auto

declare shiftsTo53.simps [simp del]

definition roundFloat64 :: "int \<Rightarrow> int" where
  "roundFloat64 x =
     (let m = nat \<bar>x\<bar>; e = shiftsTo53 m; q = m div 2 ^ e; r = m mod 2 ^ e;
          up = 2 ^ e < 2 * r \<or> 2 ^ e = 2 * r \<and> odd q
      in sgn x * int ((if up then q + 1 else q) * 2 ^ e))"

lemma roundFloat64_exact: "\<bar>x\<bar> < 9007199254740992 \<Longrightarrow> roundFloat64 x = x"
proof -
  assume "\<bar>x\<bar> < 9007199254740992"
  then have "shiftsTo53 (nat \<bar>x\<bar>) = 0" by (subst shiftsTo53.simps) (simp add: nat_less_iff)
  then show ?thesis by (simp add: roundFloat64_def Let_def mult_sgn_abs)
qed

definition jsonBytes :: "bytes option \<Rightarrow> any" where
  "jsonBytes s = (case s of None \<Rightarrow> GNil | Some b \<Rightarrow> GString (stdEncode b))"

text \<open>What \<^verbatim>\<open>json.Unmarshal\<close> yields for what \<^verbatim>\<open>json.Marshal\<close> wrote; a map with keys of type
  \<^verbatim>\<open>any\<close> is not supported.\<close>

fun jsonValue :: "env \<Rightarrow> any \<Rightarrow> any option"
  and jsonList :: "env \<Rightarrow> any list \<Rightarrow> any list option"
  and jsonMap :: "env \<Rightarrow> (string \<times> any) list \<Rightarrow> payload option"
  and jsonMaps :: "env \<Rightarrow> (string \<times> any) list list \<Rightarrow> any list option" where
  "jsonValue env GNil = Some GNil"
| "jsonValue env (GBool b) = Some (GBool b)"
| "jsonValue env (GInt i) = Some (GFloat64 (roundFloat64 i))"
| "jsonValue env (GInt32 i) = Some (GFloat64 (roundFloat64 i))"
| "jsonValue env (GInt64 i) = Some (GFloat64 (roundFloat64 i))"
| "jsonValue env (GUint i) = Some (GFloat64 (roundFloat64 i))"
| "jsonValue env (GUint16 i) = Some (GFloat64 (roundFloat64 i))"
| "jsonValue env (GUint32 i) = Some (GFloat64 (roundFloat64 i))"
| "jsonValue env (GUint64 i) = Some (GFloat64 (roundFloat64 i))"
| "jsonValue env (GFloat64 i) = Some (GFloat64 (roundFloat64 i))"
| "jsonValue env (GString s) = Some (GString s)"
| "jsonValue env GNilBytes = Some GNil"
| "jsonValue env (GBytes b) = Some (GString (stdEncode b))"
| "jsonValue env (GUUID u) = Some (GString (eUuidString env u))"
| "jsonValue env (GTime t) = Some (GString (eRFC3339 env t))"
| "jsonValue env (GList xs) = map_option GList (jsonList env xs)"
| "jsonValue env (GByteSlices xs) = Some (GList (map jsonBytes xs))"
| "jsonValue env (GMap m) = map_option GMap (jsonMap env m)"
| "jsonValue env (GMapList ms) = map_option GList (jsonMaps env ms)"
| "jsonValue env (GMapAny m) = None"
| "jsonList env [] = Some []"
| "jsonList env (x # xs) = (case (jsonValue env x, jsonList env xs) of
     (Some y, Some ys) \<Rightarrow> Some (y # ys) | _ \<Rightarrow> None)"
| "jsonMap env [] = Some []"
| "jsonMap env ((k, x) # xs) = (case (jsonValue env x, jsonMap env xs) of
     (Some y, Some ys) \<Rightarrow> Some ((k, y) # ys) | _ \<Rightarrow> None)"
| "jsonMaps env [] = Some []"
| "jsonMaps env (m # ms) = (case (jsonMap env m, jsonMaps env ms) of
     (Some y, Some ys) \<Rightarrow> Some (GMap y # ys) | _ \<Rightarrow> None)"

section \<open>Sessions\<close>

text \<open>\<^verbatim>\<open>COALESCE(host(NULLIF(x, '')::inet), '')\<close>: the text the address is read back as.\<close>

definition inetText :: "env \<Rightarrow> string \<Rightarrow> string option" where
  "inetText env ip = (if ip = [] then Some [] else eInet env ip)"

definition CreateSession :: "env \<Rightarrow> Session \<Rightarrow> unit io" where
  "CreateSession env session = wrapErr ''insert auth session'' (sql env (\<lambda>d.
     case inetText env (sesClaimedPublicIP session) of
       None \<Rightarrow> Inl DriverFault
     | Some ip \<Rightarrow> checkAll
         [(length (sesUserPublicKey session) = 32, CheckViolation),
          (sesClientNonce session \<noteq> [], CheckViolation),
          (sesChallengePayload session \<noteq> [], CheckViolation),
          (sesSessionID session \<notin> sesSessionID ` set (tAuthSessions d), UniqueViolation)]
         (\<lambda>d. d\<lparr>tAuthSessions := tAuthSessions d @ [session\<lparr>sesClaimedPublicIP := ip\<rparr>]\<rparr>) d))"

definition GetSession :: "env \<Rightarrow> uuid \<Rightarrow> Session io" where
  "GetSession env sessionID =
     andThen (wrapErr ''select auth session''
       (sqlQuery env (\<lambda>d. find (\<lambda>s. sesSessionID s = sessionID) (tAuthSessions d))))
     (\<lambda>row. case row of None \<Rightarrow> fail ErrSessionNotFound | Some session \<Rightarrow> ret session)"

definition markSession :: "time \<Rightarrow> Session \<Rightarrow> Session" where
  "markSession t s = s\<lparr>sesIsAuthenticated := True, sesAuthenticatedAt := Some t, sesUpdatedAt := t\<rparr>"

definition MarkAuthenticated :: "env \<Rightarrow> uuid \<Rightarrow> time \<Rightarrow> Session io" where
  "MarkAuthenticated env sessionID authenticatedAt =
     andThen (wrapErr ''mark auth session authenticated'' (sql env (\<lambda>d.
       let rows = updWhere (\<lambda>s. sesSessionID s = sessionID) (markSession authenticatedAt) (tAuthSessions d)
       in Inr (find (\<lambda>s. sesSessionID s = sessionID) rows, d\<lparr>tAuthSessions := rows\<rparr>))))
     (\<lambda>row. case row of None \<Rightarrow> fail ErrSessionNotFound | Some session \<Rightarrow> ret session)"

definition touchedProfile :: "bytes \<Rightarrow> time \<Rightarrow> ProfileRow" where
  "touchedProfile publicKey t =
     \<lparr>prPublicKey = publicKey, prUsername = None, prDisplayName = None, prBio = None, prAvatarHash = None,
      prAvatarBytes = None, prAvatarContentType = None, prLastSeenAt = t, prCreatedAt = t,
      prUpdatedAt = t, prDeletedAt = None\<rparr>"

definition TouchProfile :: "env \<Rightarrow> bytes \<Rightarrow> time \<Rightarrow> unit io" where
  "TouchProfile env publicKey lastSeenAt = wrapErr ''touch profile'' (sqlExec env (\<lambda>d.
     d\<lparr>tProfiles := upsertBy prPublicKey
        (\<lambda>p. p\<lparr>prLastSeenAt := lastSeenAt, prUpdatedAt := lastSeenAt\<rparr>)
        (touchedProfile publicKey lastSeenAt) (tProfiles d)\<rparr>))"

text \<open>The subscriptions of a deleted session go with it; its devices forget it.\<close>

definition deleteSessions :: "(Session \<Rightarrow> bool) \<Rightarrow> database \<Rightarrow> database" where
  "deleteSessions p d =
     (let gone = sesSessionID ` {s \<in> set (tAuthSessions d). p s}
      in d\<lparr>tAuthSessions := delWhere p (tAuthSessions d),
           tEventSubscriptions := delWhere (\<lambda>s. subSessionID s \<in> gone) (tEventSubscriptions d),
           tDevices := updWhere (\<lambda>v. \<exists>i\<in>gone. dvSessionID v = Some i) (\<lambda>v. v\<lparr>dvSessionID := None\<rparr>)
                         (tDevices d)\<rparr>)"

definition DeleteExpiredSessions :: "env \<Rightarrow> time \<Rightarrow> int io" where
  "DeleteExpiredSessions env now = wrapErr ''delete expired auth sessions'' (sql env (\<lambda>d.
     Inr (countWhere (\<lambda>s. sesExpiresAt s \<le> now) (tAuthSessions d),
          deleteSessions (\<lambda>s. sesExpiresAt s \<le> now) d)))"

section \<open>Subscriptions\<close>

definition CreateSubscription :: "env \<Rightarrow> Subscription \<Rightarrow> unit io" where
  "CreateSubscription env subscription = wrapErr ''insert event subscription'' (sql env (\<lambda>d. checkAll
     [(length (subUserPublicKey subscription) = 32, CheckViolation),
      (subSubscriptionID subscription \<notin> subSubscriptionID ` set (tEventSubscriptions d), UniqueViolation),
      (subSessionID subscription \<in> sesSessionID ` set (tAuthSessions d), ForeignKeyViolation)]
     (\<lambda>d. d\<lparr>tEventSubscriptions := tEventSubscriptions d @ [subscription]\<rparr>) d))"

definition DeactivateSubscription :: "env \<Rightarrow> uuid \<Rightarrow> time \<Rightarrow> unit io" where
  "DeactivateSubscription env subscriptionID unsubscribedAt =
     andThen (wrapErr ''deactivate event subscription'' (sql env (\<lambda>d.
       let p = (\<lambda>s. subSubscriptionID s = subscriptionID \<and> subUnsubscribedAt s = None)
       in Inr (countWhere p (tEventSubscriptions d),
               d\<lparr>tEventSubscriptions := updWhere p (\<lambda>s. s\<lparr>subUnsubscribedAt := Some unsubscribedAt\<rparr>)
                   (tEventSubscriptions d)\<rparr>))))
     (\<lambda>rowsAffected. if rowsAffected = 0 then fail ErrSubscriptionNotFound else ret ())"

section \<open>Events\<close>

definition insertEvent :: "env \<Rightarrow> Event \<Rightarrow> unit io" where
  "insertEvent env row = sql env (\<lambda>d. checkAll
     [(length (evUserPublicKey row) = 32, CheckViolation),
      (evEventID row \<notin> evEventID ` set (tUserEvents d), UniqueViolation)]
     (\<lambda>d. d\<lparr>tUserEvents := tUserEvents d @ [row]\<rparr>) d)"

definition Append :: "env \<Rightarrow> Event \<Rightarrow> unit io" where
  "Append env event =
     (case jsonMap env (evPayload event) of
        None \<Rightarrow> fail (ErrWrap ''marshal event payload'' (ErrMsg ''json: unsupported type''))
      | Some payload \<Rightarrow>
          andThen (wrapErr ''insert user event'' (insertEvent env (event\<lparr>evPayload := payload\<rparr>)))
            (\<lambda>_. appendOutbox env event))"

definition pendingEvent :: "bytes \<Rightarrow> time \<Rightarrow> time \<Rightarrow> Event \<Rightarrow> bool" where
  "pendingEvent userPublicKey now redeliverBefore e \<longleftrightarrow>
     evUserPublicKey e = userPublicKey
     \<and> (case evDeliveredAt e of None \<Rightarrow> True | Some t \<Rightarrow> t \<le> redeliverBefore)
     \<and> evAvailableAt e \<le> now \<and> now < evExpiresAt e"

definition ListPending :: "env \<Rightarrow> bytes \<Rightarrow> time \<Rightarrow> time \<Rightarrow> int \<Rightarrow> Event list io" where
  "ListPending env userPublicKey now redeliverBefore limit =
     wrapErr ''query pending user events'' (sqlQuery env (\<lambda>d.
       limitOffset limit 0 (sort_key evCreatedAt
         (filter (pendingEvent userPublicKey now redeliverBefore) (tUserEvents d)))))"

definition MarkDelivered :: "env \<Rightarrow> uuid list \<Rightarrow> time \<Rightarrow> unit io" where
  "MarkDelivered env eventIDs deliveredAt =
     (if eventIDs = [] then ret ()
      else wrapErr ''mark user events delivered'' (sqlExec env (\<lambda>d.
        d\<lparr>tUserEvents := updWhere (\<lambda>e. evEventID e \<in> set eventIDs)
           (\<lambda>e. e\<lparr>evDeliveredAt := Some deliveredAt\<rparr>) (tUserEvents d)\<rparr>)))"

definition Acknowledge :: "env \<Rightarrow> bytes \<Rightarrow> uuid \<Rightarrow> unit io" where
  "Acknowledge env userPublicKey eventID = wrapErr ''acknowledge user event'' (sqlExec env (\<lambda>d.
     d\<lparr>tUserEvents := delWhere (\<lambda>e. evEventID e = eventID \<and> evUserPublicKey e = userPublicKey)
        (tUserEvents d)\<rparr>))"

definition DeleteExpired :: "env \<Rightarrow> time \<Rightarrow> int io" where
  "DeleteExpired env now = wrapErr ''delete expired user events'' (sql env (\<lambda>d.
     Inr (countWhere (\<lambda>e. evExpiresAt e \<le> now) (tUserEvents d),
          d\<lparr>tUserEvents := delWhere (\<lambda>e. evExpiresAt e \<le> now) (tUserEvents d)\<rparr>)))"

text \<open>\<^verbatim>\<open>NotifyingEventRepository.Append\<close>: append, then wake the subscribers of the user's key. Its
  other methods call the repository's.\<close>

definition NotifyingAppend :: "env \<Rightarrow> Event \<Rightarrow> unit io" where
  "NotifyingAppend env event =
     andThen (Append env event) (\<lambda>_.
       if evUserPublicKey event \<noteq> [] then onBus (Notify (evUserPublicKey event)) else ret ())"

section \<open>What appending an event leaves alone\<close>

text \<open>Appending an event touches the tables of events only: an invariant that does not read them is
  kept, wherever the append stops.\<close>

definition eventFree :: "(database \<Rightarrow> bool) \<Rightarrow> bool" where
  "eventFree P \<longleftrightarrow>
     (\<forall>d e b s. P (d\<lparr>tUserEvents := e, tOutbox := b, tOutboxSegments := s\<rparr>) = P d)"

lemma eventFreeI:
  "(\<And>d e b s. P (d\<lparr>tUserEvents := e, tOutbox := b, tOutboxSegments := s\<rparr>) = P d) \<Longrightarrow> eventFree P"
  by (simp add: eventFree_def)

lemma eventFreeD:
  assumes "eventFree P"
  shows "P (d\<lparr>tUserEvents := e\<rparr>) = P d" and "P (d\<lparr>tOutbox := b\<rparr>) = P d"
    and "P (d\<lparr>tOutboxSegments := s\<rparr>) = P d"
proof -
  have *: "P (d\<lparr>tUserEvents := e, tOutbox := b, tOutboxSegments := s\<rparr>) = P d" for d e b s
    using assms by (simp add: eventFree_def)
  show "P (d\<lparr>tUserEvents := e\<rparr>) = P d" using * [of "tOutboxSegments d" "tOutbox d" e d] by simp
  show "P (d\<lparr>tOutbox := b\<rparr>) = P d" using * [of "tOutboxSegments d" b "tUserEvents d" d] by simp
  show "P (d\<lparr>tOutboxSegments := s\<rparr>) = P d" using * [of s "tOutbox d" "tUserEvents d" d] by simp
qed

lemma keeps_appendOutbox [keeps_intros]: "eventFree P \<Longrightarrow> keeps (dbInv P) (appendOutbox env e)"
  unfolding appendOutbox_def listTargetDeviceIDs_def enqueueFor_def insertOutbox_def upsertSegment_def
  by (intro keeps_intros) (auto simp: checkAll_Inr eventFreeD)

lemma keeps_Append [keeps_intros]: "eventFree P \<Longrightarrow> keeps (dbInv P) (Append env e)"
  unfolding Append_def insertEvent_def
  by (intro keeps_intros) (auto simp: checkAll_Inr eventFreeD)

lemma keeps_NotifyingAppend [keeps_intros]: "eventFree P \<Longrightarrow> keeps (dbInv P) (NotifyingAppend env e)"
  unfolding NotifyingAppend_def by (intro keeps_intros)

end
