(* ===== verification/AuthService.thy ===== *)
theory AuthService
  imports AuthRepo
begin

text \<open>
  The authentication service \<^verbatim>\<open>application/auth/service.go\<close>: challenge and signature, event
  subscriptions, and the pull and acknowledgement of a user's events. The methods are called
  with request contexts, which carry no transaction.
\<close>

section \<open>Operations\<close>

record AuthConfig =
  acChallengeTTL :: duration
  acEventRetention :: duration
  acEventBatchSize :: int
  acEventRedeliveryCooldown :: duration

text \<open>\<open>deps\<close>: no dependency is nil.\<close>

definition AuthNewService :: "bool \<Rightarrow> AuthConfig \<Rightarrow> err + AuthConfig" where
  "AuthNewService deps cfg =
     (if acChallengeTTL cfg \<le> 0 then Inl (ErrMsg ''challenge ttl must be > 0'')
      else if acEventRetention cfg \<le> 0 then Inl (ErrMsg ''event retention must be > 0'')
      else
        let cfg1 = (if acEventBatchSize cfg \<le> 0 then cfg\<lparr>acEventBatchSize := 100\<rparr> else cfg);
            cfg2 = (if acEventRedeliveryCooldown cfg1 \<le> 0
                    then cfg1\<lparr>acEventRedeliveryCooldown := 5 * second\<rparr> else cfg1)
        in if \<not> deps then Inl (ErrMsg ''all dependencies are required'') else Inr cfg2)"

text \<open>\<^verbatim>\<open>ed25519.Verify\<close>: panics on a key of the wrong size, refuses a signature of the wrong size.\<close>

definition ed25519Verify :: "env \<Rightarrow> bytes \<Rightarrow> bytes \<Rightarrow> bytes \<Rightarrow> bool io" where
  "ed25519Verify env publicKey message sig =
     (if length publicKey \<noteq> 32 then panic ''ed25519: bad public key length''
      else ret (length sig = 64 \<and> eVerify env publicKey message sig))"

definition authenticationChallengeType :: string where
  "authenticationChallengeType = ''authenticationChallenge''"

definition marshalAuthChallengePayload :: "env \<Rightarrow> time \<Rightarrow> 64 word \<Rightarrow> bytes \<Rightarrow> bytes io" where
  "marshalAuthChallengePayload env expiresAt serverNonce clientNonce =
     (case eCborChallenge env authenticationChallengeType (word_of_int expiresAt) serverNonce clientNonce of
        None \<Rightarrow> fail (ErrWrap ''marshal auth challenge payload'' (ErrMsg ''cbor''))
      | Some payload \<Rightarrow> ret payload)"

definition randomUint64 :: "bytes \<Rightarrow> 64 word" where
  "randomUint64 randomBytes = bigEndianUint64 randomBytes"

record RequestAuthChallengeInput =
  rqUserPublicKey :: bytes
  rqPublicIP :: string
  rqDeviceID :: string
  rqClientNonce :: bytes

record RequestAuthChallengeOutput =
  roSessionID :: uuid
  roChallengePayload :: bytes
  roExpiresAt :: time

definition newSession :: "RequestAuthChallengeInput \<Rightarrow> uuid \<Rightarrow> bytes \<Rightarrow> time \<Rightarrow> time \<Rightarrow> Session" where
  "newSession input sessionID challengePayload expiresAt now =
     \<lparr>sesSessionID = sessionID, sesUserPublicKey = rqUserPublicKey input,
      sesClaimedPublicIP = rqPublicIP input, sesDeviceID = rqDeviceID input,
      sesClientNonce = rqClientNonce input, sesChallengePayload = challengePayload,
      sesIsAuthenticated = False, sesAuthenticatedAt = None, sesExpiresAt = expiresAt,
      sesCreatedAt = now, sesUpdatedAt = now\<rparr>"

definition RequestAuthChallenge ::
  "env \<Rightarrow> AuthConfig \<Rightarrow> RequestAuthChallengeInput \<Rightarrow> RequestAuthChallengeOutput io" where
  "RequestAuthChallenge env cfg input =
     guardErr (length (rqUserPublicKey input) \<noteq> 32) ErrInvalidPublicKey (
     guardErr (trimSpace (rqDeviceID input) = []) ErrInvalidDeviceID (
     guardErr (rqClientNonce input = []) ErrInvalidClientNonce (
     guardErr (rqPublicIP input \<noteq> [] \<and> \<not> eParseIP env (rqPublicIP input))
       (ErrMsg ''invalid public ip'') (
     andThen (clockNow env) (\<lambda>now.
     andThen (wrapErr ''generate auth challenge nonce'' (randomRead env 8)) (\<lambda>serverNonceBytes.
     let expiresAt = now + acChallengeTTL cfg in
     andThen (marshalAuthChallengePayload env expiresAt (randomUint64 serverNonceBytes) (rqClientNonce input))
       (\<lambda>challengePayload.
     andThen (uuidNew env) (\<lambda>sessionID.
     andThen (CreateSession env (newSession input sessionID challengePayload expiresAt now)) (\<lambda>_.
     ret \<lparr>roSessionID = sessionID, roChallengePayload = challengePayload, roExpiresAt = expiresAt\<rparr>)))))))))"

record SolveAuthChallengeOutput =
  soIsAuthenticated :: bool
  soUserPublicKey :: bytes
  soServerTime :: time

definition authEvent :: "AuthConfig \<Rightarrow> uuid \<Rightarrow> bytes \<Rightarrow> string \<Rightarrow> payload \<Rightarrow> time \<Rightarrow> Event" where
  "authEvent cfg eventID userPublicKey eventType payload now =
     \<lparr>evEventID = eventID, evUserPublicKey = userPublicKey, evReplyToRequestID = None,
      evEventType = eventType, evPayload = payload, evAvailableAt = now,
      evExpiresAt = now + acEventRetention cfg, evDeliveredAt = None, evCreatedAt = now\<rparr>"

text \<open>The body of the transaction that authenticates a session.\<close>

definition authenticateTx :: "env \<Rightarrow> AuthConfig \<Rightarrow> uuid \<Rightarrow> time \<Rightarrow> Session io" where
  "authenticateTx env cfg sessionID now =
     andThen (MarkAuthenticated env sessionID now) (\<lambda>session.
     andThen (TouchProfile env (sesUserPublicKey session) now) (\<lambda>_.
     andThen (uuidNew env) (\<lambda>eventID.
     andThen (NotifyingAppend env (authEvent cfg eventID (sesUserPublicKey session)
        ''auth.sessionAuthenticated''
        [(''sessionId'', GString (eUuidString env (sesSessionID session))),
         (''authenticatedAt'', GString (eRFC3339 env now))] now)) (\<lambda>_.
     ret session))))"

definition SolveAuthChallenge ::
  "env \<Rightarrow> AuthConfig \<Rightarrow> uuid \<Rightarrow> bytes \<Rightarrow> SolveAuthChallengeOutput io" where
  "SolveAuthChallenge env cfg sessionID sig =
     guardErr (sessionID = uuidNil) ErrInvalidSessionID (
     andThen (GetSession env sessionID) (\<lambda>session.
     andThen (clockNow env) (\<lambda>now.
     guardErr (sesExpiresAt session < now) ErrSessionExpired (
     andThen (ed25519Verify env (sesUserPublicKey session) (sesChallengePayload session) sig) (\<lambda>ok.
     guardErr (\<not> ok) ErrInvalidSignature (
     andThen (WithinTransaction env NoTx (\<lambda>txCtx. authenticateTx env cfg (sesSessionID session) now))
       (\<lambda>session.
     ret \<lparr>soIsAuthenticated = True, soUserPublicKey = sesUserPublicKey session, soServerTime = now\<rparr>)))))))"

definition LookupSession :: "env \<Rightarrow> uuid \<Rightarrow> Session io" where
  "LookupSession env sessionID = GetSession env sessionID"

record SubscribeToEventsOutput =
  sbSubscriptionID :: uuid
  sbSubscribedAt :: time

definition SubscribeToEvents :: "env \<Rightarrow> AuthConfig \<Rightarrow> uuid \<Rightarrow> SubscribeToEventsOutput io" where
  "SubscribeToEvents env cfg sessionID =
     andThen (GetSession env sessionID) (\<lambda>session.
     guardErr (\<not> sesIsAuthenticated session) ErrSessionNotAuthenticated (
     andThen (clockNow env) (\<lambda>now.
     andThen (uuidNew env) (\<lambda>subscriptionID.
     andThen (WithinTransaction env NoTx (\<lambda>txCtx.
       andThen (CreateSubscription env \<lparr>subSubscriptionID = subscriptionID, subSessionID = sesSessionID session,
          subUserPublicKey = sesUserPublicKey session, subCreatedAt = now, subUnsubscribedAt = None\<rparr>) (\<lambda>_.
       andThen (uuidNew env) (\<lambda>eventID.
       NotifyingAppend env (authEvent cfg eventID (sesUserPublicKey session) ''auth.eventsSubscribed''
          [(''subscriptionId'', GString (eUuidString env subscriptionID)),
           (''subscribedAt'', GString (eRFC3339 env now))] now))))) (\<lambda>_.
     ret \<lparr>sbSubscriptionID = subscriptionID, sbSubscribedAt = now\<rparr>)))))"

definition UnsubscribeFromEvents :: "env \<Rightarrow> uuid \<Rightarrow> time io" where
  "UnsubscribeFromEvents env subscriptionID =
     andThen (clockNow env) (\<lambda>now.
     andThen (DeactivateSubscription env subscriptionID now) (\<lambda>_. ret now))"

definition pullLimit :: "AuthConfig \<Rightarrow> int \<Rightarrow> int" where
  "pullLimit cfg limit =
     (if limit \<le> 0 \<or> acEventBatchSize cfg < limit then acEventBatchSize cfg else limit)"

definition PullEvents :: "env \<Rightarrow> AuthConfig \<Rightarrow> bytes \<Rightarrow> int \<Rightarrow> Event list io" where
  "PullEvents env cfg userPublicKey limit =
     guardErr (length userPublicKey \<noteq> 32) ErrInvalidPublicKey (
     andThen (clockNow env) (\<lambda>now.
     let redeliverBefore = now - acEventRedeliveryCooldown cfg in
     andThen (ListPending env userPublicKey now redeliverBefore (pullLimit cfg limit)) (\<lambda>events.
     if events = [] then ret []
     else andThen (WithinTransaction env NoTx (\<lambda>txCtx. MarkDelivered env (map evEventID events) now))
            (\<lambda>_. ret events))))"

definition AcknowledgeEvent :: "env \<Rightarrow> bytes \<Rightarrow> uuid \<Rightarrow> unit io" where
  "AcknowledgeEvent env userPublicKey eventID =
     guardErr (length userPublicKey \<noteq> 32) ErrInvalidPublicKey (
     guardErr (eventID = uuidNil) ErrInvalidEventID (
     Acknowledge env userPublicKey eventID))"

end
