(* ===== verification/Samples.thy ===== *)
theory Samples
  imports Store
begin

text \<open>
  A concrete environment and world the theorems are exercised on: a clock that advances by a second,
  numbered UUIDs, and simple injective stand-ins for the codecs and the signature scheme.
\<close>

definition sampleKey :: "nat \<Rightarrow> bytes" where
  "sampleKey n = replicate 32 (of_nat n)"

definition sampleEnv :: env where
  "sampleEnv =
     \<lparr>eClock = (\<lambda>n. int n * second), eUUID = (\<lambda>n. of_nat (n + 1)), eRand = (\<lambda>_. Some [1, 2, 3, 4, 5, 6, 7, 8]),
      eFault = (\<lambda>_. False), eVerify = (\<lambda>pk msg sig. take 1 sig = take 1 msg),
      eUuidString = (\<lambda>u. [char_of (uint u)]),
      eUuidParse = (\<lambda>_. (0, False)), eUuidFromBytes = (\<lambda>_. None),
      eUuidSHA1 = (\<lambda>s. of_char (hd s) * 256 + of_nat (length s)),
      eCborPayload = (\<lambda>p. Some [of_nat (length p)]), eUncborPayload = (\<lambda>_. Some []),
      eCborChallenge = (\<lambda>t x n c. Some (ucast n # c)),
      eRFC3339 = (\<lambda>t. ''t''), eParseTime = (\<lambda>_. None), eParseIP = (\<lambda>_. True),
      eInet = (\<lambda>ip. Some ip), eLower = (\<lambda>s. s), eCollate = (\<lambda>s. s)\<rparr>"

definition sampleWorld :: "database \<Rightarrow> world" where
  "sampleWorld d = \<lparr>db = d, nClock = 0, nUUID = 0, nRand = 0, nStmt = 0, wBus = newBus,
     wPushQueue = []\<rparr>"

lemma sampleEnv_noFaults [simp]: "noFaults sampleEnv"
  by (simp add: noFaults_def sampleEnv_def)

end
