(* ===== verification/AuthProps.thy ===== *)
theory AuthProps
  imports AuthService Samples
begin

text \<open>
  What the authentication service promises: a session is authenticated only by a signature of its
  challenge under its key, before the challenge expires, in every history of calls and for
  every schedule of database failures; a failed call changes nothing; a pull returns the user's
  own due events in order and does not repeat them within the cooldown.
\<close>

section \<open>Sessions\<close>

definition signedSession :: "env \<Rightarrow> Session \<Rightarrow> bool" where
  "signedSession env s \<longleftrightarrow>
     (\<exists>sig. length sig = 64 \<and> eVerify env (sesUserPublicKey s) (sesChallengePayload s) sig)
     \<and> (\<exists>t. sesAuthenticatedAt s = Some t \<and> t \<le> sesExpiresAt s)"

definition authOk :: "env \<Rightarrow> database \<Rightarrow> bool" where
  "authOk env d \<longleftrightarrow> distinct (map sesSessionID (tAuthSessions d))
     \<and> (\<forall>s\<in>set (tAuthSessions d). length (sesUserPublicKey s) = 32
          \<and> (sesIsAuthenticated s \<longrightarrow> signedSession env s))"

lemma authOk_eventFree [simp]: "eventFree (authOk env)"
  by (simp add: eventFree_def authOk_def)

lemma authOk_frame:
  "tAuthSessions d' = tAuthSessions d \<Longrightarrow> authOk env d \<Longrightarrow> authOk env d'"
  by (simp add: authOk_def)

lemma keeps_TouchProfile_auth: "keeps (dbInv (authOk env)) (TouchProfile env pk t)"
  unfolding TouchProfile_def by (intro keeps_intros) (simp add: authOk_def)

lemma keeps_CreateSession:
  assumes "\<not> sesIsAuthenticated s"
  shows "keeps (dbInv (authOk env)) (CreateSession env s)"
  unfolding CreateSession_def
  by (intro keeps_intros) (use assms in \<open>auto simp: checkAll_Inr authOk_def split: option.splits\<close>)

lemma keeps_marshalAuthChallengePayload: "keeps I (marshalAuthChallengePayload env t n c)"
  unfolding marshalAuthChallengePayload_def by (intro keeps_intros)

lemma keeps_RequestAuthChallenge: "keeps (dbInv (authOk env)) (RequestAuthChallenge env cfg input)"
  unfolding RequestAuthChallenge_def
  by (intro keeps_intros keeps_CreateSession keeps_marshalAuthChallengePayload) (simp add: newSession_def)

lemma hoare_GetSession:
  "hoare (dbInv P) (GetSession env i)
     (\<lambda>s. dbInv (\<lambda>d. P d \<and> s \<in> set (tAuthSessions d) \<and> sesSessionID s = i)) (dbInv P)"
  unfolding GetSession_def
proof (rule hoare_andThen [where R = "\<lambda>r. dbInv (\<lambda>d. P d
    \<and> (\<forall>s. r = Some s \<longrightarrow> s \<in> set (tAuthSessions d) \<and> sesSessionID s = i))"])
  show "hoare (dbInv P) (wrapErr ''select auth session'' (sqlQuery env (\<lambda>d. find (\<lambda>s. sesSessionID s = i)
      (tAuthSessions d)))) (\<lambda>r. dbInv (\<lambda>d. P d
      \<and> (\<forall>s. r = Some s \<longrightarrow> s \<in> set (tAuthSessions d) \<and> sesSessionID s = i))) (dbInv P)"
    by (intro hoare_wrapErr hoare_sqlQuery) (auto dest: find_Some_in)
qed (auto simp: dbInv_def hoare_def ret_def fail_def split: option.splits)

lemma hoare_ed25519Verify:
  "hoare P (ed25519Verify env pk msg sig)
     (\<lambda>ok s. P s \<and> (ok \<longrightarrow> length sig = 64 \<and> eVerify env pk msg sig)) P"
  by (simp add: hoare_def ed25519Verify_def ret_def panic_def)

lemma authOk_markSession:
  assumes ok: "authOk env d" and s: "s \<in> set (tAuthSessions d)" and "t \<le> sesExpiresAt s"
    and "length sig = 64" "eVerify env (sesUserPublicKey s) (sesChallengePayload s) sig"
  shows "authOk env (d\<lparr>tAuthSessions :=
    updWhere (\<lambda>r. sesSessionID r = sesSessionID s) (markSession t) (tAuthSessions d)\<rparr>)"
proof -
  have "r = s" if "r \<in> set (tAuthSessions d)" "sesSessionID r = sesSessionID s" for r
    using ok that s by (auto simp: authOk_def dest: distinct_map_inj)
  moreover have "map sesSessionID (updWhere p (markSession t) rs) = map sesSessionID rs" for p rs
    by (rule map_updWhere) (simp add: markSession_def)
  moreover have "signedSession env (markSession t s)"
    using assms by (auto simp: signedSession_def markSession_def)
  ultimately show ?thesis
    using ok by (fastforce simp: authOk_def markSession_def elim!: in_updWhereE)
qed

text \<open>The session was read from the database, and its challenge is signed.\<close>

definition provedSession :: "env \<Rightarrow> bytes \<Rightarrow> time \<Rightarrow> Session \<Rightarrow> bool" where
  "provedSession env sig now s \<longleftrightarrow> now \<le> sesExpiresAt s \<and> length sig = 64
     \<and> eVerify env (sesUserPublicKey s) (sesChallengePayload s) sig"

definition foundSession :: "env \<Rightarrow> Session \<Rightarrow> database \<Rightarrow> bool" where
  "foundSession env s d \<longleftrightarrow> authOk env d \<and> s \<in> set (tAuthSessions d)"

lemma hoare_MarkAuthenticated:
  assumes "provedSession env sig now s"
  shows "hoare (dbInv (foundSession env s)) (MarkAuthenticated env (sesSessionID s) now)
     (\<lambda>_. dbInv (authOk env)) (dbInv (authOk env))"
  unfolding MarkAuthenticated_def
  by (rule hoare_andThen [where R = "\<lambda>_. dbInv (authOk env)"])
    (use assms in \<open>auto intro!: hoare_wrapErr hoare_sql hoare_case_found hoare_ret hoare_fail
      intro: authOk_markSession simp: Let_def foundSession_def provedSession_def\<close>)

lemma hoare_authenticateTx:
  assumes "provedSession env sig now s"
  shows "hoare (dbInv (foundSession env s)) (authenticateTx env cfg (sesSessionID s) now)
     (\<lambda>_. dbInv (authOk env)) (dbInv (authOk env))"
  unfolding authenticateTx_def
  by (rule hoare_andThen [OF hoare_MarkAuthenticated [OF assms]])
    (unfold keeps_hoare [symmetric], intro keeps_intros keeps_TouchProfile_auth authOk_eventFree)

lemma keeps_SolveAuthChallenge: "keeps (dbInv (authOk env)) (SolveAuthChallenge env cfg i sig)"
proof -
  let ?A = "dbInv (authOk env)" and ?S = "\<lambda>s. dbInv (foundSession env s)"
  have tx: "hoare (?S s) (andThen (WithinTransaction env NoTx (\<lambda>txCtx. authenticateTx env cfg (sesSessionID s) now))
      (\<lambda>r. ret \<lparr>soIsAuthenticated = True, soUserPublicKey = sesUserPublicKey r, soServerTime = now\<rparr>))
      (\<lambda>_. ?A) ?A" if "provedSession env sig now s" for s now
    by (rule hoare_andThen [OF hoare_weaken [OF hoare_WithinTransaction
            [where Q = "\<lambda>_. authOk env", OF hoare_authenticateTx [OF that]]] hoare_ret])
      (auto simp: dbInv_def foundSession_def)
  have verified: "hoare (\<lambda>w. ?S s w \<and> (ok \<longrightarrow> length sig = 64
        \<and> eVerify env (sesUserPublicKey s) (sesChallengePayload s) sig))
      (guardErr (\<not> ok) ErrInvalidSignature
        (andThen (WithinTransaction env NoTx (\<lambda>txCtx. authenticateTx env cfg (sesSessionID s) now))
          (\<lambda>r. ret \<lparr>soIsAuthenticated = True, soUserPublicKey = sesUserPublicKey r, soServerTime = now\<rparr>)))
      (\<lambda>_. ?A) ?A" if "now \<le> sesExpiresAt s" for s ok now
  proof (cases "ok \<and> provedSession env sig now s")
    case True
    then show ?thesis by (auto intro!: hoare_guardErr hoare_pre [OF tx])
  next
    case False
    then show ?thesis
      using that by (auto simp: provedSession_def foundSession_def dbInv_def hoare_def guardErr_def fail_def)
  qed
  have found: "hoare ?A (GetSession env i) ?S ?A"
    by (rule hoare_weaken [OF hoare_GetSession [where P = "authOk env"]]) (auto simp: dbInv_def foundSession_def)
  have clock: "hoare (?S s) (clockNow env) (\<lambda>_. ?S s) ?A" for s
    by (rule hoare_keeps) (auto intro: keeps_clockNow simp: dbInv_def foundSession_def)
  have verify: "hoare (?S s) (ed25519Verify env pk msg sig)
      (\<lambda>ok w. ?S s w \<and> (ok \<longrightarrow> length sig = 64 \<and> eVerify env pk msg sig)) ?A" for s pk msg
    by (rule hoare_weaken [OF hoare_ed25519Verify [where P = "?S s"]]) (auto simp: dbInv_def foundSession_def)
  show ?thesis
    unfolding SolveAuthChallenge_def keeps_hoare
    by (rule hoare_guardErr, simp, rule hoare_andThen [OF found], rule hoare_andThen [OF clock],
        rule hoare_guardErr, simp add: dbInv_def foundSession_def,
        rule hoare_andThen [OF verify], rule verified) simp
qed

lemma keeps_SubscribeToEvents: "keeps (dbInv (authOk env)) (SubscribeToEvents env cfg i)"
  unfolding SubscribeToEvents_def GetSession_def CreateSubscription_def
  by (intro keeps_intros authOk_eventFree) (auto simp: checkAll_Inr authOk_def)

lemma keeps_UnsubscribeFromEvents: "keeps (dbInv (authOk env)) (UnsubscribeFromEvents env i)"
  unfolding UnsubscribeFromEvents_def DeactivateSubscription_def
  by (intro keeps_intros) (auto simp: authOk_def Let_def)

lemma keeps_PullEvents: "keeps (dbInv (authOk env)) (PullEvents env cfg u n)"
  unfolding PullEvents_def ListPending_def MarkDelivered_def
  by (intro keeps_intros) (auto simp: authOk_def)

lemma keeps_AcknowledgeEvent: "keeps (dbInv (authOk env)) (AcknowledgeEvent env u i)"
  unfolding AcknowledgeEvent_def Acknowledge_def
  by (intro keeps_intros) (auto simp: authOk_def)

lemma keeps_DeleteExpiredSessions: "keeps (dbInv (authOk env)) (DeleteExpiredSessions env now)"
  unfolding DeleteExpiredSessions_def deleteSessions_def
  by (intro keeps_intros) (auto simp: authOk_def Let_def distinct_map_delWhere)

text \<open>The calls of the service in any order, between changes that leave the sessions alone.\<close>

inductive authStep :: "env \<Rightarrow> AuthConfig \<Rightarrow> world \<Rightarrow> world \<Rightarrow> bool" for env cfg where
  step_request: "authStep env cfg w (snd (RequestAuthChallenge env cfg input w))"
| step_solve: "authStep env cfg w (snd (SolveAuthChallenge env cfg i sig w))"
| step_subscribe: "authStep env cfg w (snd (SubscribeToEvents env cfg i w))"
| step_unsubscribe: "authStep env cfg w (snd (UnsubscribeFromEvents env i w))"
| step_pull: "authStep env cfg w (snd (PullEvents env cfg u n w))"
| step_ack: "authStep env cfg w (snd (AcknowledgeEvent env u i w))"
| step_expire: "authStep env cfg w (snd (DeleteExpiredSessions env now w))"
| step_other: "tAuthSessions (db w') = tAuthSessions (db w) \<Longrightarrow> authStep env cfg w w'"

inductive_cases authStepE: "authStep env cfg w w'"

definition noSessions :: "world \<Rightarrow> bool" where
  "noSessions w \<longleftrightarrow> tAuthSessions (db w) = []"

lemmas authStep_keeps = keeps_RequestAuthChallenge keeps_SolveAuthChallenge keeps_SubscribeToEvents
  keeps_UnsubscribeFromEvents keeps_PullEvents keeps_AcknowledgeEvent keeps_DeleteExpiredSessions

interpretation authm: invariant_system noSessions "authStep env cfg" "dbInv (authOk env)" for env cfg
proof
  show "dbInv (authOk env) w" if "noSessions w" for w
    using that by (simp add: noSessions_def dbInv_def authOk_def)
  show "dbInv (authOk env) w'" if "authStep env cfg w w'" "dbInv (authOk env) w" for w w'
    using that by (elim authStepE) (simp_all add: authStep_keeps [THEN keepsD], simp add: dbInv_def authOk_def)
qed

text \<open>C1: Starting from a database with no sessions, after any sequence of the service's calls, with any
  failures of the database, every session marked authenticated carries a public key of 32
  bytes under which some 64-byte signature of its own challenge verifies, and it was
  authenticated no later than its challenge expired.\<close>

theorem authenticated_sessions_signed:
  assumes "reachable noSessions (authStep env cfg) w"
    and "s \<in> set (tAuthSessions (db w))" and "sesIsAuthenticated s"
  shows "length (sesUserPublicKey s) = 32 \<and> signedSession env s"
  using authm.reachable_inv [OF assms(1)] assms(2,3) by (simp add: dbInv_def authOk_def)

definition sampleAuthConfig :: AuthConfig where
  "sampleAuthConfig = \<lparr>acChallengeTTL = minute, acEventRetention = hour, acEventBatchSize = 100,
     acEventRedeliveryCooldown = 5 * second\<rparr>"

definition sampleChallenge :: RequestAuthChallengeInput where
  "sampleChallenge = \<lparr>rqUserPublicKey = sampleKey 1, rqPublicIP = [], rqDeviceID = ''phone'', rqClientNonce = [9]\<rparr>"

text \<open>The world after a challenge was requested, and after it was solved.\<close>

definition sampleRequested :: world where
  "sampleRequested = snd (RequestAuthChallenge sampleEnv sampleAuthConfig sampleChallenge (sampleWorld emptyDb))"

definition sampleSolved :: world where
  "sampleSolved = snd (SolveAuthChallenge sampleEnv sampleAuthConfig 1 (replicate 64 8) sampleRequested)"

lemma sampleSolved_reachable: "reachable noSessions (authStep sampleEnv sampleAuthConfig) sampleSolved"
proof -
  have "reachable noSessions (authStep sampleEnv sampleAuthConfig) (sampleWorld emptyDb)"
    by (rule reach_start) (simp add: noSessions_def sampleWorld_def emptyDb_def)
  then have "reachable noSessions (authStep sampleEnv sampleAuthConfig) sampleRequested"
    unfolding sampleRequested_def by (rule reach_step) (rule step_request)
  then show ?thesis
    unfolding sampleSolved_def by (rule reach_step) (rule step_solve)
qed

definition sampleSession :: Session where
  "sampleSession = \<lparr>sesSessionID = 1, sesUserPublicKey = sampleKey 1, sesClaimedPublicIP = [],
     sesDeviceID = ''phone'', sesClientNonce = [9], sesChallengePayload = [8, 9],
     sesIsAuthenticated = True, sesAuthenticatedAt = Some second, sesExpiresAt = minute,
     sesCreatedAt = 0, sesUpdatedAt = second\<rparr>"

lemma sampleSolved_session: "sampleSession \<in> set (tAuthSessions (db sampleSolved))"
  by code_simp

theorem authenticated_sessions_signed_witness:
  "length (sesUserPublicKey sampleSession) = 32 \<and> signedSession sampleEnv sampleSession"
  by (rule authenticated_sessions_signed [OF sampleSolved_reachable sampleSolved_session])
    (simp add: sampleSession_def)

section \<open>Failed calls\<close>

lemma readonly_GetSession: "readonly (GetSession env i)"
  unfolding GetSession_def by (rule readonlyI) (intro keeps_intros)

lemma readonly_ed25519Verify: "readonly (ed25519Verify env pk msg sig)"
  by (simp add: readonly_def ed25519Verify_def panic_def ret_def)

lemma readonly_ListPending: "readonly (ListPending env u now t n)"
  unfolding ListPending_def by (rule readonlyI) (intro keeps_intros)

lemma readonly_challenge:
  "readonly (wrapErr msg (randomRead env n))" "readonly (marshalAuthChallengePayload env t k c)"
  by (rule readonlyI, intro keeps_intros keeps_marshalAuthChallengePayload)+

lemma solve_failed:
  assumes "SolveAuthChallenge env cfg i sig w = (r, w')" and "\<forall>x. r \<noteq> Ret x"
  shows "db w' = db w"
proof -
  have "atomic (SolveAuthChallenge env cfg i sig)"
    unfolding SolveAuthChallenge_def
    by (intro atomic_guardErr atomic_read_first readonly_GetSession readonly_clockNow
        readonly_ed25519Verify atomic_then_ret atomic_WithinTransaction)
  then show ?thesis using assms by (rule atomicD)
qed

section \<open>A solved challenge\<close>

lemma GetSession_RetE:
  assumes "GetSession env i w = (Ret s, w')"
  obtains "s \<in> set (tAuthSessions (db w))" and "sesSessionID s = i" and "w' = w\<lparr>nStmt := Suc (nStmt w)\<rparr>"
  using assms unfolding GetSession_def
  by (auto elim!: andThen_RetE sqlQuery_RetE dest!: find_Some_in [OF sym] split: option.splits)

lemma clockNow_eq [simp]:
  "clockNow env w = (Ret x, w') \<longleftrightarrow> x = eClock env (nClock w) \<and> w' = w\<lparr>nClock := Suc (nClock w)\<rparr>"
  by (auto simp: clockNow_def)

lemma uuidNew_eq [simp]:
  "uuidNew env w = (Ret x, w') \<longleftrightarrow> x = eUUID env (nUUID w) \<and> w' = w\<lparr>nUUID := Suc (nUUID w)\<rparr>"
  by (auto simp: uuidNew_def)

lemma ed25519Verify_RetE:
  assumes "ed25519Verify env pk msg sig w = (Ret ok, w')"
  obtains "length pk = 32" and "ok \<longleftrightarrow> length sig = 64 \<and> eVerify env pk msg sig" and "w' = w"
  using assms by (auto simp: ed25519Verify_def panic_def split: if_splits)

text \<open>What is left alone by the rest of the transaction.\<close>

lemma authenticateTx_sessions:
  assumes "authenticateTx env cfg i now w = (Ret s, w')"
  shows "tAuthSessions (db w') =
           updWhere (\<lambda>s. sesSessionID s = i) (markSession now) (tAuthSessions (db w))"
    and "s \<in> set (tAuthSessions (db w'))" and "sesSessionID s = i"
proof -
  obtain u v e where u: "MarkAuthenticated env i now w = (Ret s, u)"
    and v: "TouchProfile env (sesUserPublicKey s) now u = (Ret (), v)"
    and e: "NotifyingAppend env e (v\<lparr>nUUID := Suc (nUUID v)\<rparr>) = (Ret (), w')"
    using assms unfolding authenticateTx_def by (auto elim!: andThen_RetE)
  let ?P = "\<lambda>d. tAuthSessions d = tAuthSessions (db u)"
  have "keeps (dbInv ?P) (TouchProfile env (sesUserPublicKey s) now)"
    unfolding TouchProfile_def by (intro keeps_intros) simp
  then have "dbInv ?P v" using keepsD [of _ _ u] v by (fastforce simp: dbInv_def)
  moreover have "keeps (dbInv ?P) (NotifyingAppend env e)"
    by (intro keeps_intros) (simp add: eventFree_def)
  ultimately have same: "tAuthSessions (db w') = tAuthSessions (db u)"
    using keepsD [of "dbInv ?P" "NotifyingAppend env e" "v\<lparr>nUUID := Suc (nUUID v)\<rparr>"] e
    by (simp add: dbInv_def)
  show "tAuthSessions (db w') =
      updWhere (\<lambda>s. sesSessionID s = i) (markSession now) (tAuthSessions (db w))"
    and "s \<in> set (tAuthSessions (db w'))" and "sesSessionID s = i"
    using u same unfolding MarkAuthenticated_def
    by (auto elim!: andThen_RetE sql_RetE simp: Let_def dest!: find_Some_in split: option.splits)
qed

lemma solve_succeeded:
  assumes "SolveAuthChallenge env cfg i sig w = (Ret out, w')"
  shows "\<exists>s\<in>set (tAuthSessions (db w)). sesSessionID s = i
     \<and> soServerTime out \<le> sesExpiresAt s
     \<and> length (sesUserPublicKey s) = 32 \<and> length sig = 64
     \<and> eVerify env (sesUserPublicKey s) (sesChallengePayload s) sig
     \<and> tAuthSessions (db w') = updWhere (\<lambda>q. sesSessionID q = i)
         (\<lambda>q. q\<lparr>sesIsAuthenticated := True, sesAuthenticatedAt := Some (soServerTime out),
                 sesUpdatedAt := soServerTime out\<rparr>) (tAuthSessions (db w))"
proof -
  define now u where now_def: "now = eClock env (nClock w)"
    and u_def: "u = w\<lparr>nStmt := Suc (nStmt w), nClock := Suc (nClock w)\<rparr>"
  obtain s r where s: "s \<in> set (tAuthSessions (db w))" "sesSessionID s = i"
    and v: "\<not> sesExpiresAt s < now" "length (sesUserPublicKey s) = 32" "length sig = 64"
      "eVerify env (sesUserPublicKey s) (sesChallengePayload s) sig"
    and tx: "WithinTransaction env NoTx (\<lambda>txCtx. authenticateTx env cfg i now) u = (Ret r, w')"
    and out: "soServerTime out = now"
    using assms unfolding SolveAuthChallenge_def now_def u_def
    by (auto elim!: guardErr_RetE andThen_RetE GetSession_RetE ed25519Verify_RetE) blast
  have u: "db u = db w" by (simp add: u_def)
  obtain x y where "authenticateTx env cfg i now x = (Ret r, y)" "db x = db u" "db w' = db y"
    using tx by (auto elim: txm.tx_RetE)
  then have "tAuthSessions (db w') = updWhere (\<lambda>q. sesSessionID q = i) (markSession now) (tAuthSessions (db w))"
    using authenticateTx_sessions(1) u by metis
  then show ?thesis
    using s v out by (intro bexI [OF _ s(1)]) (simp add: markSession_def [abs_def])
qed

text \<open>C8: A call of \<open>SolveAuthChallenge\<close> either succeeds or changes nothing. When it succeeds, the session existed, its
  challenge had not expired at the instant the server reports, the signature given is a valid one of its
  challenge under its key, and exactly that session is now marked authenticated at that instant, every other
  session being unchanged. Whatever goes wrong otherwise (a bad or expired challenge, a failing statement
  anywhere, a failing commit, a panic), the database is exactly as it was: no session half authenticated, no
  event without its session.\<close>

theorem solve_challenge:
  "case SolveAuthChallenge env cfg i sig w of
     (Ret out, w') \<Rightarrow> \<exists>s. s \<in> set (tAuthSessions (db w)) \<and> sesSessionID s = i
       \<and> soServerTime out \<le> sesExpiresAt s
       \<and> length (sesUserPublicKey s) = 32 \<and> length sig = 64
       \<and> eVerify env (sesUserPublicKey s) (sesChallengePayload s) sig
       \<and> tAuthSessions (db w') = updWhere (\<lambda>q. sesSessionID q = i)
           (\<lambda>q. q\<lparr>sesIsAuthenticated := True, sesAuthenticatedAt := Some (soServerTime out),
                   sesUpdatedAt := soServerTime out\<rparr>) (tAuthSessions (db w))
   | (_, w') \<Rightarrow> db w' = db w"
proof (cases "SolveAuthChallenge env cfg i sig w")
  case (Pair r w')
  then show ?thesis
    using solve_succeeded [of env cfg i sig w _ w'] solve_failed [OF Pair] by (cases r) auto
qed

lemma sampleSolved_out:
  "SolveAuthChallenge sampleEnv sampleAuthConfig 1 (replicate 64 8) sampleRequested =
     (Ret \<lparr>soIsAuthenticated = True, soUserPublicKey = sampleKey 1, soServerTime = second\<rparr>, sampleSolved)"
proof -
  have "fst (SolveAuthChallenge sampleEnv sampleAuthConfig 1 (replicate 64 8) sampleRequested) =
      Ret \<lparr>soIsAuthenticated = True, soUserPublicKey = sampleKey 1, soServerTime = second\<rparr>"
    by code_simp
  then show ?thesis by (simp add: sampleSolved_def prod_eq_iff)
qed

theorem solve_challenge_witness:
  "\<exists>s\<in>set (tAuthSessions (db sampleRequested)). sesSessionID s = 1 \<and> second \<le> sesExpiresAt s
     \<and> eVerify sampleEnv (sesUserPublicKey s) (sesChallengePayload s) (replicate 64 8)"
  using solve_challenge [where env = sampleEnv and cfg = sampleAuthConfig and i = 1 and sig = "replicate 64 8"
      and w = sampleRequested] sampleSolved_out by auto

end
