(* ===== verification/EventProps.thy ===== *)
theory EventProps
  imports AuthProps
begin

text \<open>
  Challenges, subscriptions and the per-user event queue: what a request for a challenge stores, what a
  pull returns and how it defers redelivery, and what an acknowledgement removes.
\<close>

section \<open>Requesting a challenge\<close>

lemma randomRead_RetE:
  assumes "randomRead env n w = (Ret b, w')"
  obtains c where "eRand env (nRand w) = Some c" and "b = take n (c @ replicate n 0)"
    and "w' = w\<lparr>nRand := Suc (nRand w)\<rparr>"
  using assms by (auto simp: randomRead_def split: option.splits)

lemma marshalAuthChallengePayload_RetE:
  assumes "marshalAuthChallengePayload env t k c w = (Ret p, w')"
  obtains "eCborChallenge env authenticationChallengeType (word_of_int t) k c = Some p" and "w' = w"
  using assms by (auto simp: marshalAuthChallengePayload_def split: option.splits)

lemma CreateSession_RetE:
  assumes "CreateSession env s w = (Ret x, w')"
  obtains ip where "inetText env (sesClaimedPublicIP s) = Some ip"
    and "sesSessionID s \<notin> sesSessionID ` set (tAuthSessions (db w))"
    and "db w' = (db w)\<lparr>tAuthSessions := tAuthSessions (db w) @ [s\<lparr>sesClaimedPublicIP := ip\<rparr>]\<rparr>"
  using assms unfolding CreateSession_def
  by (auto elim!: sql_RetE simp: checkAll_Inr split: option.splits)

lemma newSession_id [simp]: "sesSessionID (newSession input i p t now) = i"
  by (simp add: newSession_def)

text \<open>A granted challenge adds one session and changes nothing else: the session has a fresh id, the
  caller's key (32 bytes), device (not blank) and nonce (not empty), is not authenticated, expires
  one challenge lifetime after the instant of the request, and holds as its challenge the encoding of
  that expiry, the server's nonce and the client's nonce, which is what the caller gets back.\<close>

lemma request_challenge_success:
  assumes "RequestAuthChallenge env cfg input w = (Ret out, w')"
  shows "\<exists>s nonce. db w' = (db w)\<lparr>tAuthSessions := tAuthSessions (db w) @ [s]\<rparr>
     \<and> sesSessionID s = roSessionID out \<and> roSessionID out \<notin> sesSessionID ` set (tAuthSessions (db w))
     \<and> sesUserPublicKey s = rqUserPublicKey input \<and> length (rqUserPublicKey input) = 32
     \<and> sesDeviceID s = rqDeviceID input \<and> trimSpace (rqDeviceID input) \<noteq> []
     \<and> sesClientNonce s = rqClientNonce input \<and> rqClientNonce input \<noteq> []
     \<and> \<not> sesIsAuthenticated s \<and> sesExpiresAt s = roExpiresAt out
     \<and> roExpiresAt out = eClock env (nClock w) + acChallengeTTL cfg
     \<and> sesChallengePayload s = roChallengePayload out
     \<and> eCborChallenge env ''authenticationChallenge'' (word_of_int (roExpiresAt out)) nonce (rqClientNonce input)
         = Some (roChallengePayload out)"
proof -
  define sid t where "sid = eUUID env (nUUID w)" and "t = eClock env (nClock w) + acChallengeTTL cfg"
  obtain p nonce ip where valid: "length (rqUserPublicKey input) = 32" "trimSpace (rqDeviceID input) \<noteq> []"
      "rqClientNonce input \<noteq> []"
    and enc: "eCborChallenge env authenticationChallengeType (word_of_int t) nonce (rqClientNonce input) = Some p"
    and row: "sid \<notin> sesSessionID ` set (tAuthSessions (db w))"
      "db w' = (db w)\<lparr>tAuthSessions := tAuthSessions (db w)
         @ [(newSession input sid p t (eClock env (nClock w)))\<lparr>sesClaimedPublicIP := ip\<rparr>]\<rparr>"
    and out: "out = \<lparr>roSessionID = sid, roChallengePayload = p, roExpiresAt = t\<rparr>"
    using assms unfolding RequestAuthChallenge_def Let_def sid_def t_def
    by (auto elim!: guardErr_RetE andThen_RetE randomRead_RetE marshalAuthChallengePayload_RetE CreateSession_RetE)
      blast+
  show ?thesis
    by (intro exI [of _ "(newSession input sid p t (eClock env (nClock w)))\<lparr>sesClaimedPublicIP := ip\<rparr>"]
        exI [of _ nonce] conjI)
      (use valid enc row out in \<open>simp_all add: newSession_def authenticationChallengeType_def t_def\<close>)
qed

lemma sampleRequested_out:
  "RequestAuthChallenge sampleEnv sampleAuthConfig sampleChallenge (sampleWorld emptyDb) =
     (Ret \<lparr>roSessionID = 1, roChallengePayload = [8, 9], roExpiresAt = minute\<rparr>, sampleRequested)"
proof -
  have "fst (RequestAuthChallenge sampleEnv sampleAuthConfig sampleChallenge (sampleWorld emptyDb)) =
      Ret \<lparr>roSessionID = 1, roChallengePayload = [8, 9], roExpiresAt = minute\<rparr>"
    by code_simp
  then show ?thesis by (simp add: sampleRequested_def prod_eq_iff)
qed

lemma request_challenge_example:
  "\<exists>s. db sampleRequested = emptyDb\<lparr>tAuthSessions := [s]\<rparr> \<and> sesExpiresAt s = minute \<and> \<not> sesIsAuthenticated s"
  using request_challenge_success [OF sampleRequested_out] by (auto simp: sampleWorld_def emptyDb_def)

section \<open>Pulling events\<close>

definition dueEvents :: "AuthConfig \<Rightarrow> bytes \<Rightarrow> time \<Rightarrow> int \<Rightarrow> database \<Rightarrow> Event list" where
  "dueEvents cfg u now n d = limitOffset (pullLimit cfg n) 0 (sort_key evCreatedAt
     (filter (pendingEvent u now (now - acEventRedeliveryCooldown cfg)) (tUserEvents d)))"

lemma updWhere_none: "updWhere (\<lambda>x. False) f xs = xs"
  by (simp add: updWhere_def)

lemma MarkDelivered_RetE:
  assumes "MarkDelivered env is t w = (Ret x, w')"
  obtains "db w' = (db w)\<lparr>tUserEvents := updWhere (\<lambda>e. evEventID e \<in> set is)
     (\<lambda>e. e\<lparr>evDeliveredAt := Some t\<rparr>) (tUserEvents (db w))\<rparr>"
  using assms unfolding MarkDelivered_def
  by (auto elim!: sqlExec_RetE simp: updWhere_none split: if_splits)

lemma PullEvents_RetE:
  assumes "PullEvents env cfg u n w = (Ret es, w')"
  obtains "length u = 32" and "es = dueEvents cfg u (eClock env (nClock w)) n (db w)"
    and "tUserEvents (db w') = updWhere (\<lambda>e. evEventID e \<in> evEventID ` set es)
      (\<lambda>e. e\<lparr>evDeliveredAt := Some (eClock env (nClock w))\<rparr>) (tUserEvents (db w))"
proof -
  define now u1 where now_def: "now = eClock env (nClock w)"
    and u1_def: "u1 = w\<lparr>nClock := Suc (nClock w), nStmt := Suc (nStmt w)\<rparr>"
  define es0 where "es0 = dueEvents cfg u now n (db w)"
  have len: "length u = 32" and body: "(if es0 = [] then ret []
      else andThen (WithinTransaction env NoTx (\<lambda>txCtx. MarkDelivered env (map evEventID es0) now))
        (\<lambda>_. ret es0)) u1 = (Ret es, w')"
    using assms unfolding PullEvents_def ListPending_def es0_def dueEvents_def now_def u1_def Let_def
    by (auto elim!: guardErr_RetE andThen_RetE sqlQuery_RetE)
  have "es = es0 \<and> tUserEvents (db w') = updWhere (\<lambda>e. evEventID e \<in> evEventID ` set es0)
      (\<lambda>e. e\<lparr>evDeliveredAt := Some now\<rparr>) (tUserEvents (db w))"
  proof (cases "es0 = []")
    case True
    then show ?thesis using body by (simp add: u1_def updWhere_none)
  next
    case False
    then have "es = es0" "WithinTransaction env NoTx (\<lambda>txCtx. MarkDelivered env (map evEventID es0) now) u1 = (Ret (), w')"
      using body by (auto elim!: andThen_RetE)
    then show ?thesis by (auto elim!: txm.tx_RetE MarkDelivered_RetE simp: u1_def)
  qed
  then show thesis using that len by (simp add: es0_def now_def)
qed

lemma dueEvents_pending:
  "e \<in> set (dueEvents cfg u now n d) \<Longrightarrow> e \<in> set (tUserEvents d)
     \<and> pendingEvent u now (now - acEventRedeliveryCooldown cfg) e"
  unfolding dueEvents_def using set_limitOffset_subset by fastforce


text \<open>C12: Events that a pull returned are not returned again by a pull of the same user less than one cooldown
  later; in between, other events may have come and any may have gone.\<close>

theorem pull_no_redelivery:
  assumes "PullEvents env cfg u n w = (Ret es, w1)"
    and "\<forall>e\<in>set (tUserEvents (db v)). e \<in> set (tUserEvents (db w1)) \<or> evEventID e \<notin> evEventID ` set es"
    and "PullEvents env cfg u m v = (Ret fs, v1)"
    and "eClock env (nClock v) < eClock env (nClock w) + acEventRedeliveryCooldown cfg"
  shows "evEventID ` set es \<inter> evEventID ` set fs = {}"
proof -
  let ?t = "eClock env (nClock w)"
  have rows: "tUserEvents (db w1) = updWhere (\<lambda>e. evEventID e \<in> evEventID ` set es)
      (\<lambda>e. e\<lparr>evDeliveredAt := Some ?t\<rparr>) (tUserEvents (db w))"
    using assms(1) by (rule PullEvents_RetE)
  have fs: "fs = dueEvents cfg u (eClock env (nClock v)) m (db v)"
    using assms(3) by (rule PullEvents_RetE)
  have new: "evEventID f \<notin> evEventID ` set es" if "f \<in> set fs" for f
  proof
    assume old: "evEventID f \<in> evEventID ` set es"
    have "f \<in> set (tUserEvents (db v))" and p: "pendingEvent u (eClock env (nClock v))
        (eClock env (nClock v) - acEventRedeliveryCooldown cfg) f"
      using that dueEvents_pending by (auto simp: fs)
    then have f: "f \<in> set (tUserEvents (db w1))" using assms(2) old by blast
    obtain q where q: "f = (if evEventID q \<in> evEventID ` set es then q\<lparr>evDeliveredAt := Some ?t\<rparr> else q)"
      using f unfolding rows by (rule in_updWhereE)
    then have "evEventID f = evEventID q" by (simp split: if_splits)
    then have "evDeliveredAt f = Some ?t" using old q by simp
    then show False using p assms(4) by (simp add: pendingEvent_def)
  qed
  have "evEventID ` set fs \<subseteq> - (evEventID ` set es)"
    by (rule image_subsetI, rule ComplI, rule notE [OF new])
  then have "evEventID ` set fs \<inter> evEventID ` set es = {}"
    by (simp only: disjoint_eq_subset_Compl)
  then show ?thesis by (simp only: Int_commute)
qed

definition sampleEvent :: "nat \<Rightarrow> nat \<Rightarrow> time \<Rightarrow> Event" where
  "sampleEvent i u t = \<lparr>evEventID = of_nat i, evUserPublicKey = sampleKey u, evReplyToRequestID = None,
     evEventType = ''e'', evPayload = [], evAvailableAt = 0, evExpiresAt = hour, evDeliveredAt = None,
     evCreatedAt = t\<rparr>"

definition sampleEvents :: world where
  "sampleEvents = sampleWorld (emptyDb\<lparr>tUserEvents := [sampleEvent 3 1 7, sampleEvent 4 2 1, sampleEvent 5 1 2]\<rparr>)"

definition samplePulled :: world where
  "samplePulled = snd (PullEvents sampleEnv sampleAuthConfig (sampleKey 1) 0 sampleEvents)"

lemma samplePull_out:
  "PullEvents sampleEnv sampleAuthConfig (sampleKey 1) 0 sampleEvents =
     (Ret [sampleEvent 5 1 2, sampleEvent 3 1 7], samplePulled)"
proof -
  have "fst (PullEvents sampleEnv sampleAuthConfig (sampleKey 1) 0 sampleEvents) =
      Ret [sampleEvent 5 1 2, sampleEvent 3 1 7]"
    by code_simp
  then show ?thesis by (simp add: samplePulled_def prod_eq_iff)
qed


theorem pull_no_redelivery_witness:
  "evEventID ` set [sampleEvent 5 1 2, sampleEvent 3 1 7] \<inter> evEventID ` set ([] :: Event list) = {}"
proof (rule pull_no_redelivery [OF samplePull_out, of samplePulled])
  show "PullEvents sampleEnv sampleAuthConfig (sampleKey 1) 0 samplePulled =
      (Ret [], snd (PullEvents sampleEnv sampleAuthConfig (sampleKey 1) 0 samplePulled))"
  proof -
    have "fst (PullEvents sampleEnv sampleAuthConfig (sampleKey 1) 0 samplePulled) = Ret []"
      by code_simp
    then show ?thesis by (simp add: prod_eq_iff)
  qed
  show "eClock sampleEnv (nClock samplePulled)
      < eClock sampleEnv (nClock sampleEvents) + acEventRedeliveryCooldown sampleAuthConfig"
    by code_simp
qed simp

section \<open>Acknowledging an event\<close>

text \<open>Acknowledging removes the event with the given id if it is the caller's and nothing else: events
  of other users and other events stay, in order; a failed acknowledgement removes nothing.\<close>

lemma acknowledge_own_event:
  assumes "length u = 32" and "i \<noteq> uuidNil" and "AcknowledgeEvent env u i w = (r, w')"
  shows "(r = Ret () \<and> db w' = (db w)\<lparr>tUserEvents :=
            filter (\<lambda>e. evEventID e \<noteq> i \<or> evUserPublicKey e \<noteq> u) (tUserEvents (db w))\<rparr>)
     \<or> ((\<exists>e. r = Err e) \<and> db w' = db w)"
  using assms
  by (auto simp: AcknowledgeEvent_def Acknowledge_def guardErr_def wrapErr_def onErr_def fail_def sqlExec_def
      sql_def Let_def delWhere_def split: if_splits)

end
