(* ===== verification/OutboxService.thy ===== *)
theory OutboxService
  imports AuthRepo
begin

text \<open>
  The outbox service \<^verbatim>\<open>application/outbox/service.go\<close> (dispatcher, acknowledgement, janitor), the
  fan-out of \<^verbatim>\<open>multi_notifier.go\<close>, and the two notifiers the server installs: the event bus and
  the bounded queue of the push notifier.
\<close>

section \<open>Notifiers\<close>

record Notifier =
  ntNotifyKey :: "string \<Rightarrow> unit io"
  ntNotifyOutboxEvent :: "OutboxEvent \<Rightarrow> unit io"

definition NewMultiNotifier :: "Notifier option list \<Rightarrow> Notifier list" where
  "NewMultiNotifier notifiers = map the (filter (\<lambda>n. n \<noteq> None) notifiers)"

definition MultiNotifier :: "Notifier list \<Rightarrow> Notifier" where
  "MultiNotifier ns =
     \<lparr>ntNotifyKey = (\<lambda>key. forEach (\<lambda>n. ntNotifyKey n key) ns),
      ntNotifyOutboxEvent = (\<lambda>event. forEach (\<lambda>n. ntNotifyOutboxEvent n event) ns)\<rparr>"

definition busNotifier :: Notifier where
  "busNotifier = \<lparr>ntNotifyKey = (\<lambda>key. onBus (NotifyKey key)), ntNotifyOutboxEvent = (\<lambda>_. ret ())\<rparr>"

text \<open>The push notifier's queue takes an event if it has room, and drops it otherwise.\<close>

definition pushEnqueue :: "nat \<Rightarrow> OutboxEvent \<Rightarrow> unit io" where
  "pushEnqueue queueSize event w =
     (if length (wPushQueue w) < queueSize then (Ret (), w\<lparr>wPushQueue := wPushQueue w @ [event]\<rparr>)
      else (Ret (), w))"

definition pushNotifier :: "nat \<Rightarrow> Notifier" where
  "pushNotifier queueSize =
     \<lparr>ntNotifyKey = (\<lambda>_. ret ()), ntNotifyOutboxEvent = pushEnqueue queueSize\<rparr>"

text \<open>\<^verbatim>\<open>cmd/server/main.go\<close> installs both, with a queue of 256 events.\<close>

definition outboxNotifier :: Notifier where
  "outboxNotifier = MultiNotifier (NewMultiNotifier [Some busNotifier, Some (pushNotifier 256)])"

section \<open>Service\<close>

record OutboxConfig =
  ocPollInterval :: duration
  ocBatchSizeSegments :: int
  ocAckTimeout :: duration
  ocMaxAttempts :: int
  ocJanitorInterval :: duration
  ocDeleteBatchSize :: int
  ocAckRetention :: duration
  ocDropRetention :: duration

definition OutboxNewService :: "bool \<Rightarrow> OutboxConfig \<Rightarrow> err + OutboxConfig" where
  "OutboxNewService deps cfg =
     (if \<not> deps then Inl (ErrMsg ''all dependencies are required'')
      else Inr \<lparr>ocPollInterval = (if ocPollInterval cfg \<le> 0 then 300 * millisecond else ocPollInterval cfg),
        ocBatchSizeSegments = (if ocBatchSizeSegments cfg \<le> 0 then 32 else ocBatchSizeSegments cfg),
        ocAckTimeout = (if ocAckTimeout cfg \<le> 0 then 15 * second else ocAckTimeout cfg),
        ocMaxAttempts = (if ocMaxAttempts cfg \<le> 0 then 5 else ocMaxAttempts cfg),
        ocJanitorInterval = (if ocJanitorInterval cfg \<le> 0 then 2 * minute else ocJanitorInterval cfg),
        ocDeleteBatchSize = (if ocDeleteBatchSize cfg \<le> 0 then 500 else ocDeleteBatchSize cfg),
        ocAckRetention = (if ocAckRetention cfg \<le> 0 then 24 * hour else ocAckRetention cfg),
        ocDropRetention = (if ocDropRetention cfg \<le> 0 then 24 * hour else ocDropRetention cfg)\<rparr>)"

definition notifyEvents :: "Notifier option \<Rightarrow> OutboxEvent list \<Rightarrow> unit io" where
  "notifyEvents notifier events = forEach (\<lambda>event.
     case notifier of
       None \<Rightarrow> ret ()
     | Some n \<Rightarrow> andThen (ntNotifyOutboxEvent n event) (\<lambda>_. ntNotifyKey n (oeDeviceID event))) events"

definition DispatchOnce :: "env \<Rightarrow> OutboxConfig \<Rightarrow> Notifier option \<Rightarrow> int io" where
  "DispatchOnce env cfg notifier =
     andThen (clockNow env) (\<lambda>now.
     andThen (WithinTransaction env NoTx (\<lambda>txCtx.
       ClaimPending env txCtx now (ocBatchSizeSegments cfg) (ocAckTimeout cfg) (ocMaxAttempts cfg))) (\<lambda>events.
     andThen (notifyEvents notifier events) (\<lambda>_.
     ret (int (length events)))))"

definition OutboxListInflight :: "env \<Rightarrow> OutboxConfig \<Rightarrow> string \<Rightarrow> int \<Rightarrow> OutboxEvent list io" where
  "OutboxListInflight env cfg deviceID limit =
     guardErr (deviceID = []) ErrOutboxInvalidDeviceID (
     andThen (clockNow env) (\<lambda>now.
     ListInflight env deviceID now (if limit \<le> 0 then ocBatchSizeSegments cfg else limit)))"

definition OutboxAcknowledge ::
  "env \<Rightarrow> Notifier option \<Rightarrow> uuid \<Rightarrow> string \<Rightarrow> string \<Rightarrow> unit io" where
  "OutboxAcknowledge env notifier eventID deviceID segmentID =
     guardErr (eventID = uuidNil) (ErrMsg ''invalid event id'') (
     guardErr (deviceID = []) ErrOutboxInvalidDeviceID (
     andThen (WithinTransaction env NoTx (\<lambda>txCtx.
       andThen (clockNow env) (\<lambda>now. AcknowledgeOutbox env txCtx now eventID deviceID segmentID))) (\<lambda>_.
     case notifier of None \<Rightarrow> ret () | Some n \<Rightarrow> ntNotifyKey n deviceID)))"

text \<open>\<open>run\<close> of the janitor.\<close>

definition janitorRun :: "env \<Rightarrow> OutboxConfig \<Rightarrow> unit io" where
  "janitorRun env cfg =
     andThen (clockNow env) (\<lambda>now.
     andThen (DropExpiredHeads env now (ocBatchSizeSegments cfg)) (\<lambda>_.
     andThen (DeleteTerminal env StatusAcked (now - ocAckRetention cfg) (ocDeleteBatchSize cfg)) (\<lambda>_.
     andThen (DeleteTerminal env StatusDropped (now - ocDropRetention cfg) (ocDeleteBatchSize cfg)) (\<lambda>_.
     ret ()))))"

text \<open>The loops: each entry of the list says whether the context is done when the iteration ends; the loop
  goes on at the next tick unless it is, or unless the iteration failed before that.\<close>

definition ctxDone :: err where "ctxDone = ErrMsg ''context canceled''"

fun untilDone :: "'a io \<Rightarrow> bool list \<Rightarrow> unit io" where
  "untilDone body [] = ret ()"
| "untilDone body (done # rest) =
     onErr (andThen body (\<lambda>_. if done then fail ctxDone else untilDone body rest))
       (\<lambda>e. if done then fail ctxDone else fail e)"

definition RunDispatcher :: "env \<Rightarrow> OutboxConfig \<Rightarrow> Notifier option \<Rightarrow> bool list \<Rightarrow> unit io" where
  "RunDispatcher env cfg notifier = untilDone (DispatchOnce env cfg notifier)"

definition RunJanitor :: "env \<Rightarrow> OutboxConfig \<Rightarrow> bool list \<Rightarrow> unit io" where
  "RunJanitor env cfg = untilDone (janitorRun env cfg)"

section \<open>The notifier's contract\<close>

text \<open>What the service relies on of a notifier: it does not touch the database.\<close>

locale outbox_notifier =
  fixes nt :: Notifier
  assumes key_readonly: "readonly (ntNotifyKey nt key)"
    and event_readonly: "readonly (ntNotifyOutboxEvent nt event)"
begin

lemma notify_keeps: "keeps (dbInv P) (notifyEvents (Some nt) es)"
  unfolding notifyEvents_def option.case
  by (intro keeps_forEach keeps_andThen keeps_readonly key_readonly event_readonly)

end

lemma readonly_ret: "readonly (ret x)"
  by (simp add: readonly_def ret_def)

interpretation busn: outbox_notifier busNotifier
  by unfold_locales (auto simp: busNotifier_def readonly_ret intro: readonlyI keeps_onBus)

lemma readonly_pushEnqueue: "readonly (pushEnqueue n e)"
  by (simp add: readonly_def pushEnqueue_def)

interpretation pushn: outbox_notifier "pushNotifier n" for n
  by unfold_locales (simp_all add: pushNotifier_def readonly_ret readonly_pushEnqueue)

lemma readonly_forEach: "(\<And>x. x \<in> set xs \<Longrightarrow> readonly (f x)) \<Longrightarrow> readonly (forEach f xs)"
  by (rule readonlyI) (auto intro: keeps_forEach keeps_readonly)

lemma multi_notifier:
  assumes "\<And>n. n \<in> set ns \<Longrightarrow> outbox_notifier n"
  shows "outbox_notifier (MultiNotifier ns)"
  by unfold_locales
    (auto simp: MultiNotifier_def intro!: readonly_forEach
      intro: outbox_notifier.key_readonly outbox_notifier.event_readonly assms)

interpretation multin: outbox_notifier outboxNotifier
  unfolding outboxNotifier_def NewMultiNotifier_def
  by (rule multi_notifier) (use busn.outbox_notifier_axioms pushn.outbox_notifier_axioms in auto)

end
