(* ===== verification/OutboxProps.thy ===== *)
theory OutboxProps
  imports OutboxService Samples
begin

text \<open>
  What the outbox promises over every history of publishing, dispatching, acknowledging and cleaning up,
  with any schedule of database failures: one event in flight per device and segment, bounded
  retries, acknowledged events left alone, and dispatches that happen entirely or not at all.
\<close>

section \<open>The outbox as a transition system\<close>

lemma hoare_NotifyingAppend_outbox:
  assumes "0 \<le> M"
  shows "hoare (dbInv (\<lambda>d. outboxWf M d \<and> freshEvent env e d)) (NotifyingAppend env e)
     (\<lambda>_. dbInv (outboxWf M)) (dbInv (outboxWf M))"
proof -
  let ?P = "\<lambda>d. outboxWf M d \<and> freshEvent env e d" and ?W = "\<lambda>_. dbInv (outboxWf M)"
  have ins: "hoare (dbInv ?P) (wrapErr ''insert user event'' (insertEvent env row)) (\<lambda>_. dbInv ?P) (?W ())" for row
    unfolding insertEvent_def
    by (intro hoare_wrapErr hoare_sql)
      (auto simp: checkAll_Inr outboxWf_def freshEvent_def freshIDs_def targetDevices_def)
  have "hoare (dbInv ?P) (Append env e) ?W (?W ())"
    unfolding Append_def
    by (intro hoare_case_found hoare_andThen [OF ins] hoare_appendOutbox [OF assms]
        hoare_pre [OF hoare_fail]) (simp add: dbInv_def)
  then show ?thesis
    unfolding NotifyingAppend_def
    by (rule hoare_andThen) (auto intro!: hoare_if hoare_keeps keeps_onBus keeps_ret)
qed

lemma keeps_DispatchOnce:
  "keeps (dbInv (outboxWf (ocMaxAttempts cfg))) (DispatchOnce env cfg (Some outboxNotifier))"
  unfolding DispatchOnce_def
  by (intro keeps_andThen keeps_clockNow keeps_WithinTransaction keeps_ClaimPending multin.notify_keeps keeps_ret)

lemma keeps_OutboxAcknowledge:
  "keeps (dbInv (outboxWf M)) (OutboxAcknowledge env (Some outboxNotifier) i dev seg)"
  unfolding OutboxAcknowledge_def option.case
  by (intro keeps_guardErr keeps_andThen keeps_clockNow keeps_WithinTransaction keeps_AcknowledgeOutbox
      keeps_readonly multin.key_readonly)

lemma keeps_janitorRun: "keeps (dbInv (outboxWf M)) (janitorRun env cfg)"
  unfolding janitorRun_def
  by (intro keeps_andThen keeps_clockNow keeps_DropExpiredHeads keeps_DeleteTerminal keeps_ret)

text \<open>The calls that touch the outbox, in any order, between changes that leave it alone. A published
  event's outbox ids are new.\<close>

inductive outboxStep :: "env \<Rightarrow> OutboxConfig \<Rightarrow> world \<Rightarrow> world \<Rightarrow> bool" for env cfg where
  step_publish: "freshEvent env e (db w) \<Longrightarrow> outboxStep env cfg w (snd (NotifyingAppend env e w))"
| step_dispatch: "outboxStep env cfg w (snd (DispatchOnce env cfg (Some outboxNotifier) w))"
| step_outboxAck: "outboxStep env cfg w (snd (OutboxAcknowledge env (Some outboxNotifier) i dev seg w))"
| step_janitor: "outboxStep env cfg w (snd (janitorRun env cfg w))"
| step_elsewhere: "tOutbox (db w') = tOutbox (db w) \<Longrightarrow> tOutboxSegments (db w') = tOutboxSegments (db w) \<Longrightarrow>
    outboxStep env cfg w w'"

inductive_cases outboxStepE: "outboxStep env cfg w w'"

definition emptyOutbox :: "world \<Rightarrow> bool" where
  "emptyOutbox w \<longleftrightarrow> tOutbox (db w) = [] \<and> tOutboxSegments (db w) = []"

lemma NewService_attempts: "OutboxNewService deps cfg0 = Inr cfg \<Longrightarrow> 0 < ocMaxAttempts cfg"
  by (auto simp: OutboxNewService_def split: if_splits)

definition outboxInv :: "OutboxConfig \<Rightarrow> world \<Rightarrow> bool" where
  "outboxInv cfg w \<longleftrightarrow> (0 \<le> ocMaxAttempts cfg \<longrightarrow> dbInv (outboxWf (ocMaxAttempts cfg)) w)"

interpretation outboxm: invariant_system emptyOutbox "outboxStep env cfg" "outboxInv cfg" for env cfg
proof
  show "outboxInv cfg w" if "emptyOutbox w" for w
    using that by (simp add: emptyOutbox_def outboxInv_def dbInv_def outboxWf_def outboxOk_def)
  show "outboxInv cfg w'" if "outboxStep env cfg w w'" and inv: "outboxInv cfg w" for w w'
    using that(1)
  proof (cases rule: outboxStep.cases)
    case (step_publish e)
    show ?thesis
      unfolding outboxInv_def
    proof
      assume M: "0 \<le> ocMaxAttempts cfg"
      have "dbInv (\<lambda>d. outboxWf (ocMaxAttempts cfg) d \<and> freshEvent env e d) w"
        using inv M step_publish(2) by (simp add: outboxInv_def dbInv_def)
      then show "dbInv (outboxWf (ocMaxAttempts cfg)) w'"
        unfolding step_publish(1) by (rule hoare_snd [OF hoare_NotifyingAppend_outbox [OF M]])
    qed
  next
    case step_elsewhere
    then show ?thesis using inv by (simp add: outboxInv_def dbInv_def outboxWf_def)
  qed (use inv in \<open>simp_all add: outboxInv_def keeps_DispatchOnce [THEN keepsD]
      keeps_OutboxAcknowledge [THEN keepsD] keeps_janitorRun [THEN keepsD]\<close>)
qed

section \<open>A sample history\<close>

definition zeroOutboxConfig :: OutboxConfig where
  "zeroOutboxConfig = \<lparr>ocPollInterval = 0, ocBatchSizeSegments = 0, ocAckTimeout = 0, ocMaxAttempts = 0,
     ocJanitorInterval = 0, ocDeleteBatchSize = 0, ocAckRetention = 0, ocDropRetention = 0\<rparr>"

definition sampleOutboxConfig :: OutboxConfig where
  "sampleOutboxConfig = \<lparr>ocPollInterval = 300 * millisecond, ocBatchSizeSegments = 32, ocAckTimeout = 15 * second,
     ocMaxAttempts = 5, ocJanitorInterval = 2 * minute, ocDeleteBatchSize = 500, ocAckRetention = 24 * hour,
     ocDropRetention = 24 * hour\<rparr>"

lemma sampleOutboxConfig_new: "OutboxNewService True zeroOutboxConfig = Inr sampleOutboxConfig"
  by (simp add: OutboxNewService_def zeroOutboxConfig_def sampleOutboxConfig_def)

text \<open>A user with one authenticated device, a message published to it, and the dispatch of the message.\<close>

definition samplePhone :: Session where
  "samplePhone = \<lparr>sesSessionID = 1, sesUserPublicKey = sampleKey 1, sesClaimedPublicIP = [],
     sesDeviceID = ''phone'', sesClientNonce = [9], sesChallengePayload = [8, 9],
     sesIsAuthenticated = True, sesAuthenticatedAt = Some 0, sesExpiresAt = minute, sesCreatedAt = 0, sesUpdatedAt = 0\<rparr>"

definition sampleMessage :: Event where
  "sampleMessage = \<lparr>evEventID = 77, evUserPublicKey = sampleKey 1, evReplyToRequestID = None,
     evEventType = ''m'', evPayload = [(''roomId'', GString ''r'')], evAvailableAt = 0, evExpiresAt = hour,
     evDeliveredAt = None, evCreatedAt = 0\<rparr>"

definition sampleIdle :: world where
  "sampleIdle = sampleWorld (emptyDb\<lparr>tAuthSessions := [samplePhone]\<rparr>)"

definition samplePublished :: world where
  "samplePublished = snd (NotifyingAppend sampleEnv sampleMessage sampleIdle)"

definition sampleDispatched :: world where
  "sampleDispatched = snd (DispatchOnce sampleEnv sampleOutboxConfig (Some outboxNotifier) samplePublished)"

definition sampleInFlight :: OutboxRow where
  "sampleInFlight = \<lparr>obEventID = outboxEventID sampleEnv 77 ''phone'', obDeviceID = ''phone'', obSegmentID = ''r'',
     obEventType = ''m'', obPayload = [1], obStatus = 1, obSendAfter = 15 * second,
     obInflightUntil = Some (15 * second), obAttempts = 1, obCreatedAt = 0, obExpiresAt = hour,
     obAckedAt = None, obLastSentAt = Some 0, obLastError = None\<rparr>"

lemma sampleIdle_fresh: "freshEvent sampleEnv sampleMessage (db sampleIdle)"
  by code_simp

lemma samplePublished_reachable: "reachable emptyOutbox (outboxStep sampleEnv sampleOutboxConfig) samplePublished"
proof -
  have "reachable emptyOutbox (outboxStep sampleEnv sampleOutboxConfig) sampleIdle"
    by (rule reach_start) (simp add: emptyOutbox_def sampleIdle_def sampleWorld_def emptyDb_def)
  then show ?thesis
    unfolding samplePublished_def by (rule reach_step) (rule step_publish [OF sampleIdle_fresh])
qed

lemma sampleDispatched_reachable: "reachable emptyOutbox (outboxStep sampleEnv sampleOutboxConfig) sampleDispatched"
  using samplePublished_reachable unfolding sampleDispatched_def by (rule reach_step) (rule step_dispatch)

lemma sampleDispatched_row: "sampleInFlight \<in> set (tOutbox (db sampleDispatched))"
  by code_simp

section \<open>Safety\<close>

text \<open>C2: At most one event per device and segment is in flight: in every state reachable from an empty outbox by
  publishing, dispatching, acknowledging and cleaning up, with statements failing anywhere, two
  events in flight to the same device in the same segment are the same event, and it is the
  segment's head.\<close>

theorem one_in_flight_per_segment:
  assumes "OutboxNewService deps cfg0 = Inr cfg" and "reachable emptyOutbox (outboxStep env cfg) w"
    and "r \<in> set (tOutbox (db w))" and "obStatus r = StatusInFlight"
    and "q \<in> set (tOutbox (db w))" and "obStatus q = StatusInFlight"
    and "obDeviceID r = obDeviceID q" and "obSegmentID r = obSegmentID q"
  shows "r = q \<and> isHead (tOutboxSegments (db w)) r"
proof -
  have "outboxOk (ocMaxAttempts cfg) (tOutbox (db w)) (tOutboxSegments (db w))"
    using outboxm.reachable_inv [OF assms(2)] NewService_attempts [OF assms(1)]
    by (simp add: outboxInv_def dbInv_def outboxWf_def)
  then show ?thesis
    using outboxOk_single assms(3-8) outboxOkD(4) by (metis rowKey_def)
qed

theorem one_in_flight_per_segment_witness:
  "sampleInFlight = sampleInFlight \<and> isHead (tOutboxSegments (db sampleDispatched)) sampleInFlight"
  by (rule one_in_flight_per_segment [OF sampleOutboxConfig_new sampleDispatched_reachable
        sampleDispatched_row _ sampleDispatched_row]) (simp_all add: sampleInFlight_def)



section \<open>Failed calls\<close>

text \<open>The notifications given so far: the bus and the push queue.\<close>

definition notified :: "Bus \<Rightarrow> OutboxEvent list \<Rightarrow> world \<Rightarrow> bool" where
  "notified b q w \<longleftrightarrow> wBus w = b \<and> wPushQueue w = q"

lemma offDb_notified: "offDb (notified b q)"
  by (simp add: offDb_def notified_def)

lemma keeps_offDb_claimLoop: "offDb I \<Longrightarrow> keeps I (claimLoop env now u M cs)"
  by (induction cs)
    (auto simp: dropSegmentTail_def claimOne_def intro!: keeps_intros keeps_offDb_sql keeps_offDb_statements)

lemma keeps_offDb_ClaimPending: "offDb I \<Longrightarrow> keeps I (ClaimPending env ctx now n u M)"
  unfolding ClaimPending_def
  by (intro keeps_if keeps_ret keeps_fail keeps_andThen keeps_wrapErr keeps_offDb_statements keeps_offDb_claimLoop)

text \<open>Notifying returns or panics; it has no error to return.\<close>

lemma noErr_NotifyKey: "noErr (NotifyKey key)"
  unfolding noErr_def NotifyKey_def notifySend_def
  using noErr_forEach [of trySend] by (simp add: noErr_def trySend_def)

lemma noErr_notifyEvents: "noErr (notifyEvents (Some outboxNotifier) es)"
proof -
  have "noErr (onBus (NotifyKey key))" for key
    using noErr_NotifyKey by (simp add: noErr_def onBus_def case_prod_beta Let_def)
  moreover have "noErr (pushEnqueue n e)" for n e
    by (simp add: noErr_def pushEnqueue_def)
  ultimately show ?thesis
    unfolding notifyEvents_def
    by (simp add: outboxNotifier_def MultiNotifier_def NewMultiNotifier_def busNotifier_def pushNotifier_def
        noErr_forEach noErr_andThen noErr_ret)
qed

text \<open>C9: A dispatch that fails part of the way (a statement, a payload that does not decode, the commit)
  sends nothing: the whole batch is rolled back, no subscriber is woken and nothing is handed to
  the push notifier.\<close>

theorem dispatch_all_or_nothing:
  assumes "DispatchOnce env cfg (Some outboxNotifier) w = (Err e, w')"
  shows "db w' = db w \<and> wBus w' = wBus w \<and> wPushQueue w' = wPushQueue w"
proof -
  let ?w = "w\<lparr>nClock := Suc (nClock w)\<rparr>"
  let ?tx = "WithinTransaction env NoTx (\<lambda>txCtx. ClaimPending env txCtx (eClock env (nClock w))
    (ocBatchSizeSegments cfg) (ocAckTimeout cfg) (ocMaxAttempts cfg))"
  have "andThen (notifyEvents (Some outboxNotifier) es) (\<lambda>_. ret (int (length es))) v \<noteq> (Err e, w')" for es v
    by (rule noErrD [OF noErr_andThen [OF noErr_notifyEvents noErr_ret]])
  then have tx: "?tx ?w = (Err e, w')"
    using assms unfolding DispatchOnce_def
    by (auto simp: andThen_def [of "clockNow env"] andThen_def [of ?tx] clockNow_def split: prod.splits outcome.splits)
  have "notified (wBus w) (wPushQueue w) (snd (?tx ?w))"
    by (rule keepsD [OF keeps_offDb_WithinTransaction [OF offDb_notified keeps_offDb_ClaimPending [OF offDb_notified]]])
      (simp add: notified_def)
  then show ?thesis
    using txm.tx_failed [OF tx] tx by (simp add: notified_def)
qed

text \<open>A dispatch whose second statement in the transaction fails.\<close>

definition dispatchFaultEnv :: env where
  "dispatchFaultEnv = sampleEnv\<lparr>eFault := (\<lambda>n. n = 6)\<rparr>"

definition failedDispatch :: "int outcome \<times> world" where
  "failedDispatch = DispatchOnce dispatchFaultEnv sampleOutboxConfig (Some outboxNotifier) samplePublished"

lemma failedDispatch_err: "fst failedDispatch = Err (ErrWrap ''scan outbox event'' (ErrSQL DriverFault))"
  by code_simp

theorem dispatch_all_or_nothing_witness:
  "db (snd failedDispatch) = db samplePublished \<and> wBus (snd failedDispatch) = wBus samplePublished
   \<and> wPushQueue (snd failedDispatch) = wPushQueue samplePublished"
proof (rule dispatch_all_or_nothing)
  show "DispatchOnce dispatchFaultEnv sampleOutboxConfig (Some outboxNotifier) samplePublished =
      (Err (ErrWrap ''scan outbox event'' (ErrSQL DriverFault)), snd failedDispatch)"
    using failedDispatch_err by (simp add: failedDispatch_def prod_eq_iff)
qed

end
