(* ===== verification/OutboxLive.thy ===== *)
theory OutboxLive
  imports OutboxProps
begin

text \<open>
  Progress of the outbox: a dispatch returns and sends every head that is due, an acknowledgement settles
  the event and promotes the oldest remaining one, and settled events are left alone.
\<close>

section \<open>A dispatch sends the heads that are due\<close>

text \<open>A row of another segment is not touched.\<close>

lemma keeps_row_dropSegmentTail:
  assumes "rowKey x \<noteq> (dev, seg)"
  shows "keeps (dbInv (\<lambda>d. x \<in> set (tOutbox d))) (dropSegmentTail env dev seg t now reason)"
  unfolding dropSegmentTail_def dropRows_def clearSegment_def
  by (intro keeps_intros) (use assms in \<open>auto simp: set_updWhere intro!: exI [of _ x]\<close>)

lemma keeps_row_claimOne:
  assumes "obEventID x \<noteq> cdEventID c"
  shows "keeps (dbInv (\<lambda>d. x \<in> set (tOutbox d))) (claimOne env now u c)"
  unfolding claimOne_def
  by (intro keeps_intros) (use assms in \<open>auto simp: Let_def set_updWhere intro!: exI [of _ x]\<close>)

lemma hoare_mark_claimOne:
  assumes "obEventID r = cdEventID c"
  shows "hoare (dbInv (\<lambda>d. r \<in> set (tOutbox d))) (claimOne env now u c)
     (\<lambda>_. dbInv (\<lambda>d. markInFlight now (now + u) r \<in> set (tOutbox d))) (dbInv (\<lambda>_. True))"
proof -
  let ?Q = "\<lambda>d. markInFlight now (now + u) r \<in> set (tOutbox d)"
  have mark: "hoare (dbInv (\<lambda>d. r \<in> set (tOutbox d))) (wrapErr ''scan outbox event'' (sql env (\<lambda>d.
       let rows = updWhere (\<lambda>o'. obEventID o' = cdEventID c) (markInFlight now (now + u)) (tOutbox d)
       in Inr (find (\<lambda>o'. obEventID o' = cdEventID c) rows, d\<lparr>tOutbox := rows\<rparr>))))
     (\<lambda>_. dbInv ?Q) (dbInv (\<lambda>_. True))"
    by (intro hoare_wrapErr hoare_sql)
      (use assms in \<open>auto simp: Let_def set_updWhere intro!: exI [of _ r]\<close>)
  show ?thesis
    unfolding claimOne_def
    by (rule hoare_andThen [OF mark], rule hoare_keeps, intro keeps_intros) (auto simp: dbInv_def)
qed

text \<open>Along the loop: the target's row is untouched while its candidate waits, and marked afterwards.\<close>

definition onTrack :: "int \<Rightarrow> OutboxRow \<Rightarrow> OutboxRow \<Rightarrow> candidate \<Rightarrow> candidate list \<Rightarrow> database \<Rightarrow> bool" where
  "onTrack M r r' c0 items d \<longleftrightarrow> claimReady M items d
     \<and> (if c0 \<in> set items then r \<in> set (tOutbox d)
        else candKey c0 \<notin> candKey ` set items \<and> r' \<in> set (tOutbox d))"

lemma hoare_keep_row:
  assumes "keeps (dbInv (\<lambda>d. x \<in> set (tOutbox d))) m"
    and "hoare (dbInv (claimReady M (c # cs))) m (\<lambda>_. dbInv (claimReady M cs)) E"
  shows "hoare (dbInv (\<lambda>d. claimReady M (c # cs) d \<and> x \<in> set (tOutbox d))) m
     (\<lambda>_. dbInv (\<lambda>d. claimReady M cs d \<and> x \<in> set (tOutbox d))) (\<lambda>_. True)"
  by (rule hoare_weaken [OF hoare_conj [OF assms(2) assms(1) [unfolded keeps_hoare]]]) (auto simp: dbInv_def)

lemma onTrack_here:
  "onTrack M r r' c (c # cs) d \<Longrightarrow> claimReady M (c # cs) d \<and> r \<in> set (tOutbox d)"
  by (simp add: onTrack_def)

lemma onTrack_done:
  assumes "distinct (map candKey (c # cs))" and "claimReady M cs d" and "r' \<in> set (tOutbox d)"
  shows "onTrack M r r' c cs d"
  using assms by (auto simp: onTrack_def rev_image_eqI)

lemma onTrack_other:
  assumes "c \<noteq> c0"
  shows "onTrack M r r' c0 (c # cs) d \<longleftrightarrow> claimReady M (c # cs) d \<and> candKey c \<noteq> candKey c0
     \<and> (if c0 \<in> set cs then r else r') \<in> set (tOutbox d) \<and> (c0 \<notin> set cs \<longrightarrow> candKey c0 \<notin> candKey ` set cs)"
  using assms unfolding onTrack_def claimReady_def by (auto simp: rev_image_eqI)

lemma hoare_claimOne_other:
  assumes key: "rowKey x \<noteq> candKey c" and att: "cdAttempts c + 1 \<le> M"
  shows "hoare (dbInv (\<lambda>d. claimReady M (c # cs) d \<and> x \<in> set (tOutbox d))) (claimOne env now u c)
     (\<lambda>_. dbInv (\<lambda>d. claimReady M cs d \<and> x \<in> set (tOutbox d))) (\<lambda>_. True)"
proof (rule hoare_fact)
  show "obEventID x \<noteq> cdEventID c" if "dbInv (\<lambda>d. claimReady M (c # cs) d \<and> x \<in> set (tOutbox d)) w" for w
    using that key by (auto simp: dbInv_def claimReady_def candOk_def)
  show ?thesis if "obEventID x \<noteq> cdEventID c"
    by (rule hoare_keep_row [OF keeps_row_claimOne hoare_claimOne]) (use that att in auto)
qed

lemma hoare_track_same:
  assumes r: "obEventID r = cdEventID c" and att: "cdAttempts c + 1 \<le> M"
  shows "hoare (dbInv (onTrack M r (markInFlight now (now + u) r) c (c # cs))) (claimOne env now u c)
     (\<lambda>_. dbInv (onTrack M r (markInFlight now (now + u) r) c cs)) (\<lambda>_. True)"
proof (rule hoare_fact)
  show "distinct (map candKey (c # cs))"
    if "dbInv (onTrack M r (markInFlight now (now + u) r) c (c # cs)) w" for w
    using that by (simp add: dbInv_def onTrack_def claimReady_def)
  assume dist: "distinct (map candKey (c # cs))"
  show ?thesis
    by (rule hoare_weaken [OF hoare_conj [OF hoare_claimOne [OF att] hoare_mark_claimOne [OF r]]])
      (use dist onTrack_done in \<open>auto simp: dbInv_def dest!: onTrack_here\<close>)
qed

text \<open>A step on another candidate that leaves the rows of other segments alone.\<close>

lemma hoare_track_other:
  assumes c: "c \<noteq> c0" and key: "rowKey r = candKey c0" "rowKey r' = candKey c0"
    and step: "\<And>x. rowKey x \<noteq> candKey c \<Longrightarrow>
      hoare (dbInv (\<lambda>d. claimReady M (c # cs) d \<and> x \<in> set (tOutbox d))) m
        (\<lambda>_. dbInv (\<lambda>d. claimReady M cs d \<and> x \<in> set (tOutbox d))) (\<lambda>_. True)"
  shows "hoare (dbInv (onTrack M r r' c0 (c # cs))) m (\<lambda>_. dbInv (onTrack M r r' c0 cs)) (\<lambda>_. True)"
proof (rule hoare_fact)
  let ?keys = "candKey c \<noteq> candKey c0 \<and> (c0 \<notin> set cs \<longrightarrow> candKey c0 \<notin> candKey ` set cs)"
  show ?keys if "dbInv (onTrack M r r' c0 (c # cs)) w" for w
    using that by (simp add: dbInv_def onTrack_other [OF c])
  assume keys: ?keys
  then have "rowKey (if c0 \<in> set cs then r else r') \<noteq> candKey c" using key by auto
  from step [OF this] show ?thesis
    by (rule hoare_weaken) (use keys in \<open>auto simp: dbInv_def onTrack_other [OF c] onTrack_def split: if_splits\<close>)
qed

lemma hoare_claimLoop_sends:
  assumes r: "rowKey r = candKey c0" "obEventID r = cdEventID c0" and due: "\<not> exhausted now M c0"
  shows "hoare (dbInv (onTrack M r (markInFlight now (now + u) r) c0 items)) (claimLoop env now u M items)
     (\<lambda>_. dbInv (\<lambda>d. markInFlight now (now + u) r \<in> set (tOutbox d))) (\<lambda>_. True)"
proof (induction items)
  case Nil
  show ?case by (simp, rule hoare_pre [OF hoare_ret]) (simp add: dbInv_def onTrack_def)
next
  case (Cons c cs)
  let ?r = "markInFlight now (now + u) r"
  let ?P = "dbInv (onTrack M r ?r c0 (c # cs))" and ?P' = "dbInv (onTrack M r ?r c0 cs)"
  let ?Q = "\<lambda>_. dbInv (\<lambda>d. ?r \<in> set (tOutbox d))"
  have rest: "hoare ?P' (andThen (claimLoop env now u M cs) (\<lambda>es. ret (e # es))) ?Q (\<lambda>_. True)" for e
    by (rule hoare_andThen [OF Cons.IH]) (rule hoare_ret)
  show ?case
  proof (cases "exhausted now M c")
    case True
    have "hoare ?P (dropSegmentTail env (cdDeviceID c) (cdSegmentID c) (cdCreatedAt c) now
        ''expired_or_attempts_exceeded'') (\<lambda>_. ?P') (\<lambda>_. True)"
      by (rule hoare_track_other)
        (use True due r in \<open>auto intro!: hoare_keep_row [OF keeps_row_dropSegmentTail hoare_dropSegmentTail]
          simp: candKey_def\<close>)
    then show ?thesis using True by (auto intro!: hoare_andThen [OF _ Cons.IH])
  next
    case False
    then have att: "cdAttempts c + 1 \<le> M" by (simp add: exhausted_def)
    have "hoare ?P (claimOne env now u c) (\<lambda>_. ?P') (\<lambda>_. True)"
    proof (cases "c = c0")
      case True
      then show ?thesis using hoare_track_same [of r c M] r att by simp
    next
      case False
      then show ?thesis by (rule hoare_track_other) (use r att in \<open>auto intro: hoare_claimOne_other\<close>)
    qed
    then show ?thesis using False by (auto intro!: hoare_andThen [OF _ rest])
  qed
qed

text \<open>The candidates' rows are there and the payloads decode.\<close>

definition claimFeasible :: "env \<Rightarrow> candidate list \<Rightarrow> database \<Rightarrow> bool" where
  "claimFeasible env items d \<longleftrightarrow> (\<forall>c\<in>set items. cdEventID c \<in> obEventID ` set (tOutbox d))
     \<and> (\<forall>r\<in>set (tOutbox d). eUncborPayload env (obPayload r) \<noteq> None)"

lemma image_updWhere: "(\<And>r. k (f r) = k r) \<Longrightarrow> k ` set (updWhere p f rs) = k ` set rs"
  by (metis list.set_map map_updWhere)

lemma claimFeasible_updRows:
  assumes "claimFeasible env items d"
    and "\<And>r. obEventID (f r) = obEventID r" and "\<And>r. obPayload (f r) = obPayload r"
  shows "claimFeasible env items (d\<lparr>tOutbox := updWhere p f (tOutbox d)\<rparr>)"
  using assms by (auto simp: claimFeasible_def image_updWhere elim!: in_updWhereE split: if_splits)

lemma claimFeasible_segs [simp]:
  "claimFeasible env items (d\<lparr>tOutboxSegments := ss\<rparr>) = claimFeasible env items d"
  by (simp add: claimFeasible_def)

lemma returns_dropSegmentTail:
  assumes "noFaults env"
  shows "returns (dbInv (claimFeasible env items)) (dropSegmentTail env dev seg t now reason)
     (\<lambda>_. dbInv (claimFeasible env items))"
  unfolding dropSegmentTail_def dropRows_def clearSegment_def
  by (intro returns_andThen [where R = "\<lambda>_. dbInv (claimFeasible env items)"] returns_wrapErr returns_sqlExec [OF assms])
    (auto intro: claimFeasible_updRows)

lemma returns_claimOne:
  assumes nf: "noFaults env"
  shows "returns (dbInv (claimFeasible env (c # cs))) (claimOne env now u c) (\<lambda>_. dbInv (claimFeasible env cs))"
proof -
  let ?ok = "\<lambda>row d. claimFeasible env cs d \<and> (\<exists>r. row = Some r \<and> eUncborPayload env (obPayload r) \<noteq> None)"
  have mark: "returns (dbInv (claimFeasible env (c # cs))) (wrapErr ''scan outbox event'' (sql env (\<lambda>d.
       let rows = updWhere (\<lambda>o'. obEventID o' = cdEventID c) (markInFlight now (now + u)) (tOutbox d)
       in Inr (find (\<lambda>o'. obEventID o' = cdEventID c) rows, d\<lparr>tOutbox := rows\<rparr>))))
     (\<lambda>row. dbInv (?ok row))"
  proof (intro returns_wrapErr returns_sql [OF nf])
    fix d assume feasible: "claimFeasible env (c # cs) d"
    let ?rows = "updWhere (\<lambda>o'. obEventID o' = cdEventID c) (markInFlight now (now + u)) (tOutbox d)"
    have f: "claimFeasible env (c # cs) (d\<lparr>tOutbox := ?rows\<rparr>)"
      by (rule claimFeasible_updRows [OF feasible]) (simp_all add: markInFlight_def)
    then have "find (\<lambda>o'. obEventID o' = cdEventID c) ?rows \<noteq> None"
      by (auto simp: claimFeasible_def find_None_iff image_iff)
    then obtain r where "find (\<lambda>o'. obEventID o' = cdEventID c) ?rows = Some r" by blast
    moreover from this have "eUncborPayload env (obPayload r) \<noteq> None"
      using f find_Some_in by (fastforce simp: claimFeasible_def)
    ultimately show "\<exists>x d'. (let rows = ?rows in Inr (find (\<lambda>o'. obEventID o' = cdEventID c) rows, d\<lparr>tOutbox := rows\<rparr>))
        = Inr (x, d') \<and> ?ok x d'"
      using f by (auto simp: Let_def claimFeasible_def)
  qed
  have scan: "returns (dbInv (?ok row)) (scanOutboxEvent env row) (\<lambda>_. dbInv (claimFeasible env cs))" for row
    by (auto simp: dbInv_def returns_def scanOutboxEvent_def ret_def)
  show ?thesis
    unfolding claimOne_def
    by (rule returns_andThen [OF mark], rule returns_andThen [OF scan],
        rule returns_andThen [where R = "\<lambda>_. dbInv (claimFeasible env cs)"])
      (auto intro!: returns_wrapErr returns_sqlExec [OF nf] returns_ret)
qed

lemma returns_claimLoop:
  assumes nf: "noFaults env"
  shows "returns (dbInv (claimFeasible env items)) (claimLoop env now u M items) (\<lambda>_. dbInv (\<lambda>_. True))"
proof (induction items)
  case Nil
  show ?case by (simp add: returns_def ret_def dbInv_def)
next
  case (Cons c cs)
  have "dbInv (claimFeasible env (c # cs)) w \<Longrightarrow> dbInv (claimFeasible env cs) w" for w
    by (simp add: dbInv_def claimFeasible_def)
  then show ?case
    by (auto intro!: returns_andThen [OF returns_weaken [OF returns_dropSegmentTail [OF nf]] Cons.IH]
        returns_andThen [OF returns_claimOne [OF nf]] returns_andThen [OF Cons.IH] returns_ret)
qed

lemma joinHeads_feasible:
  assumes "\<forall>r\<in>set (tOutbox d). eUncborPayload env (obPayload r) \<noteq> None"
  shows "claimFeasible env (claimCandidates now n d) d"
proof -
  have "cdEventID c \<in> obEventID ` set (tOutbox d)" if "c \<in> set (joinHeads p d)" for c p
    using that by (auto simp: joinHeads_def)
  then show ?thesis
    using assms set_limitOffset_subset by (fastforce simp: claimFeasible_def claimCandidates_def)
qed

lemma returns_notifyEvents:
  "returns (\<lambda>w. busOk (wBus w) \<and> db w = d) (notifyEvents (Some outboxNotifier) es)
     (\<lambda>_ w. busOk (wBus w) \<and> db w = d)"
proof -
  let ?I = "\<lambda>w. busOk (wBus w) \<and> db w = d"
  have bus: "returns ?I (onBus (NotifyKey key)) (\<lambda>_. ?I)" for key
    by (auto simp: returns_def onBus_def NotifyKey_ok busOk_markFull)
  have push: "returns ?I (pushEnqueue n e) (\<lambda>_. ?I)" for n e
    by (simp add: returns_def pushEnqueue_def)
  have one: "returns ?I (andThen (ntNotifyOutboxEvent outboxNotifier e)
      (\<lambda>_. ntNotifyKey outboxNotifier (oeDeviceID e))) (\<lambda>_. ?I)" for e
    unfolding outboxNotifier_def MultiNotifier_def NewMultiNotifier_def busNotifier_def pushNotifier_def
    by (simp, intro returns_andThen [where R = "\<lambda>_. ?I"] bus push returns_ret)
  show ?thesis
    unfolding notifyEvents_def option.case
    by (rule returns_forEach [where L = "\<lambda>_. ?I"]) (rule one)
qed

text \<open>The head of a segment as the claim query reports it.\<close>

definition headCandidate :: "OutboxSegment \<Rightarrow> OutboxRow \<Rightarrow> candidate" where
  "headCandidate s r = \<lparr>cdDeviceID = sgDeviceID s, cdSegmentID = sgSegmentID s, cdEventID = obEventID r,
     cdStatus = obStatus r, cdAttempts = obAttempts r, cdCreatedAt = obCreatedAt r, cdExpiresAt = obExpiresAt r\<rparr>"

lemma headCandidate_claimed:
  assumes wf: "outboxWf M d" and s: "s \<in> set (tOutboxSegments d)" and r: "r \<in> set (tOutbox d)"
    and h: "sgHeadEventID s = Some (obEventID r)" "claimable now r"
    and n: "length (joinHeads (claimable now) d) \<le> nat n"
  shows "0 < n" and "rowKey r = candKey (headCandidate s r)"
    and "onTrack M r r' (headCandidate s r) (claimCandidates now n d) d"
proof -
  have c: "headCandidate s r \<in> set (joinHeads (claimable now) d)"
    using s r h unfolding joinHeads_def headCandidate_def by auto
  then have all: "set (claimCandidates now n d) = set (joinHeads (claimable now) d)"
    using n by (simp add: claimCandidates_def limitOffset_def)
  show "0 < n" using c n by (cases "joinHeads (claimable now) d") auto
  show "rowKey r = candKey (headCandidate s r)"
    using outboxOkD(3) wf s r h(1) by (simp add: outboxWf_def candKey_def segKey_def headCandidate_def)
  show "onTrack M r r' (headCandidate s r) (claimCandidates now n d) d"
    using claimReady_query [OF wf] c all r by (simp add: onTrack_def claimCandidates_def)
qed

lemma returns_ClaimPending_sends:
  assumes nf: "noFaults env" and wf: "outboxWf M d"
    and dec: "\<forall>r\<in>set (tOutbox d). eUncborPayload env (obPayload r) \<noteq> None"
    and n: "length (joinHeads (claimable now) d) \<le> nat n"
    and head: "s \<in> set (tOutboxSegments d)" "r \<in> set (tOutbox d)" "sgHeadEventID s = Some (obEventID r)"
      "claimable now r"
    and due: "now < obExpiresAt r" "obAttempts r < M"
  shows "returns (dbInv ((=) d)) (ClaimPending env InTx now n u M)
     (\<lambda>_. dbInv (\<lambda>d. markInFlight now (now + u) r \<in> set (tOutbox d)))"
proof -
  let ?cs = "claimCandidates now n d" and ?r = "markInFlight now (now + u) r"
  note c = headCandidate_claimed [OF wf head(1,2,3,4) n]
  have sends: "hoare (dbInv ((=) d)) (claimLoop env now u M ?cs) (\<lambda>_. dbInv (\<lambda>d. ?r \<in> set (tOutbox d))) (\<lambda>_. True)"
    by (rule hoare_pre [OF hoare_claimLoop_sends [OF c(2)]])
      (use c(3) due in \<open>auto simp: dbInv_def exhausted_def headCandidate_def\<close>)
  have ends: "returns (dbInv ((=) d)) (claimLoop env now u M ?cs) (\<lambda>_. dbInv (\<lambda>_. True))"
    by (rule returns_weaken [OF returns_claimLoop [OF nf]])
      (use joinHeads_feasible [OF dec] in \<open>auto simp: dbInv_def\<close>)
  have loop: "returns (dbInv (\<lambda>e. e = d \<and> cs = ?cs)) (claimLoop env now u M cs)
      (\<lambda>_. dbInv (\<lambda>d. ?r \<in> set (tOutbox d)))" for cs
    by (cases "cs = ?cs") (use returns_hoare [OF ends sends] in \<open>auto simp: dbInv_def returns_def\<close>)
  have "returns (dbInv ((=) d)) (wrapErr ''select outbox segments'' (sqlQuery env (claimCandidates now n)))
      (\<lambda>cs. dbInv (\<lambda>e. e = d \<and> cs = ?cs))"
    by (intro returns_wrapErr returns_sqlQuery [OF nf]) simp
  then show ?thesis
    using c(1) by (simp add: ClaimPending_def currentTx_def returns_andThen [OF _ loop])
qed

text \<open>The transaction of the claim and the notifications after it.\<close>

lemma dispatch_run:
  assumes "noFaults env" and "busOk (wBus w)" and "outboxWf (ocMaxAttempts cfg) (db w)"
    and "\<forall>r\<in>set (tOutbox (db w)). eUncborPayload env (obPayload r) \<noteq> None"
    and "now = eClock env (nClock w)"
    and "length (joinHeads (claimable now) (db w)) \<le> nat (ocBatchSizeSegments cfg)"
    and "s \<in> set (tOutboxSegments (db w))" and "r \<in> set (tOutbox (db w))"
    and "sgHeadEventID s = Some (obEventID r)" and "claimable now r" and "now < obExpiresAt r"
    and "obAttempts r < ocMaxAttempts cfg"
  obtains es v v' where "WithinTransaction env NoTx (\<lambda>txCtx.
       ClaimPending env txCtx now (ocBatchSizeSegments cfg) (ocAckTimeout cfg) (ocMaxAttempts cfg)) (w\<lparr>nClock := Suc (nClock w)\<rparr>) = (Ret es, v)"
    and "wBus v = wBus w" and "notifyEvents (Some outboxNotifier) es v = (Ret (), v')" and "db v' = db v"
    and "DispatchOnce env cfg (Some outboxNotifier) w = (Ret (int (length es)), v')"
    and "markInFlight now (now + ocAckTimeout cfg) r \<in> set (tOutbox (db v))"
proof -
  let ?w = "w\<lparr>nClock := Suc (nClock w)\<rparr>"
  let ?claim = "\<lambda>txCtx. ClaimPending env txCtx now (ocBatchSizeSegments cfg) (ocAckTimeout cfg) (ocMaxAttempts cfg)"
  let ?sent = "\<lambda>d. markInFlight now (now + ocAckTimeout cfg) r \<in> set (tOutbox d)"
  have tx: "returns (dbInv ((=) (db w))) (WithinTransaction env NoTx ?claim) (\<lambda>_. dbInv ?sent)"
    by (rule returns_WithinTransaction [OF assms(1)])
      (rule returns_ClaimPending_sends [OF assms(1,3,4,6,7,8,9,10,11,12)])
  obtain es v where v: "WithinTransaction env NoTx ?claim ?w = (Ret es, v)" "?sent (db v)"
    using returnsD [OF tx, of ?w] by (auto simp: dbInv_def)
  have "notified (wBus w) (wPushQueue w) (snd (WithinTransaction env NoTx ?claim ?w))"
    by (rule keepsD [OF keeps_offDb_WithinTransaction [OF offDb_notified keeps_offDb_ClaimPending [OF offDb_notified]]])
      (simp add: notified_def)
  then have bus: "wBus v = wBus w" using v(1) by (simp add: notified_def)
  then obtain v' where v': "notifyEvents (Some outboxNotifier) es v = (Ret (), v')" "db v' = db v"
    using returnsD [OF returns_notifyEvents, of v "db v" es] assms(2) by auto
  then have "DispatchOnce env cfg (Some outboxNotifier) w = (Ret (int (length es)), v')"
    using v(1) assms(5) by (simp add: DispatchOnce_def andThen_def clockNow_def ret_def)
  then show thesis using v(1) bus v' v(2) by (intro that)
qed


definition sampleQueued :: OutboxRow where
  "sampleQueued = \<lparr>obEventID = outboxEventID sampleEnv 77 ''phone'', obDeviceID = ''phone'', obSegmentID = ''r'',
     obEventType = ''m'', obPayload = [1], obStatus = 0, obSendAfter = 0, obInflightUntil = None, obAttempts = 0,
     obCreatedAt = 0, obExpiresAt = hour, obAckedAt = None, obLastSentAt = None, obLastError = None\<rparr>"

definition sampleSegment :: OutboxSegment where
  "sampleSegment = \<lparr>sgDeviceID = ''phone'', sgSegmentID = ''r'',
     sgHeadEventID = Some (outboxEventID sampleEnv 77 ''phone''), sgInflightEventID = None, sgUpdatedAt = 0\<rparr>"

lemma samplePublished_outbox:
  "tOutbox (db samplePublished) = [sampleQueued]" "tOutboxSegments (db samplePublished) = [sampleSegment]"
  "wBus samplePublished = newBus" "nClock samplePublished = 0"
  by code_simp+

lemma samplePublished_wf: "outboxWf 5 (db samplePublished)"
  unfolding outboxWf_def samplePublished_outbox by code_simp


section \<open>An acknowledgement promotes the next event\<close>

text \<open>The events that wait behind \<open>r\<close> in its segment.\<close>

definition waitsBehind :: "time \<Rightarrow> OutboxRow \<Rightarrow> OutboxRow \<Rightarrow> bool" where
  "waitsBehind now r q \<longleftrightarrow> rowKey q = rowKey r \<and> obEventID q \<noteq> obEventID r \<and> unsettled q \<and> now < obExpiresAt q"

lemma nextHead_oldest:
  "case nextHead now (obEventID r) (obDeviceID r) (obSegmentID r) d of
     None \<Rightarrow> \<forall>q\<in>set (tOutbox d). \<not> waitsBehind now r q
   | Some h \<Rightarrow> \<exists>q\<in>set (tOutbox d). obEventID q = h \<and> waitsBehind now r q
       \<and> (\<forall>p\<in>set (tOutbox d). waitsBehind now r p \<longrightarrow> obCreatedAt q \<le> obCreatedAt p)"
proof -
  let ?xs = "sort_key obCreatedAt (filter (waitsBehind now r) (tOutbox d))"
  have next_eq: "nextHead now (obEventID r) (obDeviceID r) (obSegmentID r) d =
      (case ?xs of [] \<Rightarrow> None | q # _ \<Rightarrow> Some (obEventID q))"
    unfolding nextHead_def by (rule arg_cong2 [where f = "\<lambda>g xs. case_list None g (sort_key obCreatedAt xs)"])
      (auto intro!: filter_cong simp: waitsBehind_def rowKey_def)
  show ?thesis
  proof (cases ?xs)
    case Nil
    have "{x \<in> set (tOutbox d). waitsBehind now r x} = set ?xs" by simp
    also have "\<dots> = {}" by (simp only: Nil list.set)
    finally show ?thesis using Nil by (auto simp: next_eq)
  next
    case (Cons q qs)
    then have "set (q # qs) = set ?xs" and sorted: "sorted (map obCreatedAt (q # qs))"
      by (metis, metis sorted_sort_key)
    then have q: "set (q # qs) = {x \<in> set (tOutbox d). waitsBehind now r x}" by simp
    have "obCreatedAt q \<le> obCreatedAt p" if "p \<in> set (tOutbox d)" "waitsBehind now r p" for p
      using that q sorted by (cases "p = q") auto
    then show ?thesis using Cons q by (auto simp: next_eq)
  qed
qed

lemma nextHead_ackRow:
  "nextHead now i dev seg (ackRow t i d) = nextHead now i dev seg d"
proof -
  have "filter (\<lambda>o'. P o' \<and> obEventID o' \<noteq> i) (updWhere (\<lambda>o'. obEventID o' = i) f rs)
      = filter (\<lambda>o'. P o' \<and> obEventID o' \<noteq> i) rs" if "\<And>r. obEventID (f r) = obEventID r" for P f rs
    by (induction rs) (auto simp: updWhere_def that)
  from this [of "\<lambda>o'. o'\<lparr>obStatus := StatusAcked, obAckedAt := Some t\<rparr>"
      "\<lambda>o'. rowKey o' = (dev, seg) \<and> unsettled o' \<and> now < obExpiresAt o'"]
  show ?thesis by (simp add: nextHead_def ackRow_def conj_assoc)
qed

lemma AcknowledgeOutbox_head:
  assumes nf: "noFaults env" and wf: "outboxWf M (db w)" and r: "r \<in> set (tOutbox (db w))"
    and seg: "seg = [] \<or> seg = obSegmentID r" and st: "obStatus r \<noteq> StatusAcked"
    and s: "s \<in> set (tOutboxSegments (db w))" "segKey s = rowKey r" "sgHeadEventID s = Some (obEventID r)"
  shows "\<exists>w'. AcknowledgeOutbox env InTx now (obEventID r) (obDeviceID r) seg w = (Ret (), w')
     \<and> db w' = setHead now (obDeviceID r) (obSegmentID r)
         (nextHead now (obEventID r) (obDeviceID r) (obSegmentID r) (db w)) (ackRow now (obEventID r) (db w))
     \<and> wBus w' = wBus w"
proof -
  have ok: "outboxOk M (tOutbox (db w)) (tOutboxSegments (db w))" using wf by (simp add: outboxWf_def)
  have uniq: "q = r" if "q \<in> set (tOutbox (db w))" "obEventID q = obEventID r" for q
    by (rule distinct_map_inj [OF outboxOkD(1) [OF ok] that(1) r that(2)])
  obtain x where x: "find (\<lambda>o'. obEventID o' = obEventID r \<and> obDeviceID o' = obDeviceID r) (tOutbox (db w)) = Some x"
    using r by (cases "find (\<lambda>o'. obEventID o' = obEventID r \<and> obDeviceID o' = obDeviceID r) (tOutbox (db w))")
      (auto simp: find_None_iff)
  have row: "x = r" using find_Some_in [OF x] uniq by blast
  have "find (\<lambda>t. segKey t = segKey s) (tOutboxSegments (db w)) = Some s"
    by (rule find_by_key [OF outboxOkD(2) [OF ok] s(1)])
  then have segrow: "find (\<lambda>t. segKey t = (obDeviceID r, obSegmentID r)) (tOutboxSegments (db w)) = Some s"
    using s(2) by (simp add: rowKey_def)
  have same: "tOutboxSegments (ackRow now i d) = tOutboxSegments d" for i d by (simp add: ackRow_def)
  show ?thesis
    using seg st s(3) x row segrow
    by (auto simp: AcknowledgeOutbox_def currentTx_def andThen_def wrapErr_def onErr_def sqlQuery_def sqlExec_def
        sql_noFaults [OF nf] same nextHead_ackRow)
qed

text \<open>C5: Acknowledging the head of a segment, with a working database, returns; the event is acknowledged, no
  other event changes, and the segment's new head is the oldest event still waiting in it that has not
  expired, or there is no head when none waits.\<close>

theorem ack_advances_head:
  assumes "noFaults env" and "busOk (wBus w)" and "outboxWf M (db w)" and "now = eClock env (nClock w)"
    and "r \<in> set (tOutbox (db w))" and "obStatus r \<noteq> StatusAcked" and "obEventID r \<noteq> uuidNil"
    and "obDeviceID r \<noteq> []" and "seg = [] \<or> seg = obSegmentID r"
    and "s \<in> set (tOutboxSegments (db w))" and "segKey s = rowKey r" and "sgHeadEventID s = Some (obEventID r)"
  shows "\<exists>w' s'. OutboxAcknowledge env (Some outboxNotifier) (obEventID r) (obDeviceID r) seg w = (Ret (), w')
     \<and> tOutbox (db w') = updWhere (\<lambda>q. obEventID q = obEventID r)
         (\<lambda>q. q\<lparr>obStatus := StatusAcked, obAckedAt := Some now\<rparr>) (tOutbox (db w))
     \<and> s' \<in> set (tOutboxSegments (db w')) \<and> segKey s' = rowKey r
     \<and> (case sgHeadEventID s' of
          None \<Rightarrow> \<forall>q\<in>set (tOutbox (db w)). \<not> waitsBehind now r q
        | Some h \<Rightarrow> \<exists>q\<in>set (tOutbox (db w)). obEventID q = h \<and> waitsBehind now r q
            \<and> (\<forall>p\<in>set (tOutbox (db w)). waitsBehind now r p \<longrightarrow> obCreatedAt q \<le> obCreatedAt p))"
proof -
  let ?h = "nextHead now (obEventID r) (obDeviceID r) (obSegmentID r) (db w)"
  let ?d = "setHead now (obDeviceID r) (obSegmentID r) ?h (ackRow now (obEventID r) (db w))"
  let ?s = "s\<lparr>sgHeadEventID := ?h, sgInflightEventID := None, sgUpdatedAt := now\<rparr>"
  let ?u = "w\<lparr>nStmt := Suc (nStmt w), nClock := Suc (nClock w)\<rparr>"
  obtain v where v: "AcknowledgeOutbox env InTx now (obEventID r) (obDeviceID r) seg ?u = (Ret (), v)"
      "db v = ?d" "wBus v = wBus w"
    using AcknowledgeOutbox_head [of env M ?u r seg s now] assms by auto
  have tx: "WithinTransaction env NoTx (\<lambda>txCtx. andThen (clockNow env) (\<lambda>now.
      AcknowledgeOutbox env txCtx now (obEventID r) (obDeviceID r) seg)) w = (Ret (), v\<lparr>nStmt := Suc (nStmt v)\<rparr>)"
    using v(1) assms(4) by (simp add: WithinTransaction_def currentTx_def andThen_def wrapErr_def onErr_def
        clockNow_def ret_def sqlNop_noFaults [OF assms(1)])
  obtain v' where v': "ntNotifyKey outboxNotifier (obDeviceID r) (v\<lparr>nStmt := Suc (nStmt v)\<rparr>) = (Ret (), v')"
      "db v' = ?d"
    using v assms(2) by (auto simp: outboxNotifier_def MultiNotifier_def NewMultiNotifier_def busNotifier_def
        pushNotifier_def onBus_def andThen_def ret_def NotifyKey_ok Let_def)
  have ret: "OutboxAcknowledge env (Some outboxNotifier) (obEventID r) (obDeviceID r) seg w = (Ret (), v')"
    using tx v'(1) assms(7,8) by (simp add: OutboxAcknowledge_def guardErr_def andThen_def)
  have "?s \<in> set (tOutboxSegments ?d)" and "segKey ?s = rowKey r"
    using assms(10,11) by (auto simp: setHead_def ackRow_def set_updWhere segKey_def rowKey_def intro!: exI [of _ s])
  moreover have "tOutbox ?d = updWhere (\<lambda>q. obEventID q = obEventID r)
      (\<lambda>q. q\<lparr>obStatus := StatusAcked, obAckedAt := Some now\<rparr>) (tOutbox (db w))"
    by (simp add: setHead_def ackRow_def)
  ultimately show ?thesis
    using ret v'(2) nextHead_oldest [where now = now and r = r and d = "db w"] by (intro exI [of _ v'] exI [of _ ?s]) simp
qed

text \<open>Two events of one room, the older at the head.\<close>

definition sampleOlder :: OutboxRow where
  "sampleOlder = sampleQueued\<lparr>obEventID := 4\<rparr>"

definition sampleTwo :: world where
  "sampleTwo = sampleWorld (emptyDb\<lparr>
     tOutbox := [sampleQueued\<lparr>obEventID := 5, obCreatedAt := 3\<rparr>, sampleOlder],
     tOutboxSegments := [sampleSegment\<lparr>sgHeadEventID := Some 4\<rparr>]\<rparr>)"

lemma sampleTwo_wf: "outboxWf 5 (db sampleTwo)"
  by code_simp

theorem ack_advances_head_witness:
  "\<exists>w' s'. OutboxAcknowledge sampleEnv (Some outboxNotifier) (obEventID sampleOlder) (obDeviceID sampleOlder) [] sampleTwo
       = (Ret (), w')
     \<and> tOutbox (db w') = updWhere (\<lambda>q. obEventID q = obEventID sampleOlder)
         (\<lambda>q. q\<lparr>obStatus := StatusAcked, obAckedAt := Some 0\<rparr>) (tOutbox (db sampleTwo))
     \<and> s' \<in> set (tOutboxSegments (db w')) \<and> segKey s' = rowKey sampleOlder
     \<and> (case sgHeadEventID s' of
          None \<Rightarrow> \<forall>q\<in>set (tOutbox (db sampleTwo)). \<not> waitsBehind 0 sampleOlder q
        | Some h \<Rightarrow> \<exists>q\<in>set (tOutbox (db sampleTwo)). obEventID q = h \<and> waitsBehind 0 sampleOlder q
            \<and> (\<forall>p\<in>set (tOutbox (db sampleTwo)). waitsBehind 0 sampleOlder p \<longrightarrow> obCreatedAt q \<le> obCreatedAt p))"
  by (rule ack_advances_head [OF sampleEnv_noFaults _ sampleTwo_wf, where s = "sampleSegment\<lparr>sgHeadEventID := Some 4\<rparr>"])
    (simp_all add: sampleTwo_def sampleWorld_def busOk_new sampleEnv_def sampleQueued_def sampleSegment_def
      sampleOlder_def segKey_def rowKey_def)

end
