(* ===== verification/OutboxFinal.thy ===== *)
theory OutboxFinal
  imports OutboxLive
begin

text \<open>
  Acknowledged events are final: no operation changes an acknowledged row of the outbox again, so it is never
  sent again; only the janitor removes it.
\<close>

definition unchanged :: "OutboxRow \<Rightarrow> database \<Rightarrow> bool" where
  "unchanged r d \<longleftrightarrow> (\<forall>q\<in>set (tOutbox d). obEventID q = obEventID r \<longrightarrow> q = r)"

lemma unchanged_segs [simp]: "unchanged r (d\<lparr>tOutboxSegments := ss\<rparr>) = unchanged r d"
  by (simp add: unchanged_def)

lemma unchanged_updRows:
  assumes "unchanged r d" and "\<not> p r" and "\<And>q. obEventID (f q) = obEventID q"
  shows "unchanged r (d\<lparr>tOutbox := updWhere p f (tOutbox d)\<rparr>)"
  using assms unfolding unchanged_def by (fastforce elim: in_updWhereE split: if_splits)

lemma keeps_unchanged_dropSegmentTail:
  assumes "obStatus r = StatusAcked"
  shows "keeps (dbInv (unchanged r)) (dropSegmentTail env dev seg t now reason)"
  unfolding dropSegmentTail_def dropRows_def clearSegment_def
  by (intro keeps_intros) (use assms in \<open>auto simp: unsettled_def intro!: unchanged_updRows\<close>)

lemma keeps_unchanged_claimOne:
  assumes "cdEventID c \<noteq> obEventID r"
  shows "keeps (dbInv (unchanged r)) (claimOne env now u c)"
  unfolding claimOne_def
  by (intro keeps_intros) (use assms in \<open>auto simp: Let_def markInFlight_def intro!: unchanged_updRows\<close>)

lemma keeps_unchanged_claimLoop:
  assumes acked: "obStatus r = StatusAcked"
    and "\<forall>c\<in>set cs. cdEventID c = obEventID r \<longrightarrow> exhausted now M c"
  shows "keeps (dbInv (unchanged r)) (claimLoop env now u M cs)"
  using assms(2)
  by (induction cs)
    (auto intro!: keeps_andThen keeps_ret keeps_unchanged_dropSegmentTail [OF acked] keeps_unchanged_claimOne)

lemma claimed_acked_expired:
  assumes "unchanged r d" and "obStatus r = StatusAcked" and "c \<in> set (claimCandidates now n d)"
    and "cdEventID c = obEventID r"
  shows "exhausted now M c"
proof -
  have "c \<in> set (joinHeads (claimable now) d)"
    using assms(3) set_limitOffset_subset by (fastforce simp: claimCandidates_def)
  then obtain q where "q \<in> set (tOutbox d)" "claimable now q" "cdEventID c = obEventID q" "cdExpiresAt c = obExpiresAt q"
    by (auto simp: joinHeads_def)
  then show ?thesis using assms(1,2,4) by (auto simp: unchanged_def claimable_def exhausted_def)
qed

lemma hoare_keeps_fact:
  assumes "\<And>s. P s \<Longrightarrow> F \<and> I s" and "F \<Longrightarrow> keeps I m"
  shows "hoare P m (\<lambda>_. I) I"
proof (rule hoare_fact)
  assume F
  then have "hoare I m (\<lambda>_. I) I" using assms(2) by (simp add: keeps_hoare)
  then show "hoare P m (\<lambda>_. I) I" by (rule hoare_pre) (simp add: assms(1))
qed (simp add: assms(1))

lemma keeps_unchanged_ClaimPending:
  assumes "obStatus r = StatusAcked"
  shows "keeps (dbInv (unchanged r)) (ClaimPending env ctx now n u M)"
proof -
  let ?R = "\<lambda>cs d. unchanged r d \<and> (\<forall>c\<in>set cs. cdEventID c = obEventID r \<longrightarrow> exhausted now M c)"
  have q: "hoare (dbInv (unchanged r)) (wrapErr ''select outbox segments'' (sqlQuery env (claimCandidates now n)))
      (\<lambda>cs. dbInv (?R cs)) (dbInv (unchanged r))"
    by (intro hoare_wrapErr hoare_sqlQuery) (use claimed_acked_expired assms in blast)+
  have "hoare (dbInv (?R cs)) (claimLoop env now u M cs) (\<lambda>_. dbInv (unchanged r)) (dbInv (unchanged r))" for cs
    by (rule hoare_keeps_fact [where F = "\<forall>c\<in>set cs. cdEventID c = obEventID r \<longrightarrow> exhausted now M c"])
      (simp_all add: dbInv_def keeps_unchanged_claimLoop assms)
  then have "keeps (dbInv (unchanged r))
      (andThen (wrapErr ''select outbox segments'' (sqlQuery env (claimCandidates now n))) (claimLoop env now u M))"
    unfolding keeps_hoare by (rule hoare_andThen [OF q])
  then show ?thesis unfolding ClaimPending_def by (intro keeps_if keeps_ret keeps_fail)
qed

lemma keeps_unchanged_AcknowledgeOutbox:
  assumes acked: "obStatus r = StatusAcked"
  shows "keeps (dbInv (unchanged r)) (AcknowledgeOutbox env ctx now i dev seg)"
proof -
  let ?U = "dbInv (unchanged r)"
  let ?found = "\<lambda>row d. unchanged r d \<and> (\<forall>q. row = Some q \<longrightarrow> i = obEventID r \<longrightarrow> q = r)"
  have q: "hoare ?U (wrapErr ''select outbox event for ack'' (sqlQuery env (\<lambda>d.
        find (\<lambda>o'. obEventID o' = i \<and> obDeviceID o' = dev) (tOutbox d)))) (\<lambda>row. dbInv (?found row)) ?U"
    by (intro hoare_wrapErr hoare_sqlQuery) (auto simp: unchanged_def dest!: find_Some_in)
  have ack: "keeps ?U (sqlExec env (ackRow now i))" if "i \<noteq> obEventID r"
    unfolding ackRow_def by (intro keeps_intros unchanged_updRows) (use that in auto)
  have rest: "keeps ?U (sqlExec env (clearInflight now i dev sid))" "keeps ?U (sqlExec env (setHead now dev sid h))"
    for sid h
    unfolding clearInflight_def setHead_def by (intro keeps_intros; simp)+
  have branch: "hoare (dbInv (?found row)) m (\<lambda>_. ?U) ?U"
    if "\<forall>q. row = Some q \<longrightarrow> i = obEventID r \<longrightarrow> q = r \<Longrightarrow> keeps ?U m" for row m
    by (rule hoare_keeps_fact [OF _ that]) (auto simp: dbInv_def)
  show ?thesis
    unfolding AcknowledgeOutbox_def keeps_hoare [of ?U]
    by (intro hoare_if hoare_fail hoare_andThen [OF q] branch keeps_case_option)
      (auto simp: acked intro!: keeps_ret keeps_if keeps_andThen keeps_wrapErr ack rest keeps_sqlQuery
        split: option.splits)
qed

text \<open>Publishing never replaces a row that is there.\<close>

lemma keeps_present_appendOutbox:
  "keeps (dbInv (\<lambda>d. unchanged r d \<and> r \<in> set (tOutbox d))) (appendOutbox env e)"
  unfolding appendOutbox_def listTargetDeviceIDs_def enqueueFor_def insertOutbox_def upsertSegment_def
  by (intro keeps_intros) (auto simp: checkAll_Inr unchanged_def split: if_splits)

lemma keeps_present_NotifyingAppend:
  "keeps (dbInv (\<lambda>d. unchanged r d \<and> r \<in> set (tOutbox d))) (NotifyingAppend env e)"
  unfolding NotifyingAppend_def Append_def insertEvent_def
  by (intro keeps_andThen keeps_case_option keeps_fail keeps_wrapErr keeps_sql keeps_present_appendOutbox
      keeps_if keeps_onBus keeps_ret)
    (auto simp: checkAll_Inr unchanged_def)

lemma keeps_unchanged_DeleteTerminal: "keeps (dbInv (unchanged r)) (DeleteTerminal env st t n)"
  unfolding DeleteTerminal_def by (intro keeps_intros) (auto simp: Let_def unchanged_def)

lemma keeps_unchanged_service:
  assumes "obStatus r = StatusAcked"
  shows "keeps (dbInv (unchanged r)) (DispatchOnce env cfg (Some outboxNotifier))"
    and "keeps (dbInv (unchanged r)) (OutboxAcknowledge env (Some outboxNotifier) i dev seg)"
    and "keeps (dbInv (unchanged r)) (janitorRun env cfg)"
  unfolding DispatchOnce_def OutboxAcknowledge_def janitorRun_def DropExpiredHeads_def option.case
  by (intro keeps_andThen keeps_clockNow keeps_WithinTransaction keeps_unchanged_ClaimPending assms
      multin.notify_keeps keeps_ret keeps_guardErr keeps_unchanged_AcknowledgeOutbox keeps_readonly
      multin.key_readonly keeps_wrapErr keeps_sqlQuery keeps_forEach keeps_unchanged_dropSegmentTail
      keeps_unchanged_DeleteTerminal)+

text \<open>C6: An acknowledged event is final: whatever the outbox does next (publishing, dispatching,
  acknowledging again, cleaning up, with statements failing anywhere), the acknowledged row is either
  exactly as it was or gone; it is never put in flight again.\<close>

theorem acknowledged_is_final:
  assumes "outboxStep env cfg w w'" and "outboxWf M (db w)"
    and "r \<in> set (tOutbox (db w))" and "obStatus r = StatusAcked"
    and "q \<in> set (tOutbox (db w'))" and "obEventID q = obEventID r"
  shows "q = r"
proof -
  have start: "unchanged r (db w)"
    using assms(2,3) by (auto simp: unchanged_def outboxWf_def dest: outboxOkD(1) distinct_map_inj)
  have "dbInv (unchanged r) w'"
    using assms(1)
  proof (cases rule: outboxStep.cases)
    case (step_publish e)
    then show ?thesis
      using keepsD [OF keeps_present_NotifyingAppend, of r w env e] start assms(3) by (simp add: dbInv_def)
  next
    case step_elsewhere
    then show ?thesis using start by (simp add: dbInv_def unchanged_def)
  qed (use start keepsD [OF keeps_unchanged_service(1) [OF assms(4)]] keepsD [OF keeps_unchanged_service(2) [OF assms(4)]]
      keepsD [OF keeps_unchanged_service(3) [OF assms(4)]] in \<open>simp_all add: dbInv_def\<close>)
  then show ?thesis using assms(5,6) by (simp add: dbInv_def unchanged_def)
qed

definition sampleAcked :: OutboxRow where
  "sampleAcked = sampleQueued\<lparr>obEventID := 4, obStatus := 2, obAckedAt := Some 1\<rparr>"

definition sampleSettled :: world where
  "sampleSettled = sampleWorld (emptyDb\<lparr>tOutbox := [sampleAcked]\<rparr>)"

theorem acknowledged_is_final_witness:
  "sampleAcked \<in> set (tOutbox (db (snd (OutboxAcknowledge sampleEnv (Some outboxNotifier) 4 ''phone'' [] sampleSettled))))
   \<and> sampleAcked = sampleAcked"
proof
  show row: "sampleAcked \<in> set (tOutbox (db (snd (OutboxAcknowledge sampleEnv (Some outboxNotifier) 4 ''phone'' []
      sampleSettled))))"
    by code_simp
  show "sampleAcked = sampleAcked"
  proof (rule acknowledged_is_final [OF step_outboxAck _ _ _ row])
    show "outboxWf 5 (db sampleSettled)" by code_simp
  qed (auto simp: sampleSettled_def sampleWorld_def sampleAcked_def)
qed

end
