(* ===== verification/ClientRepo.thy ===== *)
theory ClientRepo
  imports AuthRepo
begin

text \<open>
  The client repository \<^verbatim>\<open>repository/postgres/client_repository.go\<close>, first part: profiles, devices, key
  packages, friends and friend requests. Methods whose names the service also uses carry the prefix
  \<open>store\<close>, after the interface \<^verbatim>\<open>clientapi.Store\<close> they implement. A nil key is sent as \<^verbatim>\<open>NULL\<close> and
  refused where an empty one is refused, so keys are plain byte lists.
\<close>

section \<open>Constants\<close>

definition FriendRequestPending :: int where "FriendRequestPending = 1"
definition FriendRequestAccepted :: int where "FriendRequestAccepted = 2"
definition FriendRequestDeclined :: int where "FriendRequestDeclined = 3"
definition FriendRequestCanceled :: int where "FriendRequestCanceled = 4"

lemmas friend_states = FriendRequestPending_def FriendRequestAccepted_def FriendRequestDeclined_def
  FriendRequestCanceled_def

section \<open>Rows and columns\<close>

definition nullIfEmpty :: "string \<Rightarrow> string option" where
  "nullIfEmpty s = (if s = [] then None else Some s)"

definition coalesce :: "'a list option \<Rightarrow> 'a list" where
  "coalesce x = (case x of None \<Rightarrow> [] | Some s \<Rightarrow> s)"

text \<open>\<^verbatim>\<open>POSITION(needle IN text) > 0\<close>.\<close>

fun textContains :: "string \<Rightarrow> string \<Rightarrow> bool" where
  "textContains needle [] \<longleftrightarrow> needle = []"
| "textContains needle (c # cs) \<longleftrightarrow> take (length needle) (c # cs) = needle \<or> textContains needle cs"

text \<open>A query for one row; \<open>e\<close> is what the method returns for \<^verbatim>\<open>sql.ErrNoRows\<close>.\<close>

definition queryOne :: "env \<Rightarrow> err \<Rightarrow> (database \<Rightarrow> 'a option) \<Rightarrow> 'a io" where
  "queryOne env e q = andThen (sqlQuery env q) (\<lambda>row. case row of None \<Rightarrow> fail e | Some x \<Rightarrow> ret x)"

text \<open>A checked statement that returns a row.\<close>

definition checkThen :: "(bool \<times> sqlErr) list \<Rightarrow> (database \<Rightarrow> 'a \<times> database) \<Rightarrow> 'a stmt" where
  "checkThen cs f d = (case find (\<lambda>(ok, e). \<not> ok) cs of
       None \<Rightarrow> Inr (f d)
     | Some (_, e) \<Rightarrow> Inl e)"

section \<open>Profiles\<close>

definition profileRecord :: "ProfileRow \<Rightarrow> ProfileRecord" where
  "profileRecord p =
     \<lparr>pfPublicKey = prPublicKey p, pfUsername = coalesce (prUsername p),
      pfDisplayName = coalesce (prDisplayName p), pfBio = coalesce (prBio p),
      pfAvatarHash = coalesce (prAvatarHash p), pfAvatarBytes = coalesce (prAvatarBytes p),
      pfContentType = coalesce (prAvatarContentType p), pfLastSeenAt = prLastSeenAt p,
      pfUpdatedAt = prUpdatedAt p, pfDeletedAt = prDeletedAt p\<rparr>"

definition profileOf :: "bytes \<Rightarrow> database \<Rightarrow> ProfileRow option" where
  "profileOf publicKey d = find (\<lambda>p. prPublicKey p = publicKey) (tProfiles d)"

text \<open>An error of the query itself is wrapped, a missing row is not.\<close>

definition storeGetProfile :: "env \<Rightarrow> bytes \<Rightarrow> ProfileRecord io" where
  "storeGetProfile env publicKey =
     andThen (wrapErr ''get profile'' (sqlQuery env (\<lambda>d. map_option profileRecord (profileOf publicKey d))))
       (\<lambda>row. case row of None \<Rightarrow> fail ErrNotFound | Some record \<Rightarrow> ret record)"

definition activeBan :: "bytes \<Rightarrow> time \<Rightarrow> BanStatus \<Rightarrow> bool" where
  "activeBan publicKey now b \<longleftrightarrow> bnPublicKey b = publicKey \<and> bnIsBanned b
     \<and> (case bnExpiresAt b of None \<Rightarrow> True | Some t \<Rightarrow> now < t)"

definition GetActiveBanStatus :: "env \<Rightarrow> bytes \<Rightarrow> time \<Rightarrow> BanStatusRecord option io" where
  "GetActiveBanStatus env publicKey now =
     wrapErr ''get active ban status'' (sqlQuery env (\<lambda>d. map_option
       (\<lambda>b. \<lparr>bsIsBanned = bnIsBanned b, bsReason = coalesce (bnReason b), bsBannedAt = bnBannedAt b,
              bsExpiresAt = bnExpiresAt b\<rparr>)
       (find (activeBan publicKey now) (tBanStatuses d))))"

text \<open>The unique index on \<^verbatim>\<open>LOWER(username)\<close>: no other profile has the name.\<close>

definition usernameFree :: "env \<Rightarrow> bytes \<Rightarrow> string option \<Rightarrow> database \<Rightarrow> bool" where
  "usernameFree env publicKey username d = (case username of
       None \<Rightarrow> True
     | Some u \<Rightarrow> list_all (\<lambda>p. prPublicKey p = publicKey
                         \<or> map_option (eLower env) (prUsername p) \<noteq> Some (eLower env u)) (tProfiles d))"

definition newProfile :: "bytes \<Rightarrow> string \<Rightarrow> string \<Rightarrow> string \<Rightarrow> string \<Rightarrow> time \<Rightarrow> ProfileRow" where
  "newProfile publicKey username displayName avatarHash bio t =
     \<lparr>prPublicKey = publicKey, prUsername = nullIfEmpty username, prDisplayName = nullIfEmpty displayName,
      prBio = nullIfEmpty bio, prAvatarHash = nullIfEmpty avatarHash, prAvatarBytes = None,
      prAvatarContentType = None, prLastSeenAt = t, prCreatedAt = t, prUpdatedAt = t, prDeletedAt = None\<rparr>"

definition storeUpdateProfile ::
  "env \<Rightarrow> bytes \<Rightarrow> string \<Rightarrow> string \<Rightarrow> string \<Rightarrow> string \<Rightarrow> time \<Rightarrow> unit io" where
  "storeUpdateProfile env publicKey username displayName avatarHash bio updatedAt =
     wrapErr ''update profile'' (sql env (\<lambda>d. checkAll
       [(usernameFree env publicKey (nullIfEmpty username) d, UniqueViolation)]
       (\<lambda>d. d\<lparr>tProfiles := upsertBy prPublicKey
          (\<lambda>p. p\<lparr>prUsername := nullIfEmpty username, prDisplayName := nullIfEmpty displayName,
                  prBio := nullIfEmpty bio, prAvatarHash := nullIfEmpty avatarHash,
                  prUpdatedAt := updatedAt, prDeletedAt := None\<rparr>)
          (newProfile publicKey username displayName avatarHash bio updatedAt) (tProfiles d)\<rparr>) d))"

definition profileMatches :: "env \<Rightarrow> string \<Rightarrow> ProfileRow \<Rightarrow> bool" where
  "profileMatches env query p \<longleftrightarrow> prDeletedAt p = None
     \<and> (textContains (eLower env query) (eLower env (coalesce (prUsername p)))
        \<or> textContains (eLower env query) (eLower env (coalesce (prDisplayName p))))"

definition storeSearchProfiles :: "env \<Rightarrow> string \<Rightarrow> int \<Rightarrow> int \<Rightarrow> ProfileRecord list io" where
  "storeSearchProfiles env query limit offset =
     wrapErr ''search profiles'' (sqlQuery env (\<lambda>d. map profileRecord (limitOffset limit offset
       (sort_key (\<lambda>p. - prUpdatedAt p) (filter (profileMatches env query) (tProfiles d))))))"

text \<open>The eight statements of \<^verbatim>\<open>DeleteAccount\<close>, in order.\<close>

definition accountDeletions :: "bytes \<Rightarrow> time \<Rightarrow> (database \<Rightarrow> database) list" where
  "accountDeletions publicKey deletedAt =
     [\<lambda>d. d\<lparr>tProfiles := updWhere (\<lambda>p. prPublicKey p = publicKey)
               (\<lambda>p. p\<lparr>prDeletedAt := Some deletedAt, prUpdatedAt := deletedAt\<rparr>) (tProfiles d)\<rparr>,
      \<lambda>d. d\<lparr>tDevices := delWhere (\<lambda>v. dvUserPublicKey v = publicKey) (tDevices d)\<rparr>,
      \<lambda>d. d\<lparr>tKeyPackages := delWhere (\<lambda>k. kpUserPublicKey k = publicKey) (tKeyPackages d)\<rparr>,
      \<lambda>d. d\<lparr>tFriends := delWhere (\<lambda>f. frUserPublicKey f = publicKey \<or> frFriendPublicKey f = publicKey)
               (tFriends d)\<rparr>,
      \<lambda>d. d\<lparr>tFriendRequests := delWhere
               (\<lambda>q. fqSenderPublicKey q = publicKey \<or> fqReceiverPublicKey q = publicKey) (tFriendRequests d)\<rparr>,
      \<lambda>d. d\<lparr>tChatMembers := updWhere (\<lambda>m. cmUserPublicKey m = publicKey \<and> cmLeftAt m = None)
               (\<lambda>m. m\<lparr>cmLeftAt := Some deletedAt\<rparr>) (tChatMembers d)\<rparr>,
      \<lambda>d. d\<lparr>tPermissions := delWhere (\<lambda>p. pmUserPublicKey p = publicKey) (tPermissions d)\<rparr>,
      \<lambda>d. d\<lparr>tInvitations := delWhere
               (\<lambda>i. ivInviterPublicKey i = publicKey \<or> ivInviteePublicKey i = publicKey) (tInvitations d)\<rparr>]"

definition storeDeleteAccount :: "env \<Rightarrow> bytes \<Rightarrow> time \<Rightarrow> unit io" where
  "storeDeleteAccount env publicKey deletedAt = forEach (sqlExec env) (accountDeletions publicKey deletedAt)"

definition storeGetProfileAvatar :: "env \<Rightarrow> bytes \<Rightarrow> AvatarRecord io" where
  "storeGetProfileAvatar env publicKey = queryOne env ErrNotFound (\<lambda>d. map_option
     (\<lambda>p. \<lparr>avBytes = coalesce (prAvatarBytes p), avContentType = coalesce (prAvatarContentType p)\<rparr>)
     (profileOf publicKey d))"

section \<open>Devices\<close>

definition storeListDevices :: "env \<Rightarrow> bytes \<Rightarrow> DeviceRecord list io" where
  "storeListDevices env userPublicKey = sqlQuery env (\<lambda>d.
     sort_key (\<lambda>v. - dvUpdatedAt v) (filter (\<lambda>v. dvUserPublicKey v = userPublicKey) (tDevices d)))"

definition devKey :: "DeviceRecord \<Rightarrow> bytes \<times> string" where
  "devKey v = (dvUserPublicKey v, dvDeviceID v)"

definition sessionExists :: "uuid option \<Rightarrow> database \<Rightarrow> bool" where
  "sessionExists i d = (case i of None \<Rightarrow> True | Some s \<Rightarrow> s \<in> sesSessionID ` set (tAuthSessions d))"

definition UpsertDevice :: "env \<Rightarrow> DeviceRecord \<Rightarrow> DeviceRecord io" where
  "UpsertDevice env device =
     andThen (sql env (\<lambda>d. checkThen
       [(length (dvUserPublicKey device) = 32, CheckViolation),
        (dvPlatform device > 0, CheckViolation),
        (dvPushToken device \<noteq> [], CheckViolation),
        (devKey device \<in> devKey ` set (tDevices d) \<or> dvID device \<notin> dvID ` set (tDevices d), UniqueViolation),
        (sessionExists (dvSessionID device) d, ForeignKeyViolation)]
       (\<lambda>d. let rows = upsertBy devKey
                (\<lambda>v. v\<lparr>dvSessionID := dvSessionID device, dvPlatform := dvPlatform device,
                       dvPushToken := dvPushToken device, dvIsEnabled := dvIsEnabled device,
                       dvUpdatedAt := dvUpdatedAt device\<rparr>) device (tDevices d)
            in (find (\<lambda>v. devKey v = devKey device) rows, d\<lparr>tDevices := rows\<rparr>)) d))
     (\<lambda>row. case row of None \<Rightarrow> fail ErrNoRows | Some out \<Rightarrow> ret out)"

definition lookupDeviceIdentifier :: "env \<Rightarrow> bytes \<Rightarrow> uuid \<Rightarrow> string io" where
  "lookupDeviceIdentifier env userPublicKey deviceID = queryOne env ErrNotFound (\<lambda>d. map_option dvDeviceID
     (find (\<lambda>v. dvID v = deviceID \<and> dvUserPublicKey v = userPublicKey) (tDevices d)))"

definition DeleteKeyPackagesByUserDevice :: "env \<Rightarrow> bytes \<Rightarrow> string \<Rightarrow> unit io" where
  "DeleteKeyPackagesByUserDevice env userPublicKey deviceID = sqlExec env (\<lambda>d.
     d\<lparr>tKeyPackages := delWhere (\<lambda>k. kpUserPublicKey k = userPublicKey \<and> kpDeviceID k = deviceID)
        (tKeyPackages d)\<rparr>)"

definition storeRemoveDevice :: "env \<Rightarrow> bytes \<Rightarrow> uuid \<Rightarrow> unit io" where
  "storeRemoveDevice env userPublicKey deviceID =
     andThen (lookupDeviceIdentifier env userPublicKey deviceID) (\<lambda>deviceIdentifier.
     andThen (sqlExec env (\<lambda>d. d\<lparr>tDevices :=
       delWhere (\<lambda>v. dvID v = deviceID \<and> dvUserPublicKey v = userPublicKey) (tDevices d)\<rparr>)) (\<lambda>_.
     DeleteKeyPackagesByUserDevice env userPublicKey deviceIdentifier))"

text \<open>\<open>apppush.TargetDevice\<close>.\<close>

record TargetDevice =
  tdDeviceID :: string
  tdPlatform :: int
  tdPushToken :: string
  tdIsEnabled :: bool
  tdFound :: bool

definition zeroTarget :: TargetDevice where
  "zeroTarget = \<lparr>tdDeviceID = [], tdPlatform = 0, tdPushToken = [], tdIsEnabled = False, tdFound = False\<rparr>"

definition LookupDevice :: "env \<Rightarrow> string \<Rightarrow> TargetDevice io" where
  "LookupDevice env deviceID = sqlQuery env (\<lambda>d.
     case sort_key (\<lambda>v. - dvUpdatedAt v) (filter (\<lambda>v. dvDeviceID v = deviceID) (tDevices d)) of
       [] \<Rightarrow> zeroTarget
     | v # _ \<Rightarrow> \<lparr>tdDeviceID = dvDeviceID v, tdPlatform = dvPlatform v, tdPushToken = dvPushToken v,
                 tdIsEnabled = dvIsEnabled v, tdFound = True\<rparr>)"

definition LookupProfileName :: "env \<Rightarrow> bytes \<Rightarrow> string io" where
  "LookupProfileName env publicKey w =
     (case storeGetProfile env publicKey w of
        (Ret profile, w') \<Rightarrow>
          (Ret (if pfDisplayName profile \<noteq> [] then pfDisplayName profile
                else if pfUsername profile \<noteq> [] then pfUsername profile else []), w')
      | (Err e, w') \<Rightarrow> if e = ErrNotFound then (Ret [], w') else (Err e, w')
      | (Panic p, w') \<Rightarrow> (Panic p, w'))"

section \<open>Key packages\<close>

definition insertKeyPackage :: "env \<Rightarrow> KeyPackageRecord \<Rightarrow> unit io" where
  "insertKeyPackage env item = sql env (\<lambda>d. checkAll
     [(length (kpUserPublicKey item) = 32, CheckViolation),
      (kpKeyPackageBytes item \<noteq> [], CheckViolation),
      (kpID item \<notin> kpID ` set (tKeyPackages d), UniqueViolation)]
     (\<lambda>d. d\<lparr>tKeyPackages := tKeyPackages d @ [item]\<rparr>) d)"

definition InsertKeyPackages :: "env \<Rightarrow> KeyPackageRecord list \<Rightarrow> int io" where
  "InsertKeyPackages env keyPackages =
     andThen (forEach (insertKeyPackage env) keyPackages) (\<lambda>_. ret (int (length keyPackages)))"

text \<open>\<^verbatim>\<open>SELECT DISTINCT ON (k)\<close>: the first row of each key, in the given order.\<close>

fun distinctOn :: "('a \<Rightarrow> 'k) \<Rightarrow> 'a list \<Rightarrow> 'a list" where
  "distinctOn k [] = []"
| "distinctOn k (x # xs) = x # distinctOn k (filter (\<lambda>y. k y \<noteq> k x) xs)"

definition kpKey :: "KeyPackageRecord \<Rightarrow> bytes \<times> string" where
  "kpKey k = (kpUserPublicKey k, kpDeviceID k)"

definition keyPackageOrder ::
  "env \<Rightarrow> KeyPackageRecord \<Rightarrow> bytes \<times> string \<times> string \<times> bool \<times> int" where
  "keyPackageOrder env k =
     (kpUserPublicKey k, eCollate env (kpDeviceID k), kpDeviceID k, kpIsLastResort k, - kpCreatedAt k)"

definition storeFetchKeyPackages :: "env \<Rightarrow> bytes list \<Rightarrow> time \<Rightarrow> KeyPackageRecord list io" where
  "storeFetchKeyPackages env userPublicKeys now = sqlQuery env (\<lambda>d.
     distinctOn kpKey (sort_key (keyPackageOrder env)
       (filter (\<lambda>k. kpUserPublicKey k \<in> set userPublicKeys \<and> now < kpExpiresAt k) (tKeyPackages d))))"

section \<open>Friends\<close>

definition areFriends :: "bytes \<Rightarrow> bytes \<Rightarrow> database \<Rightarrow> bool" where
  "areFriends left right d \<longleftrightarrow>
     list_ex (\<lambda>f. frUserPublicKey f = left \<and> frFriendPublicKey f = right
       \<and> list_ex (\<lambda>g. frUserPublicKey g = frFriendPublicKey f \<and> frFriendPublicKey g = frUserPublicKey f)
            (tFriends d)) (tFriends d)"

definition AreFriends :: "env \<Rightarrow> bytes \<Rightarrow> bytes \<Rightarrow> bool io" where
  "AreFriends env left right = sqlQuery env (areFriends left right)"

text \<open>The friends of a user, most recent first, then by descending id.\<close>

definition friendsOf :: "bytes \<Rightarrow> database \<Rightarrow> FriendRecord list" where
  "friendsOf userPublicKey d = sort_key (\<lambda>f. (- frAcceptedAt f, - uint (frID f)))
     (filter (\<lambda>f. frUserPublicKey f = userPublicKey) (tFriends d))"

definition storeListFriends :: "env \<Rightarrow> bytes \<Rightarrow> int \<Rightarrow> int \<Rightarrow> FriendRecord list io" where
  "storeListFriends env userPublicKey limit offset =
     sqlQuery env (\<lambda>d. limitOffset limit offset (friendsOf userPublicKey d))"

definition CountFriends :: "env \<Rightarrow> bytes \<Rightarrow> int io" where
  "CountFriends env userPublicKey =
     sqlQuery env (\<lambda>d. countWhere (\<lambda>f. frUserPublicKey f = userPublicKey) (tFriends d))"

definition storeRemoveFriend :: "env \<Rightarrow> bytes \<Rightarrow> bytes \<Rightarrow> unit io" where
  "storeRemoveFriend env userPublicKey friendPublicKey = sqlExec env (\<lambda>d. d\<lparr>tFriends := delWhere
     (\<lambda>f. frUserPublicKey f = userPublicKey \<and> frFriendPublicKey f = friendPublicKey
        \<or> frUserPublicKey f = friendPublicKey \<and> frFriendPublicKey f = userPublicKey) (tFriends d)\<rparr>)"

definition frKey :: "FriendRecord \<Rightarrow> bytes \<times> bytes" where
  "frKey f = (frUserPublicKey f, frFriendPublicKey f)"

definition insertFriend :: "env \<Rightarrow> FriendRecord \<Rightarrow> unit io" where
  "insertFriend env item = sql env (\<lambda>d. checkAll
     [(length (frUserPublicKey item) = 32, CheckViolation),
      (length (frFriendPublicKey item) = 32, CheckViolation),
      (frKey item \<in> frKey ` set (tFriends d) \<or> frID item \<notin> frID ` set (tFriends d), UniqueViolation)]
     (\<lambda>d. if frKey item \<in> frKey ` set (tFriends d) then d
          else d\<lparr>tFriends := tFriends d @ [item]\<rparr>) d)"

definition CreateFriendPair :: "env \<Rightarrow> FriendRecord \<Rightarrow> FriendRecord \<Rightarrow> unit io" where
  "CreateFriendPair env left right = forEach (insertFriend env) [left, right]"

section \<open>Friend requests\<close>

definition containsState :: "int list \<Rightarrow> int \<Rightarrow> bool" where
  "containsState values target \<longleftrightarrow> target \<in> set values"

definition CreateFriendRequest :: "env \<Rightarrow> FriendRequestRecord \<Rightarrow> unit io" where
  "CreateFriendRequest env request = sql env (\<lambda>d. checkAll
     [(length (fqSenderPublicKey request) = 32, CheckViolation),
      (length (fqReceiverPublicKey request) = 32, CheckViolation),
      (fqState request > 0, CheckViolation),
      (fqRequestID request \<notin> fqRequestID ` set (tFriendRequests d), UniqueViolation)]
     (\<lambda>d. d\<lparr>tFriendRequests := tFriendRequests d @ [request]\<rparr>) d)"

definition requestOf :: "uuid \<Rightarrow> database \<Rightarrow> FriendRequestRecord option" where
  "requestOf requestID d = find (\<lambda>q. fqRequestID q = requestID) (tFriendRequests d)"

definition GetFriendRequest :: "env \<Rightarrow> uuid \<Rightarrow> FriendRequestRecord io" where
  "GetFriendRequest env requestID = queryOne env ErrNotFound (requestOf requestID)"

definition setRequestState :: "uuid \<Rightarrow> int \<Rightarrow> time \<Rightarrow> database \<Rightarrow> database" where
  "setRequestState requestID targetState updatedAt d = d\<lparr>tFriendRequests :=
     updWhere (\<lambda>q. fqRequestID q = requestID)
       (\<lambda>q. q\<lparr>fqState := targetState, fqUpdatedAt := updatedAt\<rparr>) (tFriendRequests d)\<rparr>"

definition UpdateFriendRequestState ::
  "env \<Rightarrow> uuid \<Rightarrow> bytes \<Rightarrow> int list \<Rightarrow> int \<Rightarrow> time \<Rightarrow> FriendRequestRecord io" where
  "UpdateFriendRequestState env requestID actorPublicKey allowedFromStates targetState updatedAt =
     andThen (GetFriendRequest env requestID) (\<lambda>record.
     guardErr (actorPublicKey \<noteq> fqSenderPublicKey record \<and> actorPublicKey \<noteq> fqReceiverPublicKey record)
       ErrForbidden (
     guardErr (\<not> containsState allowedFromStates (fqState record)) ErrConflict (
     andThen (sql env (\<lambda>d. checkThen [(targetState > 0, CheckViolation)]
       (\<lambda>d. let d' = setRequestState requestID targetState updatedAt d in (requestOf requestID d', d')) d))
     (\<lambda>row. case row of None \<Rightarrow> fail ErrNoRows | Some out \<Rightarrow> ret out))))"

definition requestFor :: "string \<Rightarrow> bytes \<Rightarrow> FriendRequestRecord \<Rightarrow> bool" where
  "requestFor direction userPublicKey q \<longleftrightarrow>
     (if direction = ''incoming'' then fqReceiverPublicKey q = userPublicKey
      else if direction = ''outgoing'' then fqSenderPublicKey q = userPublicKey
      else fqSenderPublicKey q = userPublicKey \<or> fqReceiverPublicKey q = userPublicKey)"

definition storeListFriendRequests ::
  "env \<Rightarrow> bytes \<Rightarrow> string \<Rightarrow> int \<Rightarrow> int \<Rightarrow> FriendRequestRecord list io" where
  "storeListFriendRequests env userPublicKey direction limit offset = sqlQuery env (\<lambda>d.
     limitOffset limit offset (sort_key (\<lambda>q. (- fqCreatedAt q, - uint (fqRequestID q)))
       (filter (requestFor direction userPublicKey) (tFriendRequests d))))"

end
