(* ===== verification/RoomRepo.thy ===== *)
theory RoomRepo
  imports ClientRepo
begin

text \<open>
  The client repository \<^verbatim>\<open>repository/postgres/client_repository.go\<close>, second part: chat rooms with their members,
  states, group infos, welcomes, permissions and invitations, direct rooms, and the counters.
\<close>

section \<open>Constants\<close>

definition VisibilityPublic :: int where "VisibilityPublic = 1"
definition VisibilityLinkOnly :: int where "VisibilityLinkOnly = 2"
definition VisibilityPrivate :: int where "VisibilityPrivate = 3"

definition RoleMember :: int where "RoleMember = 1"
definition RoleAdmin :: int where "RoleAdmin = 2"
definition RoleOwner :: int where "RoleOwner = 3"

definition NotificationAll :: int where "NotificationAll = 1"

definition InvitationPending :: int where "InvitationPending = 1"
definition InvitationAccepted :: int where "InvitationAccepted = 2"
definition InvitationDeclined :: int where "InvitationDeclined = 3"
definition InvitationRevoked :: int where "InvitationRevoked = 4"

lemmas invitation_states = InvitationPending_def InvitationAccepted_def InvitationDeclined_def
  InvitationRevoked_def

lemmas role_defs = RoleMember_def RoleAdmin_def RoleOwner_def NotificationAll_def

lemmas visibility_defs = VisibilityPublic_def VisibilityLinkOnly_def VisibilityPrivate_def

section \<open>Members\<close>

definition activeMember :: "uuid \<Rightarrow> bytes \<Rightarrow> ChatMemberRecord \<Rightarrow> bool" where
  "activeMember roomID userPublicKey m \<longleftrightarrow>
     cmRoomID m = roomID \<and> cmUserPublicKey m = userPublicKey \<and> cmLeftAt m = None"

definition memberOf :: "uuid \<Rightarrow> bytes \<Rightarrow> database \<Rightarrow> ChatMemberRecord option" where
  "memberOf roomID userPublicKey d = find (activeMember roomID userPublicKey) (tChatMembers d)"

definition ensureMember :: "env \<Rightarrow> uuid \<Rightarrow> bytes \<Rightarrow> ChatMemberRecord io" where
  "ensureMember env roomID userPublicKey = queryOne env ErrForbidden (memberOf roomID userPublicKey)"

definition ensureRoomAdmin :: "env \<Rightarrow> uuid \<Rightarrow> bytes \<Rightarrow> unit io" where
  "ensureRoomAdmin env roomID userPublicKey =
     andThen (ensureMember env roomID userPublicKey) (\<lambda>member.
     guardErr (cmRole member < RoleAdmin) ErrForbidden (ret ()))"

definition memKey :: "ChatMemberRecord \<Rightarrow> uuid \<times> bytes" where
  "memKey m = (cmRoomID m, cmUserPublicKey m)"

definition roomExists :: "uuid \<Rightarrow> database \<Rightarrow> bool" where
  "roomExists roomID d \<longleftrightarrow> roomID \<in> crRoomID ` set (tChatRooms d)"

definition memberChecks :: "ChatMemberRecord \<Rightarrow> database \<Rightarrow> (bool \<times> sqlErr) list" where
  "memberChecks m d =
     [(length (cmUserPublicKey m) = 32, CheckViolation), (cmRole m > 0, CheckViolation),
      (cmNotificationLevel m > 0, CheckViolation), (roomExists (cmRoomID m) d, ForeignKeyViolation)]"

definition insertMember :: "env \<Rightarrow> ChatMemberRecord \<Rightarrow> unit io" where
  "insertMember env m = sql env (\<lambda>d. checkAll
     (memberChecks m d @ [(memKey m \<notin> memKey ` set (tChatMembers d), UniqueViolation)])
     (\<lambda>d. d\<lparr>tChatMembers := tChatMembers d @ [m\<lparr>cmLeftAt := None\<rparr>]\<rparr>) d)"

text \<open>\<^verbatim>\<open>ON CONFLICT (room_id, user_public_key) DO UPDATE\<close>: the member is active again, with the new role.\<close>

definition upsertMember :: "env \<Rightarrow> ChatMemberRecord \<Rightarrow> unit io" where
  "upsertMember env m = sql env (\<lambda>d. checkAll (memberChecks m d)
     (\<lambda>d. d\<lparr>tChatMembers := upsertBy memKey
        (\<lambda>r. r\<lparr>cmLeftAt := None, cmRole := cmRole m, cmNotificationLevel := cmNotificationLevel m\<rparr>)
        (m\<lparr>cmLeftAt := None\<rparr>) (tChatMembers d)\<rparr>) d)"

definition markLeft :: "uuid \<Rightarrow> bytes \<Rightarrow> time \<Rightarrow> database \<Rightarrow> database" where
  "markLeft roomID userPublicKey leftAt d = d\<lparr>tChatMembers :=
     updWhere (activeMember roomID userPublicKey) (\<lambda>m. m\<lparr>cmLeftAt := Some leftAt\<rparr>) (tChatMembers d)\<rparr>"

definition LeaveRoom :: "env \<Rightarrow> uuid \<Rightarrow> bytes \<Rightarrow> time \<Rightarrow> unit io" where
  "LeaveRoom env roomID userPublicKey leftAt =
     andThen (sql env (\<lambda>d. Inr (countWhere (activeMember roomID userPublicKey) (tChatMembers d),
                               markLeft roomID userPublicKey leftAt d)))
     (\<lambda>rows. if rows = 0 then fail ErrNotFound else ret ())"

definition KickMember :: "env \<Rightarrow> bytes \<Rightarrow> uuid \<Rightarrow> bytes \<Rightarrow> time \<Rightarrow> unit io" where
  "KickMember env actorPublicKey roomID targetPublicKey kickedAt =
     andThen (ensureRoomAdmin env roomID actorPublicKey) (\<lambda>_.
     sqlExec env (markLeft roomID targetPublicKey kickedAt))"

definition ListMembers :: "env \<Rightarrow> uuid \<Rightarrow> int \<Rightarrow> int \<Rightarrow> ChatMemberRecord list io" where
  "ListMembers env roomID limit offset = sqlQuery env (\<lambda>d. limitOffset limit offset
     (sort_key (\<lambda>m. (cmJoinedAt m, cmUserPublicKey m))
       (filter (\<lambda>m. cmRoomID m = roomID \<and> cmLeftAt m = None) (tChatMembers d))))"

definition UpdateMemberRole :: "env \<Rightarrow> bytes \<Rightarrow> uuid \<Rightarrow> bytes \<Rightarrow> int \<Rightarrow> unit io" where
  "UpdateMemberRole env actorPublicKey roomID targetPublicKey role =
     andThen (ensureRoomAdmin env roomID actorPublicKey) (\<lambda>_.
     sql env (\<lambda>d. checkAll
       [(role > 0 \<or> memberOf roomID targetPublicKey d = None, CheckViolation)]
       (\<lambda>d. d\<lparr>tChatMembers := updWhere (activeMember roomID targetPublicKey)
          (\<lambda>m. m\<lparr>cmRole := role\<rparr>) (tChatMembers d)\<rparr>) d))"

definition activeKeys :: "uuid \<Rightarrow> database \<Rightarrow> bytes list" where
  "activeKeys roomID d =
     map cmUserPublicKey (filter (\<lambda>m. cmRoomID m = roomID \<and> cmLeftAt m = None) (tChatMembers d))"

definition ListActiveRoomMemberPublicKeys :: "env \<Rightarrow> uuid \<Rightarrow> bytes list io" where
  "ListActiveRoomMemberPublicKeys env roomID = sqlQuery env (activeKeys roomID)"

section \<open>Rooms\<close>

definition roomRecord :: "ChatRoomRow \<Rightarrow> ChatRoomRecord" where
  "roomRecord r =
     \<lparr>rmRoomID = crRoomID r, rmOwnerPublicKey = crOwnerPublicKey r, rmTitle = crTitle r,
      rmDescription = coalesce (crDescription r), rmVisibility = crVisibility r,
      rmAvatarHash = coalesce (crAvatarHash r), rmAvatarBytes = coalesce (crAvatarBytes r),
      rmAvatarContentType = coalesce (crAvatarContentType r), rmStateID = crStateID r,
      rmCreatedAt = crCreatedAt r, rmUpdatedAt = crUpdatedAt r, rmDeletedAt = crDeletedAt r\<rparr>"

definition liveRoom :: "uuid \<Rightarrow> database \<Rightarrow> ChatRoomRow option" where
  "liveRoom roomID d = find (\<lambda>r. crRoomID r = roomID \<and> crDeletedAt r = None) (tChatRooms d)"

text \<open>The rooms the service creates have no avatar; the driver sends the nil slice as \<^verbatim>\<open>NULL\<close>.\<close>

definition roomRow :: "ChatRoomRecord \<Rightarrow> ChatRoomRow" where
  "roomRow room =
     \<lparr>crRoomID = rmRoomID room, crOwnerPublicKey = rmOwnerPublicKey room, crTitle = rmTitle room,
      crDescription = nullIfEmpty (rmDescription room), crVisibility = rmVisibility room,
      crAvatarHash = nullIfEmpty (rmAvatarHash room),
      crAvatarBytes = (if rmAvatarBytes room = [] then None else Some (rmAvatarBytes room)),
      crAvatarContentType = Some (rmAvatarContentType room), crStateID = rmStateID room,
      crCreatedAt = rmCreatedAt room, crUpdatedAt = rmUpdatedAt room, crDeletedAt = None\<rparr>"

definition insertRoom :: "env \<Rightarrow> ChatRoomRecord \<Rightarrow> unit io" where
  "insertRoom env room = sql env (\<lambda>d. checkAll
     [(length (rmOwnerPublicKey room) = 32, CheckViolation),
      (rmVisibility room > 0, CheckViolation),
      (rmTitle room \<noteq> [], CheckViolation),
      (\<not> roomExists (rmRoomID room) d, UniqueViolation)]
     (\<lambda>d. d\<lparr>tChatRooms := tChatRooms d @ [roomRow room]\<rparr>) d)"

definition CreateRoom :: "env \<Rightarrow> ChatRoomRecord \<Rightarrow> ChatMemberRecord \<Rightarrow> unit io" where
  "CreateRoom env room owner = andThen (insertRoom env room) (\<lambda>_. insertMember env owner)"

definition GetRoom :: "env \<Rightarrow> uuid \<Rightarrow> ChatRoomRecord io" where
  "GetRoom env roomID = queryOne env ErrNotFound (\<lambda>d. map_option roomRecord (liveRoom roomID d))"

definition roomOrder :: "ChatRoomRow \<Rightarrow> int \<times> int" where
  "roomOrder r = (- crUpdatedAt r, - uint (crRoomID r))"

text \<open>The join yields a room once per active membership of the user, which the primary key makes at most
  one.\<close>

definition ListRooms :: "env \<Rightarrow> bytes \<Rightarrow> int \<Rightarrow> int \<Rightarrow> ChatRoomRecord list io" where
  "ListRooms env userPublicKey limit offset = sqlQuery env (\<lambda>d.
     map roomRecord (limitOffset limit offset (sort_key roomOrder
       (concat (map (\<lambda>r. map (\<lambda>_. r) (filter (activeMember (crRoomID r) userPublicKey) (tChatMembers d)))
         (filter (\<lambda>r. crDeletedAt r = None) (tChatRooms d)))))))"

definition SearchRooms :: "env \<Rightarrow> string \<Rightarrow> int \<Rightarrow> int \<Rightarrow> ChatRoomRecord list io" where
  "SearchRooms env query limit offset = sqlQuery env (\<lambda>d.
     map roomRecord (limitOffset limit offset (sort_key roomOrder
       (filter (\<lambda>r. crDeletedAt r = None \<and> crVisibility r = VisibilityPublic
          \<and> textContains (eLower env query) (eLower env (crTitle r))) (tChatRooms d)))))"

definition updateRoomRow :: "string \<Rightarrow> string \<Rightarrow> string \<Rightarrow> time \<Rightarrow> ChatRoomRow \<Rightarrow> ChatRoomRow" where
  "updateRoomRow title description avatarHash updatedAt r = r\<lparr>
     crTitle := (if title = [] then crTitle r else title),
     crDescription := (if description = [] then crDescription r else Some description),
     crAvatarHash := (if avatarHash = [] then crAvatarHash r else Some avatarHash),
     crUpdatedAt := updatedAt\<rparr>"

definition UpdateRoom ::
  "env \<Rightarrow> bytes \<Rightarrow> uuid \<Rightarrow> string \<Rightarrow> string \<Rightarrow> string \<Rightarrow> time \<Rightarrow> unit io" where
  "UpdateRoom env userPublicKey roomID title description avatarHash updatedAt =
     andThen (GetRoom env roomID) (\<lambda>room.
     guardErr (rmOwnerPublicKey room \<noteq> userPublicKey) ErrForbidden (
     sqlExec env (\<lambda>d. d\<lparr>tChatRooms := updWhere (\<lambda>r. crRoomID r = roomID)
       (updateRoomRow title description avatarHash updatedAt) (tChatRooms d)\<rparr>)))"

definition DeleteRoom :: "env \<Rightarrow> bytes \<Rightarrow> uuid \<Rightarrow> time \<Rightarrow> unit io" where
  "DeleteRoom env userPublicKey roomID deletedAt =
     andThen (GetRoom env roomID) (\<lambda>room.
     guardErr (rmOwnerPublicKey room \<noteq> userPublicKey) ErrForbidden (
     sqlExec env (\<lambda>d. d\<lparr>tChatRooms := updWhere (\<lambda>r. crRoomID r = roomID)
       (\<lambda>r. r\<lparr>crDeletedAt := Some deletedAt, crUpdatedAt := deletedAt\<rparr>) (tChatRooms d)\<rparr>)))"

definition GetRoomAvatar :: "env \<Rightarrow> uuid \<Rightarrow> AvatarRecord io" where
  "GetRoomAvatar env roomID = queryOne env ErrNotFound (\<lambda>d. map_option
     (\<lambda>r. \<lparr>avBytes = coalesce (crAvatarBytes r), avContentType = coalesce (crAvatarContentType r)\<rparr>)
     (liveRoom roomID d))"

definition stKey :: "ChatRoomStateRecord \<Rightarrow> uuid \<times> int" where
  "stKey s = (stRoomID s, stEpoch s)"

definition insertState :: "env \<Rightarrow> ChatRoomStateRecord \<Rightarrow> unit io" where
  "insertState env state = sql env (\<lambda>d. checkAll
     [(stTreeBytes state \<noteq> None, NotNullViolation),
      (stTreeHash state \<noteq> None, NotNullViolation),
      (stID state \<notin> stID ` set (tChatRoomStates d), UniqueViolation),
      (stKey state \<notin> stKey ` set (tChatRoomStates d), UniqueViolation),
      (roomExists (stRoomID state) d, ForeignKeyViolation)]
     (\<lambda>d. d\<lparr>tChatRoomStates := tChatRoomStates d @ [state]\<rparr>) d)"

definition AddRoomState :: "env \<Rightarrow> bytes \<Rightarrow> ChatRoomStateRecord \<Rightarrow> unit io" where
  "AddRoomState env userPublicKey state =
     andThen (ensureMember env (stRoomID state) userPublicKey) (\<lambda>_.
     andThen (insertState env state) (\<lambda>_.
     sqlExec env (\<lambda>d. d\<lparr>tChatRooms := updWhere (\<lambda>r. crRoomID r = stRoomID state)
       (\<lambda>r. r\<lparr>crStateID := Some (stID state), crUpdatedAt := stCreatedAt state\<rparr>) (tChatRooms d)\<rparr>)))"

definition FetchRoomState :: "env \<Rightarrow> bytes \<Rightarrow> uuid \<Rightarrow> int \<Rightarrow> ChatRoomStateRecord io" where
  "FetchRoomState env userPublicKey roomID epoch =
     andThen (ensureMember env roomID userPublicKey) (\<lambda>_.
     queryOne env ErrNotFound (\<lambda>d. find (\<lambda>s. stRoomID s = roomID \<and> stEpoch s = epoch) (tChatRoomStates d)))"

definition JoinRoom :: "env \<Rightarrow> ChatMemberRecord \<Rightarrow> unit io" where
  "JoinRoom env member =
     andThen (GetRoom env (cmRoomID member)) (\<lambda>room.
     guardErr (rmVisibility room = VisibilityPrivate) ErrForbidden (upsertMember env member))"

definition UpsertRoomMembership :: "env \<Rightarrow> ChatMemberRecord \<Rightarrow> unit io" where
  "UpsertRoomMembership env member =
     andThen (GetRoom env (cmRoomID member)) (\<lambda>_. upsertMember env member)"

section \<open>Group infos\<close>

definition UpsertRoomGroupInfo :: "env \<Rightarrow> bytes \<Rightarrow> ChatRoomGroupInfoRecord \<Rightarrow> unit io" where
  "UpsertRoomGroupInfo env userPublicKey groupInfo =
     andThen (ensureMember env (giRoomID groupInfo) userPublicKey) (\<lambda>_.
     sql env (\<lambda>d. checkAll
       [(length (giUploaderPublicKey groupInfo) = 32, CheckViolation),
        (giGroupInfoBytes groupInfo \<noteq> [], CheckViolation),
        (roomExists (giRoomID groupInfo) d, ForeignKeyViolation)]
       (\<lambda>d. d\<lparr>tGroupInfos := upsertBy giRoomID
          (\<lambda>g. g\<lparr>giUploaderPublicKey := giUploaderPublicKey groupInfo,
                  giGroupInfoBytes := giGroupInfoBytes groupInfo, giUpdatedAt := giUpdatedAt groupInfo\<rparr>)
          groupInfo (tGroupInfos d)\<rparr>) d))"

definition GetRoomGroupInfo :: "env \<Rightarrow> uuid \<Rightarrow> ChatRoomGroupInfoRecord io" where
  "GetRoomGroupInfo env roomID =
     queryOne env ErrNotFound (\<lambda>d. find (\<lambda>g. giRoomID g = roomID) (tGroupInfos d))"

section \<open>Direct rooms and welcomes\<close>

definition orderedPublicKeyPair :: "bytes \<Rightarrow> bytes \<Rightarrow> bytes \<times> bytes" where
  "orderedPublicKeyPair left right =
     (if bytesCompare left right \<le> 0 then (left, right) else (right, left))"

definition drKey :: "DirectRoomRecord \<Rightarrow> bytes \<times> bytes" where
  "drKey r = (drLeftUserPublicKey r, drRightUserPublicKey r)"

definition directRoomOf :: "bytes \<Rightarrow> bytes \<Rightarrow> database \<Rightarrow> uuid option" where
  "directRoomOf left right d = map_option drRoomID
     (find (\<lambda>r. drKey r = orderedPublicKeyPair left right \<and> liveRoom (drRoomID r) d \<noteq> None) (tDirectRooms d))"

definition FindDirectRoomIDByUsers :: "env \<Rightarrow> bytes \<Rightarrow> bytes \<Rightarrow> uuid option io" where
  "FindDirectRoomIDByUsers env left right = sqlQuery env (directRoomOf left right)"

definition insertDirect :: "env \<Rightarrow> DirectRoomRecord \<Rightarrow> unit io" where
  "insertDirect env direct = sql env (\<lambda>d. checkAll
     [(length (drLeftUserPublicKey direct) = 32, CheckViolation),
      (length (drRightUserPublicKey direct) = 32, CheckViolation),
      (drLeftUserPublicKey direct \<noteq> drRightUserPublicKey direct, CheckViolation),
      (drRoomID direct \<notin> drRoomID ` set (tDirectRooms d), UniqueViolation),
      (drKey direct \<notin> drKey ` set (tDirectRooms d), UniqueViolation),
      (roomExists (drRoomID direct) d, ForeignKeyViolation)]
     (\<lambda>d. d\<lparr>tDirectRooms := tDirectRooms d @ [direct]\<rparr>) d)"

definition storeCreateDirectRoom ::
  "env \<Rightarrow> ChatRoomRecord \<Rightarrow> ChatMemberRecord \<Rightarrow> ChatMemberRecord \<Rightarrow> DirectRoomRecord \<Rightarrow> unit io" where
  "storeCreateDirectRoom env room left right direct =
     andThen (CreateRoom env room left) (\<lambda>_.
     andThen (insertDirect env direct) (\<lambda>_.
     insertMember env right))"

definition isDirect :: "uuid \<Rightarrow> database \<Rightarrow> bool" where
  "isDirect roomID d \<longleftrightarrow>
     list_ex (\<lambda>r. drRoomID r = roomID) (tDirectRooms d) \<and> liveRoom roomID d \<noteq> None"

definition IsDirectRoom :: "env \<Rightarrow> uuid \<Rightarrow> bool io" where
  "IsDirectRoom env roomID = sqlQuery env (isDirect roomID)"

definition wlKey :: "ChatRoomWelcomeRecord \<Rightarrow> uuid \<times> bytes" where
  "wlKey r = (wlRoomID r, wlTargetUserPublicKey r)"

definition UpsertRoomWelcome :: "env \<Rightarrow> ChatRoomWelcomeRecord \<Rightarrow> unit io" where
  "UpsertRoomWelcome env welcome = sql env (\<lambda>d. checkAll
     [(length (wlTargetUserPublicKey welcome) = 32, CheckViolation),
      (length (wlSenderPublicKey welcome) = 32, CheckViolation),
      (wlWelcomeBytes welcome \<noteq> [], CheckViolation),
      (roomExists (wlRoomID welcome) d, ForeignKeyViolation)]
     (\<lambda>d. d\<lparr>tWelcomes := upsertBy wlKey
        (\<lambda>r. r\<lparr>wlSenderPublicKey := wlSenderPublicKey welcome, wlWelcomeBytes := wlWelcomeBytes welcome,
                wlUpdatedAt := wlUpdatedAt welcome\<rparr>) welcome (tWelcomes d)\<rparr>) d)"

definition GetRoomWelcome :: "env \<Rightarrow> uuid \<Rightarrow> bytes \<Rightarrow> ChatRoomWelcomeRecord io" where
  "GetRoomWelcome env roomID targetUserPublicKey =
     andThen (ensureMember env roomID targetUserPublicKey) (\<lambda>_.
     andThen (IsDirectRoom env roomID) (\<lambda>direct.
     guardErr (\<not> direct) ErrForbidden (
     andThen (sqlQuery env (\<lambda>d. countWhere (\<lambda>m. cmRoomID m = roomID \<and> cmLeftAt m = None) (tChatMembers d)))
       (\<lambda>activeMembers.
     guardErr (activeMembers \<noteq> 2) ErrForbidden (
     queryOne env ErrNotFound (\<lambda>d. find (\<lambda>r. wlKey r = (roomID, targetUserPublicKey)) (tWelcomes d)))))))"

definition DeleteRoomWelcomesByTargetUser :: "env \<Rightarrow> bytes \<Rightarrow> unit io" where
  "DeleteRoomWelcomesByTargetUser env targetUserPublicKey = sqlExec env (\<lambda>d.
     d\<lparr>tWelcomes := delWhere (\<lambda>r. wlTargetUserPublicKey r = targetUserPublicKey) (tWelcomes d)\<rparr>)"

section \<open>Permissions\<close>

definition pmKey :: "ChatMemberPermissionRecord \<Rightarrow> uuid \<times> bytes \<times> string" where
  "pmKey p = (pmRoomID p, pmUserPublicKey p, pmPermissionKey p)"

definition CreateMemberPermission :: "env \<Rightarrow> bytes \<Rightarrow> ChatMemberPermissionRecord \<Rightarrow> unit io" where
  "CreateMemberPermission env actorPublicKey permission =
     andThen (ensureRoomAdmin env (pmRoomID permission) actorPublicKey) (\<lambda>_.
     sql env (\<lambda>d. checkAll
       [(length (pmUserPublicKey permission) = 32, CheckViolation),
        (pmKey permission \<in> pmKey ` set (tPermissions d)
           \<or> pmPermissionID permission \<notin> pmPermissionID ` set (tPermissions d), UniqueViolation),
        (roomExists (pmRoomID permission) d, ForeignKeyViolation)]
       (\<lambda>d. d\<lparr>tPermissions := upsertBy pmKey
          (\<lambda>p. p\<lparr>pmIsAllowed := pmIsAllowed permission, pmUpdatedAt := pmUpdatedAt permission\<rparr>)
          permission (tPermissions d)\<rparr>) d))"

definition ListMemberPermissions ::
  "env \<Rightarrow> uuid \<Rightarrow> bytes \<Rightarrow> int \<Rightarrow> int \<Rightarrow> ChatMemberPermissionRecord list io" where
  "ListMemberPermissions env roomID userPublicKey limit offset = sqlQuery env (\<lambda>d.
     limitOffset limit offset (sort_key (\<lambda>p. (- pmCreatedAt p, - uint (pmPermissionID p)))
       (filter (\<lambda>p. pmRoomID p = roomID
          \<and> (length userPublicKey = 32 \<longrightarrow> pmUserPublicKey p = userPublicKey)) (tPermissions d))))"

definition lookupPermissionRoom :: "env \<Rightarrow> uuid \<Rightarrow> uuid io" where
  "lookupPermissionRoom env permissionID = queryOne env ErrNotFound (\<lambda>d. map_option pmRoomID
     (find (\<lambda>p. pmPermissionID p = permissionID) (tPermissions d)))"

definition UpdateMemberPermission :: "env \<Rightarrow> bytes \<Rightarrow> uuid \<Rightarrow> bool \<Rightarrow> time \<Rightarrow> unit io" where
  "UpdateMemberPermission env actorPublicKey permissionID isAllowed updatedAt =
     andThen (lookupPermissionRoom env permissionID) (\<lambda>roomID.
     andThen (ensureRoomAdmin env roomID actorPublicKey) (\<lambda>_.
     sqlExec env (\<lambda>d. d\<lparr>tPermissions := updWhere (\<lambda>p. pmPermissionID p = permissionID)
       (\<lambda>p. p\<lparr>pmIsAllowed := isAllowed, pmUpdatedAt := updatedAt\<rparr>) (tPermissions d)\<rparr>)))"

definition DeleteMemberPermission :: "env \<Rightarrow> bytes \<Rightarrow> uuid \<Rightarrow> unit io" where
  "DeleteMemberPermission env actorPublicKey permissionID =
     andThen (lookupPermissionRoom env permissionID) (\<lambda>roomID.
     andThen (ensureRoomAdmin env roomID actorPublicKey) (\<lambda>_.
     sqlExec env (\<lambda>d. d\<lparr>tPermissions := delWhere (\<lambda>p. pmPermissionID p = permissionID) (tPermissions d)\<rparr>)))"

section \<open>Invitations\<close>

definition CreateInvitation :: "env \<Rightarrow> ChatInvitationRecord \<Rightarrow> unit io" where
  "CreateInvitation env invitation =
     andThen (ensureRoomAdmin env (ivRoomID invitation) (ivInviterPublicKey invitation)) (\<lambda>_.
     sql env (\<lambda>d. checkAll
       [(length (ivInviterPublicKey invitation) = 32, CheckViolation),
        (length (ivInviteePublicKey invitation) = 32, CheckViolation),
        (ivState invitation > 0, CheckViolation),
        (ivInvitationID invitation \<notin> ivInvitationID ` set (tInvitations d), UniqueViolation),
        (roomExists (ivRoomID invitation) d, ForeignKeyViolation)]
       (\<lambda>d. d\<lparr>tInvitations := tInvitations d @ [invitation]\<rparr>) d))"

definition invitationOf :: "uuid \<Rightarrow> database \<Rightarrow> ChatInvitationRecord option" where
  "invitationOf invitationID d = find (\<lambda>i. ivInvitationID i = invitationID) (tInvitations d)"

definition GetInvitation :: "env \<Rightarrow> uuid \<Rightarrow> ChatInvitationRecord io" where
  "GetInvitation env invitationID = queryOne env ErrNotFound (invitationOf invitationID)"

definition invitationOrder :: "ChatInvitationRecord \<Rightarrow> int \<times> int" where
  "invitationOrder i = (- ivCreatedAt i, - uint (ivInvitationID i))"

definition ListSentInvitations ::
  "env \<Rightarrow> bytes \<Rightarrow> uuid option \<Rightarrow> int \<Rightarrow> int \<Rightarrow> ChatInvitationRecord list io" where
  "ListSentInvitations env inviterPublicKey roomID limit offset = sqlQuery env (\<lambda>d.
     limitOffset limit offset (sort_key invitationOrder (filter
       (\<lambda>i. ivInviterPublicKey i = inviterPublicKey
          \<and> (case roomID of None \<Rightarrow> True | Some r \<Rightarrow> ivRoomID i = r)) (tInvitations d))))"

definition ListIncomingInvitations :: "env \<Rightarrow> bytes \<Rightarrow> int \<Rightarrow> int \<Rightarrow> ChatInvitationRecord list io" where
  "ListIncomingInvitations env inviteePublicKey limit offset = sqlQuery env (\<lambda>d.
     limitOffset limit offset (sort_key invitationOrder
       (filter (\<lambda>i. ivInviteePublicKey i = inviteePublicKey) (tInvitations d))))"

definition setInvitationState :: "uuid \<Rightarrow> int \<Rightarrow> time \<Rightarrow> database \<Rightarrow> database" where
  "setInvitationState invitationID targetState updatedAt d = d\<lparr>tInvitations :=
     updWhere (\<lambda>i. ivInvitationID i = invitationID)
       (\<lambda>i. i\<lparr>ivState := targetState, ivUpdatedAt := updatedAt\<rparr>) (tInvitations d)\<rparr>"

definition UpdateInvitationState ::
  "env \<Rightarrow> uuid \<Rightarrow> bytes \<Rightarrow> int \<Rightarrow> time \<Rightarrow> int list \<Rightarrow> ChatInvitationRecord io" where
  "UpdateInvitationState env invitationID actorPublicKey targetState updatedAt allowedCurrentStates =
     andThen (GetInvitation env invitationID) (\<lambda>record.
     guardErr (actorPublicKey \<noteq> ivInviterPublicKey record \<and> actorPublicKey \<noteq> ivInviteePublicKey record)
       ErrForbidden (
     guardErr (\<not> containsState allowedCurrentStates (ivState record)) ErrConflict (
     andThen (sql env (\<lambda>d. checkThen [(targetState > 0, CheckViolation)]
       (\<lambda>d. let d' = setInvitationState invitationID targetState updatedAt d
            in (invitationOf invitationID d', d')) d))
     (\<lambda>row. case row of None \<Rightarrow> fail ErrNoRows | Some out \<Rightarrow> ret out))))"

definition FindPendingInvitation :: "env \<Rightarrow> uuid \<Rightarrow> bytes \<Rightarrow> ChatInvitationRecord option io" where
  "FindPendingInvitation env roomID inviteePublicKey = sqlQuery env (\<lambda>d.
     case sort_key (\<lambda>i. - ivCreatedAt i) (filter (\<lambda>i. ivRoomID i = roomID
         \<and> ivInviteePublicKey i = inviteePublicKey \<and> ivState i = InvitationPending) (tInvitations d)) of
       [] \<Rightarrow> None
     | i # _ \<Rightarrow> Some i)"

section \<open>Counters\<close>

record ServerStats =
  ssProfiles :: int
  ssDevices :: int
  ssFriends :: int
  ssRooms :: int

record UserStats =
  userDevices :: int
  userKeyPackages :: int
  userFriends :: int
  userOutgoingFriendRequests :: int
  userRooms :: int

record GroupStats =
  gsMembers :: int
  gsInvites :: int

text \<open>The queries of a loop that scans one number each.\<close>

definition countAll :: "env \<Rightarrow> (database \<Rightarrow> int) list \<Rightarrow> int list io" where
  "countAll env queries = mapEach (sqlQuery env) queries"

definition CountServerStats :: "env \<Rightarrow> ServerStats io" where
  "CountServerStats env =
     andThen (countAll env
       [\<lambda>d. countWhere (\<lambda>p. prDeletedAt p = None) (tProfiles d),
        \<lambda>d. int (length (tDevices d)),
        \<lambda>d. int (length (tFriends d)),
        \<lambda>d. countWhere (\<lambda>r. crDeletedAt r = None) (tChatRooms d)]) (\<lambda>ns.
     ret \<lparr>ssProfiles = ns ! 0, ssDevices = ns ! 1, ssFriends = ns ! 2, ssRooms = ns ! 3\<rparr>)"

definition CountUserStats :: "env \<Rightarrow> bytes \<Rightarrow> UserStats io" where
  "CountUserStats env userPublicKey =
     andThen (countAll env
       [\<lambda>d. countWhere (\<lambda>v. dvUserPublicKey v = userPublicKey) (tDevices d),
        \<lambda>d. countWhere (\<lambda>k. kpUserPublicKey k = userPublicKey) (tKeyPackages d),
        \<lambda>d. countWhere (\<lambda>f. frUserPublicKey f = userPublicKey) (tFriends d),
        \<lambda>d. countWhere (\<lambda>q. fqSenderPublicKey q = userPublicKey \<and> fqState q = 1) (tFriendRequests d),
        \<lambda>d. countWhere (\<lambda>m. cmUserPublicKey m = userPublicKey \<and> cmLeftAt m = None) (tChatMembers d)]) (\<lambda>ns.
     ret \<lparr>userDevices = ns ! 0, userKeyPackages = ns ! 1, userFriends = ns ! 2,
          userOutgoingFriendRequests = ns ! 3, userRooms = ns ! 4\<rparr>)"

definition CountGroupStats :: "env \<Rightarrow> uuid \<Rightarrow> GroupStats io" where
  "CountGroupStats env roomID =
     andThen (countAll env
       [\<lambda>d. countWhere (\<lambda>m. cmRoomID m = roomID \<and> cmLeftAt m = None) (tChatMembers d),
        \<lambda>d. countWhere (\<lambda>i. ivRoomID i = roomID) (tInvitations d)]) (\<lambda>ns.
     ret \<lparr>gsMembers = ns ! 0, gsInvites = ns ! 1\<rparr>)"

end
