(* ===== verification/Usage.thy ===== *)
theory Usage
  imports ClientRepo
begin

text \<open>
  Usage statistics of a user: \<^verbatim>\<open>RecordUserUsage\<close> and \<^verbatim>\<open>GetUserUsageStats\<close> of
  \<^verbatim>\<open>repository/postgres/client_repository.go\<close>. One statement adds to six counters, one per kind of bucket; the buckets
  are those of PostgreSQL's \<^verbatim>\<open>date_trunc\<close> in UTC, computed here on days since 1970-01-01.
\<close>

section \<open>Buckets\<close>

abbreviation day :: duration where "day \<equiv> 86400000000"

definition truncTo :: "duration \<Rightarrow> time \<Rightarrow> time" where
  "truncTo unit t = t div unit * unit"

text \<open>1970-01-01 was a Thursday; weeks start on Monday.\<close>

definition weekStart :: "time \<Rightarrow> time" where
  "weekStart t = (let n = t div day in (n - (n + 3) mod 7) * day)"

text \<open>The day of the month, counted from 0, of a day counted from 1970-01-01. Years are taken to start on
  March 1, so that the leap day is the last of its year: an era is 400 years, or 146097 days, and
  splits into centuries, spans of four years and years of which the last may be a day longer.\<close>

definition dayOfYear :: "int \<Rightarrow> int" where
  "dayOfYear n =
     (let e = (n + 719468) mod 146097;
          c = e - min 3 (e div 36524) * 36524;
          q = c mod 1461
      in q - min 3 (q div 365) * 365)"

definition dayOfMonth :: "int \<Rightarrow> int" where
  "dayOfMonth n = (let y = dayOfYear n in y - (153 * ((5 * y + 2) div 153) + 2) div 5)"

definition monthStart :: "time \<Rightarrow> time" where
  "monthStart t = (let n = t div day in (n - dayOfMonth n) * day)"

definition bucketStart :: "string \<Rightarrow> time \<Rightarrow> time" where
  "bucketStart kind t =
     (if kind = ''minute'' then truncTo minute t
      else if kind = ''hour'' then truncTo hour t
      else if kind = ''day'' then truncTo day t
      else if kind = ''week'' then weekStart t
      else if kind = ''month'' then monthStart t
      else 0)"

definition usageKinds :: "string list" where
  "usageKinds = [''minute'', ''hour'', ''day'', ''week'', ''month'', ''allTime'']"

section \<open>Operations\<close>

definition usKey :: "UsageRow \<Rightarrow> bytes \<times> string \<times> time" where
  "usKey u = (usUserPublicKey u, usKind u, usBucketStart u)"

definition addStat :: "UsageStat \<Rightarrow> UsageStat \<Rightarrow> UsageStat" where
  "addStat a b = \<lparr>utRequests = utRequests a + utRequests b, utBytesIn = utBytesIn a + utBytesIn b,
     utBytesOut = utBytesOut a + utBytesOut b\<rparr>"

definition zeroStat :: UsageStat where
  "zeroStat = \<lparr>utRequests = 0, utBytesIn = 0, utBytesOut = 0\<rparr>"

text \<open>\<^verbatim>\<open>BIGINT\<close> arithmetic that overflows is an error.\<close>

definition fitsBigint :: "UsageStat \<Rightarrow> bool" where
  "fitsBigint s \<longleftrightarrow> utRequests s \<le> maxInt64 \<and> utBytesIn s \<le> maxInt64 \<and> utBytesOut s \<le> maxInt64"

definition usageAt :: "bytes \<Rightarrow> string \<Rightarrow> time \<Rightarrow> UsageRow list \<Rightarrow> UsageStat" where
  "usageAt user kind start rows = (case find (\<lambda>u. usKey u = (user, kind, start)) rows of
       None \<Rightarrow> zeroStat
     | Some u \<Rightarrow> usStat u)"

definition addUsage :: "bytes \<Rightarrow> time \<Rightarrow> UsageStat \<Rightarrow> string \<Rightarrow> UsageRow list \<Rightarrow> UsageRow list" where
  "addUsage user now stat kind = upsertBy usKey
     (\<lambda>u. u\<lparr>usStat := addStat (usStat u) stat, usUpdatedAt := now\<rparr>)
     \<lparr>usUserPublicKey = user, usKind = kind, usBucketStart = bucketStart kind now, usStat = stat,
      usUpdatedAt = now\<rparr>"

definition storeRecordUserUsage :: "env \<Rightarrow> bytes \<Rightarrow> time \<Rightarrow> int \<Rightarrow> int \<Rightarrow> int \<Rightarrow> unit io" where
  "storeRecordUserUsage env user now requests bytesIn bytesOut =
     (if requests = 0 \<and> bytesIn = 0 \<and> bytesOut = 0 then ret ()
      else let stat = \<lparr>utRequests = requests, utBytesIn = bytesIn, utBytesOut = bytesOut\<rparr> in
        wrapErr ''record user usage'' (sql env (\<lambda>d. checkAll
          [(length user = 32, CheckViolation),
           (requests \<ge> 0 \<and> bytesIn \<ge> 0 \<and> bytesOut \<ge> 0, CheckViolation),
           (list_all (\<lambda>kind. fitsBigint (addStat (usageAt user kind (bucketStart kind now) (tUsageStats d)) stat))
              usageKinds, DriverFault),
           (user \<in> prPublicKey ` set (tProfiles d), ForeignKeyViolation)]
          (\<lambda>d. d\<lparr>tUsageStats := fold (addUsage user now stat) usageKinds (tUsageStats d)\<rparr>) d)))"

record UsageStats =
  uMinute :: UsageStat
  uHour :: UsageStat
  uDay :: UsageStat
  uWeek :: UsageStat
  uMonth :: UsageStat
  uAllTime :: UsageStat

definition usageStatsOf :: "bytes \<Rightarrow> time \<Rightarrow> UsageRow list \<Rightarrow> UsageStats" where
  "usageStatsOf user now rows =
     (let at = (\<lambda>kind. usageAt user kind (bucketStart kind now) rows)
      in \<lparr>uMinute = at ''minute'', uHour = at ''hour'', uDay = at ''day'', uWeek = at ''week'',
          uMonth = at ''month'', uAllTime = at ''allTime''\<rparr>)"

definition GetUserUsageStats :: "env \<Rightarrow> bytes \<Rightarrow> time \<Rightarrow> UsageStats io" where
  "GetUserUsageStats env user now =
     wrapErr ''get user usage stats'' (sqlQuery env (\<lambda>d. usageStatsOf user now (tUsageStats d)))"

section \<open>Calendar facts\<close>

lemma truncTo_bounds: "0 < u \<Longrightarrow> truncTo u t \<le> t \<and> t < truncTo u t + u"
  unfolding truncTo_def
  using div_mult_mod_eq [of t u] pos_mod_bound [of u t] pos_mod_sign [of u t] by linarith

lemma dayOfMonth_bounds: "0 \<le> dayOfMonth n \<and> dayOfMonth n \<le> 30"
proof -
  define y where "y = dayOfYear n"
  define m where "m = (5 * y + 2) div 153"
  define k where "k = (153 * m + 2) div 5"
  have "153 * m \<le> 5 * y + 2" "5 * y + 2 < 153 * m + 153"
    using truncTo_bounds [of 153 "5 * y + 2"] by (simp_all add: truncTo_def m_def)
  moreover have "5 * k \<le> 153 * m + 2" "153 * m + 2 < 5 * k + 5"
    using truncTo_bounds [of 5 "153 * m + 2"] by (simp_all add: truncTo_def k_def)
  moreover have "dayOfMonth n = y - k" by (simp add: dayOfMonth_def y_def m_def k_def Let_def)
  ultimately show ?thesis by linarith
qed

text \<open>An instant lies in its bucket, and the buckets have the lengths their names say.\<close>

definition bucketLength :: "string \<Rightarrow> duration" where
  "bucketLength kind =
     (if kind = ''minute'' then minute else if kind = ''hour'' then hour else if kind = ''day'' then day
      else if kind = ''week'' then 7 * day else 31 * day)"

lemma startOf_bounds:
  fixes u :: int
  assumes "0 < u" and "0 \<le> k" and "k < m"
  shows "(t div u - k) * u \<le> t \<and> t < (t div u - k) * u + m * u"
proof -
  have "(k + 1) * u \<le> m * u" and "0 \<le> k * u"
    using assms by (simp_all add: mult_right_mono)
  then show ?thesis
    using truncTo_bounds [OF assms(1), of t] by (simp add: truncTo_def algebra_simps)
qed

lemma bucketStart_simps:
  "bucketStart ''minute'' t = truncTo minute t" "bucketStart ''hour'' t = truncTo hour t"
  "bucketStart ''day'' t = truncTo day t" "bucketStart ''week'' t = weekStart t"
  "bucketStart ''month'' t = monthStart t" "bucketStart ''allTime'' t = 0"
  by (simp_all add: bucketStart_def)

lemma bucketLength_simps:
  "bucketLength ''minute'' = minute" "bucketLength ''hour'' = hour" "bucketLength ''day'' = day"
  "bucketLength ''week'' = 7 * day" "bucketLength ''month'' = 31 * day"
  by (simp_all add: bucketLength_def)

lemma weekStart_bounds: "weekStart t \<le> t \<and> t < weekStart t + 7 * day"
  unfolding weekStart_def Let_def by (intro startOf_bounds) simp_all

lemma monthStart_bounds: "monthStart t \<le> t \<and> t < monthStart t + 31 * day"
  unfolding monthStart_def Let_def using dayOfMonth_bounds [of "t div day"]
  by (intro startOf_bounds) auto

lemma bucket_contains:
  assumes "kind \<in> set usageKinds" and "kind \<noteq> ''allTime''"
  shows "bucketStart kind t \<le> t \<and> t < bucketStart kind t + bucketLength kind"
proof -
  have "kind \<in> {''minute'', ''hour'', ''day'', ''week'', ''month''}"
    using assms by (simp add: usageKinds_def)
  then show ?thesis
    by (elim insertE emptyE)
      (simp_all only: bucketStart_simps bucketLength_simps truncTo_bounds weekStart_bounds monthStart_bounds
        zero_less_numeral)
qed

section \<open>Counting\<close>

lemma addStat_zero [simp]: "addStat zeroStat s = s"
  by (simp add: addStat_def zeroStat_def)

lemma usageAt_addUsage:
  "usageAt u' k' s' (addUsage u now stat kind rows) =
     (if (u', k', s') = (u, kind, bucketStart kind now) then addStat (usageAt u' k' s' rows) stat
      else usageAt u' k' s' rows)"
  unfolding usageAt_def addUsage_def
  by (subst find_upsertBy) (auto simp: usKey_def split: option.splits)

lemma usageAt_addUsages:
  assumes "distinct kinds"
  shows "usageAt u' k' s' (fold (addUsage u now stat) kinds rows) =
     (if u' = u \<and> k' \<in> set kinds \<and> s' = bucketStart k' now then addStat (usageAt u' k' s' rows) stat
      else usageAt u' k' s' rows)"
  using assms by (induction kinds arbitrary: rows) (auto simp: usageAt_addUsage)

lemma addStat_nothing: "addStat s \<lparr>utRequests = 0, utBytesIn = 0, utBytesOut = 0\<rparr> = s"
  by (simp add: addStat_def)

lemma recordUsage_RetE:
  assumes "storeRecordUserUsage env u now r i out w = (Ret (), w')"
  shows "usageAt u' k' s' (tUsageStats (db w')) =
     (if u' = u \<and> k' \<in> set usageKinds \<and> s' = bucketStart k' now
      then addStat (usageAt u' k' s' (tUsageStats (db w))) \<lparr>utRequests = r, utBytesIn = i, utBytesOut = out\<rparr>
      else usageAt u' k' s' (tUsageStats (db w)))"
proof (cases "r = 0 \<and> i = 0 \<and> out = 0")
  case True
  then show ?thesis using assms by (auto simp: storeRecordUserUsage_def addStat_nothing)
next
  case False
  moreover have "distinct usageKinds" by (simp add: usageKinds_def)
  ultimately show ?thesis
    using assms by (auto simp: storeRecordUserUsage_def Let_def checkAll_Inr usageAt_addUsages elim!: sql_RetE)
qed

end
