(* ===== verification/ClientMaps.thy ===== *)
theory ClientMaps
  imports RoomRepo Usage
begin

text \<open>
  What the client service computes without a store: pages and their cursors
  (\<^verbatim>\<open>application/clientapi/pagination.go\<close>) and the maps records are returned as
  (\<^verbatim>\<open>mappers.go\<close>). A nil \<^verbatim>\<open>*uuid.UUID\<close> in a map is written as nil, which is how it is encoded.
\<close>

section \<open>Pages\<close>

definition normalizeLimit :: "int \<Rightarrow> int \<Rightarrow> int" where
  "normalizeLimit limit fallback = (if limit \<le> 0 \<or> limit > 200 then fallback else limit)"

definition decodeOffsetCursor :: "string \<Rightarrow> err + int" where
  "decodeOffsetCursor cursor =
     (if isBlank cursor then Inr 0
      else case rawURLDecode cursor of
             None \<Rightarrow> Inl (ErrWrap ''invalid cursor'' (ErrMsg ''illegal base64 data''))
           | Some raw \<Rightarrow> (case atoi (bytesString raw) of
                 None \<Rightarrow> Inl (ErrMsg ''invalid cursor'')
               | Some offset \<Rightarrow> if offset < 0 then Inl (ErrMsg ''invalid cursor'') else Inr offset))"

definition encodeOffsetCursor :: "int \<Rightarrow> string" where
  "encodeOffsetCursor offset = rawURLEncode (stringBytes (itoa offset))"

definition paginateSlice :: "'a list \<Rightarrow> int \<Rightarrow> int \<Rightarrow> 'a list \<times> any" where
  "paginateSlice items limit offset =
     (if int (length items) \<le> limit then (items, GNil)
      else (take (nat limit) items, GString (encodeOffsetCursor (wrapInt64 (offset + limit)))))"

section \<open>Maps\<close>

definition nullableString :: "string \<Rightarrow> any" where
  "nullableString value = (if isBlank value then GNil else GString value)"

definition fallbackContentType :: "string \<Rightarrow> string" where
  "fallbackContentType value = (if isBlank value then ''application/octet-stream'' else value)"

definition profileToMap :: "env \<Rightarrow> ProfileRecord \<Rightarrow> payload" where
  "profileToMap env record =
     [(''publicKey'', GBytes (pfPublicKey record)),
      (''username'', GString (pfUsername record)),
      (''displayName'', nullableString (pfDisplayName record)),
      (''bio'', nullableString (pfBio record)),
      (''lastSeenAt'', GString (eRFC3339 env (pfLastSeenAt record)))]"

definition uuidPtr :: "uuid option \<Rightarrow> any" where
  "uuidPtr p = (case p of None \<Rightarrow> GNil | Some u \<Rightarrow> GUUID u)"

definition roomToMap :: "ChatRoomRecord \<Rightarrow> payload" where
  "roomToMap record =
     [(''roomId'', GUUID (rmRoomID record)),
      (''ownerPublicKey'', GBytes (rmOwnerPublicKey record)),
      (''title'', GString (rmTitle record)),
      (''description'', nullableString (rmDescription record)),
      (''visibility'', GInt (rmVisibility record)),
      (''stateId'', uuidPtr (rmStateID record))]"

definition invitationToMap :: "env \<Rightarrow> ChatInvitationRecord \<Rightarrow> payload" where
  "invitationToMap env record =
     [(''invitationId'', GUUID (ivInvitationID record)),
      (''roomId'', GUUID (ivRoomID record)),
      (''inviterPublicKey'', GBytes (ivInviterPublicKey record)),
      (''inviteePublicKey'', GBytes (ivInviteePublicKey record)),
      (''expiresAt'', (case ivExpiresAt record of None \<Rightarrow> GNil | Some t \<Rightarrow> GString (eRFC3339 env t))),
      (''inviteToken'', GBytes (ivInviteToken record)),
      (''inviteTokenSignature'', GBytes (ivInviteTokenSignature record)),
      (''state'', GInt (ivState record)),
      (''createdAt'', GString (eRFC3339 env (ivCreatedAt record)))]"

definition invitationRecordsToMaps :: "env \<Rightarrow> ChatInvitationRecord list \<Rightarrow> payload list" where
  "invitationRecordsToMaps env records = map (invitationToMap env) records"

definition usageStatToMap :: "UsageStat \<Rightarrow> payload" where
  "usageStatToMap stat =
     [(''requests'', GInt64 (utRequests stat)), (''bytesIn'', GInt64 (utBytesIn stat)),
      (''bytesOut'', GInt64 (utBytesOut stat))]"

text \<open>\<^verbatim>\<open>time.UnixMicro\<close> of a number of any width the decoder yields.\<close>

definition parseTimeValue :: "env \<Rightarrow> any \<Rightarrow> err + time" where
  "parseTimeValue env value = (case value of
       GTime t \<Rightarrow> Inr t
     | GString s \<Rightarrow> (case eParseTime env s of None \<Rightarrow> Inl (ErrMsg ''parsing time'') | Some t \<Rightarrow> Inr t)
     | GInt64 i \<Rightarrow> Inr i
     | GInt i \<Rightarrow> Inr i
     | GInt32 i \<Rightarrow> Inr i
     | GUint64 i \<Rightarrow> Inr (wrapInt64 i)
     | GUint32 i \<Rightarrow> Inr i
     | GUint i \<Rightarrow> Inr (wrapInt64 i)
     | _ \<Rightarrow> Inl (ErrMsg ''invalid time value''))"

section \<open>Cursors\<close>

lemma normalizeLimit_bounds:
  "1 \<le> fallback \<Longrightarrow> fallback \<le> 200 \<Longrightarrow> 1 \<le> normalizeLimit limit fallback \<and> normalizeLimit limit fallback \<le> 200"
  by (auto simp: normalizeLimit_def)

text \<open>A string of visible ASCII characters has no space to trim.\<close>

definition visible :: "char \<Rightarrow> bool" where
  "visible c \<longleftrightarrow> 32 < (of_char c :: nat) \<and> (of_char c :: nat) < 127"

lemma stripAny_None:
  "(\<And>p. p \<in> set pats \<Longrightarrow> p \<noteq> [] \<and> hd p \<noteq> c) \<Longrightarrow> stripAny pats (c # cs) = None"
proof (induction pats)
  case (Cons p ps)
  from Cons.prems [of p] obtain x xs where "p = x # xs" "x \<noteq> c" by (cases p) auto
  then show ?case using Cons by simp
qed simp

lemma spaceRunes_hidden: "p \<in> set spaceRunes \<Longrightarrow> p \<noteq> [] \<and> \<not> visible (hd p) \<and> \<not> visible (hd (rev p))"
  by (auto simp: spaceRunes_def visible_def)

lemma trimWith_visible:
  assumes "s \<noteq> []" and "visible (hd s)" and "\<And>p. p \<in> set pats \<Longrightarrow> p \<noteq> [] \<and> \<not> visible (hd p)"
  shows "trimWith pats s = s"
proof -
  obtain c cs where "s = c # cs" using assms(1) by (cases s) auto
  then show ?thesis using assms by (intro trimWith_stop) (metis list.sel(1) stripAny_None)
qed

lemma visible_not_blank:
  assumes "s \<noteq> []" and "\<And>c. c \<in> set s \<Longrightarrow> visible c"
  shows "\<not> isBlank s"
proof -
  have "trimWith spaceRunes s = s"
    using assms spaceRunes_hidden by (intro trimWith_visible) auto
  moreover have "trimWith (map rev spaceRunes) (rev s) = rev s"
    using assms spaceRunes_hidden by (intro trimWith_visible) (auto simp: hd_rev)
  ultimately show ?thesis using assms(1) by (simp add: trimSpace_def)
qed

lemma visible_urlDigit: "n < 64 \<Longrightarrow> visible (urlDigit n)"
  by (auto simp: visible_def urlDigit_def b64Digit_def)

lemma b64Sextets_Nil [simp]: "b64Sextets b = [] \<longleftrightarrow> b = []"
  by (cases b rule: b64Sextets.cases) auto

lemma itoa_nonempty [simp]: "itoa i \<noteq> []"
  by (simp add: itoa_def natToDec_nonempty)

lemma stringBytes_Nil [simp]: "stringBytes s = [] \<longleftrightarrow> s = []"
  by (simp add: stringBytes_def)

lemma cursor_not_blank: "\<not> isBlank (encodeOffsetCursor i)"
  unfolding encodeOffsetCursor_def rawURLEncode_def
  by (rule visible_not_blank) (auto dest: b64Sextets_bound visible_urlDigit)

lemma decode_encode_cursor:
  "0 \<le> i \<Longrightarrow> i \<le> maxInt64 \<Longrightarrow> decodeOffsetCursor (encodeOffsetCursor i) = Inr i"
  unfolding decodeOffsetCursor_def using cursor_not_blank [of i]
  by (simp add: encodeOffsetCursor_def rawURLDecode_rawURLEncode atoi_itoa)

end
