(* ===== verification/PeopleService.thy ===== *)
theory PeopleService
  imports ClientMaps AuthService
begin

text \<open>
  The client service \<^verbatim>\<open>application/clientapi/service.go\<close>, first part: profiles, devices, key packages, friends
  and friend requests, limits and usage. Answers are maps; the service's events go through the notifying
  repository and its session lookups to the authentication service, as \<^verbatim>\<open>cmd/server/main.go\<close> wires them.
\<close>

section \<open>Configuration and events\<close>

record ClientConfig =
  ccAppName :: string
  ccVersion :: string
  ccSessionChallengeTTL :: duration
  ccEventRetention :: duration
  ccEventBatchSize :: int

definition ClientNewService :: "bool \<Rightarrow> ClientConfig \<Rightarrow> err + ClientConfig" where
  "ClientNewService deps cfg =
     (if \<not> deps then Inl (ErrMsg ''all dependencies are required'')
      else Inr (cfg\<lparr>
        ccVersion := (if ccVersion cfg = [] then ''2'' else ccVersion cfg),
        ccEventRetention := (if ccEventRetention cfg \<le> 0 then 24 * hour else ccEventRetention cfg),
        ccEventBatchSize := (if ccEventBatchSize cfg \<le> 0 then 100 else ccEventBatchSize cfg)\<rparr>))"

definition clientEvent ::
  "ClientConfig \<Rightarrow> uuid \<Rightarrow> bytes \<Rightarrow> string \<Rightarrow> payload \<Rightarrow> time \<Rightarrow> Event" where
  "clientEvent cfg eventID user eventType payload now =
     \<lparr>evEventID = eventID, evUserPublicKey = user, evReplyToRequestID = None, evEventType = eventType,
      evPayload = payload, evAvailableAt = now, evExpiresAt = now + ccEventRetention cfg,
      evDeliveredAt = None, evCreatedAt = now\<rparr>"

definition appendEvent :: "env \<Rightarrow> ClientConfig \<Rightarrow> bytes \<Rightarrow> string \<Rightarrow> payload \<Rightarrow> unit io" where
  "appendEvent env cfg user eventType payload =
     (if length user \<noteq> 32 then ret ()
      else andThen (clockNow env) (\<lambda>now.
           andThen (uuidNew env) (\<lambda>eventID.
           NotifyingAppend env (clientEvent cfg eventID user eventType payload now))))"

text \<open>\<^verbatim>\<open>now.UTC().Format(time.RFC3339Nano)\<close>.\<close>

definition stamp :: "env \<Rightarrow> time \<Rightarrow> any" where
  "stamp env t = GString (eRFC3339 env t)"

definition fromSum :: "err + 'a \<Rightarrow> 'a io" where
  "fromSum r = (case r of Inl e \<Rightarrow> fail e | Inr x \<Rightarrow> ret x)"

text \<open>The common beginning of the listings: the page of \<open>limit\<close> rows at the cursor, and the next cursor.\<close>

definition pageOf :: "int \<Rightarrow> int \<Rightarrow> string \<Rightarrow> (int \<Rightarrow> int \<Rightarrow> 'a list io) \<Rightarrow> ('a list \<times> any) io" where
  "pageOf fallback limit cursor list =
     andThen (fromSum (decodeOffsetCursor cursor)) (\<lambda>offset.
     andThen (list (normalizeLimit limit fallback + 1) offset) (\<lambda>records.
     ret (paginateSlice records (normalizeLimit limit fallback) offset)))"

section \<open>Profiles\<close>

definition GetProfile :: "env \<Rightarrow> bytes \<Rightarrow> payload io" where
  "GetProfile env target =
     guardErr (length target \<noteq> 32) ErrInvalidPublicKey (
     andThen (storeGetProfile env target) (\<lambda>record.
     andThen (clockNow env) (\<lambda>now.
     andThen (GetActiveBanStatus env target now) (\<lambda>banStatus.
     ret [(''profile'', GMap (profileToMap env record)),
          (''banStatus'', (case banStatus of
               None \<Rightarrow> GNil
             | Some b \<Rightarrow> GMap [(''isBanned'', GBool (bsIsBanned b)), (''reason'', nullableString (bsReason b))]))]))))"

definition profileUpdated ::
  "env \<Rightarrow> bytes \<Rightarrow> string \<Rightarrow> string \<Rightarrow> string \<Rightarrow> string \<Rightarrow> time \<Rightarrow> payload" where
  "profileUpdated env user username displayName avatarHash bio now =
     [(''userPublicKey'', GBytes user), (''username'', GString username),
      (''displayName'', GString displayName), (''avatarHash'', GString avatarHash), (''bio'', GString bio),
      (''updatedAt'', stamp env now)]"

text \<open>\<^verbatim>\<open>for offset := 0; ; offset += limit\<close>: the friends page by page, until a page is not full. The first argument
  bounds the number of pages; the loop never needs more pages than there are friends, and one.\<close>

fun friendPages :: "nat \<Rightarrow> env \<Rightarrow> ClientConfig \<Rightarrow> bytes \<Rightarrow> payload \<Rightarrow> int \<Rightarrow> unit io" where
  "friendPages 0 env cfg user payload offset = panic ''page bound exceeded''"
| "friendPages (Suc n) env cfg user payload offset =
     andThen (storeListFriends env user (ccEventBatchSize cfg) offset) (\<lambda>friends.
     andThen (forEachIgnore (\<lambda>f. appendEvent env cfg (frFriendPublicKey f) ''profile.updated'' payload) friends) (\<lambda>_.
     if int (length friends) < ccEventBatchSize cfg then ret ()
     else friendPages n env cfg user payload (offset + ccEventBatchSize cfg)))"

definition UpdateProfile ::
  "env \<Rightarrow> ClientConfig \<Rightarrow> bytes \<Rightarrow> string \<Rightarrow> string \<Rightarrow> string \<Rightarrow> string \<Rightarrow> payload io" where
  "UpdateProfile env cfg user username displayName avatarHash bio =
     andThen (clockNow env) (\<lambda>now.
     andThen (storeUpdateProfile env user username displayName avatarHash bio now) (\<lambda>_.
     andThen (\<lambda>w. friendPages (Suc (length (tFriends (db w)))) env cfg user
        (profileUpdated env user username displayName avatarHash bio now) 0 w) (\<lambda>_.
     ret [(''updatedAt'', stamp env now)])))"

definition SearchProfiles :: "env \<Rightarrow> string \<Rightarrow> int \<Rightarrow> string \<Rightarrow> payload io" where
  "SearchProfiles env query limit cursor =
     andThen (pageOf 20 limit cursor (storeSearchProfiles env query)) (\<lambda>(records, nextCursor).
     ret [(''items'', GMapList (map (\<lambda>record.
            [(''publicKey'', GBytes (pfPublicKey record)), (''username'', GString (pfUsername record)),
             (''displayName'', nullableString (pfDisplayName record))]) records)),
          (''nextCursor'', nextCursor)])"

definition DeleteAccount :: "env \<Rightarrow> bytes \<Rightarrow> payload io" where
  "DeleteAccount env user =
     andThen (clockNow env) (\<lambda>now.
     andThen (WithinTransaction env NoTx (\<lambda>txCtx. storeDeleteAccount env user now)) (\<lambda>_.
     ret [(''deletedAt'', stamp env now)]))"

definition GetProfileAvatar :: "env \<Rightarrow> bytes \<Rightarrow> payload io" where
  "GetProfileAvatar env user =
     andThen (storeGetProfileAvatar env user) (\<lambda>avatar.
     ret [(''avatarBytes'', GBytes (avBytes avatar)),
          (''contentType'', GString (fallbackContentType (avContentType avatar)))])"

section \<open>Devices and key packages\<close>

definition ListDevices :: "env \<Rightarrow> bytes \<Rightarrow> payload io" where
  "ListDevices env user =
     andThen (storeListDevices env user) (\<lambda>devices.
     ret [(''items'', GMapList (map (\<lambda>device.
            [(''deviceId'', GUUID (dvID device)), (''platform'', GInt (dvPlatform device)),
             (''pushToken'', GString (dvPushToken device)), (''isEnabled'', GBool (dvIsEnabled device)),
             (''updatedAt'', stamp env (dvUpdatedAt device))]) devices))])"

definition RegisterDevicePushToken ::
  "env \<Rightarrow> uuid \<Rightarrow> bytes \<Rightarrow> int \<Rightarrow> string \<Rightarrow> bool \<Rightarrow> payload io" where
  "RegisterDevicePushToken env sessionID user platform pushToken isEnabled =
     andThen (LookupSession env sessionID) (\<lambda>session.
     andThen (clockNow env) (\<lambda>now.
     andThen (uuidNew env) (\<lambda>i.
     andThen (UpsertDevice env
       \<lparr>dvID = i, dvSessionID = Some sessionID, dvUserPublicKey = user, dvDeviceID = sesDeviceID session,
        dvPlatform = platform, dvPushToken = pushToken, dvIsEnabled = isEnabled, dvUpdatedAt = now\<rparr>) (\<lambda>device.
     ret [(''id'', GUUID (dvID device)), (''updatedAt'', stamp env now)]))))"

definition RemoveDevice :: "env \<Rightarrow> bytes \<Rightarrow> uuid \<Rightarrow> payload io" where
  "RemoveDevice env user deviceID =
     andThen (clockNow env) (\<lambda>now.
     andThen (storeRemoveDevice env user deviceID) (\<lambda>_.
     ret [(''removedAt'', stamp env now)]))"

text \<open>\<^verbatim>\<open>item[key]\<close>, nil when absent, and the type assertions made on it.\<close>

definition field :: "payload \<Rightarrow> string \<Rightarrow> any" where
  "field item key = (case map_of item key of None \<Rightarrow> GNil | Some v \<Rightarrow> v)"

definition anyBytes :: "any \<Rightarrow> bytes option" where
  "anyBytes v = (case v of GBytes b \<Rightarrow> Some b | GNilBytes \<Rightarrow> Some [] | _ \<Rightarrow> None)"

definition anyBool :: "any \<Rightarrow> bool" where
  "anyBool v = (case v of GBool b \<Rightarrow> b | _ \<Rightarrow> False)"

definition keyPackageOf :: "env \<Rightarrow> bytes \<Rightarrow> string \<Rightarrow> time \<Rightarrow> payload \<Rightarrow> KeyPackageRecord io" where
  "keyPackageOf env user deviceID now item =
     andThen (fromSum (parseTimeValue env (field item ''expiresAt''))) (\<lambda>expiresAt.
     case anyBytes (field item ''keyPackageBytes'') of
       None \<Rightarrow> fail (ErrMsg ''keyPackageBytes is required'')
     | Some bytesValue \<Rightarrow>
         andThen (uuidNew env) (\<lambda>i.
         ret \<lparr>kpID = i, kpUserPublicKey = user, kpDeviceID = deviceID, kpKeyPackageBytes = bytesValue,
              kpIsLastResort = anyBool (field item ''isLastResort''), kpCreatedAt = now,
              kpExpiresAt = expiresAt\<rparr>))"

definition UploadKeyPackages :: "env \<Rightarrow> uuid \<Rightarrow> bytes \<Rightarrow> payload list \<Rightarrow> payload io" where
  "UploadKeyPackages env sessionID user packages =
     andThen (LookupSession env sessionID) (\<lambda>session.
     andThen (clockNow env) (\<lambda>now.
     andThen (mapEach (keyPackageOf env user (sesDeviceID session) now) packages) (\<lambda>records.
     andThen (if records \<noteq> [] then DeleteKeyPackagesByUserDevice env user (sesDeviceID session) else ret ()) (\<lambda>_.
     andThen (InsertKeyPackages env records) (\<lambda>recordedCount.
     ret [(''recordedCount'', GInt recordedCount)])))))"

definition FetchKeyPackages :: "env \<Rightarrow> bytes list \<Rightarrow> payload io" where
  "FetchKeyPackages env userPublicKeys =
     andThen (clockNow env) (\<lambda>now.
     andThen (storeFetchKeyPackages env userPublicKeys now) (\<lambda>records.
     ret [(''items'', GMapList (map (\<lambda>record.
            [(''userPublicKey'', GBytes (kpUserPublicKey record)), (''deviceId'', GString (kpDeviceID record)),
             (''keyPackageBytes'', GBytes (kpKeyPackageBytes record))]) records))]))"

section \<open>Friends\<close>

definition ListFriends :: "env \<Rightarrow> bytes \<Rightarrow> int \<Rightarrow> string \<Rightarrow> payload io" where
  "ListFriends env user limit cursor =
     andThen (fromSum (decodeOffsetCursor cursor)) (\<lambda>offset.
     andThen (storeListFriends env user (normalizeLimit limit 50 + 1) offset) (\<lambda>friends.
     andThen (CountFriends env user) (\<lambda>totalCount.
     let (page, nextCursor) = paginateSlice friends (normalizeLimit limit 50) offset in
     ret [(''items'', GMapList (map (\<lambda>item.
            [(''id'', GUUID (frID item)), (''friendId'', GBytes (frFriendPublicKey item)),
             (''acceptedAt'', stamp env (frAcceptedAt item))]) page)),
          (''nextCursor'', nextCursor), (''totalCount'', GInt64 totalCount)])))"

definition RemoveFriend :: "env \<Rightarrow> ClientConfig \<Rightarrow> bytes \<Rightarrow> bytes \<Rightarrow> payload io" where
  "RemoveFriend env cfg user friendPublicKey =
     andThen (clockNow env) (\<lambda>now.
     andThen (storeRemoveFriend env user friendPublicKey) (\<lambda>_.
     ignoreErr (appendEvent env cfg friendPublicKey ''friend.removed'' [(''userPublicKey'', GBytes user)]) (
     ret [(''removedAt'', stamp env now)])))"

definition SendFriendRequest :: "env \<Rightarrow> ClientConfig \<Rightarrow> bytes \<Rightarrow> bytes \<Rightarrow> payload io" where
  "SendFriendRequest env cfg user receiver =
     guardErr (length receiver \<noteq> 32) ErrInvalidPublicKey (
     andThen (clockNow env) (\<lambda>now.
     andThen (uuidNew env) (\<lambda>requestID.
     andThen (CreateFriendRequest env
       \<lparr>fqRequestID = requestID, fqSenderPublicKey = user, fqReceiverPublicKey = receiver,
        fqState = FriendRequestPending, fqCreatedAt = now, fqUpdatedAt = now\<rparr>) (\<lambda>_.
     ignoreErr (appendEvent env cfg receiver ''friend.requestReceived''
        [(''requestId'', GString (eUuidString env requestID)), (''senderPublicKey'', GBytes user)]) (
     ret [(''requestId'', GUUID requestID), (''state'', GInt FriendRequestPending),
          (''createdAt'', stamp env now)])))))"

definition acceptRequestTx :: "env \<Rightarrow> ClientConfig \<Rightarrow> bytes \<Rightarrow> uuid \<Rightarrow> uuid \<Rightarrow> time \<Rightarrow> unit io" where
  "acceptRequestTx env cfg user requestID friendID now =
     andThen (UpdateFriendRequestState env requestID user [FriendRequestPending] FriendRequestAccepted now) (\<lambda>record.
     andThen (uuidNew env) (\<lambda>otherID.
     andThen (CreateFriendPair env
       \<lparr>frID = friendID, frUserPublicKey = fqSenderPublicKey record,
        frFriendPublicKey = fqReceiverPublicKey record, frAcceptedAt = now\<rparr>
       \<lparr>frID = otherID, frUserPublicKey = fqReceiverPublicKey record,
        frFriendPublicKey = fqSenderPublicKey record, frAcceptedAt = now\<rparr>) (\<lambda>_.
     appendEvent env cfg (fqSenderPublicKey record) ''friend.requestAccepted''
       [(''requestId'', GString (eUuidString env requestID)), (''friendPublicKey'', GBytes user)])))"

definition AcceptFriendRequest :: "env \<Rightarrow> ClientConfig \<Rightarrow> bytes \<Rightarrow> uuid \<Rightarrow> payload io" where
  "AcceptFriendRequest env cfg user requestID =
     andThen (clockNow env) (\<lambda>now.
     andThen (uuidNew env) (\<lambda>friendID.
     andThen (WithinTransaction env NoTx (\<lambda>txCtx. acceptRequestTx env cfg user requestID friendID now)) (\<lambda>_.
     ret [(''friendId'', GUUID friendID), (''acceptedAt'', stamp env now)])))"

definition DeclineFriendRequest :: "env \<Rightarrow> ClientConfig \<Rightarrow> bytes \<Rightarrow> uuid \<Rightarrow> payload io" where
  "DeclineFriendRequest env cfg user requestID =
     andThen (clockNow env) (\<lambda>now.
     andThen (UpdateFriendRequestState env requestID user [FriendRequestPending] FriendRequestDeclined now) (\<lambda>record.
     ignoreErr (appendEvent env cfg (fqSenderPublicKey record) ''friend.requestDeclined''
        [(''requestId'', GString (eUuidString env requestID))]) (
     ret [(''requestId'', GUUID requestID), (''declinedAt'', stamp env now)])))"

definition CancelFriendRequest :: "env \<Rightarrow> ClientConfig \<Rightarrow> bytes \<Rightarrow> uuid \<Rightarrow> payload io" where
  "CancelFriendRequest env cfg user requestID =
     andThen (clockNow env) (\<lambda>now.
     andThen (UpdateFriendRequestState env requestID user [FriendRequestPending] FriendRequestCanceled now) (\<lambda>record.
     ignoreErr (appendEvent env cfg (fqReceiverPublicKey record) ''friend.requestCanceled''
        [(''requestId'', GString (eUuidString env requestID))]) (
     ret [(''canceledAt'', stamp env now)])))"

definition ListFriendRequests :: "env \<Rightarrow> bytes \<Rightarrow> string \<Rightarrow> int \<Rightarrow> string \<Rightarrow> payload io" where
  "ListFriendRequests env user direction limit cursor =
     andThen (pageOf 50 limit cursor (storeListFriendRequests env user direction)) (\<lambda>(records, nextCursor).
     ret [(''items'', GMapList (map (\<lambda>record.
            [(''requestId'', GUUID (fqRequestID record)), (''senderPublicKey'', GBytes (fqSenderPublicKey record)),
             (''receiverPublicKey'', GBytes (fqReceiverPublicKey record)), (''state'', GInt (fqState record))])
            records)),
          (''nextCursor'', nextCursor)])"

section \<open>Limits, configuration and usage\<close>

definition GetServerLimits :: "env \<Rightarrow> ClientConfig \<Rightarrow> payload io" where
  "GetServerLimits env cfg =
     andThen (CountServerStats env) (\<lambda>stats.
     ret [(''limits'', GMap [(''eventBatchSize'', GInt (ccEventBatchSize cfg)),
             (''challengeTTLSeconds'', GInt64 (ccSessionChallengeTTL cfg div second))]),
          (''spent'', GMap [(''profiles'', GInt64 (ssProfiles stats)), (''devices'', GInt64 (ssDevices stats)),
             (''friends'', GInt64 (ssFriends stats)), (''rooms'', GInt64 (ssRooms stats))])])"

definition GetUserLimits :: "env \<Rightarrow> bytes \<Rightarrow> payload io" where
  "GetUserLimits env user =
     andThen (CountUserStats env user) (\<lambda>stats.
     ret [(''limits'', GMap [(''devices'', GInt 10), (''keyPackages'', GInt 1000), (''rooms'', GInt 100)]),
          (''spent'', GMap [(''devices'', GInt64 (userDevices stats)), (''keyPackages'', GInt64 (userKeyPackages stats)),
             (''friends'', GInt64 (userFriends stats)),
             (''outgoingFriendRequests'', GInt64 (userOutgoingFriendRequests stats)),
             (''rooms'', GInt64 (userRooms stats))])])"

definition GetGroupLimits :: "env \<Rightarrow> uuid \<Rightarrow> payload io" where
  "GetGroupLimits env roomID =
     andThen (CountGroupStats env roomID) (\<lambda>stats.
     ret [(''limits'', GMap [(''members'', GInt 1000), (''invites'', GInt 10000)]),
          (''spent'', GMap [(''members'', GInt64 (gsMembers stats)), (''invites'', GInt64 (gsInvites stats))])])"

definition GetServerConfig :: "env \<Rightarrow> ClientConfig \<Rightarrow> payload io" where
  "GetServerConfig env cfg =
     andThen (clockNow env) (\<lambda>now.
     ret [(''config'', GMap [(''updatedAt'', stamp env now), (''version'', GString (ccVersion cfg))])])"

definition RecordUserUsage :: "env \<Rightarrow> bytes \<Rightarrow> int \<Rightarrow> int \<Rightarrow> int \<Rightarrow> unit io" where
  "RecordUserUsage env user requests bytesIn bytesOut =
     (if length user \<noteq> 32 then ret ()
      else andThen (clockNow env) (\<lambda>now. storeRecordUserUsage env user now requests bytesIn bytesOut))"

definition GetMyUsageStats :: "env \<Rightarrow> bytes \<Rightarrow> payload io" where
  "GetMyUsageStats env user =
     guardErr (length user \<noteq> 32) ErrInvalidPublicKey (
     andThen (clockNow env) (\<lambda>now.
     andThen (GetUserUsageStats env user now) (\<lambda>stats.
     ret [(''minute'', GMap (usageStatToMap (uMinute stats))), (''hour'', GMap (usageStatToMap (uHour stats))),
          (''day'', GMap (usageStatToMap (uDay stats))), (''week'', GMap (usageStatToMap (uWeek stats))),
          (''month'', GMap (usageStatToMap (uMonth stats))), (''allTime'', GMap (usageStatToMap (uAllTime stats)))])))"

end
