(* ===== verification/RoomService.thy ===== *)
theory RoomService
  imports PeopleService
begin

text \<open>
  The client service \<^verbatim>\<open>application/clientapi/service.go\<close>, second part: chat rooms and direct rooms, their members,
  permissions and invitations, and the MLS traffic: messages, commits, welcomes and group infos.
\<close>

section \<open>MLS traffic\<close>

definition roomIdField :: "env \<Rightarrow> uuid \<Rightarrow> string \<times> any" where
  "roomIdField env roomID = (''roomId'', GString (eUuidString env roomID))"

definition SendCommit :: "env \<Rightarrow> ClientConfig \<Rightarrow> bytes \<Rightarrow> uuid \<Rightarrow> slice \<Rightarrow> payload io" where
  "SendCommit env cfg user roomID commitBytes =
     andThen (clockNow env) (\<lambda>now.
     andThen (ListActiveRoomMemberPublicKeys env roomID) (\<lambda>members.
     andThen (forEachIgnore (\<lambda>member. appendEvent env cfg member ''mlsCommitReceived''
        [roomIdField env roomID, (''commitBytes'', sliceAny commitBytes)])
        (filter (\<lambda>member. member \<noteq> user) members)) (\<lambda>_.
     ret [(''acceptedAt'', stamp env now)])))"

text \<open>The room a welcome belongs to, and whether the welcome is stored.\<close>

definition welcomeRoom :: "env \<Rightarrow> bytes \<Rightarrow> uuid option \<Rightarrow> bytes \<Rightarrow> (uuid \<times> bool) io" where
  "welcomeRoom env user requestedRoomID target =
     (if requestedRoomID \<noteq> None \<and> requestedRoomID \<noteq> Some uuidNil
      then andThen (IsDirectRoom env (the requestedRoomID)) (\<lambda>direct. ret (the requestedRoomID, direct))
      else andThen (FindDirectRoomIDByUsers env user target) (\<lambda>found.
             ret (case found of None \<Rightarrow> (uuidNil, False) | Some roomID \<Rightarrow> (roomID, True))))"

definition SendWelcome ::
  "env \<Rightarrow> ClientConfig \<Rightarrow> bytes \<Rightarrow> uuid option \<Rightarrow> bytes \<Rightarrow> slice \<Rightarrow> payload io" where
  "SendWelcome env cfg user requestedRoomID target welcomeBytes =
     andThen (clockNow env) (\<lambda>now.
     andThen (welcomeRoom env user requestedRoomID target) (\<lambda>(roomID, shouldStore).
     andThen (if shouldStore then UpsertRoomWelcome env
         \<lparr>wlRoomID = roomID, wlTargetUserPublicKey = target, wlSenderPublicKey = user,
          wlWelcomeBytes = sliceBytes welcomeBytes, wlCreatedAt = now, wlUpdatedAt = now\<rparr> else ret ()) (\<lambda>_.
     andThen (appendEvent env cfg target ''mlsWelcomeReceived''
        [(''targetUserPublicKey'', GBytes target), (''welcomeBytes'', sliceAny welcomeBytes)]) (\<lambda>_.
     ret [(''acceptedAt'', stamp env now)]))))"

definition UploadGroupInfo :: "env \<Rightarrow> bytes \<Rightarrow> uuid \<Rightarrow> bytes \<Rightarrow> payload io" where
  "UploadGroupInfo env user roomID groupInfoBytes =
     andThen (clockNow env) (\<lambda>now.
     andThen (UpsertRoomGroupInfo env user
       \<lparr>giRoomID = roomID, giUploaderPublicKey = user, giGroupInfoBytes = groupInfoBytes, giCreatedAt = now,
        giUpdatedAt = now\<rparr>) (\<lambda>_.
     ret [(''acceptedAt'', stamp env now)]))"

definition FetchGroupInfo :: "env \<Rightarrow> uuid \<Rightarrow> payload io" where
  "FetchGroupInfo env roomID =
     andThen (GetRoom env roomID) (\<lambda>room.
     guardErr (rmVisibility room \<noteq> VisibilityPublic) ErrForbidden (
     andThen (GetRoomGroupInfo env roomID) (\<lambda>record.
     ret [(''groupInfoBytes'', GBytes (giGroupInfoBytes record))])))"

text \<open>A membership with the role and notification level of a plain member.\<close>

definition plainMember :: "uuid \<Rightarrow> bytes \<Rightarrow> time \<Rightarrow> ChatMemberRecord" where
  "plainMember roomID user now =
     \<lparr>cmRoomID = roomID, cmUserPublicKey = user, cmRole = RoleMember, cmNotificationLevel = NotificationAll,
      cmJoinedAt = now, cmLeftAt = None\<rparr>"

definition announceCommit ::
  "env \<Rightarrow> ClientConfig \<Rightarrow> bytes \<Rightarrow> uuid \<Rightarrow> slice \<Rightarrow> bytes list \<Rightarrow> unit io" where
  "announceCommit env cfg user roomID commitBytes members =
     forEachIgnore (\<lambda>member. appendEvent env cfg member ''mlsExternalCommitReceived''
       [roomIdField env roomID, (''commitBytes'', sliceAny commitBytes), (''joinerPublicKey'', GBytes user)])
       (filter (\<lambda>member. member \<noteq> user) members)"

definition SendExternalCommit :: "env \<Rightarrow> ClientConfig \<Rightarrow> bytes \<Rightarrow> uuid \<Rightarrow> slice \<Rightarrow> payload io" where
  "SendExternalCommit env cfg user roomID commitBytes =
     andThen (clockNow env) (\<lambda>now.
     andThen (GetRoom env roomID) (\<lambda>room.
     guardErr (rmVisibility room \<noteq> VisibilityPublic) ErrForbidden (
     andThen (GetRoomGroupInfo env roomID) (\<lambda>_.
     andThen (ListActiveRoomMemberPublicKeys env roomID) (\<lambda>existingMembers.
     andThen (WithinTransaction env NoTx (\<lambda>txCtx. UpsertRoomMembership env (plainMember roomID user now))) (\<lambda>_.
     andThen (announceCommit env cfg user roomID commitBytes existingMembers) (\<lambda>_.
     ret [(''acceptedAt'', stamp env now)])))))))"

definition FetchWelcome :: "env \<Rightarrow> bytes \<Rightarrow> uuid \<Rightarrow> payload io" where
  "FetchWelcome env user roomID =
     andThen (IsDirectRoom env roomID) (\<lambda>direct.
     guardErr (\<not> direct) ErrForbidden (
     andThen (GetRoomWelcome env roomID user) (\<lambda>record.
     ret [(''welcomeBytes'', GBytes (wlWelcomeBytes record))])))"

section \<open>Rooms\<close>

definition CreateChatRoom :: "env \<Rightarrow> bytes \<Rightarrow> string \<Rightarrow> string \<Rightarrow> int \<Rightarrow> payload io" where
  "CreateChatRoom env user title description visibility =
     andThen (clockNow env) (\<lambda>now.
     andThen (uuidNew env) (\<lambda>roomID.
     andThen (WithinTransaction env NoTx (\<lambda>txCtx. CreateRoom env
       \<lparr>rmRoomID = roomID, rmOwnerPublicKey = user, rmTitle = title, rmDescription = description,
        rmVisibility = visibility, rmAvatarHash = [], rmAvatarBytes = [], rmAvatarContentType = [],
        rmStateID = None, rmCreatedAt = now, rmUpdatedAt = now, rmDeletedAt = None\<rparr>
       ((plainMember roomID user now)\<lparr>cmRole := RoleOwner\<rparr>))) (\<lambda>_.
     ret [(''roomId'', GUUID roomID), (''createdAt'', stamp env now)])))"

definition directRoom :: "uuid \<Rightarrow> bytes \<Rightarrow> time \<Rightarrow> ChatRoomRecord" where
  "directRoom roomID user now =
     \<lparr>rmRoomID = roomID, rmOwnerPublicKey = user, rmTitle = ''Direct'', rmDescription = [],
      rmVisibility = VisibilityPrivate, rmAvatarHash = [], rmAvatarBytes = [], rmAvatarContentType = [],
      rmStateID = None, rmCreatedAt = now, rmUpdatedAt = now, rmDeletedAt = None\<rparr>"

definition directRecord :: "uuid \<Rightarrow> bytes \<Rightarrow> bytes \<Rightarrow> time \<Rightarrow> DirectRoomRecord" where
  "directRecord roomID user target now =
     (let (leftKey, rightKey) = orderedPublicKeyPair user target
      in \<lparr>drRoomID = roomID, drLeftUserPublicKey = leftKey, drRightUserPublicKey = rightKey, drCreatedAt = now\<rparr>)"

definition directRoomTx :: "env \<Rightarrow> bytes \<Rightarrow> bytes \<Rightarrow> uuid \<Rightarrow> time \<Rightarrow> unit io" where
  "directRoomTx env user target roomID now =
     andThen (FindDirectRoomIDByUsers env user target) (\<lambda>found.
     case found of
       Some _ \<Rightarrow> fail ErrConflict
     | None \<Rightarrow> storeCreateDirectRoom env (directRoom roomID user now)
         ((plainMember roomID user now)\<lparr>cmRole := RoleOwner\<rparr>) (plainMember roomID target now)
         (directRecord roomID user target now))"

definition existingRoom :: "uuid \<Rightarrow> payload" where
  "existingRoom roomID = [(''roomId'', GUUID roomID), (''alreadyExisted'', GBool True), (''createdAt'', GNil)]"

text \<open>When the transaction ends in a conflict, the closure has set \<^verbatim>\<open>room.RoomID\<close> to the room it found; the
  rollback leaves the database in which it found it.\<close>

definition CreateDirectRoom :: "env \<Rightarrow> bytes \<Rightarrow> bytes \<Rightarrow> payload io" where
  "CreateDirectRoom env user target =
     guardErr (length target \<noteq> 32) ErrInvalidPublicKey (
     guardErr (user = target) ErrForbidden (
     andThen (AreFriends env user target) (\<lambda>friends.
     guardErr (\<not> friends) ErrForbidden (
     andThen (FindDirectRoomIDByUsers env user target) (\<lambda>found.
     case found of
       Some roomID \<Rightarrow> ret (existingRoom roomID)
     | None \<Rightarrow>
         andThen (clockNow env) (\<lambda>now.
         andThen (uuidNew env) (\<lambda>roomID w.
         case WithinTransaction env NoTx (\<lambda>txCtx. directRoomTx env user target roomID now) w of
           (Ret _, w') \<Rightarrow> (Ret [(''roomId'', GUUID roomID), (''alreadyExisted'', GBool False),
                               (''createdAt'', stamp env now)], w')
         | (Err e, w') \<Rightarrow>
             if errIs e ErrConflict
             then (Ret (existingRoom (case directRoomOf user target (db w') of
                                        None \<Rightarrow> roomID | Some r \<Rightarrow> r)), w')
             else (Err e, w')
         | (Panic p, w') \<Rightarrow> (Panic p, w'))))))))"

definition roomItem :: "env \<Rightarrow> ChatRoomRecord \<Rightarrow> payload" where
  "roomItem env room = [(''roomId'', GUUID (rmRoomID room)), (''title'', GString (rmTitle room)),
     (''updatedAt'', stamp env (rmUpdatedAt room))]"

definition ListChatRooms :: "env \<Rightarrow> bytes \<Rightarrow> int \<Rightarrow> string \<Rightarrow> payload io" where
  "ListChatRooms env user limit cursor =
     andThen (pageOf 50 limit cursor (ListRooms env user)) (\<lambda>(rooms, nextCursor).
     ret [(''items'', GMapList (map (roomItem env) rooms)), (''nextCursor'', nextCursor)])"

definition GetChatRoom :: "env \<Rightarrow> uuid \<Rightarrow> payload io" where
  "GetChatRoom env roomID =
     andThen (GetRoom env roomID) (\<lambda>room. ret [(''room'', GMap (roomToMap room))])"

definition SearchChatRooms :: "env \<Rightarrow> string \<Rightarrow> int \<Rightarrow> string \<Rightarrow> payload io" where
  "SearchChatRooms env query limit cursor =
     andThen (pageOf 50 limit cursor (SearchRooms env query)) (\<lambda>(rooms, nextCursor).
     ret [(''items'', GMapList (map (roomItem env) rooms)), (''nextCursor'', nextCursor)])"

definition SyncChatRoom :: "env \<Rightarrow> uuid \<Rightarrow> payload io" where
  "SyncChatRoom env roomID =
     andThen (GetRoom env roomID) (\<lambda>room.
     andThen (clockNow env) (\<lambda>now.
     ret [(''room'', GMap (roomToMap room)), (''syncedAt'', stamp env now)]))"

definition UpdateChatRoom :: "env \<Rightarrow> bytes \<Rightarrow> uuid \<Rightarrow> string \<Rightarrow> string \<Rightarrow> string \<Rightarrow> payload io" where
  "UpdateChatRoom env user roomID title description avatarHash =
     andThen (clockNow env) (\<lambda>now.
     andThen (UpdateRoom env user roomID title description avatarHash now) (\<lambda>_.
     ret [(''updatedAt'', stamp env now)]))"

definition UpdateChatRoomState ::
  "env \<Rightarrow> bytes \<Rightarrow> uuid \<Rightarrow> uuid \<Rightarrow> int \<Rightarrow> slice \<Rightarrow> slice \<Rightarrow> payload io" where
  "UpdateChatRoomState env user roomID groupID epoch treeBytes treeHash =
     andThen (clockNow env) (\<lambda>now.
     andThen (uuidNew env) (\<lambda>i.
     andThen (WithinTransaction env NoTx (\<lambda>txCtx. AddRoomState env user
       \<lparr>stID = i, stRoomID = roomID, stGroupID = groupID, stEpoch = epoch, stTreeBytes = treeBytes,
        stTreeHash = treeHash, stCreatedAt = now\<rparr>)) (\<lambda>_.
     ret [(''acceptedAt'', stamp env now)])))"

definition FetchChatRoomState :: "env \<Rightarrow> bytes \<Rightarrow> uuid \<Rightarrow> int \<Rightarrow> payload io" where
  "FetchChatRoomState env user roomID epoch =
     andThen (FetchRoomState env user roomID epoch) (\<lambda>state.
     ret [(''groupId'', GUUID (stGroupID state)), (''epoch'', GInt64 (stEpoch state)),
          (''treeBytes'', sliceAny (stTreeBytes state)), (''treeHash'', sliceAny (stTreeHash state))])"

text \<open>\<^verbatim>\<open>members, _ := ...\<close>: no members when the query fails.\<close>

definition membersOrNone :: "env \<Rightarrow> uuid \<Rightarrow> bytes list io" where
  "membersOrNone env roomID = onErr (ListActiveRoomMemberPublicKeys env roomID) (\<lambda>_. ret [])"

definition DeleteChatRoom :: "env \<Rightarrow> ClientConfig \<Rightarrow> bytes \<Rightarrow> uuid \<Rightarrow> payload io" where
  "DeleteChatRoom env cfg user roomID =
     andThen (clockNow env) (\<lambda>now.
     andThen (membersOrNone env roomID) (\<lambda>members.
     andThen (DeleteRoom env user roomID now) (\<lambda>_.
     andThen (forEachIgnore (\<lambda>member. appendEvent env cfg member ''room.deleted'' [roomIdField env roomID])
        members) (\<lambda>_.
     ret [(''deletedAt'', stamp env now)]))))"

definition GetChatRoomAvatar :: "env \<Rightarrow> uuid \<Rightarrow> payload io" where
  "GetChatRoomAvatar env roomID =
     andThen (GetRoomAvatar env roomID) (\<lambda>avatar.
     ret [(''avatarBytes'', GBytes (avBytes avatar)),
          (''contentType'', GString (fallbackContentType (avContentType avatar)))])"

section \<open>Members\<close>

definition JoinChatRoom :: "env \<Rightarrow> ClientConfig \<Rightarrow> bytes \<Rightarrow> uuid \<Rightarrow> payload io" where
  "JoinChatRoom env cfg user roomID =
     andThen (clockNow env) (\<lambda>now.
     andThen (JoinRoom env (plainMember roomID user now)) (\<lambda>_.
     andThen (membersOrNone env roomID) (\<lambda>members.
     andThen (forEachIgnore (\<lambda>member. appendEvent env cfg member ''room.memberJoined''
        [roomIdField env roomID, (''userPublicKey'', GBytes user)]) members) (\<lambda>_.
     ret [(''joinedAt'', stamp env now)]))))"

definition LeaveChatRoom :: "env \<Rightarrow> ClientConfig \<Rightarrow> bytes \<Rightarrow> uuid \<Rightarrow> payload io" where
  "LeaveChatRoom env cfg user roomID =
     andThen (clockNow env) (\<lambda>now.
     andThen (LeaveRoom env roomID user now) (\<lambda>_.
     andThen (membersOrNone env roomID) (\<lambda>members.
     andThen (forEachIgnore (\<lambda>member. appendEvent env cfg member ''room.memberLeft''
        [roomIdField env roomID, (''userPublicKey'', GBytes user)]) members) (\<lambda>_.
     ret [(''leftAt'', stamp env now)]))))"

definition KickChatMember :: "env \<Rightarrow> ClientConfig \<Rightarrow> bytes \<Rightarrow> uuid \<Rightarrow> bytes \<Rightarrow> payload io" where
  "KickChatMember env cfg user roomID target =
     andThen (clockNow env) (\<lambda>now.
     andThen (KickMember env user roomID target now) (\<lambda>_.
     ignoreErr (appendEvent env cfg target ''room.memberKicked'' [roomIdField env roomID]) (
     ret [(''kickedAt'', stamp env now)])))"

definition ListChatMembers :: "env \<Rightarrow> uuid \<Rightarrow> int \<Rightarrow> string \<Rightarrow> payload io" where
  "ListChatMembers env roomID limit cursor =
     andThen (pageOf 100 limit cursor (ListMembers env roomID)) (\<lambda>(members, nextCursor).
     ret [(''items'', GMapList (map (\<lambda>member.
            [(''userPublicKey'', GBytes (cmUserPublicKey member)), (''role'', GInt (cmRole member)),
             (''joinedAt'', stamp env (cmJoinedAt member))]) members)),
          (''nextCursor'', nextCursor), (''totalCount'', GNil)])"

definition UpdateChatMemberRole ::
  "env \<Rightarrow> ClientConfig \<Rightarrow> bytes \<Rightarrow> uuid \<Rightarrow> bytes \<Rightarrow> int \<Rightarrow> payload io" where
  "UpdateChatMemberRole env cfg user roomID target role =
     andThen (clockNow env) (\<lambda>now.
     andThen (UpdateMemberRole env user roomID target role) (\<lambda>_.
     ignoreErr (appendEvent env cfg target ''room.memberRoleUpdated''
        [roomIdField env roomID, (''role'', GInt role)]) (
     ret [(''updatedAt'', stamp env now)])))"

definition CreateChatMemberPermission ::
  "env \<Rightarrow> bytes \<Rightarrow> uuid \<Rightarrow> bytes \<Rightarrow> string \<Rightarrow> bool \<Rightarrow> payload io" where
  "CreateChatMemberPermission env user roomID target permissionKey isAllowed =
     andThen (clockNow env) (\<lambda>now.
     andThen (uuidNew env) (\<lambda>i.
     andThen (CreateMemberPermission env user
       \<lparr>pmPermissionID = i, pmRoomID = roomID, pmUserPublicKey = target, pmPermissionKey = permissionKey,
        pmIsAllowed = isAllowed, pmCreatedAt = now, pmUpdatedAt = now\<rparr>) (\<lambda>_.
     ret [(''id'', GUUID i), (''createdAt'', stamp env now)])))"

definition ListChatMemberPermissions :: "env \<Rightarrow> uuid \<Rightarrow> bytes \<Rightarrow> int \<Rightarrow> string \<Rightarrow> payload io" where
  "ListChatMemberPermissions env roomID target limit cursor =
     andThen (pageOf 100 limit cursor (ListMemberPermissions env roomID target)) (\<lambda>(records, nextCursor).
     ret [(''items'', GMapList (map (\<lambda>record.
            [(''id'', GUUID (pmPermissionID record)), (''roomId'', GUUID (pmRoomID record)),
             (''userPublicKey'', GBytes (pmUserPublicKey record)),
             (''permissionKey'', GString (pmPermissionKey record)),
             (''isAllowed'', GBool (pmIsAllowed record)), (''createdAt'', stamp env (pmCreatedAt record))])
            records)),
          (''nextCursor'', nextCursor)])"

definition UpdateChatMemberPermission :: "env \<Rightarrow> bytes \<Rightarrow> uuid \<Rightarrow> bool \<Rightarrow> payload io" where
  "UpdateChatMemberPermission env user permissionID isAllowed =
     andThen (clockNow env) (\<lambda>now.
     andThen (UpdateMemberPermission env user permissionID isAllowed now) (\<lambda>_.
     ret [(''updatedAt'', stamp env now)]))"

definition DeleteChatMemberPermission :: "env \<Rightarrow> bytes \<Rightarrow> uuid \<Rightarrow> payload io" where
  "DeleteChatMemberPermission env user permissionID =
     andThen (clockNow env) (\<lambda>now.
     andThen (DeleteMemberPermission env user permissionID) (\<lambda>_.
     ret [(''deletedAt'', stamp env now)]))"

section \<open>Invitations\<close>

definition SendChatInvitation ::
  "env \<Rightarrow> ClientConfig \<Rightarrow> bytes \<Rightarrow> uuid \<Rightarrow> bytes \<Rightarrow> time option \<Rightarrow> bytes \<Rightarrow> bytes \<Rightarrow> payload io" where
  "SendChatInvitation env cfg user roomID invitee expiresAt inviteToken inviteTokenSignature =
     andThen (clockNow env) (\<lambda>now.
     andThen (uuidNew env) (\<lambda>i.
     andThen (CreateInvitation env
       \<lparr>ivInvitationID = i, ivRoomID = roomID, ivInviterPublicKey = user, ivInviteePublicKey = invitee,
        ivExpiresAt = expiresAt, ivInviteToken = inviteToken, ivInviteTokenSignature = inviteTokenSignature,
        ivState = InvitationPending, ivCreatedAt = now, ivUpdatedAt = now\<rparr>) (\<lambda>_.
     ignoreErr (appendEvent env cfg invitee ''room.invitationReceived''
        [(''invitationId'', GString (eUuidString env i)), roomIdField env roomID]) (
     ret [(''invitationId'', GUUID i), (''createdAt'', stamp env now)]))))"

definition RevokeChatInvitation :: "env \<Rightarrow> ClientConfig \<Rightarrow> bytes \<Rightarrow> uuid \<Rightarrow> payload io" where
  "RevokeChatInvitation env cfg user invitationID =
     andThen (clockNow env) (\<lambda>now.
     andThen (UpdateInvitationState env invitationID user InvitationRevoked now [InvitationPending]) (\<lambda>record.
     ignoreErr (appendEvent env cfg (ivInviteePublicKey record) ''room.invitationRevoked''
        [(''invitationId'', GString (eUuidString env invitationID))]) (
     ret [(''revokedAt'', stamp env now)])))"

definition ListSentChatInvitations :: "env \<Rightarrow> bytes \<Rightarrow> uuid option \<Rightarrow> int \<Rightarrow> string \<Rightarrow> payload io" where
  "ListSentChatInvitations env user roomID limit cursor =
     andThen (pageOf 50 limit cursor (ListSentInvitations env user roomID)) (\<lambda>(records, nextCursor).
     ret [(''items'', GMapList (invitationRecordsToMaps env records)), (''nextCursor'', nextCursor)])"

definition ListIncomingChatInvitations :: "env \<Rightarrow> bytes \<Rightarrow> int \<Rightarrow> string \<Rightarrow> payload io" where
  "ListIncomingChatInvitations env user limit cursor =
     andThen (pageOf 50 limit cursor (ListIncomingInvitations env user)) (\<lambda>(records, nextCursor).
     ret [(''items'', GMapList (invitationRecordsToMaps env records)), (''nextCursor'', nextCursor)])"

definition acceptInvitationTx ::
  "env \<Rightarrow> ClientConfig \<Rightarrow> bytes \<Rightarrow> uuid \<Rightarrow> time \<Rightarrow> ChatInvitationRecord io" where
  "acceptInvitationTx env cfg user invitationID now =
     andThen (UpdateInvitationState env invitationID user InvitationAccepted now [InvitationPending]) (\<lambda>record.
     andThen (UpsertRoomMembership env (plainMember (ivRoomID record) user now)) (\<lambda>_.
     andThen (appendEvent env cfg (ivInviterPublicKey record) ''room.invitationAccepted''
        [(''invitationId'', GString (eUuidString env invitationID)), roomIdField env (ivRoomID record)]) (\<lambda>_.
     ret record)))"

definition AcceptChatInvitation :: "env \<Rightarrow> ClientConfig \<Rightarrow> bytes \<Rightarrow> uuid \<Rightarrow> slice \<Rightarrow> payload io" where
  "AcceptChatInvitation env cfg user invitationID commitBytes =
     andThen (clockNow env) (\<lambda>now.
     andThen (if sliceBytes commitBytes \<noteq> []
         then andThen (GetInvitation env invitationID) (\<lambda>invitation.
                ListActiveRoomMemberPublicKeys env (ivRoomID invitation))
         else ret []) (\<lambda>existingMembers.
     andThen (WithinTransaction env NoTx (\<lambda>txCtx. acceptInvitationTx env cfg user invitationID now)) (\<lambda>record.
     andThen (announceCommit env cfg user (ivRoomID record) commitBytes existingMembers) (\<lambda>_.
     ret [(''roomId'', GUUID (ivRoomID record)), (''acceptedAt'', stamp env now)]))))"

definition DeclineChatInvitation :: "env \<Rightarrow> ClientConfig \<Rightarrow> bytes \<Rightarrow> uuid \<Rightarrow> payload io" where
  "DeclineChatInvitation env cfg user invitationID =
     andThen (clockNow env) (\<lambda>now.
     andThen (UpdateInvitationState env invitationID user InvitationDeclined now [InvitationPending]) (\<lambda>record.
     ignoreErr (appendEvent env cfg (ivInviterPublicKey record) ''room.invitationDeclined''
        [(''invitationId'', GString (eUuidString env invitationID))]) (
     ret [(''declinedAt'', stamp env now)])))"

section \<open>Messages\<close>

text \<open>In a direct room the other of exactly two members must be a friend.\<close>

definition checkPeer :: "env \<Rightarrow> bytes \<Rightarrow> bytes list \<Rightarrow> unit io" where
  "checkPeer env user members =
     guardErr (length members \<noteq> 2) ErrForbidden (
     let peer = (case find (\<lambda>m. m \<noteq> user) members of None \<Rightarrow> [] | Some p \<Rightarrow> p) in
     guardErr (peer = []) ErrForbidden (
     andThen (AreFriends env user peer) (\<lambda>friends.
     guardErr (\<not> friends) ErrForbidden (ret ()))))"

definition messagePayload ::
  "env \<Rightarrow> bytes \<Rightarrow> uuid \<Rightarrow> uuid \<Rightarrow> uuid \<Rightarrow> slice list \<Rightarrow> payload" where
  "messagePayload env user roomID messageID clientMsgID body =
     [roomIdField env roomID, (''messageId'', GString (eUuidString env messageID)),
      (''clientMsgId'', GString (eUuidString env clientMsgID)), (''senderPublicKey'', GBytes user),
      (''body'', GByteSlices body)]"

definition SendMessage ::
  "env \<Rightarrow> ClientConfig \<Rightarrow> bytes \<Rightarrow> uuid \<Rightarrow> uuid \<Rightarrow> slice list \<Rightarrow> payload io" where
  "SendMessage env cfg user roomID clientMsgID body =
     andThen (clockNow env) (\<lambda>now.
     andThen (ListActiveRoomMemberPublicKeys env roomID) (\<lambda>members.
     guardErr (user \<notin> set members) ErrForbidden (
     andThen (IsDirectRoom env roomID) (\<lambda>direct.
     andThen (if direct then checkPeer env user members else ret ()) (\<lambda>_.
     andThen (uuidNew env) (\<lambda>messageID.
     andThen (forEach (\<lambda>member. appendEvent env cfg member ''mlsMessageReceived''
        (messagePayload env user roomID messageID clientMsgID body)) members) (\<lambda>_.
     ret [(''messageId'', GUUID messageID), (''createdAt'', stamp env now)])))))))"

end
