(* ===== verification/ClientFrame.thy ===== *)
theory ClientFrame
  imports RoomService
begin

text \<open>
  What each call of the client repository and service leaves alone. Readers keep every invariant of the
  database; a writer keeps every invariant that does not depend on the table it writes; appending events
  keeps every invariant that does not read the tables of events.
\<close>

named_theorems frame_intros \<open>writers, for invariants that do not read the written table\<close>

section \<open>Readers\<close>

lemma keeps_fromSum [keeps_intros]: "keeps I (fromSum r)"
  by (simp add: fromSum_def keeps_fail keeps_ret split: sum.split)

lemma keeps_queryOne [keeps_intros]: "keeps (dbInv P) (queryOne env e q)"
  unfolding queryOne_def by (intro keeps_intros)

lemma keeps_pageOf [keeps_intros]:
  "(\<And>n k. keeps (dbInv P) (list n k)) \<Longrightarrow> keeps (dbInv P) (pageOf fallback limit cursor list)"
  unfolding pageOf_def by (intro keeps_intros)

lemma keeps_profile_readers [keeps_intros]:
  "keeps (dbInv P) (storeGetProfile env u)" "keeps (dbInv P) (GetActiveBanStatus env u t)"
  "keeps (dbInv P) (storeSearchProfiles env q n k)" "keeps (dbInv P) (storeGetProfileAvatar env u)"
  "keeps (dbInv P) (storeListDevices env u)" "keeps (dbInv P) (lookupDeviceIdentifier env u i)"
  "keeps (dbInv P) (storeFetchKeyPackages env us t)" "keeps (dbInv P) (LookupDevice env i')"
  unfolding storeGetProfile_def GetActiveBanStatus_def storeSearchProfiles_def storeGetProfileAvatar_def
    storeListDevices_def lookupDeviceIdentifier_def storeFetchKeyPackages_def LookupDevice_def
  by (intro keeps_intros)+

lemma keeps_friend_readers [keeps_intros]:
  "keeps (dbInv P) (AreFriends env u v)" "keeps (dbInv P) (storeListFriends env u n k)"
  "keeps (dbInv P) (CountFriends env u)" "keeps (dbInv P) (GetFriendRequest env i)"
  "keeps (dbInv P) (storeListFriendRequests env u dir n k)"
  unfolding AreFriends_def storeListFriends_def CountFriends_def GetFriendRequest_def storeListFriendRequests_def
  by (intro keeps_intros)+

lemma keeps_room_readers [keeps_intros]:
  "keeps (dbInv P) (ensureMember env r u)" "keeps (dbInv P) (ensureRoomAdmin env r u)"
  "keeps (dbInv P) (ListMembers env r n k)" "keeps (dbInv P) (ListActiveRoomMemberPublicKeys env r)"
  "keeps (dbInv P) (GetRoom env r)" "keeps (dbInv P) (ListRooms env u n k)"
  "keeps (dbInv P) (SearchRooms env q n k)" "keeps (dbInv P) (GetRoomAvatar env r)"
  "keeps (dbInv P) (FetchRoomState env u r e)" "keeps (dbInv P) (GetRoomGroupInfo env r)"
  unfolding ensureRoomAdmin_def ensureMember_def ListMembers_def ListActiveRoomMemberPublicKeys_def GetRoom_def
    ListRooms_def SearchRooms_def GetRoomAvatar_def FetchRoomState_def GetRoomGroupInfo_def
  by (intro keeps_intros)+

lemma keeps_direct_readers [keeps_intros]:
  "keeps (dbInv P) (FindDirectRoomIDByUsers env u v)" "keeps (dbInv P) (IsDirectRoom env r)"
  "keeps (dbInv P) (GetRoomWelcome env r u)" "keeps (dbInv P) (ListMemberPermissions env r u n k)"
  "keeps (dbInv P) (lookupPermissionRoom env i)" "keeps (dbInv P) (GetInvitation env i)"
  "keeps (dbInv P) (ListSentInvitations env u ro n k)" "keeps (dbInv P) (ListIncomingInvitations env u n k)"
  "keeps (dbInv P) (membersOrNone env r)" "keeps (dbInv P) (checkPeer env u ms)"
  "keeps (dbInv P) (welcomeRoom env u ro v)"
  unfolding FindDirectRoomIDByUsers_def IsDirectRoom_def GetRoomWelcome_def ListMemberPermissions_def
    lookupPermissionRoom_def GetInvitation_def ListSentInvitations_def ListIncomingInvitations_def
    membersOrNone_def checkPeer_def welcomeRoom_def Let_def
  by (intro keeps_intros keeps_room_readers keeps_friend_readers)+

lemma keeps_count_readers [keeps_intros]:
  "keeps (dbInv P) (countAll env qs)" "keeps (dbInv P) (CountServerStats env)"
  "keeps (dbInv P) (CountUserStats env u)" "keeps (dbInv P) (CountGroupStats env r)"
  "keeps (dbInv P) (GetUserUsageStats env u t)" "keeps (dbInv P) (LookupSession env i)"
  unfolding CountServerStats_def CountUserStats_def CountGroupStats_def countAll_def GetUserUsageStats_def
    LookupSession_def GetSession_def
  by (intro keeps_intros)+

section \<open>Writers\<close>

lemma checkThen_Inr: "checkThen cs f d = Inr (x, d') \<longleftrightarrow> list_all fst cs \<and> f d = (x, d')"
proof -
  have "find (\<lambda>(ok, e). \<not> ok) cs = None \<longleftrightarrow> list_all fst cs"
    by (auto simp: find_None_iff list_all_iff)
  then show ?thesis
    by (auto simp: checkThen_def split: option.splits prod.splits)
qed

lemma keeps_writes_profiles [frame_intros]:
  assumes "\<And>d t. P d \<Longrightarrow> P (d\<lparr>tProfiles := t\<rparr>)"
  shows "keeps (dbInv P) (storeUpdateProfile env u n dn ah bio t)"
  unfolding storeUpdateProfile_def by (intro keeps_intros) (auto simp: checkAll_Inr assms)

lemma keeps_writes_devices [frame_intros]:
  assumes "\<And>d t. P d \<Longrightarrow> P (d\<lparr>tDevices := t\<rparr>)"
  shows "keeps (dbInv P) (UpsertDevice env v)"
  unfolding UpsertDevice_def Let_def by (intro keeps_intros) (auto simp: checkThen_Inr assms)

lemma keeps_writes_keyPackages [frame_intros]:
  assumes "\<And>d t. P d \<Longrightarrow> P (d\<lparr>tKeyPackages := t\<rparr>)"
  shows "keeps (dbInv P) (DeleteKeyPackagesByUserDevice env u i)" "keeps (dbInv P) (InsertKeyPackages env ks)"
  unfolding DeleteKeyPackagesByUserDevice_def InsertKeyPackages_def insertKeyPackage_def
  by (intro keeps_intros; auto simp: checkAll_Inr assms)+

lemma keeps_removeDevice [frame_intros]:
  assumes "\<And>d t. P d \<Longrightarrow> P (d\<lparr>tDevices := t\<rparr>)" and "\<And>d t. P d \<Longrightarrow> P (d\<lparr>tKeyPackages := t\<rparr>)"
  shows "keeps (dbInv P) (storeRemoveDevice env u i)"
  unfolding storeRemoveDevice_def by (intro keeps_intros frame_intros) (auto simp: assms)

lemma keeps_writes_friends [frame_intros]:
  assumes "\<And>d t. P d \<Longrightarrow> P (d\<lparr>tFriends := t\<rparr>)"
  shows "keeps (dbInv P) (storeRemoveFriend env u v)" "keeps (dbInv P) (CreateFriendPair env l r)"
  unfolding storeRemoveFriend_def CreateFriendPair_def insertFriend_def
  by (intro keeps_intros; auto simp: checkAll_Inr assms)+

lemma keeps_writes_requests [frame_intros]:
  assumes "\<And>d t. P d \<Longrightarrow> P (d\<lparr>tFriendRequests := t\<rparr>)"
  shows "keeps (dbInv P) (CreateFriendRequest env q)" "keeps (dbInv P) (UpdateFriendRequestState env i u ss s t)"
  unfolding CreateFriendRequest_def UpdateFriendRequestState_def setRequestState_def Let_def
  by (intro keeps_intros; auto simp: checkAll_Inr checkThen_Inr assms)+

lemma keeps_writes_members [frame_intros]:
  assumes "\<And>d t. P d \<Longrightarrow> P (d\<lparr>tChatMembers := t\<rparr>)"
  shows "keeps (dbInv P) (insertMember env m)" "keeps (dbInv P) (upsertMember env m)"
    "keeps (dbInv P) (LeaveRoom env r u t)" "keeps (dbInv P) (KickMember env a r u t)"
    "keeps (dbInv P) (UpdateMemberRole env a r u role)" "keeps (dbInv P) (JoinRoom env m)"
    "keeps (dbInv P) (UpsertRoomMembership env m)"
  unfolding insertMember_def upsertMember_def LeaveRoom_def KickMember_def UpdateMemberRole_def JoinRoom_def
    UpsertRoomMembership_def markLeft_def
  by (intro keeps_intros; auto simp: checkAll_Inr assms)+

lemma keeps_writes_rooms [frame_intros]:
  assumes "\<And>d t. P d \<Longrightarrow> P (d\<lparr>tChatRooms := t\<rparr>)"
  shows "keeps (dbInv P) (insertRoom env r)" "keeps (dbInv P) (UpdateRoom env u i ti de ah t)"
    "keeps (dbInv P) (DeleteRoom env u i t)"
  unfolding insertRoom_def UpdateRoom_def DeleteRoom_def
  by (intro keeps_intros; auto simp: checkAll_Inr assms)+

lemma keeps_createRoom [frame_intros]:
  assumes "\<And>d t. P d \<Longrightarrow> P (d\<lparr>tChatRooms := t\<rparr>)" and "\<And>d t. P d \<Longrightarrow> P (d\<lparr>tChatMembers := t\<rparr>)"
  shows "keeps (dbInv P) (CreateRoom env r m)"
  unfolding CreateRoom_def by (intro keeps_intros frame_intros) (auto simp: assms)

lemma keeps_createDirectRoom [frame_intros]:
  assumes "\<And>d t. P d \<Longrightarrow> P (d\<lparr>tChatRooms := t\<rparr>)" and "\<And>d t. P d \<Longrightarrow> P (d\<lparr>tChatMembers := t\<rparr>)"
    and "\<And>d t. P d \<Longrightarrow> P (d\<lparr>tDirectRooms := t\<rparr>)"
  shows "keeps (dbInv P) (storeCreateDirectRoom env r l m x)"
  unfolding storeCreateDirectRoom_def insertDirect_def
  by (intro keeps_intros frame_intros) (auto simp: assms checkAll_Inr)

lemma keeps_addRoomState [frame_intros]:
  assumes "\<And>d t. P d \<Longrightarrow> P (d\<lparr>tChatRooms := t\<rparr>)" and "\<And>d t. P d \<Longrightarrow> P (d\<lparr>tChatRoomStates := t\<rparr>)"
  shows "keeps (dbInv P) (AddRoomState env u s)"
  unfolding AddRoomState_def insertState_def by (intro keeps_intros) (auto simp: assms checkAll_Inr)

lemma keeps_writes_room_data [frame_intros]:
  "(\<And>d t. P d \<Longrightarrow> P (d\<lparr>tGroupInfos := t\<rparr>)) \<Longrightarrow> keeps (dbInv P) (UpsertRoomGroupInfo env u g)"
  "(\<And>d t. P d \<Longrightarrow> P (d\<lparr>tWelcomes := t\<rparr>)) \<Longrightarrow> keeps (dbInv P) (UpsertRoomWelcome env wl)"
  "(\<And>d t. P d \<Longrightarrow> P (d\<lparr>tUsageStats := t\<rparr>)) \<Longrightarrow> keeps (dbInv P) (storeRecordUserUsage env u t' a b c)"
  unfolding UpsertRoomGroupInfo_def UpsertRoomWelcome_def storeRecordUserUsage_def Let_def
  by (intro keeps_intros; auto simp: checkAll_Inr)+

lemma keeps_writes_permissions [frame_intros]:
  assumes "\<And>d t. P d \<Longrightarrow> P (d\<lparr>tPermissions := t\<rparr>)"
  shows "keeps (dbInv P) (CreateMemberPermission env a p)" "keeps (dbInv P) (UpdateMemberPermission env a i b t)"
    "keeps (dbInv P) (DeleteMemberPermission env a i)"
  unfolding CreateMemberPermission_def UpdateMemberPermission_def DeleteMemberPermission_def
  by (intro keeps_intros; auto simp: checkAll_Inr assms)+

lemma keeps_writes_invitations [frame_intros]:
  assumes "\<And>d t. P d \<Longrightarrow> P (d\<lparr>tInvitations := t\<rparr>)"
  shows "keeps (dbInv P) (CreateInvitation env i)" "keeps (dbInv P) (UpdateInvitationState env j u s t ss)"
  unfolding CreateInvitation_def UpdateInvitationState_def setInvitationState_def Let_def
  by (intro keeps_intros; auto simp: checkAll_Inr checkThen_Inr assms)+

section \<open>Events\<close>

lemma keeps_appendEvent [keeps_intros]: "eventFree P \<Longrightarrow> keeps (dbInv P) (appendEvent env cfg u ty p)"
  unfolding appendEvent_def by (intro keeps_intros)

lemma keeps_announceCommit [keeps_intros]:
  "eventFree P \<Longrightarrow> keeps (dbInv P) (announceCommit env cfg u r c ms)"
  unfolding announceCommit_def by (intro keeps_intros)

lemma keeps_friendPages [keeps_intros]: "eventFree P \<Longrightarrow> keeps (dbInv P) (friendPages n env cfg u p k)"
  by (induction n arbitrary: k) (auto intro!: keeps_intros)

end
