(* ===== verification/RpcDispatch.thy ===== *)
theory RpcDispatch
  imports ClientFrame
begin

text \<open>
  From a request's parameters to a call of the client service:
  \<^verbatim>\<open>delivery/clientrpc/client_methods.go\<close> (reading parameters), \<^verbatim>\<open>client_methods_groups.go\<close> and
  \<^verbatim>\<open>client_methods_dispatch.go\<close> (the table of methods).
\<close>

section \<open>Parameters\<close>

text \<open>The connection's state, as \<^verbatim>\<open>handler.go\<close> keeps it.\<close>

record sessionState =
  csSessionID :: uuid
  csUserPublicKey :: bytes
  csDeviceID :: string
  csAuthenticated :: bool
  csProfileCompleted :: bool
  csSubscriptionIDs :: "uuid list"

definition mustUUID :: "env \<Rightarrow> payload \<Rightarrow> string \<Rightarrow> uuid" where
  "mustUUID env params key = (case field params key of
       GUUID u \<Rightarrow> u
     | GString s \<Rightarrow> fst (eUuidParse env s)
     | GBytes b \<Rightarrow> (case eUuidFromBytes env b of None \<Rightarrow> uuidNil | Some u \<Rightarrow> u)
     | _ \<Rightarrow> uuidNil)"

definition optionalUUIDPtr :: "env \<Rightarrow> payload \<Rightarrow> string \<Rightarrow> uuid option" where
  "optionalUUIDPtr env params key =
     (let value = mustUUID env params key in if value = uuidNil then None else Some value)"

definition anySlice :: "any \<Rightarrow> slice" where
  "anySlice v = (case v of GBytes b \<Rightarrow> Some b | _ \<Rightarrow> None)"

definition mustBytes :: "payload \<Rightarrow> string \<Rightarrow> slice" where
  "mustBytes params key = anySlice (field params key)"

definition optionalBytes :: "payload \<Rightarrow> string \<Rightarrow> slice" where
  "optionalBytes params key = mustBytes params key"

abbreviation keyParam :: "payload \<Rightarrow> string \<Rightarrow> bytes" where
  "keyParam params key \<equiv> sliceBytes (mustBytes params key)"

definition mustBytesList :: "payload \<Rightarrow> string \<Rightarrow> slice list" where
  "mustBytesList params key = (case field params key of
       GList xs \<Rightarrow> map anySlice xs
     | GByteSlices bs \<Rightarrow> bs
     | _ \<Rightarrow> [])"

text \<open>\<^verbatim>\<open>fmt.Sprint\<close> of a map key.\<close>

definition sprintKey :: "(any \<Rightarrow> string) \<Rightarrow> any \<Rightarrow> string" where
  "sprintKey other key = (case key of
       GString s \<Rightarrow> s
     | GInt i \<Rightarrow> itoa i
     | GInt64 i \<Rightarrow> itoa i
     | GUint64 i \<Rightarrow> itoa i
     | GBool b \<Rightarrow> (if b then ''true'' else ''false'')
     | GNil \<Rightarrow> ''<nil>''
     | v \<Rightarrow> other v)"

text \<open>Maps with keys of type \<^verbatim>\<open>any\<close> become maps with string keys, at every depth.\<close>

fun normalizeValue :: "(any \<Rightarrow> string) \<Rightarrow> any \<Rightarrow> any"
  and normalizeList :: "(any \<Rightarrow> string) \<Rightarrow> any list \<Rightarrow> any list"
  and normalizeFields :: "(any \<Rightarrow> string) \<Rightarrow> (string \<times> any) list \<Rightarrow> payload"
  and normalizeAnyFields :: "(any \<Rightarrow> string) \<Rightarrow> (any \<times> any) list \<Rightarrow> payload" where
  "normalizeValue f (GMap m) = GMap (normalizeFields f m)"
| "normalizeValue f (GMapAny m) = GMap (normalizeAnyFields f m)"
| "normalizeValue f (GList xs) = GList (normalizeList f xs)"
| "normalizeValue f v = v"
| "normalizeList f [] = []"
| "normalizeList f (x # xs) = normalizeValue f x # normalizeList f xs"
| "normalizeFields f [] = []"
| "normalizeFields f ((k, x) # xs) = (k, normalizeValue f x) # normalizeFields f xs"
| "normalizeAnyFields f [] = []"
| "normalizeAnyFields f ((k, x) # xs) = (sprintKey f k, normalizeValue f x) # normalizeAnyFields f xs"

definition normalizeMap :: "(any \<Rightarrow> string) \<Rightarrow> any \<Rightarrow> payload option" where
  "normalizeMap f value = (case value of
       GMap m \<Rightarrow> Some (normalizeFields f m)
     | GMapAny m \<Rightarrow> Some (normalizeAnyFields f m)
     | _ \<Rightarrow> None)"

definition mustMapList :: "(any \<Rightarrow> string) \<Rightarrow> payload \<Rightarrow> string \<Rightarrow> payload list" where
  "mustMapList f params key = (case field params key of
       GList xs \<Rightarrow> map (\<lambda>x. case normalizeMap f x of None \<Rightarrow> [] | Some m \<Rightarrow> m) xs
     | GMapList ms \<Rightarrow> ms
     | _ \<Rightarrow> [])"

definition optionalString :: "payload \<Rightarrow> string \<Rightarrow> string" where
  "optionalString params key = (case field params key of GString s \<Rightarrow> s | _ \<Rightarrow> [])"

definition optionalInt :: "payload \<Rightarrow> string \<Rightarrow> int" where
  "optionalInt params key = (case field params key of
       GUint64 i \<Rightarrow> wrapInt64 i
     | GUint32 i \<Rightarrow> i
     | GInt64 i \<Rightarrow> i
     | GInt i \<Rightarrow> i
     | GInt32 i \<Rightarrow> i
     | GUint16 i \<Rightarrow> i
     | _ \<Rightarrow> 0)"

definition optionalBool :: "payload \<Rightarrow> string \<Rightarrow> bool" where
  "optionalBool params key = (case field params key of GBool b \<Rightarrow> b | _ \<Rightarrow> False)"

definition optionalTimePtr :: "env \<Rightarrow> payload \<Rightarrow> string \<Rightarrow> time option" where
  "optionalTimePtr env params key = (case field params key of
       GTime t \<Rightarrow> Some t
     | GString s \<Rightarrow> eParseTime env s
     | GInt64 i \<Rightarrow> Some i
     | GInt i \<Rightarrow> Some i
     | GInt32 i \<Rightarrow> Some i
     | GUint64 i \<Rightarrow> Some (wrapInt64 i)
     | GUint32 i \<Rightarrow> Some i
     | GUint i \<Rightarrow> Some (wrapInt64 i)
     | _ \<Rightarrow> None)"

text \<open>The keys of a list parameter; \<^verbatim>\<open>NULL\<close> elements of a SQL array match nothing.\<close>

definition presentKeys :: "slice list \<Rightarrow> bytes list" where
  "presentKeys ks = map the (filter (\<lambda>k. k \<noteq> None) ks)"

section \<open>Methods\<close>

definition handleProfileMethods ::
  "env \<Rightarrow> ClientConfig \<Rightarrow> string \<Rightarrow> payload \<Rightarrow> sessionState \<Rightarrow> payload io" where
  "handleProfileMethods env cfg rpcCall params state =
     (let user = csUserPublicKey state in
      if rpcCall = ''getProfile'' then GetProfile env (keyParam params ''userPublicKey'')
      else if rpcCall = ''updateProfile'' then UpdateProfile env cfg user (optionalString params ''username'')
        (optionalString params ''displayName'') (optionalString params ''avatarHash'') (optionalString params ''bio'')
      else if rpcCall = ''searchProfiles'' then SearchProfiles env (optionalString params ''query'')
        (optionalInt params ''limit'') (optionalString params ''cursor'')
      else if rpcCall = ''deleteAccount'' then DeleteAccount env user
      else if rpcCall = ''getProfileAvatar'' then GetProfileAvatar env (keyParam params ''userPublicKey'')
      else ret [])"

definition handleDeviceAndMLSMethods ::
  "env \<Rightarrow> ClientConfig \<Rightarrow> (any \<Rightarrow> string) \<Rightarrow> string \<Rightarrow> payload \<Rightarrow> sessionState \<Rightarrow> payload io" where
  "handleDeviceAndMLSMethods env cfg f rpcCall params state =
     (let user = csUserPublicKey state in
      if rpcCall = ''listDevices'' then ListDevices env user
      else if rpcCall = ''registerDevicePushToken'' then RegisterDevicePushToken env (csSessionID state) user
        (wrapInt16 (optionalInt params ''platform'')) (optionalString params ''pushToken'')
        (optionalBool params ''isEnabled'')
      else if rpcCall = ''removeDevice'' then RemoveDevice env user (mustUUID env params ''deviceId'')
      else if rpcCall = ''uploadKeyPackages'' then UploadKeyPackages env (csSessionID state) user
        (mustMapList f params ''packages'')
      else if rpcCall = ''fetchKeyPackages'' then FetchKeyPackages env
        (presentKeys (mustBytesList params ''userPublicKeys''))
      else if rpcCall = ''sendCommit'' then SendCommit env cfg user (mustUUID env params ''roomId'')
        (mustBytes params ''commitBytes'')
      else if rpcCall = ''sendWelcome'' then SendWelcome env cfg user (optionalUUIDPtr env params ''roomId'')
        (keyParam params ''targetUserPublicKey'') (mustBytes params ''welcomeBytes'')
      else if rpcCall = ''uploadGroupInfo'' then UploadGroupInfo env user (mustUUID env params ''roomId'')
        (sliceBytes (mustBytes params ''groupInfoBytes''))
      else if rpcCall = ''fetchGroupInfo'' then FetchGroupInfo env (mustUUID env params ''roomId'')
      else if rpcCall = ''sendExternalCommit'' then SendExternalCommit env cfg user (mustUUID env params ''roomId'')
        (mustBytes params ''commitBytes'')
      else if rpcCall = ''fetchWelcome'' then FetchWelcome env user (mustUUID env params ''roomId'')
      else ret [])"

definition handleFriendMethods ::
  "env \<Rightarrow> ClientConfig \<Rightarrow> string \<Rightarrow> payload \<Rightarrow> sessionState \<Rightarrow> payload io" where
  "handleFriendMethods env cfg rpcCall params state =
     (let user = csUserPublicKey state in
      if rpcCall = ''listFriends'' then ListFriends env user (optionalInt params ''limit'') (optionalString params ''cursor'')
      else if rpcCall = ''removeFriend'' then RemoveFriend env cfg user (keyParam params ''friendPublicKey'')
      else if rpcCall = ''sendFriendRequest'' then SendFriendRequest env cfg user (keyParam params ''receiverPublicKey'')
      else if rpcCall = ''acceptFriendRequest'' then AcceptFriendRequest env cfg user (mustUUID env params ''requestId'')
      else if rpcCall = ''declineFriendRequest'' then DeclineFriendRequest env cfg user (mustUUID env params ''requestId'')
      else if rpcCall = ''cancelFriendRequest'' then CancelFriendRequest env cfg user (mustUUID env params ''requestId'')
      else if rpcCall = ''listFriendRequests'' then ListFriendRequests env user (optionalString params ''direction'')
        (optionalInt params ''limit'') (optionalString params ''cursor'')
      else ret [])"

definition handleRoomMethods ::
  "env \<Rightarrow> ClientConfig \<Rightarrow> string \<Rightarrow> payload \<Rightarrow> sessionState \<Rightarrow> payload io" where
  "handleRoomMethods env cfg rpcCall params state =
     (let user = csUserPublicKey state in
      if rpcCall = ''createChatRoom'' then CreateChatRoom env user (optionalString params ''title'')
        (optionalString params ''description'') (wrapInt16 (optionalInt params ''visibility''))
      else if rpcCall = ''createDirectRoom'' then CreateDirectRoom env user (keyParam params ''targetUserPublicKey'')
      else if rpcCall = ''listChatRooms'' then ListChatRooms env user (optionalInt params ''limit'')
        (optionalString params ''cursor'')
      else if rpcCall = ''getChatRoom'' then GetChatRoom env (mustUUID env params ''roomId'')
      else if rpcCall = ''searchChatRooms'' then SearchChatRooms env (optionalString params ''query'')
        (optionalInt params ''limit'') (optionalString params ''cursor'')
      else if rpcCall = ''syncChatRoom'' then SyncChatRoom env (mustUUID env params ''roomId'')
      else if rpcCall = ''updateChatRoom'' then UpdateChatRoom env user (mustUUID env params ''roomId'')
        (optionalString params ''title'') (optionalString params ''description'') (optionalString params ''avatarHash'')
      else if rpcCall = ''updateChatRoomState'' then UpdateChatRoomState env user (mustUUID env params ''roomId'')
        (mustUUID env params ''groupId'') (optionalInt params ''epoch'') (mustBytes params ''treeBytes'')
        (mustBytes params ''treeHash'')
      else if rpcCall = ''fetchChatRoomState'' then FetchChatRoomState env user (mustUUID env params ''roomId'')
        (optionalInt params ''epoch'')
      else if rpcCall = ''deleteChatRoom'' then DeleteChatRoom env cfg user (mustUUID env params ''roomId'')
      else if rpcCall = ''getChatRoomAvatar'' then GetChatRoomAvatar env (mustUUID env params ''roomId'')
      else ret [])"

definition handleMemberMethods ::
  "env \<Rightarrow> ClientConfig \<Rightarrow> string \<Rightarrow> payload \<Rightarrow> sessionState \<Rightarrow> payload io" where
  "handleMemberMethods env cfg rpcCall params state =
     (let user = csUserPublicKey state in
      if rpcCall = ''joinChatRoom'' then JoinChatRoom env cfg user (mustUUID env params ''roomId'')
      else if rpcCall = ''leaveChatRoom'' then LeaveChatRoom env cfg user (mustUUID env params ''roomId'')
      else if rpcCall = ''kickChatMember'' then KickChatMember env cfg user (mustUUID env params ''roomId'')
        (keyParam params ''userPublicKey'')
      else if rpcCall = ''listChatMembers'' then ListChatMembers env (mustUUID env params ''roomId'')
        (optionalInt params ''limit'') (optionalString params ''cursor'')
      else if rpcCall = ''updateChatMemberRole'' then UpdateChatMemberRole env cfg user (mustUUID env params ''roomId'')
        (keyParam params ''userPublicKey'') (wrapInt16 (optionalInt params ''role''))
      else if rpcCall = ''createChatMemberPermission'' then CreateChatMemberPermission env user
        (mustUUID env params ''roomId'') (keyParam params ''userPublicKey'') (optionalString params ''permissionKey'')
        (optionalBool params ''isAllowed'')
      else if rpcCall = ''listChatMemberPermissions'' then ListChatMemberPermissions env (mustUUID env params ''roomId'')
        (sliceBytes (optionalBytes params ''userPublicKey'')) (optionalInt params ''limit'')
        (optionalString params ''cursor'')
      else if rpcCall = ''updateChatMemberPermission'' then UpdateChatMemberPermission env user
        (mustUUID env params ''permissionId'') (optionalBool params ''isAllowed'')
      else if rpcCall = ''deleteChatMemberPermission'' then DeleteChatMemberPermission env user
        (mustUUID env params ''permissionId'')
      else ret [])"

definition handleInvitationMethods ::
  "env \<Rightarrow> ClientConfig \<Rightarrow> string \<Rightarrow> payload \<Rightarrow> sessionState \<Rightarrow> payload io" where
  "handleInvitationMethods env cfg rpcCall params state =
     (let user = csUserPublicKey state in
      if rpcCall = ''sendChatInvitation'' then SendChatInvitation env cfg user (mustUUID env params ''roomId'')
        (keyParam params ''inviteePublicKey'') (optionalTimePtr env params ''expiresAt'')
        (sliceBytes (optionalBytes params ''inviteToken'')) (sliceBytes (optionalBytes params ''inviteTokenSignature''))
      else if rpcCall = ''revokeChatInvitation'' then RevokeChatInvitation env cfg user
        (mustUUID env params ''invitationId'')
      else if rpcCall = ''listSentChatInvitations'' then ListSentChatInvitations env user
        (optionalUUIDPtr env params ''roomId'') (optionalInt params ''limit'') (optionalString params ''cursor'')
      else if rpcCall = ''listIncomingChatInvitations'' then ListIncomingChatInvitations env user
        (optionalInt params ''limit'') (optionalString params ''cursor'')
      else if rpcCall = ''acceptChatInvitation'' then AcceptChatInvitation env cfg user
        (mustUUID env params ''invitationId'') (optionalBytes params ''commitBytes'')
      else if rpcCall = ''declineChatInvitation'' then DeclineChatInvitation env cfg user
        (mustUUID env params ''invitationId'')
      else ret [])"

definition handleMessageMethods ::
  "env \<Rightarrow> ClientConfig \<Rightarrow> string \<Rightarrow> payload \<Rightarrow> sessionState \<Rightarrow> payload io" where
  "handleMessageMethods env cfg rpcCall params state =
     (if rpcCall = ''sendMessage'' then SendMessage env cfg (csUserPublicKey state) (mustUUID env params ''roomId'')
        (mustUUID env params ''clientMsgId'') (mustBytesList params ''body'')
      else ret [])"

definition handleOverviewMethods ::
  "env \<Rightarrow> ClientConfig \<Rightarrow> string \<Rightarrow> payload \<Rightarrow> sessionState \<Rightarrow> payload io" where
  "handleOverviewMethods env cfg rpcCall params state =
     (let user = csUserPublicKey state in
      if rpcCall = ''getServerLimits'' then GetServerLimits env cfg
      else if rpcCall = ''getUserLimits'' then GetUserLimits env user
      else if rpcCall = ''getGroupLimits'' then GetGroupLimits env (mustUUID env params ''roomId'')
      else if rpcCall = ''getMyUsageStats'' then GetMyUsageStats env user
      else if rpcCall = ''getServerConfig'' then GetServerConfig env cfg
      else ret [])"

definition notImplemented :: "string \<Rightarrow> err" where
  "notImplemented rpcCall = ErrMsg (''rpc '' @ rpcCall @ '' is not implemented yet'')"

definition dispatchClientMethod ::
  "env \<Rightarrow> ClientConfig \<Rightarrow> (any \<Rightarrow> string) \<Rightarrow> string \<Rightarrow> payload \<Rightarrow> sessionState \<Rightarrow> payload io" where
  "dispatchClientMethod env cfg f rpcCall params state =
     (if rpcCall \<in> set [''getProfile'', ''updateProfile'', ''searchProfiles'', ''deleteAccount'', ''getProfileAvatar'']
      then handleProfileMethods env cfg rpcCall params state
      else if rpcCall \<in> set [''listDevices'', ''registerDevicePushToken'', ''removeDevice'', ''uploadKeyPackages'',
        ''fetchKeyPackages'', ''sendCommit'', ''sendWelcome'', ''uploadGroupInfo'', ''fetchGroupInfo'',
        ''sendExternalCommit'', ''fetchWelcome'']
      then handleDeviceAndMLSMethods env cfg f rpcCall params state
      else if rpcCall \<in> set [''listFriends'', ''removeFriend'', ''sendFriendRequest'', ''acceptFriendRequest'',
        ''declineFriendRequest'', ''cancelFriendRequest'', ''listFriendRequests'']
      then handleFriendMethods env cfg rpcCall params state
      else if rpcCall \<in> set [''createChatRoom'', ''createDirectRoom'', ''listChatRooms'', ''getChatRoom'',
        ''searchChatRooms'', ''syncChatRoom'', ''updateChatRoom'', ''updateChatRoomState'', ''fetchChatRoomState'',
        ''deleteChatRoom'', ''getChatRoomAvatar'']
      then handleRoomMethods env cfg rpcCall params state
      else if rpcCall \<in> set [''joinChatRoom'', ''leaveChatRoom'', ''kickChatMember'', ''listChatMembers'',
        ''updateChatMemberRole'', ''createChatMemberPermission'', ''listChatMemberPermissions'',
        ''updateChatMemberPermission'', ''deleteChatMemberPermission'']
      then handleMemberMethods env cfg rpcCall params state
      else if rpcCall \<in> set [''sendChatInvitation'', ''revokeChatInvitation'', ''listSentChatInvitations'',
        ''listIncomingChatInvitations'', ''acceptChatInvitation'', ''declineChatInvitation'']
      then handleInvitationMethods env cfg rpcCall params state
      else if rpcCall = ''sendMessage'' then handleMessageMethods env cfg rpcCall params state
      else if rpcCall \<in> set [''getServerLimits'', ''getUserLimits'', ''getGroupLimits'', ''getMyUsageStats'',
        ''getServerConfig'']
      then handleOverviewMethods env cfg rpcCall params state
      else fail (notImplemented rpcCall))"

end
