(* ===== verification/RpcHandler.thy ===== *)
theory RpcHandler
  imports RpcDispatch OutboxService
begin

text \<open>
  The connection handler \<^verbatim>\<open>delivery/clientrpc/handler.go\<close> with the packet types of \<^verbatim>\<open>domain/rpc/types.go\<close>: who signed a
  packet, what a packet does to the state of its connection, batches, the delivery of outbox events, and
  HTTP requests.
\<close>

section \<open>Packets\<close>

record RequestPacket =
  pkSignature :: bytes
  pkPayload :: bytes

record RequestPayload =
  rpRequestID :: uuid
  rpRPCCall :: string
  rpTimestamp :: int
  rpVersion :: int
  rpParameters :: bytes

record ResponsePacket =
  rsRequestID :: uuid
  rsReplyToRequestID :: "uuid option"
  rsEventType :: string
  rsParameters :: payload

record requestAuthChallengeParams =
  raUserPublicKey :: bytes
  raPublicIP :: string
  raDeviceID :: string
  raClientNonce :: bytes

record solveAuthChallengeParams =
  svSessionID :: uuid
  svSignature :: bytes

record subscribeToEventsParams =
  seRequestedAt :: int

record unsubscribeFromEventsParams =
  ufSubscriptionID :: uuid
  ufRequestedAt :: int

record acknowledgeEventParams =
  akEventID :: any
  akDeviceID :: string
  akSegmentID :: string

text \<open>\<^verbatim>\<open>cbor.Unmarshal\<close> into each of the types above, with the text of its error, \<^verbatim>\<open>cbor.Marshal\<close>, \<^verbatim>\<open>fmt.Sprint\<close> and the
  texts of the database driver's errors. A nil map is read as an empty one.\<close>

record codec =
  cdPackets :: "bytes \<Rightarrow> string + RequestPacket list"
  cdPacket :: "bytes \<Rightarrow> string + RequestPacket"
  cdPayload :: "bytes \<Rightarrow> string + RequestPayload"
  cdRequestAuth :: "bytes \<Rightarrow> string + requestAuthChallengeParams"
  cdSolveAuth :: "bytes \<Rightarrow> string + solveAuthChallengeParams"
  cdSubscribe :: "bytes \<Rightarrow> string + subscribeToEventsParams"
  cdUnsubscribe :: "bytes \<Rightarrow> string + unsubscribeFromEventsParams"
  cdAcknowledge :: "bytes \<Rightarrow> string + acknowledgeEventParams"
  cdMap :: "bytes \<Rightarrow> string + payload"
  cdMarshal :: "ResponsePacket list \<Rightarrow> bytes option"
  cdSprint :: "any \<Rightarrow> string"
  cdSQLText :: "sqlErr \<Rightarrow> string"

text \<open>\<open>Handler\<close>: the services it was built with; \<open>None\<close> is a nil service. The authentication service is never nil.\<close>

record Handler =
  hAuth :: AuthConfig
  hClient :: "ClientConfig option"
  hOutbox :: "(OutboxConfig \<times> Notifier option) option"
  hBus :: bool

definition decoded :: "string + 'a \<Rightarrow> 'a io" where
  "decoded r = (case r of Inl msg \<Rightarrow> fail (ErrMsg msg) | Inr x \<Rightarrow> ret x)"

definition DecodePayload :: "codec \<Rightarrow> bytes \<Rightarrow> RequestPayload io" where
  "DecodePayload cd raw = decoded (cdPayload cd raw)"

text \<open>\<open>DecodeParameters\<close>, at the type of the parameters it is called with.\<close>

definition DecodeParameters :: "(bytes \<Rightarrow> string + 'a) \<Rightarrow> bytes \<Rightarrow> 'a io" where
  "DecodeParameters unmarshal raw = decoded (unmarshal raw)"

definition decodeMapParameters :: "codec \<Rightarrow> bytes \<Rightarrow> payload io" where
  "decodeMapParameters cd raw = (if raw = [] then ret [] else decoded (cdMap cd raw))"

text \<open>\<open>unmarshal\<close> is \<^verbatim>\<open>json.Unmarshal\<close> into a map: \<open>None\<close> if it fails, \<open>Some None\<close> for \<^verbatim>\<open>null\<close>.\<close>

definition ParametersFromJSON :: "(bytes \<Rightarrow> payload option option) \<Rightarrow> bytes \<Rightarrow> payload" where
  "ParametersFromJSON unmarshal raw =
     (if raw = [] then []
      else case unmarshal raw of
        None \<Rightarrow> [(''raw'', GString (bytesString raw))]
      | Some None \<Rightarrow> []
      | Some (Some out) \<Rightarrow> out)"

definition TimeToMillis :: "time \<Rightarrow> int" where
  "TimeToMillis value = value div 1000"

section \<open>Errors\<close>

text \<open>\<^verbatim>\<open>err.Error()\<close>.\<close>

fun errText :: "codec \<Rightarrow> err \<Rightarrow> string" where
  "errText cd ErrInvalidPublicKey = ''invalid public key''"
| "errText cd ErrInvalidSessionID = ''invalid session id''"
| "errText cd ErrSessionNotFound = ''session not found''"
| "errText cd ErrSessionExpired = ''session expired''"
| "errText cd ErrSessionNotAuthenticated = ''session not authenticated''"
| "errText cd ErrInvalidSignature = ''invalid signature''"
| "errText cd ErrInvalidDeviceID = ''invalid device id''"
| "errText cd ErrInvalidClientNonce = ''invalid client nonce''"
| "errText cd ErrInvalidEventID = ''invalid event id''"
| "errText cd ErrSubscriptionNotFound = ''subscription not found''"
| "errText cd ErrNotFound = ''not found''"
| "errText cd ErrForbidden = ''forbidden''"
| "errText cd ErrConflict = ''conflict''"
| "errText cd ErrProfileRequired = ''profile must be completed before using this RPC''"
| "errText cd ErrOutboxInvalidDeviceID = ''invalid device id''"
| "errText cd ErrDisabled = ''push sender disabled''"
| "errText cd (ErrSQL e) = cdSQLText cd e"
| "errText cd (ErrMsg msg) = msg"
| "errText cd (ErrWrap msg e) = msg @ '': '' @ errText cd e"

definition mapError :: "codec \<Rightarrow> err \<Rightarrow> string \<times> string" where
  "mapError cd e =
     (let is = (\<lambda>targets. list_ex (errIs e) targets); text = errText cd e in
      if textContains ''not implemented'' text then (''not_implemented'', text)
      else if is [ErrInvalidPublicKey, ErrInvalidSessionID, ErrInvalidSignature, ErrInvalidDeviceID,
                  ErrOutboxInvalidDeviceID, ErrInvalidClientNonce, ErrInvalidEventID]
        then (''invalid_argument'', text)
      else if is [ErrSessionNotFound, ErrSubscriptionNotFound, ErrNotFound] then (''not_found'', text)
      else if is [ErrForbidden] then (''forbidden'', text)
      else if is [ErrConflict] then (''conflict'', text)
      else if is [ErrProfileRequired] then (''profile_required'', text)
      else if is [ErrSessionExpired, ErrSessionNotAuthenticated] then (''unauthenticated'', text)
      else (''internal_error'', text))"

definition errorParameters :: "string \<Rightarrow> string \<Rightarrow> payload" where
  "errorParameters code message =
     [(''error'', GMap [(''code'', GString code), (''message'', GString message),
                      (''retry'', GBool (code = ''internal_error''))])]"

definition rpcCallResponse :: string where
  "rpcCallResponse = ''rpcCallResponse''"

text \<open>A response with a new id, to the request with the given id.\<close>

definition respond :: "env \<Rightarrow> uuid option \<Rightarrow> payload \<Rightarrow> ResponsePacket io" where
  "respond env replyTo params =
     andThen (uuidNew env) (\<lambda>i.
     ret \<lparr>rsRequestID = i, rsReplyToRequestID = replyTo, rsEventType = rpcCallResponse, rsParameters = params\<rparr>)"

definition errorResponse :: "codec \<Rightarrow> env \<Rightarrow> uuid \<Rightarrow> err \<Rightarrow> ResponsePacket io" where
  "errorResponse cd env requestID e =
     (let (code, message) = mapError cd e in respond env (Some requestID) (errorParameters code message))"

definition maxStatus :: "int \<Rightarrow> int \<Rightarrow> int" where
  "maxStatus current candidate = (if candidate > current then candidate else current)"

section \<open>One packet\<close>

definition profileCompleted :: "env \<Rightarrow> Handler \<Rightarrow> bytes \<Rightarrow> bool io" where
  "profileCompleted env h userPublicKey =
     (if hClient h = None then ret True
      else onErr (andThen (GetProfile env userPublicKey) (\<lambda>response.
             ret (case field response ''profile'' of
                    GMap profile \<Rightarrow> trimSpace (optionalString profile ''displayName'') \<noteq> []
                  | _ \<Rightarrow> False)))
           (\<lambda>e. if errIs e ErrNotFound then ret False else fail e))"

definition handleClientAPICall ::
  "codec \<Rightarrow> env \<Rightarrow> Handler \<Rightarrow> RequestPayload \<Rightarrow> sessionState \<Rightarrow> (payload \<times> sessionState) io" where
  "handleClientAPICall cd env h payload state =
     (case hClient h of
        None \<Rightarrow> fail (notImplemented (rpRPCCall payload))
      | Some cfg \<Rightarrow>
          guardErr (\<not> csAuthenticated state) ErrSessionNotAuthenticated (
          guardErr (\<not> csProfileCompleted state \<and> rpRPCCall payload \<noteq> ''updateProfile'') ErrProfileRequired (
          andThen (decodeMapParameters cd (rpParameters payload)) (\<lambda>params.
          andThen (dispatchClientMethod env cfg (cdSprint cd) (rpRPCCall payload) params state) (\<lambda>responseParams.
          if rpRPCCall payload = ''updateProfile''
          then andThen (profileCompleted env h (csUserPublicKey state)) (\<lambda>completed.
                 ret (responseParams, state\<lparr>csProfileCompleted := completed\<rparr>))
          else ret (responseParams, state))))))"

definition resolveSigner ::
  "codec \<Rightarrow> env \<Rightarrow> RequestPayload \<Rightarrow> sessionState \<Rightarrow> bytes io" where
  "resolveSigner cd env payload state =
     (if csAuthenticated state then ret (csUserPublicKey state)
      else if rpRPCCall payload = ''requestAuthChallenge'' then
        andThen (DecodeParameters (cdRequestAuth cd) (rpParameters payload)) (\<lambda>params. ret (raUserPublicKey params))
      else if rpRPCCall payload = ''solveAuthChallenge'' then
        andThen (DecodeParameters (cdSolveAuth cd) (rpParameters payload)) (\<lambda>params.
        andThen (LookupSession env (svSessionID params)) (\<lambda>session. ret (sesUserPublicKey session)))
      else if csSessionID state \<noteq> uuidNil then ret (csUserPublicKey state)
      else fail ErrSessionNotAuthenticated)"

definition parseUUIDParam :: "env \<Rightarrow> any \<Rightarrow> uuid option" where
  "parseUUIDParam env value =
     (let known = (\<lambda>i. if i = uuidNil then None else Some i) in
      case value of
        GUUID v \<Rightarrow> known v
      | GBytes v \<Rightarrow> Option.bind (eUuidFromBytes env v) known
      | GString v \<Rightarrow> (let (i, ok) = eUuidParse env v in if ok then known i else None)
      | _ \<Rightarrow> None)"

text \<open>The cases of the switch in \<open>handlePacket\<close>: the parameters of the answer and the state of the connection after
  the call.\<close>

definition onRequestAuthChallenge ::
  "codec \<Rightarrow> env \<Rightarrow> Handler \<Rightarrow> RequestPayload \<Rightarrow> sessionState \<Rightarrow> (payload \<times> sessionState) io" where
  "onRequestAuthChallenge cd env h payload state =
     andThen (DecodeParameters (cdRequestAuth cd) (rpParameters payload)) (\<lambda>params.
     andThen (RequestAuthChallenge env (hAuth h)
       \<lparr>rqUserPublicKey = raUserPublicKey params, rqPublicIP = raPublicIP params, rqDeviceID = raDeviceID params,
        rqClientNonce = raClientNonce params\<rparr>) (\<lambda>result.
     ret ([(''sessionId'', GString (eUuidString env (roSessionID result))),
           (''challengePayload'', GBytes (roChallengePayload result)), (''expiresAt'', stamp env (roExpiresAt result))],
          state\<lparr>csSessionID := roSessionID result, csUserPublicKey := raUserPublicKey params,
                csDeviceID := raDeviceID params\<rparr>)))"

definition onSolveAuthChallenge ::
  "codec \<Rightarrow> env \<Rightarrow> Handler \<Rightarrow> RequestPayload \<Rightarrow> sessionState \<Rightarrow> (payload \<times> sessionState) io" where
  "onSolveAuthChallenge cd env h payload state =
     andThen (DecodeParameters (cdSolveAuth cd) (rpParameters payload)) (\<lambda>params.
     andThen (SolveAuthChallenge env (hAuth h) (svSessionID params) (svSignature params)) (\<lambda>result.
     let solved = state\<lparr>csSessionID := svSessionID params, csUserPublicKey := soUserPublicKey result,
                       csAuthenticated := soIsAuthenticated result\<rparr> in
     andThen (if soIsAuthenticated result
         then andThen (LookupSession env (svSessionID params)) (\<lambda>session.
              andThen (profileCompleted env h (soUserPublicKey result)) (\<lambda>completed.
              ret (solved\<lparr>csDeviceID := sesDeviceID session, csProfileCompleted := completed\<rparr>)))
         else ret solved) (\<lambda>nextState.
     ret ([(''isAuthenticated'', GBool (soIsAuthenticated result)), (''userPublicKey'', GBytes (soUserPublicKey result)),
           (''serverTime'', stamp env (soServerTime result))], nextState))))"

definition onSubscribeToEvents ::
  "codec \<Rightarrow> env \<Rightarrow> Handler \<Rightarrow> RequestPayload \<Rightarrow> sessionState \<Rightarrow> (payload \<times> sessionState) io" where
  "onSubscribeToEvents cd env h payload state =
     andThen (DecodeParameters (cdSubscribe cd) (rpParameters payload)) (\<lambda>_.
     andThen (SubscribeToEvents env (hAuth h) (csSessionID state)) (\<lambda>result.
     ret ([(''subscriptionId'', GString (eUuidString env (sbSubscriptionID result))),
           (''subscribedAt'', stamp env (sbSubscribedAt result))],
          state\<lparr>csSubscriptionIDs := csSubscriptionIDs state @ [sbSubscriptionID result]\<rparr>)))"

definition onUnsubscribeFromEvents ::
  "codec \<Rightarrow> env \<Rightarrow> Handler \<Rightarrow> RequestPayload \<Rightarrow> sessionState \<Rightarrow> (payload \<times> sessionState) io" where
  "onUnsubscribeFromEvents cd env h payload state =
     andThen (DecodeParameters (cdUnsubscribe cd) (rpParameters payload)) (\<lambda>params.
     andThen (UnsubscribeFromEvents env (ufSubscriptionID params)) (\<lambda>unsubscribedAt.
     ret ([(''unsubscribedAt'', stamp env unsubscribedAt)], state)))"

definition onAcknowledgeEvent ::
  "codec \<Rightarrow> env \<Rightarrow> Handler \<Rightarrow> RequestPayload \<Rightarrow> sessionState \<Rightarrow> (payload \<times> sessionState) io" where
  "onAcknowledgeEvent cd env h payload state =
     guardErr (\<not> csAuthenticated state) ErrSessionNotAuthenticated (
     andThen (DecodeParameters (cdAcknowledge cd) (rpParameters payload)) (\<lambda>params.
     case parseUUIDParam env (akEventID params) of
       None \<Rightarrow> fail ErrInvalidEventID
     | Some eventID \<Rightarrow>
         let trimmed = trimSpace (akDeviceID params);
             deviceID = (if trimmed = [] then csDeviceID state else trimmed) in
         andThen (case hOutbox h of
             Some (_, notifier) \<Rightarrow> OutboxAcknowledge env notifier eventID deviceID (akSegmentID params)
           | None \<Rightarrow> AcknowledgeEvent env (csUserPublicKey state) eventID) (\<lambda>_.
         ret ([], state))))"

definition runCall ::
  "codec \<Rightarrow> env \<Rightarrow> Handler \<Rightarrow> RequestPayload \<Rightarrow> sessionState \<Rightarrow> (payload \<times> sessionState) io" where
  "runCall cd env h payload state =
     (if rpRPCCall payload = ''requestAuthChallenge'' then onRequestAuthChallenge cd env h payload state
      else if rpRPCCall payload = ''solveAuthChallenge'' then onSolveAuthChallenge cd env h payload state
      else if rpRPCCall payload = ''subscribeToEvents'' then onSubscribeToEvents cd env h payload state
      else if rpRPCCall payload = ''unsubscribeFromEvents'' then onUnsubscribeFromEvents cd env h payload state
      else if rpRPCCall payload = ''acknowledgeEvent'' then onAcknowledgeEvent cd env h payload state
      else handleClientAPICall cd env h payload state)"

text \<open>The call, once its signature is checked.\<close>

definition signedCall ::
  "codec \<Rightarrow> env \<Rightarrow> Handler \<Rightarrow> RequestPacket \<Rightarrow> RequestPayload \<Rightarrow> sessionState \<Rightarrow> (payload \<times> sessionState) io" where
  "signedCall cd env h packet payload state =
     andThen (resolveSigner cd env payload state) (\<lambda>signer.
     andThen (if signer = [] then ret True else ed25519Verify env signer (pkPayload packet) (pkSignature packet)) (\<lambda>ok.
     guardErr (\<not> ok) ErrInvalidSignature (
     runCall cd env h payload state)))"

text \<open>The response, the state of the connection, and the error, if any. A failed call leaves the state as it was.\<close>

definition handlePacket ::
  "codec \<Rightarrow> env \<Rightarrow> Handler \<Rightarrow> RequestPacket \<Rightarrow> sessionState \<Rightarrow> (ResponsePacket \<times> sessionState \<times> err option) io" where
  "handlePacket cd env h packet state =
     (case cdPayload cd (pkPayload packet) of
        Inl msg \<Rightarrow>
          andThen (respond env None (errorParameters ''bad_request'' ''invalid payload'')) (\<lambda>response.
          ret (response, state, Some (ErrMsg msg)))
      | Inr payload \<Rightarrow>
          onErr (andThen (signedCall cd env h packet payload state) (\<lambda>(params, nextState).
                 andThen (respond env (Some (rpRequestID payload)) params) (\<lambda>response.
                 ret (response, nextState, None))))
            (\<lambda>e. andThen (errorResponse cd env (rpRequestID payload) e) (\<lambda>response.
                 ret (response, state, Some e))))"

section \<open>Batches\<close>

text \<open>The events a connection was sent, and until when they need not be sent again.\<close>

type_synonym sentEvents = "(uuid \<times> time) list"

definition eventPacket :: "OutboxEvent \<Rightarrow> ResponsePacket" where
  "eventPacket event =
     \<lparr>rsRequestID = oeEventID event, rsReplyToRequestID = None, rsEventType = oeEventType event,
      rsParameters = oePayload event\<rparr>"

definition markSent :: "OutboxEvent \<Rightarrow> sentEvents \<Rightarrow> sentEvents" where
  "markSent event sent =
     (case oeInflightUntil event of None \<Rightarrow> sent | Some until \<Rightarrow> AList.update (oeEventID event) until sent)"

definition sentRecently :: "time \<Rightarrow> sentEvents \<Rightarrow> OutboxEvent \<Rightarrow> bool" where
  "sentRecently now sent event =
     (case map_of sent (oeEventID event) of None \<Rightarrow> False | Some until \<Rightarrow> now < until)"

fun newPackets :: "time \<Rightarrow> OutboxEvent list \<Rightarrow> sentEvents \<Rightarrow> ResponsePacket list \<times> sentEvents" where
  "newPackets now [] sent = ([], sent)"
| "newPackets now (event # events) sent =
     (if sentRecently now sent event then newPackets now events sent
      else let (packets, sent') = newPackets now events (markSent event sent)
           in (eventPacket event # packets, sent'))"

text \<open>The events in flight for the device, after a round of the dispatcher if there were none.\<close>

definition inflightOf :: "env \<Rightarrow> OutboxConfig \<Rightarrow> Notifier option \<Rightarrow> string \<Rightarrow> OutboxEvent list io" where
  "inflightOf env cfg notifier deviceID =
     andThen (OutboxListInflight env cfg deviceID 128) (\<lambda>events.
     if events \<noteq> [] then ret events
     else andThen (DispatchOnce env cfg notifier) (\<lambda>_. OutboxListInflight env cfg deviceID 128))"

text \<open>The map of sent events is the caller's: it loses its expired entries even when the call fails.\<close>

definition pullOutboxPackets ::
  "env \<Rightarrow> Handler \<Rightarrow> string \<Rightarrow> sentEvents \<Rightarrow> ((err + ResponsePacket list) \<times> sentEvents) io" where
  "pullOutboxPackets env h deviceID sent =
     (case hOutbox h of
        None \<Rightarrow> ret (Inr [], sent)
      | Some (cfg, notifier) \<Rightarrow>
          if deviceID = [] then ret (Inr [], sent)
          else andThen (clockNow env) (\<lambda>now.
               let live = filter (\<lambda>(i, until). now < until) sent in
               onErr (andThen (inflightOf env cfg notifier deviceID) (\<lambda>events.
                      let (packets, sent') = newPackets now events live in ret (Inr packets, sent')))
                 (\<lambda>e. ret (Inl e, live))))"

definition userEventPacket :: "Event \<Rightarrow> ResponsePacket" where
  "userEventPacket event =
     \<lparr>rsRequestID = evEventID event, rsReplyToRequestID = evReplyToRequestID event,
      rsEventType = evEventType event, rsParameters = evPayload event\<rparr>"

definition StatusOK :: int where "StatusOK = 200"
definition StatusBadRequest :: int where "StatusBadRequest = 400"
definition StatusMethodNotAllowed :: int where "StatusMethodNotAllowed = 405"
definition StatusInternalServerError :: int where "StatusInternalServerError = 500"

fun runPackets ::
  "codec \<Rightarrow> env \<Rightarrow> Handler \<Rightarrow> RequestPacket list \<Rightarrow> sessionState \<Rightarrow> int
     \<Rightarrow> (ResponsePacket list \<times> sessionState \<times> int) io" where
  "runPackets cd env h [] state statusCode = ret ([], state, statusCode)"
| "runPackets cd env h (packet # packets) state statusCode =
     andThen (handlePacket cd env h packet state) (\<lambda>(response, nextState, e).
     andThen (runPackets cd env h packets nextState
        (if e = None then statusCode else maxStatus statusCode StatusBadRequest)) (\<lambda>(responses, lastState, code).
     ret (response # responses, lastState, code)))"

definition handlePackets ::
  "codec \<Rightarrow> env \<Rightarrow> Handler \<Rightarrow> RequestPacket list \<Rightarrow> sessionState \<Rightarrow> sentEvents
     \<Rightarrow> (ResponsePacket list \<times> sessionState \<times> int \<times> sentEvents) io" where
  "handlePackets cd env h packets state sent =
     andThen (runPackets cd env h packets state StatusOK) (\<lambda>(responses, currentState, statusCode).
     if csAuthenticated currentState \<and> csDeviceID currentState \<noteq> [] \<and> hOutbox h \<noteq> None
     then andThen (pullOutboxPackets env h (csDeviceID currentState) sent) (\<lambda>(events, sent').
            case events of
              Inl _ \<Rightarrow> ret (responses, currentState, maxStatus statusCode StatusInternalServerError, sent')
            | Inr packets' \<Rightarrow> ret (responses @ packets', currentState, statusCode, sent'))
     else if csAuthenticated currentState
     then onErr (andThen (PullEvents env (hAuth h) (csUserPublicKey currentState) 0) (\<lambda>events.
                 ret (responses @ map userEventPacket events, currentState, statusCode, sent)))
            (\<lambda>_. ret (responses, currentState, maxStatus statusCode StatusInternalServerError, sent))
     else ret (responses, currentState, statusCode, sent))"

text \<open>A batch is a list of packets or a single packet; the last result is the number of requests.\<close>

definition handleBatch ::
  "codec \<Rightarrow> env \<Rightarrow> Handler \<Rightarrow> bytes \<Rightarrow> sessionState \<Rightarrow> sentEvents
     \<Rightarrow> (ResponsePacket list \<times> sessionState \<times> int \<times> int \<times> sentEvents) io" where
  "handleBatch cd env h raw state sent =
     (let run = (\<lambda>packets.
        andThen (handlePackets cd env h packets state sent) (\<lambda>(responses, nextState, statusCode, sent').
        ret (responses, nextState, statusCode, int (length packets), sent'))) in
      case cdPackets cd raw of
        Inr packets \<Rightarrow> run packets
      | Inl _ \<Rightarrow> (case cdPacket cd raw of
          Inr packet \<Rightarrow> run [packet]
        | Inl _ \<Rightarrow>
            andThen (respond env None [(''error'', GMap [(''code'', GString ''bad_request''),
              (''message'', GString ''invalid cbor payload''), (''retry'', GBool False)])]) (\<lambda>response.
            ret ([response], state, StatusBadRequest, 0, sent))))"

section \<open>Usage\<close>

definition recordUserUsage :: "env \<Rightarrow> Handler \<Rightarrow> bytes \<Rightarrow> int \<Rightarrow> int \<Rightarrow> int \<Rightarrow> unit io" where
  "recordUserUsage env h userPublicKey requests bytesIn bytesOut =
     (if hClient h = None \<or> length userPublicKey \<noteq> 32 then ret ()
      else ignoreErr (RecordUserUsage env userPublicKey requests bytesIn bytesOut) (ret ()))"

definition recordUsage :: "env \<Rightarrow> Handler \<Rightarrow> sessionState \<Rightarrow> int \<Rightarrow> int \<Rightarrow> int \<Rightarrow> unit io" where
  "recordUsage env h state requests bytesIn bytesOut =
     (if \<not> csAuthenticated state then ret ()
      else recordUserUsage env h (csUserPublicKey state) requests bytesIn bytesOut)"

section \<open>HTTP\<close>

record connectionSession =
  coState :: sessionState
  coSent :: sentEvents

type_synonym httpConnectionSessions = "(string \<times> connectionSession) list"

definition zeroState :: sessionState where
  "zeroState = \<lparr>csSessionID = uuidNil, csUserPublicKey = [], csDeviceID = [], csAuthenticated = False,
     csProfileCompleted = False, csSubscriptionIDs = []\<rparr>"

definition newHTTPConnectionSessions :: httpConnectionSessions where
  "newHTTPConnectionSessions = []"

definition sessionsGet ::
  "string \<Rightarrow> httpConnectionSessions \<Rightarrow> connectionSession \<times> httpConnectionSessions" where
  "sessionsGet connectionID scopes =
     (case map_of scopes connectionID of
        Some scope \<Rightarrow> (scope, scopes)
      | None \<Rightarrow> let scope = \<lparr>coState = zeroState, coSent = []\<rparr> in (scope, AList.update connectionID scope scopes))"

definition sessionsDelete :: "string \<Rightarrow> httpConnectionSessions \<Rightarrow> httpConnectionSessions" where
  "sessionsDelete connectionID scopes = AList.delete connectionID scopes"

definition OnHTTPConnectionClosed :: "string \<Rightarrow> httpConnectionSessions \<Rightarrow> httpConnectionSessions" where
  "OnHTTPConnectionClosed connectionID scopes =
     (if trimSpace connectionID = [] then scopes else sessionsDelete connectionID scopes)"

text \<open>A request that is not a WebSocket upgrade (headers are left out): its method, its body (\<open>None\<close> if reading it fails) and the id of its
  connection.\<close>

record httpRequest =
  hqMethod :: string
  hqBody :: "bytes option"
  hqConnectionID :: "string option"

record httpResponse =
  hrStatus :: int
  hrBody :: bytes

definition httpError :: "string \<Rightarrow> int \<Rightarrow> httpResponse" where
  "httpError message code = \<lparr>hrStatus = code, hrBody = stringBytes (message @ [CHR 0x0A])\<rparr>"

definition maxBody :: nat where "maxBody = 4194304"

definition handleHTTP ::
  "codec \<Rightarrow> env \<Rightarrow> Handler \<Rightarrow> httpRequest \<Rightarrow> httpConnectionSessions
     \<Rightarrow> (httpResponse \<times> httpConnectionSessions) io" where
  "handleHTTP cd env h request scopes =
     (if hqMethod request \<noteq> ''POST'' then ret (httpError ''method not allowed'' StatusMethodNotAllowed, scopes)
      else case hqBody request of
        None \<Rightarrow> ret (httpError ''failed to read body'' StatusBadRequest, scopes)
      | Some all \<Rightarrow>
          let body = take maxBody all in
          (case hqConnectionID request of
             None \<Rightarrow> ret (httpError ''missing http connection context'' StatusInternalServerError, scopes)
           | Some connectionID \<Rightarrow>
               let (scope, scopes1) = sessionsGet connectionID scopes in
               andThen (handleBatch cd env h body (coState scope) (coSent scope))
                 (\<lambda>(responses, nextState, statusCode, requestCount, sent).
               let scopes2 = AList.update connectionID \<lparr>coState = nextState, coSent = sent\<rparr> scopes1 in
               case cdMarshal cd responses of
                 None \<Rightarrow> ret (httpError ''failed to encode response'' StatusInternalServerError, scopes2)
               | Some payload \<Rightarrow>
                   andThen (recordUsage env h nextState requestCount (int (length body)) (int (length payload))) (\<lambda>_.
                   ret (\<lparr>hrStatus = statusCode, hrBody = payload\<rparr>, scopes2)))))"

section \<open>Streams\<close>

text \<open>\<open>writeAll\<close>: the \<open>k\<close>-th call of the writer takes the bytes left and returns how many it wrote, and its error.
  The result is the number of bytes written, and the error.\<close>

definition ErrUnexpectedEOF :: err where "ErrUnexpectedEOF = ErrMsg ''unexpected EOF''"

function writeAll :: "(nat \<Rightarrow> bytes \<Rightarrow> int \<times> err option) \<Rightarrow> nat \<Rightarrow> bytes \<Rightarrow> int \<Rightarrow> (int \<times> err option) outcome" where
  "writeAll write k payload written =
     (if payload = [] then Ret (written, None)
      else case write k payload of
        (n, Some e) \<Rightarrow> Ret (written + n, Some e)
      | (n, None) \<Rightarrow>
          if n \<le> 0 then Ret (written + n, Some ErrUnexpectedEOF)
          else if n > int (length payload) then Panic ''slice bounds out of range''
          else writeAll write (Suc k) (drop (nat n) payload) (written + n))"
  by pat_completeness auto
termination
  by (relation "measure (\<lambda>(write, k, payload, written). length payload)") auto

declare writeAll.simps [simp del]

text \<open>A WebSocket or TCP connection: its state, the events it was sent, and \<open>stopPush\<close>, once the push loop was started, by
  what it captured: the state the loop was started with and its subscription on the bus. \<open>cnPushing\<close> says that
  \<open>stopOnce\<close> did not run yet, \<open>cnCanceled\<close> that the context is canceled, \<open>cnDone\<close> that the read loop returned.\<close>

record connection =
  cnState :: sessionState
  cnSent :: sentEvents
  cnPush :: "(sessionState \<times> nat \<times> 64 word) option"
  cnPushing :: bool
  cnCanceled :: bool
  cnDone :: bool

definition newConnection :: connection where
  "newConnection = \<lparr>cnState = zeroState, cnSent = [], cnPush = None, cnPushing = False, cnCanceled = False, cnDone = False\<rparr>"

definition startPush :: "env \<Rightarrow> Handler \<Rightarrow> connection \<Rightarrow> connection io" where
  "startPush env h c =
     (if cnPush c \<noteq> None \<or> \<not> hBus h \<or> csDeviceID (cnState c) = [] \<or> hOutbox h = None then ret c
      else andThen (onBus (SubscribeKey (csDeviceID (cnState c)))) (\<lambda>(ch, i).
           ret (c\<lparr>cnPush := Some (cnState c, ch, i), cnPushing := True\<rparr>)))"

text \<open>The closure \<open>stop\<close>, which ends the push loop once, and its use by the read loop.\<close>

definition stopLoop :: "connection \<Rightarrow> connection io" where
  "stopLoop c =
     (case cnPush c of
        None \<Rightarrow> ret c
      | Some (started, ch, i) \<Rightarrow>
          if \<not> cnPushing c then ret c
          else andThen (onBus (Unsubscribe (csDeviceID started) i)) (\<lambda>_. ret (c\<lparr>cnPushing := False\<rparr>)))"

definition stopPush :: "connection \<Rightarrow> connection io" where
  "stopPush c = andThen (stopLoop c) (\<lambda>c'. ret (c'\<lparr>cnPush := None\<rparr>))"

text \<open>\<open>writePackets\<close>: \<open>send\<close> says whether the connection takes the message. The result is the number of bytes sent.\<close>

definition writePackets :: "codec \<Rightarrow> (bytes \<Rightarrow> err option) \<Rightarrow> ResponsePacket list \<Rightarrow> err + int" where
  "writePackets cd send packets =
     (case cdMarshal cd packets of
        None \<Rightarrow> Inl (ErrMsg ''cbor'')
      | Some encoded \<Rightarrow> (case send encoded of Some e \<Rightarrow> Inl e | None \<Rightarrow> Inr (int (length encoded))))"

text \<open>The first half of an iteration of the read loops: the batch, and the start of the push loop.\<close>

definition onBatch ::
  "codec \<Rightarrow> env \<Rightarrow> Handler \<Rightarrow> bytes \<Rightarrow> connection \<Rightarrow> (ResponsePacket list \<times> int \<times> connection) io" where
  "onBatch cd env h payload c =
     andThen (handleBatch cd env h payload (cnState c) (cnSent c))
       (\<lambda>(responses, nextState, statusCode, requestCount, sent).
     andThen (if csAuthenticated nextState \<and> hOutbox h \<noteq> None
        then startPush env h (c\<lparr>cnState := nextState, cnSent := sent\<rparr>)
        else ret (c\<lparr>cnState := nextState, cnSent := sent\<rparr>)) (\<lambda>c'.
     ret (responses, requestCount, c')))"

text \<open>One iteration of the loop of \<open>handleWebSocket\<close> on a binary message; an error ends the loop.\<close>

definition webSocketMessage ::
  "codec \<Rightarrow> env \<Rightarrow> Handler \<Rightarrow> (bytes \<Rightarrow> err option) \<Rightarrow> bytes \<Rightarrow> connection \<Rightarrow> (err option \<times> connection) io" where
  "webSocketMessage cd env h send payload c =
     andThen (onBatch cd env h payload c) (\<lambda>(responses, requestCount, c').
     case writePackets cd send responses of
       Inl e \<Rightarrow> andThen (stopPush c') (\<lambda>c''. ret (Some e, c''))
     | Inr bytesOut \<Rightarrow>
         andThen (recordUsage env h (cnState c') requestCount (int (length payload)) bytesOut) (\<lambda>_.
         ret (None, c')))"

text \<open>The same for \<open>HandleStream\<close>, which counts the requests of a batch it could not answer.\<close>

definition streamMessage ::
  "codec \<Rightarrow> env \<Rightarrow> Handler \<Rightarrow> (bytes \<Rightarrow> err option) \<Rightarrow> bytes \<Rightarrow> connection \<Rightarrow> (err option \<times> connection) io" where
  "streamMessage cd env h send payload c =
     andThen (onBatch cd env h payload c) (\<lambda>(responses, requestCount, c').
     case writePackets cd send responses of
       Inl e \<Rightarrow>
         andThen (recordUsage env h (cnState c') requestCount (int (length payload)) 0) (\<lambda>_.
         andThen (stopPush c') (\<lambda>c''. ret (Some (ErrWrap ''encode stream batch'' e), c'')))
     | Inr bytesOut \<Rightarrow>
         andThen (recordUsage env h (cnState c') requestCount (int (length payload)) bytesOut) (\<lambda>_.
         ret (None, c')))"

text \<open>The read loops end with a canceled context.\<close>

definition endRead :: "connection \<Rightarrow> connection" where
  "endRead c = c\<lparr>cnCanceled := True, cnDone := True\<rparr>"

text \<open>One iteration of the loop of \<open>handleWebSocket\<close>, whatever is read, and of the one of \<open>HandleStream\<close>, with the value it
  returns if it ends.\<close>

datatype webSocketRead = BinaryMessage bytes | OtherMessage | ReadFailed

definition handleWebSocketTurn ::
  "codec \<Rightarrow> env \<Rightarrow> Handler \<Rightarrow> (bytes \<Rightarrow> err option) \<Rightarrow> webSocketRead \<Rightarrow> connection \<Rightarrow> connection io" where
  "handleWebSocketTurn cd env h send read c =
     (case read of
        ReadFailed \<Rightarrow> andThen (stopPush c) (\<lambda>c'. ret (endRead c'))
      | OtherMessage \<Rightarrow> ret c
      | BinaryMessage payload \<Rightarrow>
          andThen (webSocketMessage cd env h send payload c) (\<lambda>(e, c').
          ret (if e = None then c' else endRead c')))"

definition ioEOF :: err where "ioEOF = ErrMsg ''EOF''"

definition HandleStreamTurn ::
  "codec \<Rightarrow> env \<Rightarrow> Handler \<Rightarrow> (bytes \<Rightarrow> err option) \<Rightarrow> (err + bytes) \<Rightarrow> connection
     \<Rightarrow> (err option option \<times> connection) io" where
  "HandleStreamTurn cd env h send item c =
     (case item of
        Inl e \<Rightarrow>
          andThen (stopPush c) (\<lambda>c'.
          ret (Some (if errIs e ioEOF then None else Some (ErrWrap ''decode stream batch'' e)), endRead c'))
      | Inr payload \<Rightarrow>
          andThen (streamMessage cd env h send payload c) (\<lambda>(e, c').
          ret (case e of None \<Rightarrow> (None, c') | Some e' \<Rightarrow> (Some (Some e'), endRead c'))))"

text \<open>One iteration of the push loop: it goes on at once after events were sent, otherwise it waits; a failed
  write cancels the connection, and a canceled context ends the loop.\<close>

datatype pushNext = PushAgain | PushWait | PushDone

definition pushRound ::
  "codec \<Rightarrow> env \<Rightarrow> Handler \<Rightarrow> (bytes \<Rightarrow> err option) \<Rightarrow> sessionState \<Rightarrow> connection \<Rightarrow> (pushNext \<times> connection) io" where
  "pushRound cd env h send started c =
     (if cnCanceled c then andThen (stopLoop c) (\<lambda>c'. ret (PushDone, c'))
      else
        andThen (pullOutboxPackets env h (csDeviceID started) (cnSent c)) (\<lambda>(result, sent).
        let c' = c\<lparr>cnSent := sent\<rparr> in
        case result of
          Inl _ \<Rightarrow> ret (PushWait, c')
        | Inr packets \<Rightarrow>
            if packets = [] then ret (PushWait, c')
            else (case writePackets cd send packets of
                Inl _ \<Rightarrow> andThen (stopLoop (c'\<lparr>cnCanceled := True\<rparr>)) (\<lambda>c''. ret (PushDone, c''))
              | Inr bytesOut \<Rightarrow>
                  andThen (recordUserUsage env h (csUserPublicKey started) 0 0 bytesOut) (\<lambda>_. ret (PushAgain, c')))))"

text \<open>The iteration after a wait, which ends with the token of the subscription or with the poll interval.\<close>

definition pushTurn ::
  "codec \<Rightarrow> env \<Rightarrow> Handler \<Rightarrow> (bytes \<Rightarrow> err option) \<Rightarrow> bool \<Rightarrow> connection \<Rightarrow> (pushNext \<times> connection) io" where
  "pushTurn cd env h send notified c =
     (case cnPush c of
        None \<Rightarrow> ret (PushDone, c)
      | Some (started, ch, i) \<Rightarrow>
          andThen (if notified then onBus (\<lambda>b. (Ret (), chanRecv ch b)) else ret ()) (\<lambda>_.
          pushRound cd env h send started c))"

end
