(* ===== verification/ServerSteps.thy ===== *)
theory ServerSteps
  imports RpcHandler
begin

text \<open>
  The server as a transition system: every batch on any connection, every round of the push loops, of the
  dispatcher and of the janitor is a step. The locale \<open>client_invariant\<close> is the interface between the repository and
  the server: an invariant that each writer of the repository keeps is kept by every step, whatever the
  packets hold, whatever the connections claim and whichever statements fail.
\<close>

section \<open>Frames of the whole calls\<close>

lemma keeps_allFriendPages [keeps_intros]:
  assumes "eventFree P"
  shows "keeps (dbInv P) (\<lambda>w. friendPages (Suc (length (tFriends (db w)))) env cfg u p k w)"
  using keeps_friendPages [OF assms] unfolding keeps_def by blast

lemma keeps_case_sum [keeps_intros]:
  "(\<And>x. r = Inl x \<Longrightarrow> keeps I (f x)) \<Longrightarrow> (\<And>x. r = Inr x \<Longrightarrow> keeps I (g x)) \<Longrightarrow>
     keeps I (case r of Inl x \<Rightarrow> f x | Inr x \<Rightarrow> g x)"
  by (cases r) simp_all

lemma keeps_CreateDirectRoom_tx:
  assumes "\<And>r t. keeps (dbInv P) (WithinTransaction env NoTx (\<lambda>txCtx. directRoomTx env u v r t))"
  shows "keeps (dbInv P) (CreateDirectRoom env u v)"
proof -
  have "keeps (dbInv P) (\<lambda>w. case WithinTransaction env NoTx (\<lambda>txCtx. directRoomTx env u v r t) w of
      (Ret y, w') \<Rightarrow> (Ret (a y), w') | (Err e, w') \<Rightarrow> if b e then (Ret (c (db w')), w') else (Err e, w')
    | (Panic p, w') \<Rightarrow> (Panic p, w'))" for r t a b c
    using assms [of r t] by (fastforce simp: keeps_def split: prod.splits outcome.splits)
  then show ?thesis
    unfolding CreateDirectRoom_def by (intro keeps_intros)
qed

lemma keeps_AcceptFriendRequest_frame [frame_intros]:
  assumes "eventFree P" and "\<And>d t. P d \<Longrightarrow> P (d\<lparr>tFriends := t\<rparr>)" and "\<And>d t. P d \<Longrightarrow> P (d\<lparr>tFriendRequests := t\<rparr>)"
  shows "keeps (dbInv P) (AcceptFriendRequest env cfg u i)"
  unfolding AcceptFriendRequest_def acceptRequestTx_def
  by (intro keeps_intros frame_intros) (simp_all add: assms)

lemma keeps_CreateChatRoom_frame [frame_intros]:
  assumes "\<And>d t. P d \<Longrightarrow> P (d\<lparr>tChatRooms := t\<rparr>)" and "\<And>d t. P d \<Longrightarrow> P (d\<lparr>tChatMembers := t\<rparr>)"
  shows "keeps (dbInv P) (CreateChatRoom env u ti de v)"
  unfolding CreateChatRoom_def by (intro keeps_intros frame_intros) (simp_all add: assms)

lemma keeps_CreateDirectRoom_frame [frame_intros]:
  assumes "\<And>d t. P d \<Longrightarrow> P (d\<lparr>tChatRooms := t\<rparr>)" and "\<And>d t. P d \<Longrightarrow> P (d\<lparr>tChatMembers := t\<rparr>)"
    and "\<And>d t. P d \<Longrightarrow> P (d\<lparr>tDirectRooms := t\<rparr>)"
  shows "keeps (dbInv P) (CreateDirectRoom env u v)"
  by (rule keeps_CreateDirectRoom_tx, unfold directRoomTx_def)
    (intro keeps_intros frame_intros; simp add: assms)

lemma keeps_AcceptChatInvitation_frame [frame_intros]:
  assumes "eventFree P" and "\<And>d t. P d \<Longrightarrow> P (d\<lparr>tInvitations := t\<rparr>)" and "\<And>d t. P d \<Longrightarrow> P (d\<lparr>tChatMembers := t\<rparr>)"
  shows "keeps (dbInv P) (AcceptChatInvitation env cfg u i c)"
  unfolding AcceptChatInvitation_def acceptInvitationTx_def
  by (intro keeps_intros frame_intros) (simp_all add: assms)

lemma keeps_SendExternalCommit_frame [frame_intros]:
  assumes "eventFree P" and "\<And>d t. P d \<Longrightarrow> P (d\<lparr>tChatMembers := t\<rparr>)"
  shows "keeps (dbInv P) (SendExternalCommit env cfg u i c)"
  unfolding SendExternalCommit_def by (intro keeps_intros frame_intros) (simp_all add: assms)

section \<open>The outbox, for invariants that do not read it\<close>

lemma keeps_outbox_frame [keeps_intros]:
  assumes "eventFree P"
  shows "keeps (dbInv P) (dropSegmentTail env v s from now reason)" "keeps (dbInv P) (claimOne env now timeout item)"
    "keeps (dbInv P) (DeleteTerminal env st older n)"
  unfolding dropSegmentTail_def claimOne_def DeleteTerminal_def dropRows_def clearSegment_def
  by (intro keeps_intros keeps_scanOutboxEvent; auto simp: Let_def eventFreeD [OF assms])+

lemma keeps_claimLoop_frame [keeps_intros]:
  "eventFree P \<Longrightarrow> keeps (dbInv P) (claimLoop env now timeout attempts items)"
  by (induction items) (auto intro!: keeps_intros)

lemma keeps_outbox_calls_frame [keeps_intros]:
  assumes "eventFree P"
  shows "keeps (dbInv P) (ClaimPending env ctx now n timeout attempts)"
    "keeps (dbInv P) (AcknowledgeOutbox env ctx now i v s)" "keeps (dbInv P) (DropExpiredHeads env now n)"
    "keeps (dbInv P) (ListInflight env v now n)"
  unfolding ClaimPending_def AcknowledgeOutbox_def DropExpiredHeads_def ListInflight_def ackRow_def
    clearInflight_def setHead_def
  by (intro keeps_intros keeps_scanOutboxEvent assms; auto simp: eventFreeD [OF assms])+

lemma keeps_ntNotifyKey [keeps_intros]: "keeps (dbInv P) (ntNotifyKey outboxNotifier k)"
  by (intro keeps_readonly multin.key_readonly)

lemma keeps_outbox_service_frame [keeps_intros]:
  assumes "eventFree P"
  shows "keeps (dbInv P) (DispatchOnce env cfg (Some outboxNotifier))"
    "keeps (dbInv P) (OutboxListInflight env cfg v n)"
    "keeps (dbInv P) (OutboxAcknowledge env (Some outboxNotifier) i v s)"
    "keeps (dbInv P) (janitorRun env cfg)"
  unfolding DispatchOnce_def OutboxListInflight_def OutboxAcknowledge_def janitorRun_def option.case
  by (intro keeps_intros multin.notify_keeps assms)+

section \<open>The repository's contract\<close>

locale client_store =
  fixes env :: env and P :: "database \<Rightarrow> bool"
  assumes background: "P (d\<lparr>tAuthSessions := a, tEventSubscriptions := b, tUserEvents := c, tOutbox := e,
      tOutboxSegments := f, tUsageStats := g\<rparr>) = P d"
    and profile_touched: "keeps (dbInv P) (TouchProfile env u t)"
    and profile_updated: "keeps (dbInv P) (storeUpdateProfile env u n dn ah bio t)"
    and device_upserted: "keeps (dbInv P) (UpsertDevice env v)"
    and device_removed: "keeps (dbInv P) (storeRemoveDevice env u i)"
    and packages_deleted: "keeps (dbInv P) (DeleteKeyPackagesByUserDevice env u s)"
    and packages_inserted: "keeps (dbInv P) (InsertKeyPackages env ks)"
    and friend_removed: "keeps (dbInv P) (storeRemoveFriend env u u')"
    and request_created: "fqState q = FriendRequestPending \<Longrightarrow> keeps (dbInv P) (CreateFriendRequest env q)"
    and request_moved: "st \<noteq> FriendRequestPending \<Longrightarrow>
      keeps (dbInv P) (UpdateFriendRequestState env i u [FriendRequestPending] st t)"
    and request_accepted: "keeps (dbInv P) (AcceptFriendRequest env cfg u i)"
    and room_created: "keeps (dbInv P) (CreateChatRoom env u ti de vis)"
    and direct_created: "keeps (dbInv P) (CreateDirectRoom env u u')"
    and room_updated: "keeps (dbInv P) (UpdateRoom env u i ti de ah t)"
    and room_deleted: "keeps (dbInv P) (DeleteRoom env u i t)"
    and state_added: "keeps (dbInv P) (AddRoomState env u st')"
    and member_joined: "keeps (dbInv P) (JoinRoom env (plainMember i u t))"
    and external_commit: "keeps (dbInv P) (SendExternalCommit env cfg u i cb)"
    and member_left: "keeps (dbInv P) (LeaveRoom env i u t)"
    and member_kicked: "keeps (dbInv P) (KickMember env u i u' t)"
    and role_updated: "keeps (dbInv P) (UpdateMemberRole env u i u' role)"
    and info_upserted: "keeps (dbInv P) (UpsertRoomGroupInfo env u gi)"
    and welcome_upserted: "keeps (dbInv P) (UpsertRoomWelcome env wl)"
    and permission_created: "keeps (dbInv P) (CreateMemberPermission env u pm)"
    and permission_updated: "keeps (dbInv P) (UpdateMemberPermission env u i allowed t)"
    and permission_deleted: "keeps (dbInv P) (DeleteMemberPermission env u i)"
    and invitation_created: "ivState iv = InvitationPending \<Longrightarrow> keeps (dbInv P) (CreateInvitation env iv)"
    and invitation_moved: "st \<noteq> InvitationPending \<Longrightarrow>
      keeps (dbInv P) (UpdateInvitationState env i u st t [InvitationPending])"
begin

lemma background_frame:
  shows "P (d\<lparr>tAuthSessions := a\<rparr>) = P d" and "P (d\<lparr>tEventSubscriptions := b\<rparr>) = P d"
    and "P (d\<lparr>tUsageStats := g\<rparr>) = P d"
  using background [where d = d and a = a and b = "tEventSubscriptions d" and c = "tUserEvents d" and e = "tOutbox d" and f = "tOutboxSegments d" and g = "tUsageStats d"]
    background [where d = d and a = "tAuthSessions d" and b = b and c = "tUserEvents d" and e = "tOutbox d" and f = "tOutboxSegments d" and g = "tUsageStats d"]
    background [where d = d and a = "tAuthSessions d" and b = "tEventSubscriptions d" and c = "tUserEvents d" and e = "tOutbox d" and f = "tOutboxSegments d" and g = g]
  by simp_all

lemma event_free: "eventFree P"
proof (rule eventFreeI)
  fix d e b s
  show "P (d\<lparr>tUserEvents := e, tOutbox := b, tOutboxSegments := s\<rparr>) = P d"
    using background [where d = d and a = "tAuthSessions d" and b = "tEventSubscriptions d" and c = e and e = b and f = s and g = "tUsageStats d"] by simp
qed

lemmas writers = profile_touched profile_updated device_upserted device_removed packages_deleted
  packages_inserted friend_removed request_created request_moved request_accepted room_created direct_created
  room_updated room_deleted state_added member_joined external_commit member_left member_kicked role_updated
  info_upserted welcome_upserted permission_created permission_updated permission_deleted invitation_created
  invitation_moved event_free

lemma usage_keeps: "keeps (dbInv P) (RecordUserUsage env u r i k)"
  unfolding RecordUserUsage_def by (intro keeps_intros frame_intros) (simp add: background_frame)

lemma profile_keeps:
  assumes "call = ''deleteAccount'' \<Longrightarrow> keeps (dbInv P) (DeleteAccount env (csUserPublicKey st))"
  shows "keeps (dbInv P) (handleProfileMethods env cfg call params st)"
  unfolding handleProfileMethods_def GetProfile_def UpdateProfile_def SearchProfiles_def GetProfileAvatar_def
  by (intro keeps_intros writers assms)

lemma device_keeps: "keeps (dbInv P) (handleDeviceAndMLSMethods env cfg f call params st)"
  unfolding handleDeviceAndMLSMethods_def ListDevices_def RegisterDevicePushToken_def RemoveDevice_def
    UploadKeyPackages_def FetchKeyPackages_def SendCommit_def SendWelcome_def UploadGroupInfo_def FetchGroupInfo_def
    FetchWelcome_def keyPackageOf_def
  by (intro keeps_intros writers)

lemma friend_keeps: "keeps (dbInv P) (handleFriendMethods env cfg call params st)"
  unfolding handleFriendMethods_def ListFriends_def RemoveFriend_def SendFriendRequest_def DeclineFriendRequest_def
    CancelFriendRequest_def ListFriendRequests_def
  by (intro keeps_intros writers) (simp_all add: friend_states)

lemma room_keeps: "keeps (dbInv P) (handleRoomMethods env cfg call params st)"
  unfolding handleRoomMethods_def ListChatRooms_def GetChatRoom_def SearchChatRooms_def SyncChatRoom_def
    UpdateChatRoom_def UpdateChatRoomState_def FetchChatRoomState_def DeleteChatRoom_def GetChatRoomAvatar_def
  by (intro keeps_intros writers)

lemma member_keeps: "keeps (dbInv P) (handleMemberMethods env cfg call params st)"
  unfolding handleMemberMethods_def JoinChatRoom_def LeaveChatRoom_def KickChatMember_def ListChatMembers_def
    UpdateChatMemberRole_def CreateChatMemberPermission_def ListChatMemberPermissions_def
    UpdateChatMemberPermission_def DeleteChatMemberPermission_def
  by (intro keeps_intros writers)

lemma invitation_keeps:
  assumes "\<And>i cb. call = ''acceptChatInvitation'' \<Longrightarrow> keeps (dbInv P) (AcceptChatInvitation env cfg (csUserPublicKey st) i cb)"
  shows "keeps (dbInv P) (handleInvitationMethods env cfg call params st)"
  unfolding handleInvitationMethods_def SendChatInvitation_def RevokeChatInvitation_def ListSentChatInvitations_def
    ListIncomingChatInvitations_def DeclineChatInvitation_def Let_def
  by (intro keeps_intros writers assms) (simp_all add: invitation_states)

lemma message_keeps: "keeps (dbInv P) (handleMessageMethods env cfg call params st)"
  unfolding handleMessageMethods_def SendMessage_def by (intro keeps_intros writers)

lemma overview_keeps: "keeps (dbInv P) (handleOverviewMethods env cfg call params st)"
  unfolding handleOverviewMethods_def GetServerLimits_def GetUserLimits_def GetGroupLimits_def GetMyUsageStats_def
    GetServerConfig_def
  by (intro keeps_intros)

text \<open>A client call keeps the invariant, if it is kept by the deletion of an account and by the acceptance of an
  invitation whenever the call is one of the two.\<close>

lemma call_keeps_unless:
  assumes "call = ''deleteAccount'' \<Longrightarrow> keeps (dbInv P) (DeleteAccount env (csUserPublicKey st))"
    and "\<And>i cb. call = ''acceptChatInvitation'' \<Longrightarrow> keeps (dbInv P) (AcceptChatInvitation env cfg (csUserPublicKey st) i cb)"
  shows "keeps (dbInv P) (dispatchClientMethod env cfg f call params st)"
  unfolding dispatchClientMethod_def
  by (intro keeps_intros profile_keeps assms device_keeps friend_keeps room_keeps member_keeps invitation_keeps
      message_keeps overview_keeps)

lemma auth_keeps:
  shows "keeps (dbInv P) (RequestAuthChallenge env acfg input)" "keeps (dbInv P) (SolveAuthChallenge env acfg i sig)"
    "keeps (dbInv P) (SubscribeToEvents env acfg i)" "keeps (dbInv P) (UnsubscribeFromEvents env i)"
    "keeps (dbInv P) (PullEvents env acfg u n)" "keeps (dbInv P) (AcknowledgeEvent env u i)"
  unfolding RequestAuthChallenge_def SolveAuthChallenge_def SubscribeToEvents_def UnsubscribeFromEvents_def PullEvents_def
    AcknowledgeEvent_def authenticateTx_def ed25519Verify_def marshalAuthChallengePayload_def CreateSession_def
    GetSession_def MarkAuthenticated_def CreateSubscription_def DeactivateSubscription_def ListPending_def
    MarkDelivered_def Acknowledge_def
  by (intro keeps_intros profile_touched event_free;
      auto simp: checkAll_Inr Let_def background_frame eventFreeD [OF event_free] split: option.splits)+

end

locale client_calls = client_store +
  assumes invitation_accepted: "keeps (dbInv P) (AcceptChatInvitation env cfg u i cb)"
begin

lemma call_or_deletion_keeps:
  assumes "call = ''deleteAccount'' \<Longrightarrow> keeps (dbInv P) (DeleteAccount env (csUserPublicKey st))"
  shows "keeps (dbInv P) (dispatchClientMethod env cfg f call params st)"
  by (intro call_keeps_unless assms invitation_accepted)

end

locale client_invariant = client_calls +
  assumes account_deleted: "keeps (dbInv P) (DeleteAccount env u)"
begin

lemma dispatch_keeps: "keeps (dbInv P) (dispatchClientMethod env cfg f call params st)"
  by (intro call_or_deletion_keeps account_deleted)

end

section \<open>The server\<close>

text \<open>The handler \<^verbatim>\<open>cmd/server/main.go\<close> builds: every service is there, and the outbox notifies both the bus and the push queue.\<close>

definition serverHandler :: "AuthConfig \<Rightarrow> ClientConfig \<Rightarrow> OutboxConfig \<Rightarrow> Handler" where
  "serverHandler acfg ccfg ocfg =
     \<lparr>hAuth = acfg, hClient = Some ccfg, hOutbox = Some (ocfg, Some outboxNotifier), hBus = True\<rparr>"

text \<open>Connections and their states are arbitrary here: what is proved of the steps does not depend on how a connection
  came to its state.\<close>

inductive serverStep ::
  "codec \<Rightarrow> env \<Rightarrow> AuthConfig \<Rightarrow> ClientConfig \<Rightarrow> OutboxConfig \<Rightarrow> world \<Rightarrow> world \<Rightarrow> bool"
  for cd env acfg ccfg ocfg where
  step_http: "h = serverHandler acfg ccfg ocfg \<Longrightarrow>
    serverStep cd env acfg ccfg ocfg w (snd (handleHTTP cd env h request scopes w))"
| step_webSocket: "h = serverHandler acfg ccfg ocfg \<Longrightarrow>
    serverStep cd env acfg ccfg ocfg w (snd (webSocketMessage cd env h send raw c w))"
| step_stream: "h = serverHandler acfg ccfg ocfg \<Longrightarrow>
    serverStep cd env acfg ccfg ocfg w (snd (streamMessage cd env h send raw c w))"
| step_push: "h = serverHandler acfg ccfg ocfg \<Longrightarrow>
    serverStep cd env acfg ccfg ocfg w (snd (pushRound cd env h send started c w))"
| step_disconnect: "serverStep cd env acfg ccfg ocfg w (snd (stopPush c w))"
| step_dispatch: "serverStep cd env acfg ccfg ocfg w (snd (DispatchOnce env ocfg (Some outboxNotifier) w))"
| step_janitor: "serverStep cd env acfg ccfg ocfg w (snd (janitorRun env ocfg w))"

inductive_cases serverStepE: "serverStep cd env acfg ccfg ocfg w w'"

definition freshServer :: "world \<Rightarrow> bool" where
  "freshServer w \<longleftrightarrow> db w = emptyDb"

lemma serverHandler_simps [simp]:
  "hAuth (serverHandler acfg ccfg ocfg) = acfg" "hClient (serverHandler acfg ccfg ocfg) = Some ccfg"
  "hOutbox (serverHandler acfg ccfg ocfg) = Some (ocfg, Some outboxNotifier)" "hBus (serverHandler acfg ccfg ocfg)"
  by (simp_all add: serverHandler_def)

context client_invariant
begin

lemma call_keeps:
  assumes "h = serverHandler acfg ccfg ocfg"
  shows "keeps (dbInv P) (runCall cd env h payload st)"
  unfolding runCall_def onRequestAuthChallenge_def onSolveAuthChallenge_def onSubscribeToEvents_def
    onUnsubscribeFromEvents_def onAcknowledgeEvent_def handleClientAPICall_def decodeMapParameters_def
    DecodeParameters_def decoded_def profileCompleted_def GetProfile_def assms serverHandler_simps option.case prod.case
  by (intro keeps_intros auth_keeps dispatch_keeps event_free)

lemma packet_keeps:
  assumes "h = serverHandler acfg ccfg ocfg"
  shows "keeps (dbInv P) (handlePacket cd env h packet st)"
  unfolding handlePacket_def signedCall_def resolveSigner_def DecodeParameters_def decoded_def ed25519Verify_def
    respond_def errorResponse_def
  by (intro keeps_intros call_keeps [OF assms])

lemma packets_keeps:
  assumes "h = serverHandler acfg ccfg ocfg"
  shows "keeps (dbInv P) (runPackets cd env h packets st code)"
  by (induction packets arbitrary: st code) (auto intro!: keeps_intros packet_keeps [OF assms])

lemma pull_keeps:
  assumes "h = serverHandler acfg ccfg ocfg"
  shows "keeps (dbInv P) (pullOutboxPackets env h v sent)"
  unfolding pullOutboxPackets_def inflightOf_def assms serverHandler_simps option.case prod.case
  by (intro keeps_intros event_free)

lemma batch_keeps:
  assumes "h = serverHandler acfg ccfg ocfg"
  shows "keeps (dbInv P) (handleBatch cd env h raw st sent)"
  unfolding handleBatch_def handlePackets_def respond_def
  by (intro keeps_intros packets_keeps [OF assms] pull_keeps [OF assms] auth_keeps)

lemma usage_recorded_keeps:
  "keeps (dbInv P) (recordUsage env h st r i k)" "keeps (dbInv P) (recordUserUsage env h u r i k)"
  unfolding recordUsage_def recordUserUsage_def by (intro keeps_intros usage_keeps)+

lemma push_keeps: "keeps (dbInv P) (stopLoop c)" "keeps (dbInv P) (stopPush c)" "keeps (dbInv P) (startPush env h c)"
  unfolding stopPush_def stopLoop_def startPush_def by (intro keeps_intros)+

lemma onBatch_keeps:
  assumes "h = serverHandler acfg ccfg ocfg"
  shows "keeps (dbInv P) (onBatch cd env h raw c)"
  unfolding onBatch_def by (intro keeps_intros batch_keeps [OF assms] push_keeps)

lemma message_step_keeps:
  assumes "h = serverHandler acfg ccfg ocfg"
  shows "keeps (dbInv P) (webSocketMessage cd env h send raw c)" "keeps (dbInv P) (streamMessage cd env h send raw c)"
  unfolding webSocketMessage_def streamMessage_def
  by (intro keeps_intros onBatch_keeps [OF assms] usage_recorded_keeps push_keeps)+

lemma push_round_keeps:
  assumes "h = serverHandler acfg ccfg ocfg"
  shows "keeps (dbInv P) (pushRound cd env h send started c)"
  unfolding pushRound_def by (intro keeps_intros pull_keeps [OF assms] usage_recorded_keeps push_keeps)

lemma http_keeps:
  assumes "h = serverHandler acfg ccfg ocfg"
  shows "keeps (dbInv P) (handleHTTP cd env h request scopes)"
  unfolding handleHTTP_def by (intro keeps_intros batch_keeps [OF assms] usage_recorded_keeps)

lemma step_keeps: "serverStep cd env acfg ccfg ocfg w w' \<Longrightarrow> dbInv P w \<Longrightarrow> dbInv P w'"
  by (elim serverStepE; hypsubst; rule keepsD [of "dbInv P"])
    (simp_all add: message_step_keeps push_round_keeps http_keeps push_keeps keeps_outbox_service_frame event_free)

lemma reachable_keeps:
  assumes "P emptyDb" and "reachable freshServer (serverStep cd env acfg ccfg ocfg) w"
  shows "P (db w)"
  using assms(2)
  by (induction rule: reachable.induct) (use assms(1) step_keeps in \<open>auto simp: freshServer_def dbInv_def\<close>)

end

end
