(* ===== verification/ClientFacts.thy ===== *)
theory ClientFacts
  imports ServerSteps Samples
begin

text \<open>
  What the calls of the client repository did when they returned: the common shapes of its statements, and the
  facts about single calls that the properties of friends and rooms share.
\<close>

section \<open>Statements\<close>

lemma find_updWhere_same: "(\<And>x. p x \<Longrightarrow> p (f x)) \<Longrightarrow> find p (updWhere p f rs) = map_option f (find p rs)"
  by (induction rs) (auto simp: updWhere_def)

lemma queryOne_RetE:
  assumes "queryOne env e q w = (Ret x, w')"
  obtains "q (db w) = Some x" and "w' = w\<lparr>nStmt := Suc (nStmt w)\<rparr>"
  using assms unfolding queryOne_def by (auto elim!: andThen_RetE sqlQuery_RetE split: option.splits)

text \<open>\<^verbatim>\<open>UPDATE ... RETURNING\<close>.\<close>

lemma updateReturning_RetE:
  assumes "andThen (sql env (\<lambda>d. checkThen cs (\<lambda>d. let d' = f d in (g d', d')) d))
      (\<lambda>row. case row of None \<Rightarrow> fail e | Some out \<Rightarrow> ret out) w = (Ret out, w')"
  obtains "g (f (db w)) = Some out" and "w' = w\<lparr>nStmt := Suc (nStmt w), db := f (db w)\<rparr>"
  using assms by (auto elim!: andThen_RetE sql_RetE simp: checkThen_Inr Let_def split: option.splits)

lemma sqlChecked_RetE:
  assumes "sql env (\<lambda>d. checkAll (cs d) f d) w = (Ret x, w')"
  obtains "list_all fst (cs (db w))" and "w' = w\<lparr>nStmt := Suc (nStmt w), db := f (db w)\<rparr>"
  using assms by (auto elim!: sql_RetE simp: checkAll_Inr)

text \<open>A loop of statements that all returned.\<close>

lemma forEach_sqlExec_RetE:
  assumes "forEach (sqlExec env) fs w = (Ret x, w')"
  obtains n where "w' = w\<lparr>nStmt := n, db := fold (\<lambda>f d. f d) fs (db w)\<rparr>"
proof -
  have "\<exists>n. w' = w\<lparr>nStmt := n, db := fold (\<lambda>f d. f d) fs (db w)\<rparr>"
    using assms
  proof (induction fs arbitrary: w)
    case Nil
    then show ?case by (auto intro: exI [of _ "nStmt w"])
  next
    case (Cons f fs)
    then obtain u where "sqlExec env f w = (Ret (), u)" and "forEach (sqlExec env) fs u = (Ret x, w')"
      by (auto elim: andThen_RetE)
    then show ?case using Cons.IH [of u] by (auto elim!: sqlExec_RetE)
  qed
  then show ?thesis using that by blast
qed

lemma clockNow_RetE:
  assumes "clockNow env w = (Ret x, w')"
  obtains "x = eClock env (nClock w)" and "w' = w\<lparr>nClock := Suc (nClock w)\<rparr>"
  using assms by (auto simp: clockNow_def)

lemma uuidNew_RetE:
  assumes "uuidNew env w = (Ret x, w')"
  obtains "x = eUUID env (nUUID w)" and "w' = w\<lparr>nUUID := Suc (nUUID w)\<rparr>"
  using assms by (auto simp: uuidNew_def)

text \<open>What a call keeps of the database when it ran.\<close>

lemma keeps_Ret: "keeps (dbInv P) m \<Longrightarrow> m w = (r, w') \<Longrightarrow> P (db w) \<Longrightarrow> P (db w')"
  by (metis dbInv_def keepsD snd_conv)

lemma keeps_atomic:
  assumes "atomic m" and "\<And>w x w'. m w = (Ret x, w') \<Longrightarrow> P (db w) \<Longrightarrow> P (db w')"
  shows "keeps (dbInv P) m"
proof (rule keepsI)
  fix w assume P: "dbInv P w"
  obtain r w' where r: "m w = (r, w')" by fastforce
  show "dbInv P (snd (m w))"
  proof (cases r)
    case (Ret x)
    then show ?thesis using assms(2) [of w x w'] P r by (simp add: dbInv_def)
  qed (use atomicD [OF assms(1) r] P in \<open>simp_all add: r dbInv_def\<close>)
qed

lemma atomic_updateReturning:
  assumes "\<And>d. g (f d) = None \<Longrightarrow> f d = d"
  shows "atomic (andThen (sql env (\<lambda>d. checkThen cs (\<lambda>d. let d' = f d in (g d', d')) d))
      (\<lambda>row. case row of None \<Rightarrow> fail e | Some out \<Rightarrow> ret out))"
  unfolding atomic_def andThen_def
  by (auto simp: sql_def checkThen_def Let_def fail_def ret_def assms split: if_splits option.splits prod.splits sum.splits)

lemma readonly_queryOne: "readonly (queryOne env e q)"
  by (rule readonlyI) (rule keeps_queryOne)

text \<open>An invariant of a transaction's body holds of the transaction, even if only the whole body keeps it.\<close>

lemma keeps_tx:
  assumes "\<And>w x w'. fn InTx w = (Ret x, w') \<Longrightarrow> P (db w) \<Longrightarrow> P (db w')"
  shows "keeps (dbInv P) (WithinTransaction env NoTx fn)"
proof (rule keeps_atomic [OF atomic_WithinTransaction])
  fix w x w' assume "WithinTransaction env NoTx fn w = (Ret x, w')" and "P (db w)"
  then show "P (db w')" using assms by (metis txm.tx_RetE)
qed

lemma keeps_TouchProfile_frame [frame_intros]:
  assumes "\<And>d t. P d \<Longrightarrow> P (d\<lparr>tProfiles := t\<rparr>)"
  shows "keeps (dbInv P) (TouchProfile env u t)"
  unfolding TouchProfile_def by (intro keeps_intros assms)

section \<open>Events\<close>

text \<open>Appending an event leaves the tables of people and rooms alone.\<close>

lemma appendEvent_frame:
  assumes "appendEvent env cfg u ty p w = (r, w')" and "eventFree P"
  shows "P (db w') = P (db w)"
  using keeps_Ret [OF keeps_appendEvent assms(1), of P]
    keeps_Ret [OF keeps_appendEvent assms(1), of "\<lambda>d. \<not> P d"] assms(2)
  by (auto simp: eventFree_def)

end
