(* ===== verification/ClientSamples.thy ===== *)
theory ClientSamples
  imports ClientFacts
begin

text \<open>
  Concrete requests the theorems about the server are exercised on. A request of the sample codec is its method's
  number, repeated to the length of a signature, so that the sample signature scheme accepts it as signed by
  anyone; its parameters are the same for every method.
\<close>

definition sampleMethods :: "string list" where
  "sampleMethods = [''updateProfile'', ''sendFriendRequest'', ''acceptFriendRequest'', ''createDirectRoom'', ''sendMessage'',
     ''createChatRoom'', ''sendChatInvitation'', ''acceptChatInvitation'', ''deleteAccount'', ''requestAuthChallenge'']"

definition sampleParams :: payload where
  "sampleParams = [(''receiverPublicKey'', GBytes (sampleKey 2)), (''requestId'', GUUID 1),
     (''targetUserPublicKey'', GBytes (sampleKey 2)), (''displayName'', GString ''Ada''), (''title'', GString ''room''),
     (''visibility'', GInt 1), (''inviteePublicKey'', GBytes (sampleKey 2)), (''roomId'', GUUID 1),
     (''invitationId'', GUUID 2)]"

definition sampleCodec :: codec where
  "sampleCodec =
     \<lparr>cdPackets = (\<lambda>raw. Inr [\<lparr>pkSignature = raw, pkPayload = raw\<rparr>]), cdPacket = (\<lambda>_. Inl ''eof''),
      cdPayload = (\<lambda>p. Inr \<lparr>rpRequestID = 77, rpRPCCall = sampleMethods ! unat (hd p), rpTimestamp = 0, rpVersion = 1,
                             rpParameters = p\<rparr>),
      cdRequestAuth = (\<lambda>p. Inr \<lparr>raUserPublicKey = sampleKey 2, raPublicIP = [], raDeviceID = ''tablet'', raClientNonce = [9]\<rparr>),
      cdSolveAuth = (\<lambda>_. Inl ''eof''), cdSubscribe = (\<lambda>_. Inl ''eof''), cdUnsubscribe = (\<lambda>_. Inl ''eof''),
      cdAcknowledge = (\<lambda>_. Inl ''eof''), cdMap = (\<lambda>_. Inr sampleParams), cdMarshal = (\<lambda>_. Some []),
      cdSprint = (\<lambda>_. []), cdSQLText = (\<lambda>_. [])\<rparr>"

definition sampleAuth :: AuthConfig where
  "sampleAuth = \<lparr>acChallengeTTL = minute, acEventRetention = hour, acEventBatchSize = 100,
     acEventRedeliveryCooldown = 5 * second\<rparr>"

definition sampleClient :: ClientConfig where
  "sampleClient = \<lparr>ccAppName = ''app'', ccVersion = ''2'', ccSessionChallengeTTL = minute, ccEventRetention = hour,
     ccEventBatchSize = 2\<rparr>"

definition sampleOutbox :: OutboxConfig where
  "sampleOutbox = \<lparr>ocPollInterval = second, ocBatchSizeSegments = 50, ocAckTimeout = 15 * second, ocMaxAttempts = 5,
     ocJanitorInterval = minute, ocDeleteBatchSize = 500, ocAckRetention = hour, ocDropRetention = hour\<rparr>"

abbreviation sampleHandler :: Handler where
  "sampleHandler \<equiv> serverHandler sampleAuth sampleClient sampleOutbox"

text \<open>A connection on which the \<open>n\<close>-th user is logged in.\<close>

definition loggedIn :: "nat \<Rightarrow> sessionState" where
  "loggedIn n = \<lparr>csSessionID = of_nat (100 + n), csUserPublicKey = sampleKey n, csDeviceID = [], csAuthenticated = True,
     csProfileCompleted = True, csSubscriptionIDs = []\<rparr>"

definition sampleConnection :: "sessionState \<Rightarrow> connection" where
  "sampleConnection state = newConnection\<lparr>cnState := state\<rparr>"

text \<open>The user calls the method with the given number, and is gone when the answer is written.\<close>

definition sampleCall :: "nat \<Rightarrow> nat \<Rightarrow> world \<Rightarrow> world" where
  "sampleCall user k w = snd (webSocketMessage sampleCodec sampleEnv sampleHandler (\<lambda>_. Some (ErrMsg ''closed''))
     (replicate 64 (of_nat k)) (sampleConnection (loggedIn user)) w)"

abbreviation sampleStep :: "world \<Rightarrow> world \<Rightarrow> bool" where
  "sampleStep \<equiv> serverStep sampleCodec sampleEnv sampleAuth sampleClient sampleOutbox"

lemma sampleCall_step: "reachable freshServer sampleStep w \<Longrightarrow> reachable freshServer sampleStep (sampleCall user k w)"
  unfolding sampleCall_def by (rule reach_step) (auto intro: step_webSocket)

lemma sampleStart: "reachable freshServer sampleStep (sampleWorld emptyDb)"
  by (rule reach_start) (simp add: freshServer_def sampleWorld_def)

text \<open>Users 1 and 2 have become friends.\<close>

definition sampleFriends :: world where
  "sampleFriends = sampleCall 2 2 (sampleCall 1 1 (sampleWorld emptyDb))"

lemma sampleFriends_reachable: "reachable freshServer sampleStep sampleFriends"
  unfolding sampleFriends_def by (intro sampleCall_step sampleStart)

section \<open>Running the calls by simplification\<close>

lemma length_sampleKey [simp]: "length (sampleKey n) = 32"
  by (simp add: sampleKey_def)

lemma sampleKey_eq: "sampleKey m = sampleKey n \<longleftrightarrow> (of_nat m :: byte) = of_nat n"
  by (simp add: sampleKey_def)

lemma sampleKey_not_Nil [simp]: "sampleKey n \<noteq> []"
  by (simp add: sampleKey_def)

lemma sql_run:
  "sql env f w = (if eFault env (nStmt w) then (Err (ErrSQL DriverFault), w\<lparr>nStmt := Suc (nStmt w)\<rparr>)
     else case f (db w) of
            Inl e \<Rightarrow> (Err (ErrSQL e), w\<lparr>nStmt := Suc (nStmt w)\<rparr>)
          | Inr (x, d) \<Rightarrow> (Ret x, w\<lparr>nStmt := Suc (nStmt w), db := d\<rparr>))"
  by (simp add: sql_def Let_def)

lemmas core_runs = go_simps WithinTransaction_def currentTx_def rollbackTo_def sqlNop_def sqlExec_def sqlQuery_def sql_run
  sampleWorld_def emptyDb_def sampleClient_def sampleEnv_def clockNow_def uuidNew_def queryOne_def checkThen_def
  checkAll_def updWhere_def delWhere_def upsertBy_def countWhere_def limitOffset_def stamp_def Let_def sampleKey_eq

lemmas event_runs = appendEvent_def clientEvent_def NotifyingAppend_def Append_def insertEvent_def appendOutbox_def
  listTargetDeviceIDs_def targetDevices_def onBus_def Notify_def NotifyKey_def notifySend_def notifySnapshot_def
  subsOf_def newBus_def

lemmas friend_runs = SendFriendRequest_def AcceptFriendRequest_def acceptRequestTx_def UpdateFriendRequestState_def
  GetFriendRequest_def requestOf_def containsState_def setRequestState_def CreateFriendRequest_def CreateFriendPair_def
  insertFriend_def frKey_def friend_states

lemmas handler_runs = sampleCall_def webSocketMessage_def onBatch_def handleBatch_def handlePackets_def handlePacket_def
  signedCall_def resolveSigner_def ed25519Verify_def runCall_def handleClientAPICall_def decodeMapParameters_def
  decoded_def respond_def errorResponse_def writePackets_def stopPush_def stopLoop_def startPush_def newConnection_def PullEvents_def ListPending_def
  MarkDelivered_def pendingEvent_def pullLimit_def sampleCodec_def sampleMethods_def sampleAuth_def loggedIn_def
  sampleConnection_def sampleParams_def dispatchClientMethod_def mustUUID_def mustBytes_def anySlice_def sliceBytes_def
  field_def optionalString_def optionalInt_def

end
