(* ===== verification/FriendProps.thy ===== *)
theory FriendProps
  imports ClientSamples
begin

text \<open>
  Friends and friend requests: the tables implement an abstract machine in which a friendship begins when a pending
  request is accepted and ends for both sides at once; a settled request never changes again; accepting is all or
  nothing.
\<close>

section \<open>The abstract machine\<close>

text \<open>Pending requests (id, sender, receiver), and the friendship relation.\<close>

type_synonym social = "(uuid \<times> bytes \<times> bytes) set \<times> (bytes \<times> bytes) set"

inductive socialStep :: "social \<Rightarrow> social \<Rightarrow> bool" where
  ask: "socialStep (p, F) (insert (i, s, r) p, F)"
| accept: "(i, s, r) \<in> p \<Longrightarrow> socialStep (p, F) (p - {(i, s, r)}, F \<union> {(s, r), (r, s)})"
| settle: "(i, s, r) \<in> p \<Longrightarrow> socialStep (p, F) (p - {(i, s, r)}, F)"
| unfriend: "socialStep (p, F) (p, F - {(u, v), (v, u)})"
| leave: "socialStep (p, F) ({(i, s, r) \<in> p. s \<noteq> u \<and> r \<noteq> u}, {(s, r) \<in> F. s \<noteq> u \<and> r \<noteq> u})"

inductive_cases socialStepE: "socialStep x y"

lemma socialStep_sym: "socialStep x y \<Longrightarrow> sym (snd x) \<Longrightarrow> sym (snd y)"
  by (elim socialStepE) (auto simp: sym_def)

lemma social_run_sym: "socialStep\<^sup>*\<^sup>* x y \<Longrightarrow> sym (snd x) \<Longrightarrow> sym (snd y)"
  by (induction rule: rtranclp_induct) (auto intro: socialStep_sym)

section \<open>The tables\<close>

definition pendingOf :: "database \<Rightarrow> (uuid \<times> bytes \<times> bytes) set" where
  "pendingOf d = (\<lambda>q. (fqRequestID q, fqSenderPublicKey q, fqReceiverPublicKey q)) `
     {q \<in> set (tFriendRequests d). fqState q = FriendRequestPending}"

definition friendRel :: "database \<Rightarrow> (bytes \<times> bytes) set" where
  "friendRel d = frKey ` set (tFriends d)"

abbreviation socialOf :: "database \<Rightarrow> social" where
  "socialOf d \<equiv> (pendingOf d, friendRel d)"

definition friendTablesOk :: "database \<Rightarrow> bool" where
  "friendTablesOk d \<longleftrightarrow> distinct (map fqRequestID (tFriendRequests d)) \<and> distinct (map frKey (tFriends d))"

definition socialInv :: "database \<Rightarrow> bool" where
  "socialInv d \<longleftrightarrow> friendTablesOk d \<and> socialStep\<^sup>*\<^sup>* ({}, {}) (socialOf d)"

lemma socialInv_step:
  assumes "socialInv d" and "socialStep (socialOf d) (socialOf d')" and "friendTablesOk d'"
  shows "socialInv d'"
  using assms unfolding socialInv_def by (auto intro: rtranclp.rtrancl_into_rtrancl)

lemma areFriends_iff: "areFriends u v d \<longleftrightarrow> (u, v) \<in> friendRel d \<and> (v, u) \<in> friendRel d"
proof -
  have "areFriends u v d \<longleftrightarrow> (\<exists>f\<in>set (tFriends d). frKey f = (u, v)) \<and> (\<exists>g\<in>set (tFriends d). frKey g = (v, u))"
    unfolding areFriends_def list_ex_iff frKey_def by auto
  then show ?thesis unfolding friendRel_def image_iff by metis
qed

section \<open>Writers\<close>

lemma social_removeFriend: "keeps (dbInv socialInv) (storeRemoveFriend env u v)"
  unfolding storeRemoveFriend_def
proof (rule keeps_sqlExec)
  fix d assume inv: "socialInv d"
  let ?d = "d\<lparr>tFriends := delWhere (\<lambda>f. frUserPublicKey f = u \<and> frFriendPublicKey f = v
      \<or> frUserPublicKey f = v \<and> frFriendPublicKey f = u) (tFriends d)\<rparr>"
  have "socialOf ?d = (pendingOf d, friendRel d - {(u, v), (v, u)})"
    by (auto simp: pendingOf_def friendRel_def frKey_def)
  then have "socialStep (socialOf d) (socialOf ?d)" by (simp add: unfriend)
  with inv show "socialInv ?d"
    by (rule socialInv_step) (use inv in \<open>auto simp: socialInv_def friendTablesOk_def
        distinct_map_delWhere\<close>)
qed

lemma social_createRequest:
  assumes "fqState q = FriendRequestPending"
  shows "keeps (dbInv socialInv) (CreateFriendRequest env q)"
  unfolding CreateFriendRequest_def
proof (rule keeps_sql, unfold checkAll_Inr, elim conjE, hypsubst)
  fix d assume inv: "socialInv d"
    and cs: "list_all fst [(length (fqSenderPublicKey q) = 32, CheckViolation),
      (length (fqReceiverPublicKey q) = 32, CheckViolation), (0 < fqState q, CheckViolation),
      (fqRequestID q \<notin> fqRequestID ` set (tFriendRequests d), UniqueViolation)]"
  let ?d = "d\<lparr>tFriendRequests := tFriendRequests d @ [q]\<rparr>"
  have "socialOf ?d = (insert (fqRequestID q, fqSenderPublicKey q, fqReceiverPublicKey q) (pendingOf d), friendRel d)"
    using assms by (auto simp: pendingOf_def friendRel_def)
  then have "socialStep (socialOf d) (socialOf ?d)" by (simp add: ask)
  with inv show "socialInv ?d"
    by (rule socialInv_step) (use inv cs in \<open>auto simp: socialInv_def friendTablesOk_def\<close>)
qed

text \<open>A request that left the pending state.\<close>

lemma requestOf_in: "requestOf i d = Some q \<Longrightarrow> q \<in> set (tFriendRequests d) \<and> fqRequestID q = i"
  by (auto simp: requestOf_def dest: find_Some_in)

lemma requestOf_setRequestState:
  "requestOf i (setRequestState i st t d) = map_option (\<lambda>q. q\<lparr>fqState := st, fqUpdatedAt := t\<rparr>) (requestOf i d)"
  by (simp add: requestOf_def setRequestState_def find_updWhere_same)

lemma tables_setRequestState:
  "friendTablesOk (setRequestState i st t d) = friendTablesOk d" "tFriends (setRequestState i st t d) = tFriends d"
  by (simp_all add: friendTablesOk_def setRequestState_def map_updWhere)

lemma pending_setRequestState:
  assumes "friendTablesOk d" and "requestOf i d = Some q" and "fqState q = FriendRequestPending"
    and "st \<noteq> FriendRequestPending"
  shows "pendingOf (setRequestState i st t d) = pendingOf d - {(i, fqSenderPublicKey q, fqReceiverPublicKey q)}"
    and "(i, fqSenderPublicKey q, fqReceiverPublicKey q) \<in> pendingOf d"
proof -
  have q: "q \<in> set (tFriendRequests d)" "fqRequestID q = i" using requestOf_in [OF assms(2)] by auto
  have only: "x = q" if "x \<in> set (tFriendRequests d)" "fqRequestID x = i" for x
    using that q assms(1) by (auto simp: friendTablesOk_def dest: distinct_map_inj)
  have "{x \<in> set (tFriendRequests (setRequestState i st t d)). fqState x = FriendRequestPending}
      = {x \<in> set (tFriendRequests d). fqState x = FriendRequestPending \<and> fqRequestID x \<noteq> i}"
    (is "?L = ?R")
  proof
    show "?L \<subseteq> ?R" using assms(4) by (auto simp: setRequestState_def elim!: in_updWhereE split: if_splits)
    show "?R \<subseteq> ?L" by (force simp: setRequestState_def set_updWhere)
  qed
  then show "pendingOf (setRequestState i st t d) = pendingOf d - {(i, fqSenderPublicKey q, fqReceiverPublicKey q)}"
    using only by (auto simp: pendingOf_def)
  show "(i, fqSenderPublicKey q, fqReceiverPublicKey q) \<in> pendingOf d"
    using q assms(3) by (auto simp: pendingOf_def image_iff)
qed

text \<open>What a change of state does when it returns, and that it changes nothing otherwise.\<close>

lemma UpdateFriendRequestState_RetE:
  assumes "UpdateFriendRequestState env i u ss st t w = (Ret out, w')"
  obtains q where "requestOf i (db w) = Some q" and "u = fqSenderPublicKey q \<or> u = fqReceiverPublicKey q"
    and "fqState q \<in> set ss" and "out = q\<lparr>fqState := st, fqUpdatedAt := t\<rparr>"
    and "db w' = setRequestState i st t (db w)" and "nUUID w' = nUUID w" and "wBus w' = wBus w"
proof -
  let ?u = "w\<lparr>nStmt := Suc (nStmt w)\<rparr>"
  obtain q where q: "requestOf i (db w) = Some q" "u = fqSenderPublicKey q \<or> u = fqReceiverPublicKey q" "fqState q \<in> set ss"
    and upd: "andThen (sql env (\<lambda>d. checkThen [(0 < st, CheckViolation)]
       (\<lambda>d. let d' = setRequestState i st t d in (requestOf i d', d')) d))
       (\<lambda>row. case row of None \<Rightarrow> fail ErrNoRows | Some out \<Rightarrow> ret out) ?u = (Ret out, w')"
    using assms unfolding UpdateFriendRequestState_def GetFriendRequest_def containsState_def
    by (elim andThen_RetE [of "queryOne env ErrNotFound (requestOf i)"] queryOne_RetE guardErr_RetE) blast
  from upd show ?thesis
    by (rule updateReturning_RetE) (use that [OF q] q(1) in \<open>simp add: requestOf_setRequestState\<close>)
qed

lemma atomic_UpdateFriendRequestState: "atomic (UpdateFriendRequestState env i u ss st t)"
  unfolding UpdateFriendRequestState_def GetFriendRequest_def
  by (rule atomic_read_first [OF readonly_queryOne], intro atomic_guardErr, rule atomic_updateReturning)
    (simp add: requestOf_setRequestState, simp add: setRequestState_def requestOf_def updWhere_idle find_None_all)

lemma social_setRequestState:
  assumes "socialInv d" and "requestOf i d = Some q" and "fqState q = FriendRequestPending"
    and "st \<noteq> FriendRequestPending"
  shows "socialInv (setRequestState i st t d)"
proof (rule socialInv_step [OF assms(1)])
  have ok: "friendTablesOk d" using assms(1) by (simp add: socialInv_def)
  show "socialStep (socialOf d) (socialOf (setRequestState i st t d))"
    using pending_setRequestState [OF ok assms(2-4)]
    by (auto simp: friendRel_def tables_setRequestState intro: settle)
qed (use assms(1) in \<open>simp add: socialInv_def tables_setRequestState\<close>)

lemma social_requestMoved:
  assumes "st \<noteq> FriendRequestPending"
  shows "keeps (dbInv socialInv) (UpdateFriendRequestState env i u [FriendRequestPending] st t)"
proof (rule keeps_atomic [OF atomic_UpdateFriendRequestState])
  fix w x w' assume "UpdateFriendRequestState env i u [FriendRequestPending] st t w = (Ret x, w')" "socialInv (db w)"
  then show "socialInv (db w')"
    by (elim UpdateFriendRequestState_RetE) (auto intro: social_setRequestState [OF _ _ _ assms])
qed

text \<open>Adding a pair of friends.\<close>

lemma insertFriend_RetE:
  assumes "insertFriend env f w = (Ret x, w')"
  shows "friendRel (db w') = insert (frKey f) (friendRel (db w))" "tFriendRequests (db w') = tFriendRequests (db w)"
    "friendTablesOk (db w) \<Longrightarrow> friendTablesOk (db w')"
  using assms unfolding insertFriend_def
  by (auto elim!: sqlChecked_RetE simp: friendRel_def friendTablesOk_def split: if_splits)

lemma CreateFriendPair_RetE:
  assumes "CreateFriendPair env l r w = (Ret x, w')"
  shows "friendRel (db w') = friendRel (db w) \<union> {frKey l, frKey r}" "tFriendRequests (db w') = tFriendRequests (db w)"
    "friendTablesOk (db w) \<Longrightarrow> friendTablesOk (db w')"
proof -
  obtain u where l: "insertFriend env l w = (Ret (), u)" and r: "insertFriend env r u = (Ret (), w')"
    using assms unfolding CreateFriendPair_def by (auto elim!: andThen_RetE)
  show "friendRel (db w') = friendRel (db w) \<union> {frKey l, frKey r}" "tFriendRequests (db w') = tFriendRequests (db w)"
    "friendTablesOk (db w) \<Longrightarrow> friendTablesOk (db w')"
    using insertFriend_RetE [OF l] insertFriend_RetE [OF r] by auto
qed

lemma acceptRequestTx_RetE:
  assumes "acceptRequestTx env cfg u i k t w = (Ret x, w')"
  obtains q where "requestOf i (db w) = Some q" and "u = fqSenderPublicKey q \<or> u = fqReceiverPublicKey q"
    and "fqState q = FriendRequestPending"
    and "tFriendRequests (db w') = tFriendRequests (setRequestState i FriendRequestAccepted t (db w))"
    and "friendRel (db w') = friendRel (db w) \<union> {(fqSenderPublicKey q, fqReceiverPublicKey q),
           (fqReceiverPublicKey q, fqSenderPublicKey q)}"
    and "friendTablesOk (db w) \<Longrightarrow> friendTablesOk (db w')"
proof -
  let ?l = "\<lambda>q. \<lparr>frID = k, frUserPublicKey = fqSenderPublicKey q, frFriendPublicKey = fqReceiverPublicKey q, frAcceptedAt = t\<rparr>"
  let ?r = "\<lambda>q n. \<lparr>frID = n, frUserPublicKey = fqReceiverPublicKey q, frFriendPublicKey = fqSenderPublicKey q, frAcceptedAt = t\<rparr>"
  obtain out u1 u3 where upd: "UpdateFriendRequestState env i u [FriendRequestPending] FriendRequestAccepted t w = (Ret out, u1)"
    and pair: "CreateFriendPair env (?l out) (?r out (eUUID env (nUUID u1))) (u1\<lparr>nUUID := Suc (nUUID u1)\<rparr>) = (Ret (), u3)"
    and ev: "appendEvent env cfg (fqSenderPublicKey out) ''friend.requestAccepted''
       [(''requestId'', GString (eUuidString env i)), (''friendPublicKey'', GBytes u)] u3 = (Ret x, w')"
    using assms unfolding acceptRequestTx_def
    by (elim andThen_RetE uuidNew_RetE) auto
  have same: "P (db w') = P (db u3)" if "eventFree P" for P
    using appendEvent_frame [OF ev that] .
  have "tFriendRequests (db w') = tFriendRequests (db u3)" "tFriends (db w') = tFriends (db u3)"
    using same [of "\<lambda>d. tFriendRequests d = tFriendRequests (db u3)"] same [of "\<lambda>d. tFriends d = tFriends (db u3)"]
    by (auto simp: eventFree_def)
  moreover obtain q where q: "requestOf i (db w) = Some q" "u = fqSenderPublicKey q \<or> u = fqReceiverPublicKey q"
    "fqState q = FriendRequestPending" "out = q\<lparr>fqState := FriendRequestAccepted, fqUpdatedAt := t\<rparr>"
    "db u1 = setRequestState i FriendRequestAccepted t (db w)"
    using upd by (rule UpdateFriendRequestState_RetE) auto
  ultimately show ?thesis
    using that [OF q(1-3)] CreateFriendPair_RetE [OF pair] q(4,5)
    by (simp add: frKey_def friendRel_def friendTablesOk_def tables_setRequestState setRequestState_def map_updWhere)
qed

lemma social_accepted: "keeps (dbInv socialInv) (AcceptFriendRequest env cfg u i)"
  unfolding AcceptFriendRequest_def
proof (intro keeps_andThen keeps_clockNow keeps_uuidNew keeps_ret keeps_tx)
  fix k t w x w'
  assume tx: "acceptRequestTx env cfg u i k t w = (Ret x, w')" and inv: "socialInv (db w)"
  then have ok: "friendTablesOk (db w)" by (simp add: socialInv_def)
  from tx obtain q where q: "requestOf i (db w) = Some q" "fqState q = FriendRequestPending"
    and req: "tFriendRequests (db w') = tFriendRequests (setRequestState i FriendRequestAccepted t (db w))"
    and rel: "friendRel (db w') = friendRel (db w) \<union> {(fqSenderPublicKey q, fqReceiverPublicKey q),
           (fqReceiverPublicKey q, fqSenderPublicKey q)}"
    and ok': "friendTablesOk (db w')"
    by (rule acceptRequestTx_RetE) (use ok in auto)
  have "pendingOf (db w') = pendingOf (db w) - {(i, fqSenderPublicKey q, fqReceiverPublicKey q)}"
    using pending_setRequestState(1) [OF ok q, of FriendRequestAccepted t] req by (simp add: pendingOf_def friend_states)
  moreover have "socialStep (socialOf (db w)) (pendingOf (db w) - {(i, fqSenderPublicKey q, fqReceiverPublicKey q)},
      friendRel (db w) \<union> {(fqSenderPublicKey q, fqReceiverPublicKey q), (fqReceiverPublicKey q, fqSenderPublicKey q)})"
    by (rule accept, rule pending_setRequestState(2) [OF ok q, of FriendRequestAccepted]) (simp add: friend_states)
  ultimately have "socialStep (socialOf (db w)) (socialOf (db w'))" by (simp only: rel)
  with inv show "socialInv (db w')" using ok' by (rule socialInv_step)
qed

lemma accountDeletions_people:
  "tFriends (fold (\<lambda>f d. f d) (accountDeletions u t) d) =
     delWhere (\<lambda>f. frUserPublicKey f = u \<or> frFriendPublicKey f = u) (tFriends d)"
  "tFriendRequests (fold (\<lambda>f d. f d) (accountDeletions u t) d) =
     delWhere (\<lambda>q. fqSenderPublicKey q = u \<or> fqReceiverPublicKey q = u) (tFriendRequests d)"
  by (simp_all add: accountDeletions_def)

lemma social_deleted: "keeps (dbInv socialInv) (DeleteAccount env u)"
  unfolding DeleteAccount_def storeDeleteAccount_def
proof (intro keeps_andThen keeps_clockNow keeps_ret keeps_tx)
  fix t w x w'
  assume "forEach (sqlExec env) (accountDeletions u t) w = (Ret x, w')" and inv: "socialInv (db w)"
  then have d: "db w' = fold (\<lambda>f d. f d) (accountDeletions u t) (db w)"
    by (auto elim: forEach_sqlExec_RetE)
  have "socialOf (db w') = ({(i, s, r) \<in> pendingOf (db w). s \<noteq> u \<and> r \<noteq> u}, {(s, r) \<in> friendRel (db w). s \<noteq> u \<and> r \<noteq> u})"
    by (auto simp: d pendingOf_def friendRel_def frKey_def accountDeletions_people)
  then have "socialStep (socialOf (db w)) (socialOf (db w'))" by (simp add: leave)
  with inv show "socialInv (db w')"
    by (rule socialInv_step) (use inv in \<open>simp add: socialInv_def friendTablesOk_def d accountDeletions_people distinct_map_delWhere\<close>)
qed

interpretation social: client_invariant env socialInv for env
proof unfold_locales
  show "keeps (dbInv socialInv) (CreateFriendRequest env q)" if "fqState q = FriendRequestPending" for q
    using that by (rule social_createRequest)
  show "keeps (dbInv socialInv) (UpdateFriendRequestState env i u [FriendRequestPending] st t)"
    if "st \<noteq> FriendRequestPending" for i u st t
    using that by (rule social_requestMoved)
qed (auto intro!: social_removeFriend social_accepted social_deleted frame_intros
      simp: eventFree_def socialInv_def friendTablesOk_def pendingOf_def friendRel_def)

lemma socialInv_empty: "socialInv emptyDb"
  by (simp add: socialInv_def friendTablesOk_def emptyDb_def pendingOf_def friendRel_def)

section \<open>Properties\<close>


text \<open>C15: Friendship is symmetric in every state the server reaches: a row for one direction comes with a row for the
  other, so \<open>AreFriends\<close> (which asks for both) holds exactly for the pairs of the table and in both directions, and no
  pair is listed twice.\<close>

theorem friendship_symmetric:
  assumes "reachable freshServer (serverStep cd env acfg ccfg ocfg) w"
  shows "distinct (map frKey (tFriends (db w)))
     \<and> ((u, v) \<in> friendRel (db w) \<longleftrightarrow> areFriends u v (db w))
     \<and> (areFriends u v (db w) \<longleftrightarrow> areFriends v u (db w))"
proof -
  have inv: "socialInv (db w)" by (rule social.reachable_keeps [OF socialInv_empty assms])
  then have "sym (friendRel (db w))"
    using social_run_sym [of "({}, {})" "socialOf (db w)"] by (simp add: socialInv_def sym_def)
  then show ?thesis
    using inv by (auto simp: areFriends_iff sym_def socialInv_def friendTablesOk_def)
qed

section \<open>Settled requests\<close>

text \<open>\<open>q\<close> is in the table, and is not pending.\<close>

definition settledInv :: "FriendRequestRecord \<Rightarrow> database \<Rightarrow> bool" where
  "settledInv q d \<longleftrightarrow> friendTablesOk d \<and> q \<in> set (tFriendRequests d) \<and> fqState q \<noteq> FriendRequestPending"

lemma settled_setRequestState:
  assumes "settledInv q d" and "requestOf i d = Some p" and "fqState p = FriendRequestPending"
  shows "q \<in> set (tFriendRequests (setRequestState i st t d))"
proof -
  have "q \<noteq> p" using assms by (auto simp: settledInv_def)
  then have "fqRequestID q \<noteq> i"
    using assms(1) requestOf_in [OF assms(2)] by (auto simp: settledInv_def friendTablesOk_def dest: distinct_map_inj)
  then show ?thesis using assms(1) by (auto simp: settledInv_def setRequestState_def set_updWhere)
qed

lemma settled_requestMoved: "keeps (dbInv (settledInv q)) (UpdateFriendRequestState env i u [FriendRequestPending] st t)"
proof (rule keeps_atomic [OF atomic_UpdateFriendRequestState])
  fix w x w' assume "UpdateFriendRequestState env i u [FriendRequestPending] st t w = (Ret x, w')" "settledInv q (db w)"
  then show "settledInv q (db w')"
    by (elim UpdateFriendRequestState_RetE)
      (use settled_setRequestState [of q "db w" i] in \<open>auto simp: settledInv_def tables_setRequestState\<close>)
qed

lemma settled_accepted: "keeps (dbInv (settledInv q)) (AcceptFriendRequest env cfg u i)"
  unfolding AcceptFriendRequest_def
proof (intro keeps_andThen keeps_clockNow keeps_uuidNew keeps_ret keeps_tx)
  fix k t w x w'
  assume "acceptRequestTx env cfg u i k t w = (Ret x, w')" and inv: "settledInv q (db w)"
  then show "settledInv q (db w')"
    by (elim acceptRequestTx_RetE) (use settled_setRequestState [OF inv] in \<open>simp add: settledInv_def\<close>)
qed

lemma settled_friends:
  "keeps (dbInv (settledInv q)) (storeRemoveFriend env u v)" "keeps (dbInv (settledInv q)) (CreateFriendRequest env p)"
  unfolding storeRemoveFriend_def CreateFriendRequest_def
  by (intro keeps_intros; auto simp: settledInv_def friendTablesOk_def distinct_map_delWhere checkAll_Inr)+

lemma settled_deleted:
  assumes "u \<noteq> fqSenderPublicKey q" and "u \<noteq> fqReceiverPublicKey q"
  shows "keeps (dbInv (settledInv q)) (DeleteAccount env u)"
  unfolding DeleteAccount_def storeDeleteAccount_def
proof (intro keeps_andThen keeps_clockNow keeps_ret keeps_tx)
  fix t w x w'
  assume "forEach (sqlExec env) (accountDeletions u t) w = (Ret x, w')" and "settledInv q (db w)"
  then show "settledInv q (db w')"
    using assms by (elim forEach_sqlExec_RetE)
      (auto simp: settledInv_def friendTablesOk_def accountDeletions_people distinct_map_delWhere)
qed

interpretation settled: client_calls env "settledInv q" for env q
  by unfold_locales
    (auto intro!: settled_requestMoved settled_accepted settled_friends frame_intros
      simp: eventFree_def settledInv_def friendTablesOk_def)

text \<open>C16: A friend request that was accepted, declined or canceled is final: no client call of anyone, with any
  parameters and any database failures, changes the row or brings the request back to another state; only the deletion of the
  account of its sender or receiver removes it.\<close>

theorem settled_request_final:
  assumes "reachable freshServer (serverStep cd env acfg ccfg ocfg) w"
    and "q \<in> set (tFriendRequests (db w))" and "fqState q \<noteq> FriendRequestPending"
    and "rpcCall = ''deleteAccount'' \<Longrightarrow> csUserPublicKey state \<notin> {fqSenderPublicKey q, fqReceiverPublicKey q}"
  shows "q \<in> set (tFriendRequests (db (snd (dispatchClientMethod env cfg f rpcCall params state w))))"
proof -
  have "settledInv q (db w)"
    using social.reachable_keeps [OF socialInv_empty assms(1)] assms(2,3) by (simp add: settledInv_def socialInv_def)
  moreover have "keeps (dbInv (settledInv q)) (dispatchClientMethod env cfg f rpcCall params state)"
    using assms(4) by (intro settled.call_or_deletion_keeps settled_deleted) auto
  ultimately show ?thesis by (auto simp: dbInv_def settledInv_def dest: keepsD)
qed

section \<open>Accepting\<close>

lemma accept_succeeded:
  assumes "AcceptFriendRequest env cfg u i w = (Ret out, w')"
  shows "\<exists>q. requestOf i (db w) = Some q \<and> u \<in> {fqSenderPublicKey q, fqReceiverPublicKey q}
     \<and> fqState q = FriendRequestPending
     \<and> tFriendRequests (db w') = updWhere (\<lambda>x. fqRequestID x = i)
         (\<lambda>x. x\<lparr>fqState := FriendRequestAccepted, fqUpdatedAt := eClock env (nClock w)\<rparr>) (tFriendRequests (db w))
     \<and> friendRel (db w') = friendRel (db w) \<union> {(fqSenderPublicKey q, fqReceiverPublicKey q),
         (fqReceiverPublicKey q, fqSenderPublicKey q)}
     \<and> out = [(''friendId'', GUUID (eUUID env (nUUID w))), (''acceptedAt'', stamp env (eClock env (nClock w)))]"
proof -
  let ?u = "w\<lparr>nClock := Suc (nClock w), nUUID := Suc (nUUID w)\<rparr>" and ?t = "eClock env (nClock w)"
  have tx: "WithinTransaction env NoTx (\<lambda>txCtx. acceptRequestTx env cfg u i (eUUID env (nUUID w)) ?t) ?u = (Ret (), w')"
    and out: "out = [(''friendId'', GUUID (eUUID env (nUUID w))), (''acceptedAt'', stamp env ?t)]"
    using assms unfolding AcceptFriendRequest_def by (auto elim!: andThen_RetE clockNow_RetE uuidNew_RetE)
  obtain x y where "acceptRequestTx env cfg u i (eUUID env (nUUID w)) ?t x = (Ret (), y)" "db x = db ?u" "db w' = db y"
    using tx by (auto elim: txm.tx_RetE)
  then show ?thesis
    by (elim acceptRequestTx_RetE) (auto simp: out setRequestState_def)
qed

lemma accept_failed:
  assumes "AcceptFriendRequest env cfg u i w = (r, w')" and "\<forall>x. r \<noteq> Ret x"
  shows "db w' = db w"
proof -
  have "atomic (AcceptFriendRequest env cfg u i)"
    unfolding AcceptFriendRequest_def
    by (intro atomic_read_first readonly_clockNow readonly_uuidNew atomic_then_ret atomic_WithinTransaction)
  then show ?thesis using assms by (rule atomicD)
qed

text \<open>C17: An acceptance succeeds or changes nothing. When it succeeds, the caller was the sender or the receiver of
  the request and it was pending; now it is accepted at the instant the answer reports, sender and receiver are
  friends in both directions, and every other request and friendship is as before. Otherwise (no such request,
  not the caller's, already settled, or a failure of any statement, of the event or of the commit) the request
  stays pending and nobody is half a friend.\<close>

theorem accept_request:
  "case AcceptFriendRequest env cfg u i w of
     (Ret out, w') \<Rightarrow> \<exists>q. requestOf i (db w) = Some q \<and> u \<in> {fqSenderPublicKey q, fqReceiverPublicKey q}
       \<and> fqState q = FriendRequestPending
       \<and> tFriendRequests (db w') = updWhere (\<lambda>x. fqRequestID x = i)
           (\<lambda>x. x\<lparr>fqState := FriendRequestAccepted, fqUpdatedAt := eClock env (nClock w)\<rparr>) (tFriendRequests (db w))
       \<and> friendRel (db w') = friendRel (db w) \<union> {(fqSenderPublicKey q, fqReceiverPublicKey q),
           (fqReceiverPublicKey q, fqSenderPublicKey q)}
       \<and> out = [(''friendId'', GUUID (eUUID env (nUUID w))), (''acceptedAt'', stamp env (eClock env (nClock w)))]
   | (_, w') \<Rightarrow> db w' = db w"
proof (cases "AcceptFriendRequest env cfg u i w")
  case (Pair r w')
  then show ?thesis
    using accept_succeeded [of env cfg u i w _ w'] accept_failed [OF Pair] by (cases r) auto
qed

section \<open>Examples\<close>

lemma sampleFriends_facts:
  "areFriends (sampleKey 1) (sampleKey 2) (db sampleFriends)
     \<and> map fqState (tFriendRequests (db sampleFriends)) = [FriendRequestAccepted]"
  by (simp add: sampleFriends_def handler_runs handleFriendMethods_def friend_runs core_runs event_runs areFriends_def)


theorem friendship_symmetric_witness:
  "areFriends (sampleKey 1) (sampleKey 2) (db sampleFriends) \<and> areFriends (sampleKey 2) (sampleKey 1) (db sampleFriends)"
  using friendship_symmetric [OF sampleFriends_reachable] sampleFriends_facts by blast

theorem settled_request_final_witness:
  "\<exists>q. tFriendRequests (db sampleFriends) = [q] \<and> fqState q = FriendRequestAccepted
     \<and> q \<in> set (tFriendRequests (db (snd (dispatchClientMethod sampleEnv sampleClient (\<lambda>_. [])
          ''declineFriendRequest'' sampleParams (loggedIn 2) sampleFriends))))"
proof -
  obtain q where q: "tFriendRequests (db sampleFriends) = [q]" "fqState q = FriendRequestAccepted"
    using sampleFriends_facts by (cases "tFriendRequests (db sampleFriends)") auto
  have "q \<in> set (tFriendRequests (db (snd (dispatchClientMethod sampleEnv sampleClient (\<lambda>_. [])
          ''declineFriendRequest'' sampleParams (loggedIn 2) sampleFriends))))"
    by (rule settled_request_final [OF sampleFriends_reachable]) (simp_all add: q friend_states)
  with q show ?thesis by blast
qed

definition sampleRequest :: FriendRequestRecord where
  "sampleRequest = \<lparr>fqRequestID = 5, fqSenderPublicKey = sampleKey 1, fqReceiverPublicKey = sampleKey 2,
     fqState = FriendRequestPending, fqCreatedAt = 0, fqUpdatedAt = 0\<rparr>"

definition sampleAsked :: world where
  "sampleAsked = sampleWorld (emptyDb\<lparr>tFriendRequests := [sampleRequest]\<rparr>)"

lemma sampleAsked_accept:
  "fst (AcceptFriendRequest sampleEnv sampleClient (sampleKey 2) 5 sampleAsked) =
     Ret [(''friendId'', GUUID 1), (''acceptedAt'', GString ''t'')]"
  by (simp add: sampleAsked_def sampleRequest_def friend_runs core_runs event_runs)

theorem accept_request_witness:
  "requestOf 5 (db sampleAsked) = Some sampleRequest
     \<and> (sampleKey 1, sampleKey 2) \<in> friendRel (db (snd (AcceptFriendRequest sampleEnv sampleClient (sampleKey 2) 5 sampleAsked)))"
proof -
  have r: "requestOf 5 (db sampleAsked) = Some sampleRequest"
    by (simp add: requestOf_def sampleAsked_def sampleWorld_def sampleRequest_def)
  have "AcceptFriendRequest sampleEnv sampleClient (sampleKey 2) 5 sampleAsked =
      (Ret [(''friendId'', GUUID 1), (''acceptedAt'', GString ''t'')],
       snd (AcceptFriendRequest sampleEnv sampleClient (sampleKey 2) 5 sampleAsked))"
    using sampleAsked_accept by (simp add: prod_eq_iff)
  with accept_request [where env = sampleEnv and cfg = sampleClient and u = "sampleKey 2" and i = 5
      and w = sampleAsked] show ?thesis
    using r by (auto simp: sampleRequest_def split: prod.splits outcome.splits)
qed

end
