(* ===== verification/PageProps.thy ===== *)
theory PageProps
  imports ClientSamples
begin

text \<open>
  Listings: a client that follows the cursors of a listing sees every row exactly once, in order, and stops.
  The contract of a listing method is the locale \<open>pager\<close>; each of the repository's listings is an instance.
\<close>

section \<open>Following the cursors\<close>

text \<open>A client that asks for the next page until there is no next cursor, at most \<open>n\<close> times.\<close>

fun walkPages :: "nat \<Rightarrow> (string \<Rightarrow> ('a list \<times> any) io) \<Rightarrow> string \<Rightarrow> 'a list io" where
  "walkPages 0 page cursor = panic ''too many pages''"
| "walkPages (Suc n) page cursor =
     andThen (page cursor) (\<lambda>(items, nextCursor).
     case nextCursor of
       GString c \<Rightarrow> andThen (walkPages n page c) (\<lambda>rest. ret (items @ rest))
     | _ \<Rightarrow> ret items)"

definition cursorAt :: "nat \<Rightarrow> string" where
  "cursorAt k = (if k = 0 then [] else encodeOffsetCursor (int k))"

lemma decode_cursorAt: "int k \<le> maxInt64 \<Longrightarrow> decodeOffsetCursor (cursorAt k) = Inr (int k)"
  by (simp add: cursorAt_def decode_encode_cursor, simp add: decodeOffsetCursor_def)

text \<open>What a listing method promises: the rows in its order, cut to the page.\<close>

locale pager =
  fixes env :: env and list :: "int \<Rightarrow> int \<Rightarrow> 'a list io" and rows :: "database \<Rightarrow> 'a list"
  assumes lists: "noFaults env \<Longrightarrow>
    \<exists>w'. list n k w = (Ret (limitOffset n k (rows (db w))), w') \<and> db w' = db w"
begin

lemma page_at:
  assumes "noFaults env" and "1 \<le> fallback" and "fallback \<le> 200" and "int k + 201 \<le> maxInt64"
    and "xs = drop k (rows (db w))" and "m = nat (normalizeLimit limit fallback)"
  shows "\<exists>w'. pageOf fallback limit (cursorAt k) list w =
     (Ret (take m xs, if length xs \<le> m then GNil else GString (cursorAt (k + m))), w') \<and> db w' = db w"
proof -
  let ?l = "normalizeLimit limit fallback"
  have l: "1 \<le> ?l" "?l \<le> 200" using normalizeLimit_bounds [OF assms(2,3)] by auto
  obtain w' where w': "list (?l + 1) (int k) w = (Ret (limitOffset (?l + 1) (int k) (rows (db w))), w')" "db w' = db w"
    using lists [OF assms(1)] by blast
  have "limitOffset (?l + 1) (int k) (rows (db w)) = take (Suc m) xs"
    using l by (simp add: limitOffset_def assms(5,6) nat_add_distrib)
  moreover have "wrapInt64 (int k + ?l) = int (k + m)"
    using l assms(4) by (simp add: wrapInt64_id assms(6))
  moreover have "paginateSlice (take (Suc m) xs) ?l (int k) =
      (take m xs, if length xs \<le> m then GNil else GString (encodeOffsetCursor (wrapInt64 (int k + ?l))))"
    using l by (auto simp: paginateSlice_def assms(6) min_def)
  moreover have "cursorAt (k + m) = encodeOffsetCursor (int (k + m))"
    using l by (simp add: cursorAt_def assms(6))
  moreover have "decodeOffsetCursor (cursorAt k) = Inr (int k)"
    using assms(4) by (simp add: decode_cursorAt)
  ultimately show ?thesis
    using w' by (simp add: pageOf_def fromSum_def andThen_def ret_def)
qed

lemma walk_from:
  assumes "noFaults env" and "1 \<le> fallback" and "fallback \<le> 200" and "int (length (rows (db w))) + 201 \<le> maxInt64"
    and "length (rows (db w)) < n + k" and "k \<le> length (rows (db w))"
  shows "\<exists>w'. walkPages n (\<lambda>c. pageOf fallback limit c list) (cursorAt k) w = (Ret (drop k (rows (db w))), w')
     \<and> db w' = db w"
  using assms(4-6)
proof (induction n arbitrary: k w)
  case (Suc n)
  let ?m = "nat (normalizeLimit limit fallback)" and ?xs = "drop k (rows (db w))"
  have m: "1 \<le> ?m" using normalizeLimit_bounds [OF assms(2,3), of limit] by linarith
  obtain u where page: "pageOf fallback limit (cursorAt k) list w =
      (Ret (take ?m ?xs, if length ?xs \<le> ?m then GNil else GString (cursorAt (k + ?m))), u)" and u: "db u = db w"
    using page_at [OF assms(1-3), of k ?xs w ?m limit] Suc.prems by auto
  show ?case
  proof (cases "length ?xs \<le> ?m")
    case True
    then show ?thesis using page u by (simp add: andThen_def ret_def)
  next
    case False
    then have "k + ?m \<le> length (rows (db w))" by simp
    then obtain w' where "walkPages n (\<lambda>c. pageOf fallback limit c list) (cursorAt (k + ?m)) u =
        (Ret (drop (k + ?m) (rows (db w))), w')" "db w' = db w"
      using Suc.IH [of u "k + ?m"] Suc.prems m u by auto
    moreover have "take ?m ?xs @ drop (k + ?m) (rows (db w)) = ?xs"
      by (metis add.commute append_take_drop_id drop_drop)
    ultimately show ?thesis
      using page False by (simp add: andThen_def ret_def)
  qed
qed simp

lemma walk_all:
  assumes "noFaults env" and "1 \<le> fallback" and "fallback \<le> 200" and "int (length (rows (db w))) + 201 \<le> maxInt64"
  shows "\<exists>w'. walkPages (Suc (length (rows (db w)))) (\<lambda>c. pageOf fallback limit c list) [] w = (Ret (rows (db w)), w')
     \<and> db w' = db w"
  using walk_from [OF assms, of "Suc (length (rows (db w)))" 0 limit] by (simp add: cursorAt_def)

end

section \<open>The listings\<close>

lemma pager_query:
  "(\<And>n k. list n k = sqlQuery env (\<lambda>d. limitOffset n k (rows d))) \<Longrightarrow> pager env list rows"
  by unfold_locales (simp add: sqlQuery_def sql_noFaults)

lemma map_limitOffset: "map f (limitOffset n k xs) = limitOffset n k (map f xs)"
  by (simp add: limitOffset_def take_map drop_map)

definition roomsOf :: "bytes \<Rightarrow> database \<Rightarrow> ChatRoomRecord list" where
  "roomsOf u d = map roomRecord (sort_key roomOrder
     (concat (map (\<lambda>r. map (\<lambda>_. r) (filter (activeMember (crRoomID r) u) (tChatMembers d)))
       (filter (\<lambda>r. crDeletedAt r = None) (tChatRooms d)))))"

definition membersOf :: "uuid \<Rightarrow> database \<Rightarrow> ChatMemberRecord list" where
  "membersOf i d = sort_key (\<lambda>m. (cmJoinedAt m, cmUserPublicKey m))
     (filter (\<lambda>m. cmRoomID m = i \<and> cmLeftAt m = None) (tChatMembers d))"

definition requestsOf :: "bytes \<Rightarrow> string \<Rightarrow> database \<Rightarrow> FriendRequestRecord list" where
  "requestsOf u direction d = sort_key (\<lambda>q. (- fqCreatedAt q, - uint (fqRequestID q)))
     (filter (requestFor direction u) (tFriendRequests d))"

definition incomingOf :: "bytes \<Rightarrow> database \<Rightarrow> ChatInvitationRecord list" where
  "incomingOf u d = sort_key invitationOrder (filter (\<lambda>i. ivInviteePublicKey i = u) (tInvitations d))"

definition sentOf :: "bytes \<Rightarrow> uuid option \<Rightarrow> database \<Rightarrow> ChatInvitationRecord list" where
  "sentOf u ro d = sort_key invitationOrder (filter (\<lambda>i. ivInviterPublicKey i = u
     \<and> (case ro of None \<Rightarrow> True | Some r \<Rightarrow> ivRoomID i = r)) (tInvitations d))"

definition permissionsOf :: "uuid \<Rightarrow> bytes \<Rightarrow> database \<Rightarrow> ChatMemberPermissionRecord list" where
  "permissionsOf i u d = sort_key (\<lambda>p. (- pmCreatedAt p, - uint (pmPermissionID p)))
     (filter (\<lambda>p. pmRoomID p = i \<and> (length u = 32 \<longrightarrow> pmUserPublicKey p = u)) (tPermissions d))"

interpretation friends_pager: pager env "storeListFriends env u" "friendsOf u" for env u
  by (rule pager_query) (simp add: storeListFriends_def)

interpretation rooms_pager: pager env "ListRooms env u" "roomsOf u" for env u
  by (rule pager_query) (simp add: ListRooms_def roomsOf_def map_limitOffset)

interpretation members_pager: pager env "ListMembers env i" "membersOf i" for env i
  by (rule pager_query) (simp add: ListMembers_def membersOf_def)

interpretation requests_pager: pager env "storeListFriendRequests env u direction" "requestsOf u direction" for env u direction
  by (rule pager_query) (simp add: storeListFriendRequests_def requestsOf_def)

interpretation incoming_pager: pager env "ListIncomingInvitations env u" "incomingOf u" for env u
  by (rule pager_query) (simp add: ListIncomingInvitations_def incomingOf_def)

interpretation sent_pager: pager env "ListSentInvitations env u ro" "sentOf u ro" for env u ro
  by (rule pager_query) (simp add: ListSentInvitations_def sentOf_def)

interpretation permissions_pager: pager env "ListMemberPermissions env i u" "permissionsOf i u" for env i u
  by (rule pager_query) (simp add: ListMemberPermissions_def permissionsOf_def)

section \<open>Properties\<close>

text \<open>Following the cursors from the first page returns \<open>rows\<close>, within as many pages as there are rows, and one.\<close>

definition walksAll :: "(int \<Rightarrow> int \<Rightarrow> 'a list io) \<Rightarrow> int \<Rightarrow> int \<Rightarrow> world \<Rightarrow> 'a list \<Rightarrow> bool" where
  "walksAll list fallback limit w rows \<longleftrightarrow>
     (\<exists>w'. walkPages (Suc (length rows)) (\<lambda>c. pageOf fallback limit c list) [] w = (Ret rows, w') \<and> db w' = db w)"

text \<open>C18: Following the cursors of a listing of friends, rooms, members, permissions, friend requests or invitations, with any
  page size the client asks for and from a working database that nobody changes meanwhile, ends after no more pages than
  there are rows, and one, and the pages in sequence are exactly the rows of the listing in its order: none is missed, none
  repeated.\<close>

theorem pages_concatenate:
  assumes "noFaults env"
    and "\<forall>n\<in>{length (friendsOf u (db w)), length (roomsOf u (db w)), length (membersOf i (db w)),
       length (permissionsOf i v (db w)), length (requestsOf u direction (db w)), length (incomingOf u (db w)),
       length (sentOf u ro (db w))}. int n + 201 \<le> maxInt64"
  shows "walksAll (storeListFriends env u) 50 limit w (friendsOf u (db w))
     \<and> walksAll (ListRooms env u) 50 limit w (roomsOf u (db w))
     \<and> walksAll (ListMembers env i) 100 limit w (membersOf i (db w))
     \<and> walksAll (ListMemberPermissions env i v) 100 limit w (permissionsOf i v (db w))
     \<and> walksAll (storeListFriendRequests env u direction) 50 limit w (requestsOf u direction (db w))
     \<and> walksAll (ListIncomingInvitations env u) 50 limit w (incomingOf u (db w))
     \<and> walksAll (ListSentInvitations env u ro) 50 limit w (sentOf u ro (db w))"
  unfolding walksAll_def using assms(2)
  by (intro conjI friends_pager.walk_all rooms_pager.walk_all members_pager.walk_all permissions_pager.walk_all
      requests_pager.walk_all incoming_pager.walk_all sent_pager.walk_all assms(1)) simp_all

section \<open>Examples\<close>

definition sampleFriend :: "nat \<Rightarrow> FriendRecord" where
  "sampleFriend n = \<lparr>frID = of_nat n, frUserPublicKey = sampleKey 7, frFriendPublicKey = sampleKey n, frAcceptedAt = int n\<rparr>"

text \<open>Three friends, fetched one by one.\<close>

definition sampleThree :: world where
  "sampleThree = sampleWorld (emptyDb\<lparr>tFriends := map sampleFriend [2, 3, 4]\<rparr>)"

lemma sampleThree_friends: "friendsOf (sampleKey 7) (db sampleThree) = map sampleFriend [4, 3, 2]"
  by (simp add: friendsOf_def sampleThree_def sampleWorld_def emptyDb_def sampleFriend_def)

theorem pages_concatenate_witness:
  "\<exists>w'. walkPages (Suc (length (map sampleFriend [4, 3, 2]))) (\<lambda>c. pageOf 50 1 c (storeListFriends sampleEnv (sampleKey 7))) [] sampleThree
     = (Ret (map sampleFriend [4, 3, 2]), w')"
proof -
  have none: "tFriendRequests (db sampleThree) = []" "tChatMembers (db sampleThree) = []" "tChatRooms (db sampleThree) = []"
    "tInvitations (db sampleThree) = []" "tPermissions (db sampleThree) = []"
    by (simp_all add: sampleThree_def sampleWorld_def emptyDb_def)
  have "walksAll (storeListFriends sampleEnv (sampleKey 7)) 50 1 sampleThree (friendsOf (sampleKey 7) (db sampleThree))"
    using pages_concatenate [of sampleEnv "sampleKey 7" sampleThree 0 "[]" "[]" None 1]
    by (simp add: sampleThree_friends roomsOf_def membersOf_def permissionsOf_def requestsOf_def incomingOf_def sentOf_def
        none maxInt64_def)
  then show ?thesis by (auto simp: walksAll_def sampleThree_friends simp del: walkPages.simps list.map)
qed

end
