(* ===== verification/NoPanic.thy ===== *)
theory NoPanic
  imports ClientFacts
begin

text \<open>
  Calls that do not panic: on a bus whose registered channels are open (the invariant of theory \<open>EventBus\<close>), no
  client call of the service panics, whatever its parameters and whichever statements fail, and the bus stays so.
  In particular the paging loop of \<open>UpdateProfile\<close> ends.
\<close>

section \<open>Rules\<close>

text \<open>The registered channels of the bus are open, and the registrations are \<open>subs\<close>, the last one numbered \<open>i\<close>.\<close>

definition busIs :: "(string \<times> (64 word \<times> nat) list) list \<Rightarrow> 64 word \<Rightarrow> world \<Rightarrow> bool" where
  "busIs subs i w \<longleftrightarrow> busOk (wBus w) \<and> busSubs (wBus w) = subs \<and> busNext (wBus w) = i"

lemma busIs_self: "busOk (wBus w) \<Longrightarrow> busIs (busSubs (wBus w)) (busNext (wBus w)) w"
  by (simp add: busIs_def)

lemma busIs_world [simp]:
  "busIs subs i (w\<lparr>nClock := n\<rparr>) = busIs subs i w" "busIs subs i (w\<lparr>nUUID := n\<rparr>) = busIs subs i w"
  "busIs subs i (w\<lparr>nRand := n\<rparr>) = busIs subs i w" "busIs subs i (w\<lparr>nStmt := n\<rparr>) = busIs subs i w"
  "busIs subs i (w\<lparr>db := d\<rparr>) = busIs subs i w" "busIs subs i (w\<lparr>wPushQueue := q\<rparr>) = busIs subs i w"
  by (simp_all add: busIs_def)

lemma busIs_notify:
  assumes "busIs subs i w"
  shows "\<exists>b. NotifyKey key (wBus w) = (Ret (), b) \<and> busIs subs i (w\<lparr>wBus := b\<rparr>)"
  using assms by (auto simp: busIs_def NotifyKey_ok busOk_markFull) (simp_all add: markFull_def)

definition calm :: "'a io \<Rightarrow> bool" where
  "calm m \<longleftrightarrow> (\<forall>subs i w. busIs subs i w \<longrightarrow> (\<forall>p. fst (m w) \<noteq> Panic p) \<and> busIs subs i (snd (m w)))"

named_theorems calm_intros \<open>calls that do not panic\<close>

lemma calmD: "calm m \<Longrightarrow> busIs subs i w \<Longrightarrow> m w = (r, w') \<Longrightarrow> r \<noteq> Panic p \<and> busIs subs i w'"
  unfolding calm_def by (metis fst_conv snd_conv)

lemma calmI: "(\<And>subs i w r w'. busIs subs i w \<Longrightarrow> m w = (r, w') \<Longrightarrow> (\<forall>p. r \<noteq> Panic p) \<and> busIs subs i w') \<Longrightarrow> calm m"
  unfolding calm_def by (metis prod.collapse)

lemma calm_basic [calm_intros]: "calm (ret x)" "calm (fail e)" "calm (clockNow env)" "calm (uuidNew env)"
  by (simp_all add: calm_def ret_def fail_def clockNow_def uuidNew_def)

lemma calm_andThen [calm_intros]: "calm m \<Longrightarrow> (\<And>x. calm (k x)) \<Longrightarrow> calm (andThen m k)"
  by (rule calmI) (auto simp: andThen_def split: prod.splits outcome.splits dest: calmD)

lemma calm_ignoreErr [calm_intros]: "calm m \<Longrightarrow> calm k \<Longrightarrow> calm (ignoreErr m k)"
  by (rule calmI) (auto simp: ignoreErr_def split: prod.splits outcome.splits dest: calmD)

lemma calm_onErr [calm_intros]: "calm m \<Longrightarrow> (\<And>e. calm (h e)) \<Longrightarrow> calm (onErr m h)"
  by (rule calmI) (auto simp: onErr_def split: prod.splits outcome.splits dest: calmD)

lemma calm_wrapErr [calm_intros]: "calm m \<Longrightarrow> calm (wrapErr msg m)"
  unfolding wrapErr_def by (intro calm_onErr calm_basic)

lemma calm_guardErr [calm_intros]: "calm k \<Longrightarrow> calm (guardErr bad e k)"
  unfolding guardErr_def by (simp add: calm_basic)

lemma calm_if [calm_intros]: "(b \<Longrightarrow> calm m) \<Longrightarrow> (\<not> b \<Longrightarrow> calm m') \<Longrightarrow> calm (if b then m else m')"
  by simp

lemma calm_case_option [calm_intros]:
  "(x = None \<Longrightarrow> calm m) \<Longrightarrow> (\<And>y. x = Some y \<Longrightarrow> calm (f y)) \<Longrightarrow> calm (case x of None \<Rightarrow> m | Some y \<Rightarrow> f y)"
  by (cases x) simp_all

lemma calm_case_prod [calm_intros]: "(\<And>x y. calm (f x y)) \<Longrightarrow> calm (case p of (x, y) \<Rightarrow> f x y)"
  by (cases p) simp

lemma calm_Let [calm_intros]: "calm (f x) \<Longrightarrow> calm (let y = x in f y)"
  by simp

lemma calm_forEach [calm_intros]: "(\<And>x. calm (f x)) \<Longrightarrow> calm (forEach f xs)"
  by (induction xs) (auto intro: calm_intros)

lemma calm_forEachIgnore [calm_intros]: "(\<And>x. calm (f x)) \<Longrightarrow> calm (forEachIgnore f xs)"
  by (induction xs) (auto intro: calm_intros)

lemma calm_mapEach [calm_intros]: "(\<And>x. calm (f x)) \<Longrightarrow> calm (mapEach f xs)"
  by (induction xs) (auto intro!: calm_intros)

lemma calm_sql [calm_intros]: "calm (sql env f)" "calm (sqlQuery env q)" "calm (sqlExec env g)" "calm (sqlNop env)"
  by (auto simp: calm_def sqlQuery_def sqlExec_def sqlNop_def sql_def Let_def split: sum.splits)

lemma calm_queryOne [calm_intros]: "calm (queryOne env e q)"
  unfolding queryOne_def by (intro calm_intros)

lemma calm_fromSum [calm_intros]: "calm (fromSum r)"
  by (cases r) (simp_all add: fromSum_def calm_basic)

lemma calm_pageOf [calm_intros]: "(\<And>n k. calm (list n k)) \<Longrightarrow> calm (pageOf fallback limit cursor list)"
  unfolding pageOf_def by (intro calm_intros)

lemma calm_WithinTransaction [calm_intros]:
  assumes "\<And>c. calm (fn c)"
  shows "calm (WithinTransaction env ctx fn)"
proof -
  have "calm (\<lambda>w. case andThen (fn InTx) (\<lambda>x. andThen (wrapErr ''commit transaction'' (sqlNop env)) (\<lambda>_. ret x)) w of
      (Ret x, w') \<Rightarrow> (Ret x, w') | (Err e, w') \<Rightarrow> rollbackTo (db w) (Err e, w')
    | (Panic p, w') \<Rightarrow> rollbackTo (db w) (Panic p, w'))"
    (is "calm (\<lambda>w. case ?body w of (Ret x, w') \<Rightarrow> _ x w' | (Err e, w') \<Rightarrow> _ w e w' | (Panic p, w') \<Rightarrow> _ w p w')")
  proof (rule calmI)
    fix subs i w r w' assume ok: "busIs subs i w"
      and run: "(case ?body w of (Ret x, w') \<Rightarrow> (Ret x, w') | (Err e, w') \<Rightarrow> rollbackTo (db w) (Err e, w')
        | (Panic p, w') \<Rightarrow> rollbackTo (db w) (Panic p, w')) = (r, w')"
    have "calm ?body" by (intro calm_intros assms)
    then show "(\<forall>p. r \<noteq> Panic p) \<and> busIs subs i w'"
      using run ok by (auto simp: rollbackTo_def split: prod.splits outcome.splits dest: calmD)
  qed
  then show ?thesis unfolding WithinTransaction_def by (intro calm_intros assms)
qed

section \<open>Events\<close>

lemma calm_NotifyKey [calm_intros]: "calm (onBus (NotifyKey key))"
proof (rule calmI)
  fix subs i w r w' assume ok: "busIs subs i w" and run: "onBus (NotifyKey key) w = (r, w')"
  from busIs_notify [OF ok, of key] obtain b
    where "NotifyKey key (wBus w) = (Ret (), b)" "busIs subs i (w\<lparr>wBus := b\<rparr>)" by blast
  then show "(\<forall>p. r \<noteq> Panic p) \<and> busIs subs i w'"
    using run by (auto simp: onBus_def)
qed

lemma calm_notify [calm_intros]: "calm (onBus (Notify key))"
  unfolding Notify_def by (rule calm_NotifyKey)

lemma calm_appendEvent [calm_intros]: "calm (appendEvent env cfg u ty p)"
  unfolding appendEvent_def NotifyingAppend_def Append_def insertEvent_def appendOutbox_def listTargetDeviceIDs_def
    enqueueFor_def insertOutbox_def upsertSegment_def
  by (intro calm_intros)

section \<open>The repository\<close>

lemma calm_people_store [calm_intros]:
  "calm (storeGetProfile env u)" "calm (GetActiveBanStatus env u t)" "calm (storeUpdateProfile env u n dn ah bio t)"
  "calm (storeSearchProfiles env qu li k)" "calm (storeDeleteAccount env u t)" "calm (storeGetProfileAvatar env u)"
  "calm (storeListDevices env u)" "calm (UpsertDevice env v)" "calm (storeRemoveDevice env u i)"
  "calm (DeleteKeyPackagesByUserDevice env u s)" "calm (InsertKeyPackages env ks)" "calm (storeFetchKeyPackages env us t)"
  "calm (AreFriends env u u')" "calm (storeListFriends env u li k)" "calm (CountFriends env u)"
  "calm (storeRemoveFriend env u u')" "calm (CreateFriendRequest env q)" "calm (UpdateFriendRequestState env i u ss st t)"
  "calm (CreateFriendPair env l r)" "calm (storeListFriendRequests env u s li k)" "calm (LookupSession env i)"
  unfolding storeGetProfile_def GetActiveBanStatus_def storeUpdateProfile_def storeSearchProfiles_def storeDeleteAccount_def
    storeGetProfileAvatar_def storeListDevices_def UpsertDevice_def storeRemoveDevice_def lookupDeviceIdentifier_def
    DeleteKeyPackagesByUserDevice_def InsertKeyPackages_def insertKeyPackage_def storeFetchKeyPackages_def AreFriends_def
    storeListFriends_def CountFriends_def storeRemoveFriend_def CreateFriendRequest_def UpdateFriendRequestState_def
    GetFriendRequest_def CreateFriendPair_def insertFriend_def storeListFriendRequests_def LookupSession_def GetSession_def
  by (intro calm_intros)+

lemma calm_room_store [calm_intros]:
  "calm (ensureMember env r u)" "calm (ensureRoomAdmin env r u)" "calm (insertMember env m)" "calm (upsertMember env m)"
  "calm (LeaveRoom env r u t)" "calm (KickMember env u r u' t)" "calm (ListMembers env r li k)"
  "calm (UpdateMemberRole env u r u' role)" "calm (ListActiveRoomMemberPublicKeys env r)" "calm (CreateRoom env rm m)"
  "calm (GetRoom env r)" "calm (ListRooms env u li k)" "calm (SearchRooms env qu li k)" "calm (UpdateRoom env u r ti de ah t)"
  "calm (DeleteRoom env u r t)" "calm (GetRoomAvatar env r)" "calm (AddRoomState env u st)" "calm (FetchRoomState env u r e)"
  "calm (JoinRoom env m)" "calm (UpsertRoomMembership env m)"
  unfolding ensureRoomAdmin_def ensureMember_def insertMember_def LeaveRoom_def KickMember_def ListMembers_def
    UpdateMemberRole_def ListActiveRoomMemberPublicKeys_def CreateRoom_def insertRoom_def GetRoom_def ListRooms_def
    SearchRooms_def UpdateRoom_def DeleteRoom_def GetRoomAvatar_def AddRoomState_def insertState_def FetchRoomState_def
    JoinRoom_def UpsertRoomMembership_def upsertMember_def
  by (intro calm_intros)+

lemma calm_room_data_store [calm_intros]:
  "calm (UpsertRoomGroupInfo env u gi)" "calm (GetRoomGroupInfo env r)" "calm (FindDirectRoomIDByUsers env u u')"
  "calm (storeCreateDirectRoom env rm m m' dr)" "calm (IsDirectRoom env r)" "calm (UpsertRoomWelcome env wl)"
  "calm (GetRoomWelcome env r u)" "calm (CreateMemberPermission env u pm)" "calm (ListMemberPermissions env r u li k)"
  "calm (UpdateMemberPermission env u i b t)" "calm (DeleteMemberPermission env u i)" "calm (CreateInvitation env iv)"
  "calm (GetInvitation env i)" "calm (ListSentInvitations env u ro li k)" "calm (ListIncomingInvitations env u li k)"
  "calm (UpdateInvitationState env i u st t ss)" "calm (CountServerStats env)" "calm (CountUserStats env u)"
  "calm (CountGroupStats env r)" "calm (GetUserUsageStats env u t)"
  unfolding UpsertRoomGroupInfo_def GetRoomGroupInfo_def FindDirectRoomIDByUsers_def storeCreateDirectRoom_def
    insertDirect_def IsDirectRoom_def UpsertRoomWelcome_def GetRoomWelcome_def CreateMemberPermission_def
    ListMemberPermissions_def UpdateMemberPermission_def DeleteMemberPermission_def lookupPermissionRoom_def
    CreateInvitation_def GetInvitation_def ListSentInvitations_def ListIncomingInvitations_def UpdateInvitationState_def
    CountServerStats_def CountUserStats_def CountGroupStats_def countAll_def GetUserUsageStats_def
  by (intro calm_intros)+

section \<open>The loop of UpdateProfile\<close>

text \<open>From an offset within the list, enough pages are left.\<close>

lemma calm_friendPages:
  assumes "0 < ccEventBatchSize cfg" and "busIs subs i w"
    and "int (length (friendsOf u (db w))) < k + ccEventBatchSize cfg * int n" and "0 \<le> k" and "k \<le> int (length (friendsOf u (db w)))"
    and "friendPages n env cfg u p k w = (r, w')"
  shows "(\<forall>p. r \<noteq> Panic p) \<and> busIs subs i w'"
  using assms(2-6)
proof (induction n arbitrary: k w)
  case (Suc n)
  let ?b = "ccEventBatchSize cfg"
  let ?send = "forEachIgnore (\<lambda>f. appendEvent env cfg (frFriendPublicKey f) ''profile.updated'' p)"
  obtain r1 w1 where list: "storeListFriends env u ?b k w = (r1, w1)" by fastforce
  then have w1: "busIs subs i w1" "\<forall>p. r1 \<noteq> Panic p"
    using Suc.prems(1) calmD [OF calm_people_store(14) Suc.prems(1) list] by auto
  show ?case
  proof (cases r1)
    case (Ret xs)
    then have xs: "xs = limitOffset ?b k (friendsOf u (db w))" "db w1 = db w"
      using list by (auto simp: storeListFriends_def elim!: sqlQuery_RetE)
    obtain r2 w2 where send: "?send xs w1 = (r2, w2)" by fastforce
    have calm: "calm (?send xs)" by (intro calm_intros)
    then have w2: "busIs subs i w2" "\<forall>p. r2 \<noteq> Panic p" using calmD [OF calm w1(1) send] by auto
    have "keeps (dbInv (\<lambda>d. tFriends d = tFriends (db w))) (?send xs)"
      by (intro keeps_intros) (simp add: eventFree_def)
    from keeps_Ret [OF this, of w1 r2 w2] have same: "friendsOf u (db w2) = friendsOf u (db w)"
      using send xs(2) by (simp add: friendsOf_def)
    show ?thesis
    proof (cases "int (length xs) < ?b \<or> (\<forall>x. r2 \<noteq> Ret x)")
      case True
      then show ?thesis
        using Suc.prems(5) list send Ret w2 by (cases r2) (auto simp: andThen_def ret_def)
    next
      case False
      then have next': "friendPages n env cfg u p (k + ?b) w2 = (r, w')"
        using Suc.prems(5) list send Ret by (auto simp: andThen_def)
      have "k + ?b \<le> int (length (friendsOf u (db w)))"
        using False assms(1) Suc.prems(3) unfolding xs(1) limitOffset_def by (auto simp: min_def split: if_splits)
      then show ?thesis
        using Suc.IH [OF w2(1) _ _ _ next'] Suc.prems(2,3) assms(1) same by (simp add: algebra_simps)
    qed
  next
    case (Err e)
    then show ?thesis using Suc.prems(5) list w1 by (auto simp: andThen_def)
  qed (use w1 in simp)
qed simp

lemma length_friendsOf: "length (friendsOf u d) \<le> length (tFriends d)"
  by (simp add: friendsOf_def)

lemma calm_allFriendPages:
  assumes "0 < ccEventBatchSize cfg"
  shows "calm (\<lambda>w. friendPages (Suc (length (tFriends (db w)))) env cfg u p 0 w)"
proof (rule calmI)
  fix subs i w r w' assume ok: "busIs subs i w"
    and run: "friendPages (Suc (length (tFriends (db w)))) env cfg u p 0 w = (r, w')"
  have "int (length (friendsOf u (db w))) < 1 * int (Suc (length (tFriends (db w))))"
    using length_friendsOf [of u "db w"] by simp
  also have "\<dots> \<le> ccEventBatchSize cfg * int (Suc (length (tFriends (db w))))"
    using assms by (intro mult_right_mono) auto
  finally show "(\<forall>p. r \<noteq> Panic p) \<and> busIs subs i w'"
    by (intro calm_friendPages [OF assms ok _ _ _ run]) simp_all
qed

lemma calm_UpdateProfile: "0 < ccEventBatchSize cfg \<Longrightarrow> calm (UpdateProfile env cfg u n dn ah bio)"
  unfolding UpdateProfile_def by (intro calm_intros calm_allFriendPages)

lemma noErr_forEachIgnore: "noErr (forEachIgnore f xs)"
proof (induction xs)
  case (Cons x xs)
  show ?case
    unfolding noErr_def
  proof (intro allI)
    fix s e
    obtain r t where "f x s = (r, t)" by fastforce
    then show "fst (forEachIgnore f (x # xs) s) \<noteq> Err e"
      using Cons by (cases r) (auto simp: ignoreErr_def noErr_def)
  qed
qed (simp add: noErr_ret)

lemma noErr_friendPages: "noFaults env \<Longrightarrow> noErr (friendPages n env cfg u p k)"
proof (induction n arbitrary: k)
  case (Suc n)
  have "noErr (storeListFriends env u m j)" for m j
    using Suc.prems by (simp add: noErr_def storeListFriends_def sqlQuery_def sql_noFaults)
  then show ?case using Suc by (auto intro!: noErr_andThen noErr_forEachIgnore noErr_ret)
qed (simp add: noErr_def panic_def)

section \<open>The service\<close>

lemma calm_CreateDirectRoom: "calm (CreateDirectRoom env u v)"
proof -
  have tx: "calm (WithinTransaction env NoTx (\<lambda>txCtx. directRoomTx env u v r t))" for r t
    unfolding directRoomTx_def by (intro calm_intros)
  have "calm (\<lambda>w. case WithinTransaction env NoTx (\<lambda>txCtx. directRoomTx env u v r t) w of
      (Ret y, w') \<Rightarrow> (Ret (a y :: payload), w') | (Err e, w') \<Rightarrow> if b e then (Ret (c (db w')), w') else (Err e, w')
    | (Panic p, w') \<Rightarrow> (Panic p, w'))" for r t a b c
    by (rule calmI) (auto split: prod.splits outcome.splits if_splits dest: calmD [OF tx])
  then show ?thesis unfolding CreateDirectRoom_def by (intro calm_intros)
qed

lemma calm_people:
  assumes "0 < ccEventBatchSize cfg"
  shows "calm (handleProfileMethods env cfg call params st)" "calm (handleFriendMethods env cfg call params st)"
    "calm (handleOverviewMethods env cfg call params st)"
  unfolding handleProfileMethods_def GetProfile_def SearchProfiles_def DeleteAccount_def GetProfileAvatar_def
    handleFriendMethods_def ListFriends_def RemoveFriend_def SendFriendRequest_def AcceptFriendRequest_def
    acceptRequestTx_def DeclineFriendRequest_def CancelFriendRequest_def ListFriendRequests_def
    handleOverviewMethods_def GetServerLimits_def GetUserLimits_def GetGroupLimits_def GetMyUsageStats_def GetServerConfig_def
  by (intro calm_intros calm_UpdateProfile assms)+

lemma calm_devices: "calm (handleDeviceAndMLSMethods env cfg f call params st)"
  unfolding handleDeviceAndMLSMethods_def ListDevices_def RegisterDevicePushToken_def RemoveDevice_def
    UploadKeyPackages_def keyPackageOf_def FetchKeyPackages_def SendCommit_def SendWelcome_def welcomeRoom_def
    UploadGroupInfo_def FetchGroupInfo_def SendExternalCommit_def announceCommit_def FetchWelcome_def
  by (intro calm_intros)

lemma calm_rooms:
  "calm (handleRoomMethods env cfg call params st)" "calm (handleMemberMethods env cfg call params st)"
  "calm (handleInvitationMethods env cfg call params st)" "calm (handleMessageMethods env cfg call params st)"
  unfolding handleRoomMethods_def CreateChatRoom_def ListChatRooms_def GetChatRoom_def SearchChatRooms_def SyncChatRoom_def
    UpdateChatRoom_def UpdateChatRoomState_def FetchChatRoomState_def DeleteChatRoom_def GetChatRoomAvatar_def
    handleMemberMethods_def JoinChatRoom_def LeaveChatRoom_def KickChatMember_def ListChatMembers_def
    UpdateChatMemberRole_def CreateChatMemberPermission_def ListChatMemberPermissions_def UpdateChatMemberPermission_def
    DeleteChatMemberPermission_def membersOrNone_def handleInvitationMethods_def SendChatInvitation_def
    RevokeChatInvitation_def ListSentChatInvitations_def ListIncomingChatInvitations_def AcceptChatInvitation_def
    acceptInvitationTx_def announceCommit_def DeclineChatInvitation_def handleMessageMethods_def SendMessage_def checkPeer_def
  by (intro calm_intros calm_CreateDirectRoom)+

lemma calm_dispatch:
  "0 < ccEventBatchSize cfg \<Longrightarrow> calm (dispatchClientMethod env cfg f call params st)"
  unfolding dispatchClientMethod_def by (intro calm_intros calm_people calm_devices calm_rooms)

lemma NewService_batch: "ClientNewService deps raw = Inr cfg \<Longrightarrow> 0 < ccEventBatchSize cfg"
  by (auto simp: ClientNewService_def split: if_splits)

section \<open>Properties\<close>


text \<open>C20: \<open>UpdateProfile\<close> ends: its loop over the pages of the user's friends never needs more pages than there are rows in
  the friends table, and one (the bound at which the model's loop would panic). With a working database and a free user name it
  returns, with the instant the profile was updated at.\<close>

theorem update_profile_terminates:
  assumes "ClientNewService deps raw = Inr cfg" and "busOk (wBus w)" and "noFaults env"
    and "usernameFree env u (nullIfEmpty username) (db w)"
  shows "\<exists>w'. UpdateProfile env cfg u username displayName avatarHash bio w =
     (Ret [(''updatedAt'', stamp env (eClock env (nClock w)))], w')"
proof -
  let ?t = "eClock env (nClock w)" and ?u = "w\<lparr>nClock := Suc (nClock w)\<rparr>"
  let ?pages = "\<lambda>w. friendPages (Suc (length (tFriends (db w)))) env cfg u
     (profileUpdated env u username displayName avatarHash bio ?t) 0 w"
  obtain v where v: "storeUpdateProfile env u username displayName avatarHash bio ?t ?u = (Ret (), v)"
    and bus: "wBus v = wBus w"
    using assms(3,4) by (simp add: storeUpdateProfile_def wrapErr_def onErr_def sql_noFaults checkAll_def)
  obtain r x where run: "?pages v = (r, x)" by fastforce
  have "\<forall>p. r \<noteq> Panic p"
    using calmD [OF calm_allFriendPages [OF NewService_batch [OF assms(1)]] busIs_self run] assms(2) bus by simp
  moreover have "\<forall>e. r \<noteq> Err e"
    using noErr_friendPages [OF assms(3)] run by (metis noErrD)
  ultimately have "r = Ret ()" by (cases r) auto
  then show ?thesis
    using run v unfolding UpdateProfile_def by (simp add: andThen_def clockNow_def ret_def del: friendPages.simps)
qed

section \<open>Examples\<close>

definition rawClient :: ClientConfig where
  "rawClient = \<lparr>ccAppName = ''app'', ccVersion = [], ccSessionChallengeTTL = minute, ccEventRetention = 0,
     ccEventBatchSize = 0\<rparr>"

lemma rawClient_new: "ClientNewService True rawClient =
    Inr (rawClient\<lparr>ccVersion := ''2'', ccEventRetention := 24 * hour, ccEventBatchSize := 100\<rparr>)"
  by (simp add: ClientNewService_def rawClient_def)

lemma sampleWorld_bus: "busOk (wBus (sampleWorld d))"
  by (simp add: sampleWorld_def busOk_new)


theorem update_profile_terminates_witness:
  "\<exists>w'. UpdateProfile sampleEnv (rawClient\<lparr>ccVersion := ''2'', ccEventRetention := 24 * hour, ccEventBatchSize := 100\<rparr>)
     (sampleKey 1) ''ada'' ''Ada'' [] [] (sampleWorld emptyDb) = (Ret [(''updatedAt'', stamp sampleEnv 0)], w')"
  using update_profile_terminates [OF rawClient_new sampleWorld_bus sampleEnv_noFaults,
      of "sampleKey 1" "''ada''" emptyDb "''Ada''" "[]" "[]"]
  by (simp add: usernameFree_def nullIfEmpty_def sampleWorld_def emptyDb_def sampleEnv_def)

end
