(* ===== verification/HandlerProps.thy ===== *)
theory HandlerProps
  imports ClientSamples "HOL-Library.Sublist"
begin

text \<open>
  Properties of the connection handler: which calls a connection may make and under which key, what a batch answers,
  which outbox events a connection is sent again, and how HTTP connections are kept apart.
\<close>

section \<open>Packets\<close>

lemmas status_simps = maxStatus_def StatusOK_def StatusBadRequest_def StatusInternalServerError_def

lemma onErr_RetE:
  assumes "onErr m k w = (Ret x, w')"
  obtains "m w = (Ret x, w')" | e v where "m w = (Err e, v)" and "k e v = (Ret x, w')"
  using assms by (auto simp: onErr_def split: prod.splits outcome.splits)

lemma handlePacket_okE:
  assumes "handlePacket cd env h packet st w = (Ret (resp, st', None), w')"
  obtains payload params v where "cdPayload cd (pkPayload packet) = Inr payload"
    and "signedCall cd env h packet payload st w = (Ret (params, st'), v)"
  using assms unfolding handlePacket_def
  by (auto simp: go_simps respond_def errorResponse_def uuidNew_def Let_def split: sum.splits outcome.splits prod.splits)

lemma signedCall_okE:
  assumes "signedCall cd env h packet payload st w = (Ret (params, st'), v)"
  obtains signer u where "resolveSigner cd env payload st w = (Ret signer, u)"
    and "signer = [] \<or> length signer = 32 \<and> length (pkSignature packet) = 64
      \<and> eVerify env signer (pkPayload packet) (pkSignature packet)"
    and "runCall cd env h payload st u = (Ret (params, st'), v)"
  using assms unfolding signedCall_def
  by (auto elim!: andThen_RetE guardErr_RetE simp: ed25519Verify_def split: if_splits) (auto simp: go_simps)

text \<open>The calls that do not need an authenticated connection. Each of them asks the session itself.\<close>

definition openCalls :: "string list" where
  "openCalls = [''requestAuthChallenge'', ''solveAuthChallenge'', ''subscribeToEvents'', ''unsubscribeFromEvents'']"


text \<open>A client call or an acknowledgement on a connection that is not authenticated is refused: the answer is an error,
  the connection is left as it was, and so are the database and the event bus.\<close>

lemma unauthenticated_call_refused:
  assumes "\<not> csAuthenticated st" and "csUserPublicKey st = [] \<or> length (csUserPublicKey st) = 32"
    and "cdPayload cd (pkPayload packet) = Inr payload" and "rpRPCCall payload \<notin> set openCalls"
  shows "\<exists>resp e. fst (handlePacket cd env (serverHandler acfg ccfg ocfg) packet st w) = Ret (resp, st, Some e)
     \<and> e \<in> {ErrSessionNotAuthenticated, ErrInvalidSignature}
     \<and> rsReplyToRequestID resp = Some (rpRequestID payload)
     \<and> db (snd (handlePacket cd env (serverHandler acfg ccfg ocfg) packet st w)) = db w
     \<and> wBus (snd (handlePacket cd env (serverHandler acfg ccfg ocfg) packet st w)) = wBus w"
  using assms unfolding handlePacket_def signedCall_def resolveSigner_def runCall_def openCalls_def
    onAcknowledgeEvent_def handleClientAPICall_def ed25519Verify_def
  by (auto simp: go_simps errorResponse_def respond_def uuidNew_def Let_def split: prod.splits)

text \<open>C28: A packet that asks for a challenge for a key of the wrong size panics before the size is checked: the key is the
  signer of the packet, and its signature is verified first. The panic ends the goroutine of the connection, whatever else the batch
  holds, and nothing of the packet is answered.\<close>

theorem wrong_size_key_panics:
  assumes "cdPackets cd raw = Inr (packet # packets)" and "cdPayload cd (pkPayload packet) = Inr payload"
    and "rpRPCCall payload = ''requestAuthChallenge''" and "cdRequestAuth cd (rpParameters payload) = Inr params"
    and "raUserPublicKey params \<noteq> []" and "length (raUserPublicKey params) \<noteq> 32"
    and "\<not> csAuthenticated (cnState c)"
  shows "streamMessage cd env h send raw c w = (Panic ''ed25519: bad public key length'', w)"
  using assms
  by (simp add: streamMessage_def onBatch_def handleBatch_def handlePackets_def handlePacket_def signedCall_def
      resolveSigner_def DecodeParameters_def decoded_def ed25519Verify_def go_simps)

text \<open>C29: A challenge requested on an authenticated connection takes effect at once: the packet is signed with the key of
  the connection, yet afterwards the connection is still authenticated, now for the requested key and the requested device,
  of which no proof was given; and the answer to the batch carries the events of that device.\<close>

theorem challenge_rebinds_connection:
  assumes "handlePackets cd env h [packet] st sent w = (Ret (responses, st', code, sent'), w')"
    and "csAuthenticated st" and "cdPayload cd (pkPayload packet) = Inr payload"
    and "rpRPCCall payload = ''requestAuthChallenge''" and "cdRequestAuth cd (rpParameters payload) = Inr params"
    and "code = StatusOK" and "hOutbox h \<noteq> None" and "raDeviceID params \<noteq> []"
  shows "csAuthenticated st' \<and> csUserPublicKey st' = raUserPublicKey params \<and> csDeviceID st' = raDeviceID params
     \<and> (\<exists>resp v events. responses = resp # events
          \<and> pullOutboxPackets env h (raDeviceID params) sent v = (Ret (Inr events, sent'), w'))"
proof -
  obtain resp st1 e v where packet: "handlePacket cd env h packet st w = (Ret (resp, st1, e), v)"
    and code: "e = None" and rest: "csAuthenticated st1 \<Longrightarrow> csDeviceID st1 \<noteq> [] \<Longrightarrow> responses = resp # tl responses \<and> st' = st1
       \<and> pullOutboxPackets env h (csDeviceID st1) sent v = (Ret (Inr (tl responses), sent'), w')"
    using assms(1,6,7) unfolding handlePackets_def
    by (auto elim!: andThen_RetE onErr_RetE simp: status_simps split: if_splits sum.splits)
  from packet [unfolded code] obtain ps u v' where "runCall cd env h payload st u = (Ret (ps, st1), v')"
    by (elim handlePacket_okE signedCall_okE) (use assms(3) in auto)
  then have "csAuthenticated st1 \<and> csUserPublicKey st1 = raUserPublicKey params \<and> csDeviceID st1 = raDeviceID params"
    using assms(2,4,5) unfolding runCall_def onRequestAuthChallenge_def DecodeParameters_def
    by (auto elim!: andThen_RetE simp: decoded_def)
  then show ?thesis using rest assms(8) by auto
qed

section \<open>Batches\<close>

text \<open>The request a packet is answered to: none if its payload cannot be read.\<close>

definition replyTo :: "codec \<Rightarrow> RequestPacket \<Rightarrow> uuid option" where
  "replyTo cd packet = (case cdPayload cd (pkPayload packet) of Inl _ \<Rightarrow> None | Inr payload \<Rightarrow> Some (rpRequestID payload))"

lemma respond_RetE:
  assumes "respond env i params w = (Ret r, w')"
  obtains "rsReplyToRequestID r = i" and "rsEventType r = rpcCallResponse" and "rsParameters r = params"
  using assms by (auto simp: respond_def go_simps uuidNew_def)

lemma handlePacket_answer:
  assumes "handlePacket cd env h packet st w = (Ret (resp, st', e), w')"
  shows "rsReplyToRequestID resp = replyTo cd packet" and "rsEventType resp = rpcCallResponse"
    and "e \<noteq> None \<Longrightarrow> st' = st"
  using assms unfolding handlePacket_def replyTo_def errorResponse_def
  by (auto elim!: andThen_RetE onErr_RetE respond_RetE split: sum.splits prod.splits)

lemma runPackets_answers:
  assumes "runPackets cd env h packets st code w = (Ret (answers, st', code'), w')"
  shows "map rsReplyToRequestID answers = map (replyTo cd) packets
     \<and> (\<forall>a\<in>set answers. rsEventType a = rpcCallResponse) \<and> (code' = code \<or> code' = maxStatus code StatusBadRequest)"
  using assms
proof (induction packets arbitrary: st code answers w)
  case (Cons p packets)
  then obtain resp st1 e v rest where one: "handlePacket cd env h p st w = (Ret (resp, st1, e), v)"
    and rest: "runPackets cd env h packets st1 (if e = None then code else maxStatus code StatusBadRequest) v
      = (Ret (rest, st', code'), w')" and "answers = resp # rest"
    by (auto elim!: andThen_RetE)
  with Cons.IH [OF rest] handlePacket_answer [OF one] show ?case
    by (auto simp: maxStatus_def split: if_splits)
qed simp

text \<open>C25: A batch is answered packet by packet, in the order of the packets, each answer naming the request it replies to;
  events follow the answers, and only on a connection that is authenticated after the batch. The status is 200, 400 if a packet
  failed, or 500 if the events could not be read, and then there are none.\<close>

theorem batch_answered_in_order:
  assumes "handlePackets cd env h packets st sent w = (Ret (responses, st', code, sent'), w')"
  shows "\<exists>answers events. responses = answers @ events
     \<and> map rsReplyToRequestID answers = map (replyTo cd) packets
     \<and> (\<forall>a\<in>set answers. rsEventType a = rpcCallResponse)
     \<and> code \<in> {StatusOK, StatusBadRequest, StatusInternalServerError}
     \<and> (\<not> csAuthenticated st' \<or> code = StatusInternalServerError \<longrightarrow> events = [])"
proof -
  obtain answers v code1 where run: "runPackets cd env h packets st StatusOK w = (Ret (answers, st', code1), v)"
    and events: "\<exists>events. responses = answers @ events \<and> code \<in> {code1, maxStatus code1 StatusInternalServerError}
      \<and> (\<not> csAuthenticated st' \<or> code = StatusInternalServerError \<and> code1 \<noteq> code \<longrightarrow> events = [])"
    using assms unfolding handlePackets_def
    by (elim andThen_RetE) (auto elim!: andThen_RetE onErr_RetE split: if_splits sum.splits)
  then obtain events where "responses = answers @ events" "code \<in> {code1, maxStatus code1 StatusInternalServerError}"
    "\<not> csAuthenticated st' \<or> code = StatusInternalServerError \<and> code1 \<noteq> code \<longrightarrow> events = []" by blast
  with runPackets_answers [OF run] show ?thesis
    by (intro exI [of _ answers] exI [of _ events]) (auto simp: status_simps)
qed

section \<open>Events in flight\<close>

text \<open>What a connection remembers after a pull, also a failed one.\<close>

definition sentAfter :: "env \<Rightarrow> Handler \<Rightarrow> string \<Rightarrow> sentEvents \<Rightarrow> world \<Rightarrow> sentEvents" where
  "sentAfter env h deviceID sent w =
     (case fst (pullOutboxPackets env h deviceID sent w) of Ret (_, sent') \<Rightarrow> sent' | _ \<Rightarrow> sent)"

lemma map_of_live: "map_of sent i = Some until \<Longrightarrow> now < until \<Longrightarrow> map_of (filter (\<lambda>(i, until). now < until) sent) i = Some until"
  by (induction sent) auto

lemma newPackets_keeps:
  assumes "map_of sent i = Some until" and "now < until" and "newPackets now events sent = (ps, sent')"
  shows "i \<notin> rsRequestID ` set ps \<and> map_of sent' i = Some until"
  using assms
proof (induction events arbitrary: sent ps)
  case (Cons event events)
  show ?case
  proof (cases "sentRecently now sent event")
    case False
    then have new: "oeEventID event \<noteq> i" using Cons.prems(1,2) by (auto simp: sentRecently_def)
    then have "map_of (markSent event sent) i = Some until"
      using Cons.prems(1) by (simp add: markSent_def update_Some_unfold update_conv' split: option.split)
    moreover obtain qs where "newPackets now events (markSent event sent) = (qs, sent')" "ps = eventPacket event # qs"
      using Cons.prems(3) False by (auto split: prod.splits)
    ultimately show ?thesis using Cons.IH Cons.prems(2) new by (auto simp: eventPacket_def)
  qed (use Cons in auto)
qed simp

lemma pull_keeps_sent:
  assumes "map_of sent i = Some until" and "eClock env (nClock w) < until"
    and "pullOutboxPackets env h d sent w = (Ret (r, sent'), w')"
  shows "map_of sent' i = Some until" and "r = Inr qs \<Longrightarrow> i \<notin> rsRequestID ` set qs"
  using assms(3) newPackets_keeps [OF map_of_live [OF assms(1,2)] assms(2)] assms(1) map_of_live [OF assms(1,2)]
  unfolding pullOutboxPackets_def clockNow_def
  by (auto elim!: andThen_RetE onErr_RetE simp: Let_def split: option.splits if_splits prod.splits) blast

lemma sentAfter_keeps:
  assumes "map_of sent i = Some until" and "\<And>v. v \<in> set vs \<Longrightarrow> eClock env (nClock v) < until"
  shows "map_of (foldl (sentAfter env h d) sent vs) i = Some until"
  using assms
proof (induction vs arbitrary: sent)
  case (Cons v vs)
  obtain r v' where run: "pullOutboxPackets env h d sent v = (r, v')" by fastforce
  have "map_of (sentAfter env h d sent v) i = Some until"
    using pull_keeps_sent(1) [OF Cons.prems(1), of env v h d] Cons.prems(1,2) run
    by (auto simp: sentAfter_def split: outcome.split)
  then show ?case using Cons by simp
qed simp


section \<open>HTTP connections\<close>

lemma map_of_update_other: "d \<noteq> c \<Longrightarrow> map_of (AList.update c x xs) d = map_of xs d"
  by (simp add: update_conv')

lemma map_of_update_same: "map_of (AList.update c x xs) c = Some x"
  by (simp add: update_conv')

lemma sessionsGet_same: "map_of scopes1 c = map_of scopes2 c \<Longrightarrow> fst (sessionsGet c scopes1) = fst (sessionsGet c scopes2)"
  by (simp add: sessionsGet_def Let_def split: option.split)

lemma sessionsGet_other: "d \<noteq> c \<Longrightarrow> map_of (snd (sessionsGet c scopes)) d = map_of scopes d"
  by (simp add: sessionsGet_def Let_def map_of_update_other split: option.split)

text \<open>A request touches its own connection only, and sees no other.\<close>

lemma handleHTTP_other:
  assumes "handleHTTP cd env h request scopes w = (Ret (resp, scopes'), w')" and "hqConnectionID request = Some c" and "d \<noteq> c"
  shows "map_of scopes' d = map_of scopes d"
  using assms sessionsGet_other [OF assms(3), of scopes] unfolding handleHTTP_def
  by (auto elim!: andThen_RetE simp: Let_def map_of_update_other split: if_splits option.splits prod.splits)

lemma handleHTTP_own:
  assumes "handleHTTP cd env h request scopes w = (Ret (resp, scopes'), w')" and "hqConnectionID request = Some c"
    and "map_of scopes2 c = map_of scopes c"
  shows "\<exists>scopes2'. handleHTTP cd env h request scopes2 w = (Ret (resp, scopes2'), w') \<and> map_of scopes2' c = map_of scopes' c"
  using assms sessionsGet_same [OF assms(3)] unfolding handleHTTP_def
  by (auto elim!: andThen_RetE simp: Let_def map_of_update_same go_simps
      split: if_splits option.splits prod.splits outcome.splits)

text \<open>C27: HTTP connections are kept apart: a request changes the session of no other connection, and neither its answer,
  nor its effects, nor the session it leaves its own connection with depend on the sessions of other connections. When a
  connection is closed its session is forgotten, so a later request under the same id starts unauthenticated.\<close>

theorem http_connections_isolated:
  assumes "handleHTTP cd env h request scopes w = (Ret (resp, scopes'), w')" and "hqConnectionID request = Some c"
    and "d \<noteq> c" and "map_of scopes2 c = map_of scopes c" and "\<not> isBlank c"
  shows "map_of scopes' d = map_of scopes d
     \<and> (\<exists>scopes2'. handleHTTP cd env h request scopes2 w = (Ret (resp, scopes2'), w') \<and> map_of scopes2' c = map_of scopes' c)
     \<and> fst (sessionsGet c (OnHTTPConnectionClosed c scopes')) = \<lparr>coState = zeroState, coSent = []\<rparr>"
  using handleHTTP_other [OF assms(1-3)] handleHTTP_own [OF assms(1,2,4)] assms(5)
  by (simp add: OnHTTPConnectionClosed_def sessionsDelete_def sessionsGet_def delete_conv' Let_def)

section \<open>Writing\<close>

text \<open>The bytes the writer has taken when \<open>writeAll\<close> is done.\<close>

function taken :: "(nat \<Rightarrow> bytes \<Rightarrow> int \<times> err option) \<Rightarrow> nat \<Rightarrow> bytes \<Rightarrow> bytes" where
  "taken write k payload =
     (if payload = [] then []
      else case write k payload of (n, e) \<Rightarrow>
        take (nat n) payload @ (if e = None \<and> 0 < n then taken write (Suc k) (drop (nat n) payload) else []))"
  by pat_completeness auto
termination
  by (relation "measure (\<lambda>(write, k, payload). length payload)") auto

declare taken.simps [simp del]

text \<open>With a writer that keeps the contract of \<^verbatim>\<open>io.Writer\<close> (it takes a prefix of what it is given and says how long it
  is), \<open>writeAll\<close> ends without a panic and returns the number of bytes the writer has taken; they are a prefix of the
  payload, and without an error all of it.\<close>

lemma writeAll_taken:
  assumes "\<And>k b. 0 \<le> fst (wr k b) \<and> fst (wr k b) \<le> int (length b)"
  shows "\<exists>e. writeAll wr k payload written = Ret (written + int (length (taken wr k payload)), e)
     \<and> prefix (taken wr k payload) payload \<and> (e = None \<longrightarrow> taken wr k payload = payload)"
  using assms
proof (induction wr k payload written rule: writeAll.induct)
  case (1 wr k payload written)
  obtain n e where call: "wr k payload = (n, e)" by fastforce
  then have n: "0 \<le> n" "n \<le> int (length payload)" using 1(2) [of k payload] by auto
  show ?case
  proof (cases "payload = [] \<or> e \<noteq> None \<or> n = 0")
    case True
    then show ?thesis using call n by (auto simp: writeAll.simps taken.simps take_is_prefix)
  next
    case False
    let ?rest = "taken wr (Suc k) (drop (nat n) payload)"
    from False have step: "writeAll wr k payload written = writeAll wr (Suc k) (drop (nat n) payload) (written + n)"
      "taken wr k payload = take (nat n) payload @ ?rest"
      using call n by (auto simp: writeAll.simps [of wr k] taken.simps [of wr k])
    have "\<exists>e. writeAll wr (Suc k) (drop (nat n) payload) (written + n) = Ret (written + n + int (length ?rest), e)
      \<and> prefix ?rest (drop (nat n) payload) \<and> (e = None \<longrightarrow> ?rest = drop (nat n) payload)"
      by (rule 1(1) [OF _ call [symmetric]]) (use False n 1(2) in auto)
    moreover have "prefix (take (nat n) payload @ ?rest) payload = prefix ?rest (drop (nat n) payload)"
      by (metis append_take_drop_id same_prefix_prefix)
    ultimately show ?thesis using n by (auto simp: step)
  qed
qed

section \<open>Examples\<close>

text \<open>A packet of the sample codec, and a server with an event in flight to the device \<^verbatim>\<open>tablet\<close> of user 2.\<close>

definition samplePacket :: "nat \<Rightarrow> RequestPacket" where
  "samplePacket k = \<lparr>pkSignature = replicate 64 (of_nat k), pkPayload = replicate 64 (of_nat k)\<rparr>"

definition sampleTablet :: world where
  "sampleTablet = sampleWorld (emptyDb\<lparr>tOutbox := [\<lparr>obEventID = 55, obDeviceID = ''tablet'', obSegmentID = ''r'',
     obEventType = ''m'', obPayload = [1], obStatus = 1, obSendAfter = 0, obInflightUntil = Some minute, obAttempts = 1,
     obCreatedAt = 0, obExpiresAt = hour, obAckedAt = None, obLastSentAt = Some 0, obLastError = None\<rparr>]\<rparr>)"

lemmas challenge_runs = onRequestAuthChallenge_def DecodeParameters_def RequestAuthChallenge_def newSession_def CreateSession_def
  marshalAuthChallengePayload_def randomRead_def pullOutboxPackets_def inflightOf_def OutboxListInflight_def ListInflight_def
  samplePacket_def sampleTablet_def TouchProfile_def sampleOutbox_def

lemma samplePacket_signed:
  "\<exists>resp w'. handlePacket sampleCodec sampleEnv sampleHandler (samplePacket 1) (loggedIn 1) (sampleWorld emptyDb)
     = (Ret (resp, loggedIn 1, None), w')"
  by (simp add: samplePacket_def handler_runs friend_runs core_runs event_runs handleProfileMethods_def
     handleDeviceAndMLSMethods_def handleFriendMethods_def)

lemma samplePacket_payload:
  "cdPayload sampleCodec (pkPayload (samplePacket k)) = Inr \<lparr>rpRequestID = 77,
     rpRPCCall = sampleMethods ! unat (of_nat k :: byte), rpTimestamp = 0, rpVersion = 1, rpParameters = replicate 64 (of_nat k)\<rparr>"
  by (simp add: sampleCodec_def samplePacket_def)


definition shortKeyCodec :: codec where
  "shortKeyCodec = sampleCodec\<lparr>cdRequestAuth :=
     (\<lambda>_. Inr \<lparr>raUserPublicKey = [1, 2, 3], raPublicIP = [], raDeviceID = ''tablet'', raClientNonce = [9]\<rparr>)\<rparr>"

theorem wrong_size_key_panics_witness:
  "fst (streamMessage shortKeyCodec sampleEnv sampleHandler (\<lambda>_. None) (replicate 64 9) (sampleConnection zeroState)
     (sampleWorld emptyDb)) = Panic ''ed25519: bad public key length''"
proof -
  have "cdPayload shortKeyCodec (pkPayload (samplePacket 9)) = Inr \<lparr>rpRequestID = 77, rpRPCCall = ''requestAuthChallenge'',
      rpTimestamp = 0, rpVersion = 1, rpParameters = replicate 64 9\<rparr>"
    by (simp add: shortKeyCodec_def sampleCodec_def samplePacket_def sampleMethods_def)
  from wrong_size_key_panics [OF _ this, of "replicate 64 9" "[]"] show ?thesis
    by (simp add: shortKeyCodec_def sampleCodec_def samplePacket_def sampleConnection_def zeroState_def)
qed

lemma tablet_not_blank: "\<not> isBlank ''tablet''"
  by code_simp

lemma sampleTablet_rebound:
  "\<exists>answer st' sent' w'. handlePackets sampleCodec sampleEnv sampleHandler [samplePacket 9] (loggedIn 1) [] sampleTablet
     = (Ret ([answer, \<lparr>rsRequestID = 55, rsReplyToRequestID = None, rsEventType = ''m'', rsParameters = []\<rparr>], st', StatusOK, sent'), w')"
  by (simp add: challenge_runs handler_runs core_runs event_runs status_simps tablet_not_blank scanOutboxEvent_def
     inetText_def eventPacket_def markSent_def sentRecently_def)

theorem challenge_rebinds_connection_witness:
  "\<exists>responses st' sent' w'. handlePackets sampleCodec sampleEnv sampleHandler [samplePacket 9] (loggedIn 1) [] sampleTablet
       = (Ret (responses, st', StatusOK, sent'), w')
     \<and> csAuthenticated st' \<and> csUserPublicKey st' = sampleKey 2 \<and> map rsRequestID (tl responses) = [55]"
proof -
  obtain answer st' sent' w' where run:
    "handlePackets sampleCodec sampleEnv sampleHandler [samplePacket 9] (loggedIn 1) [] sampleTablet
     = (Ret ([answer, \<lparr>rsRequestID = 55, rsReplyToRequestID = None, rsEventType = ''m'', rsParameters = []\<rparr>], st', StatusOK, sent'), w')"
    using sampleTablet_rebound by blast
  have "cdRequestAuth sampleCodec (replicate 64 9) = Inr \<lparr>raUserPublicKey = sampleKey 2, raPublicIP = [],
      raDeviceID = ''tablet'', raClientNonce = [9]\<rparr>"
    by (simp add: sampleCodec_def)
  then have "csAuthenticated st' \<and> csUserPublicKey st' = sampleKey 2"
    using challenge_rebinds_connection [OF run _ samplePacket_payload]
    by (auto simp: sampleMethods_def loggedIn_def)
  then show ?thesis using run by auto
qed

theorem batch_answered_in_order_witness:
  "\<exists>responses st' sent' w'. handlePackets sampleCodec sampleEnv sampleHandler [samplePacket 9] (loggedIn 1) [] sampleTablet
       = (Ret (responses, st', StatusOK, sent'), w') \<and> rsReplyToRequestID (hd responses) = Some 77"
proof -
  obtain answer event st' sent' w' where run:
    "handlePackets sampleCodec sampleEnv sampleHandler [samplePacket 9] (loggedIn 1) [] sampleTablet
     = (Ret ([answer, event], st', StatusOK, sent'), w')"
    using sampleTablet_rebound by blast
  have "rsReplyToRequestID answer = Some 77"
    using batch_answered_in_order [OF run] by (auto simp: replyTo_def samplePacket_payload Cons_eq_append_conv)
  then show ?thesis using run by auto
qed

lemma sampleTablet_pull:
  "pullOutboxPackets sampleEnv sampleHandler ''tablet'' [] sampleTablet =
     (Ret (Inr [\<lparr>rsRequestID = 55, rsReplyToRequestID = None, rsEventType = ''m'', rsParameters = []\<rparr>], [(55, minute)]),
      sampleTablet\<lparr>nClock := 2, nStmt := 1\<rparr>)"
  by (simp add: challenge_runs core_runs scanOutboxEvent_def eventPacket_def markSent_def sentRecently_def)


definition samplePost :: httpRequest where
  "samplePost = \<lparr>hqMethod = ''POST'', hqBody = Some (replicate 64 1), hqConnectionID = Some ''a''\<rparr>"

lemma samplePost_refused:
  "\<exists>resp w'. handleHTTP sampleCodec sampleEnv sampleHandler samplePost [] (sampleWorld emptyDb) =
     (Ret (resp, [(''a'', \<lparr>coState = zeroState, coSent = []\<rparr>)]), w')"
  by (simp add: handleHTTP_def samplePost_def sessionsGet_def zeroState_def recordUsage_def handler_runs core_runs maxBody_def
      split: prod.split)

theorem http_connections_isolated_witness:
  "\<exists>resp scopes'. fst (handleHTTP sampleCodec sampleEnv sampleHandler samplePost
       [(''b'', \<lparr>coState = loggedIn 1, coSent = []\<rparr>)] (sampleWorld emptyDb)) = Ret (resp, scopes')
     \<and> map_of scopes' ''a'' = Some \<lparr>coState = zeroState, coSent = []\<rparr>"
proof -
  obtain resp w' where run: "handleHTTP sampleCodec sampleEnv sampleHandler samplePost [] (sampleWorld emptyDb) =
     (Ret (resp, [(''a'', \<lparr>coState = zeroState, coSent = []\<rparr>)]), w')"
    using samplePost_refused by blast
  have "\<not> isBlank ''a''" by code_simp
  then show ?thesis
    using http_connections_isolated [OF run, of "''a''" "''b''" "[(''b'', \<lparr>coState = loggedIn 1, coSent = []\<rparr>)]"]
    by (auto simp: samplePost_def)
qed

end
