(* ===== verification/RoomTables.thy ===== *)
theory RoomTables
  imports ClientSamples
begin

text \<open>
  The types of the tables of rooms, as an invariant of the server: primary and unique keys, sizes of public keys,
  ranges of enumerations and references between tables hold in every state the server reaches.
\<close>

section \<open>Keyed tables\<close>

definition tableOk :: "('r \<Rightarrow> 'k) \<Rightarrow> ('r \<Rightarrow> bool) \<Rightarrow> 'r list \<Rightarrow> bool" where
  "tableOk key ok rs \<longleftrightarrow> distinct (map key rs) \<and> list_all ok rs"

lemma tableOk_Nil [simp]: "tableOk key ok []"
  by (simp add: tableOk_def)

lemma tableOk_append:
  "tableOk key ok rs \<Longrightarrow> key r \<notin> key ` set rs \<Longrightarrow> ok r \<Longrightarrow> tableOk key ok (rs @ [r])"
  by (simp add: tableOk_def)

lemma tableOk_updWhere:
  "tableOk key ok rs \<Longrightarrow> (\<And>r. key (f r) = key r) \<Longrightarrow> (\<And>r. r \<in> set rs \<Longrightarrow> p r \<Longrightarrow> ok r \<Longrightarrow> ok (f r))
     \<Longrightarrow> tableOk key ok (updWhere p f rs)"
  by (auto simp: tableOk_def updWhere_def list_all_iff comp_def if_distrib cong: if_cong)

lemma tableOk_delWhere: "tableOk key ok rs \<Longrightarrow> tableOk key ok (delWhere p rs)"
  by (simp add: tableOk_def distinct_map_delWhere list_all_iff)

lemma tableOk_upsertBy:
  "tableOk key ok rs \<Longrightarrow> ok r \<Longrightarrow> (\<And>x. key (f x) = key x) \<Longrightarrow> (\<And>x. ok x \<Longrightarrow> ok (f x))
     \<Longrightarrow> tableOk key ok (upsertBy key f r rs)"
  unfolding upsertBy_def by (auto intro: tableOk_append tableOk_updWhere)

lemma distinct_upsertBy_other:
  assumes "distinct (map g rs)" and "key r \<in> key ` set rs \<or> g r \<notin> g ` set rs" and "\<And>x. g (f x) = g x"
  shows "distinct (map g (upsertBy key f r rs))"
  using assms by (auto simp: upsertBy_def map_updWhere)

lemma tableOk_mono: "tableOk key ok rs \<Longrightarrow> (\<And>r. ok r \<Longrightarrow> ok' r) \<Longrightarrow> tableOk key ok' rs"
  by (auto simp: tableOk_def list_all_iff)

lemmas tableOk_intros = tableOk_append tableOk_updWhere tableOk_delWhere tableOk_upsertBy

section \<open>The tables\<close>

definition roomOk :: "ChatRoomRow \<Rightarrow> bool" where
  "roomOk r \<longleftrightarrow> length (crOwnerPublicKey r) = 32 \<and> crVisibility r > 0 \<and> crTitle r \<noteq> []"

definition memberOk :: "uuid set \<Rightarrow> ChatMemberRecord \<Rightarrow> bool" where
  "memberOk rooms m \<longleftrightarrow> length (cmUserPublicKey m) = 32 \<and> cmRole m > 0 \<and> cmNotificationLevel m > 0 \<and> cmRoomID m \<in> rooms"

text \<open>The two users of a direct room are kept in order, so that a pair has one key.\<close>

definition directOk :: "uuid set \<Rightarrow> DirectRoomRecord \<Rightarrow> bool" where
  "directOk rooms r \<longleftrightarrow> length (drLeftUserPublicKey r) = 32 \<and> length (drRightUserPublicKey r) = 32
     \<and> drLeftUserPublicKey r < drRightUserPublicKey r \<and> drRoomID r \<in> rooms"

definition invitationOk :: "uuid set \<Rightarrow> ChatInvitationRecord \<Rightarrow> bool" where
  "invitationOk rooms i \<longleftrightarrow> length (ivInviterPublicKey i) = 32 \<and> length (ivInviteePublicKey i) = 32
     \<and> ivState i > 0 \<and> ivRoomID i \<in> rooms"

definition permissionOk :: "uuid set \<Rightarrow> ChatMemberPermissionRecord \<Rightarrow> bool" where
  "permissionOk rooms p \<longleftrightarrow> length (pmUserPublicKey p) = 32 \<and> pmRoomID p \<in> rooms"

definition stateOk :: "uuid set \<Rightarrow> ChatRoomStateRecord \<Rightarrow> bool" where
  "stateOk rooms s \<longleftrightarrow> stTreeBytes s \<noteq> None \<and> stTreeHash s \<noteq> None \<and> stRoomID s \<in> rooms"

definition infoOk :: "uuid set \<Rightarrow> ChatRoomGroupInfoRecord \<Rightarrow> bool" where
  "infoOk rooms g \<longleftrightarrow> length (giUploaderPublicKey g) = 32 \<and> giGroupInfoBytes g \<noteq> [] \<and> giRoomID g \<in> rooms"

definition welcomeOk :: "uuid set \<Rightarrow> ChatRoomWelcomeRecord \<Rightarrow> bool" where
  "welcomeOk rooms r \<longleftrightarrow> length (wlTargetUserPublicKey r) = 32 \<and> length (wlSenderPublicKey r) = 32
     \<and> wlWelcomeBytes r \<noteq> [] \<and> wlRoomID r \<in> rooms"

definition roomIDs :: "database \<Rightarrow> uuid set" where
  "roomIDs d = crRoomID ` set (tChatRooms d)"

definition roomTablesOk :: "database \<Rightarrow> bool" where
  "roomTablesOk d \<longleftrightarrow>
     tableOk crRoomID roomOk (tChatRooms d)
     \<and> tableOk memKey (memberOk (roomIDs d)) (tChatMembers d)
     \<and> tableOk drRoomID (directOk (roomIDs d)) (tDirectRooms d) \<and> distinct (map drKey (tDirectRooms d))
     \<and> tableOk ivInvitationID (invitationOk (roomIDs d)) (tInvitations d)
     \<and> tableOk pmKey (permissionOk (roomIDs d)) (tPermissions d) \<and> distinct (map pmPermissionID (tPermissions d))
     \<and> tableOk stKey (stateOk (roomIDs d)) (tChatRoomStates d) \<and> distinct (map stID (tChatRoomStates d))
     \<and> tableOk giRoomID (infoOk (roomIDs d)) (tGroupInfos d)
     \<and> tableOk wlKey (welcomeOk (roomIDs d)) (tWelcomes d)"

lemmas row_oks = roomOk_def memberOk_def directOk_def invitationOk_def permissionOk_def stateOk_def infoOk_def welcomeOk_def

lemma roomTables_frame:
  assumes "roomTablesOk d"
  shows "roomTablesOk (d\<lparr>tProfiles := a\<rparr>)" "roomTablesOk (d\<lparr>tDevices := b\<rparr>)" "roomTablesOk (d\<lparr>tKeyPackages := c\<rparr>)"
    "roomTablesOk (d\<lparr>tFriends := e\<rparr>)" "roomTablesOk (d\<lparr>tFriendRequests := f\<rparr>)"
  using assms by (simp_all add: roomTablesOk_def roomIDs_def)

lemma roomIDs_simps [simp]:
  "roomIDs (d\<lparr>tChatMembers := a\<rparr>) = roomIDs d" "roomIDs (d\<lparr>tDirectRooms := b\<rparr>) = roomIDs d"
  "roomIDs (d\<lparr>tInvitations := c\<rparr>) = roomIDs d" "roomIDs (d\<lparr>tPermissions := e\<rparr>) = roomIDs d"
  "roomIDs (d\<lparr>tChatRoomStates := f\<rparr>) = roomIDs d" "roomIDs (d\<lparr>tGroupInfos := g\<rparr>) = roomIDs d"
  "roomIDs (d\<lparr>tWelcomes := h\<rparr>) = roomIDs d" "roomIDs (d\<lparr>tProfiles := i\<rparr>) = roomIDs d"
  "roomIDs (d\<lparr>tDevices := j\<rparr>) = roomIDs d" "roomIDs (d\<lparr>tKeyPackages := k\<rparr>) = roomIDs d"
  "roomIDs (d\<lparr>tFriends := l\<rparr>) = roomIDs d" "roomIDs (d\<lparr>tFriendRequests := m\<rparr>) = roomIDs d"
  by (simp_all add: roomIDs_def)

lemma roomExists_iff: "roomExists i d \<longleftrightarrow> i \<in> roomIDs d"
  by (simp add: roomExists_def roomIDs_def)

text \<open>One table at a time.\<close>

lemma roomTables_members:
  "roomTablesOk d \<Longrightarrow> tableOk memKey (memberOk (roomIDs d)) t \<Longrightarrow> roomTablesOk (d\<lparr>tChatMembers := t\<rparr>)"
  by (simp add: roomTablesOk_def)

lemma roomTables_invitations:
  "roomTablesOk d \<Longrightarrow> tableOk ivInvitationID (invitationOk (roomIDs d)) t \<Longrightarrow> roomTablesOk (d\<lparr>tInvitations := t\<rparr>)"
  by (simp add: roomTablesOk_def)

lemma roomTables_permissions:
  "roomTablesOk d \<Longrightarrow> tableOk pmKey (permissionOk (roomIDs d)) t \<Longrightarrow> distinct (map pmPermissionID t)
     \<Longrightarrow> roomTablesOk (d\<lparr>tPermissions := t\<rparr>)"
  by (simp add: roomTablesOk_def)

text \<open>Rooms are only added, and their rows keep their ids.\<close>

lemma roomTables_rooms:
  assumes "roomTablesOk d" and "tableOk crRoomID roomOk t" and "roomIDs d \<subseteq> crRoomID ` set t"
  shows "roomTablesOk (d\<lparr>tChatRooms := t\<rparr>)"
proof -
  have "roomIDs d \<subseteq> roomIDs (d\<lparr>tChatRooms := t\<rparr>)" using assms(3) by (simp add: roomIDs_def)
  then show ?thesis
    using assms(1,2) unfolding roomTablesOk_def row_oks
    by (auto elim!: tableOk_mono)
qed

lemma roomTables_roomRow:
  assumes "roomTablesOk d" and "\<And>r. crRoomID (f r) = crRoomID r" and "\<And>r. roomOk r \<Longrightarrow> roomOk (f r)"
  shows "roomTablesOk (d\<lparr>tChatRooms := updWhere p f (tChatRooms d)\<rparr>)"
proof -
  have "crRoomID ` set (updWhere p f (tChatRooms d)) = roomIDs d"
    using assms(2) map_updWhere [of p crRoomID f "tChatRooms d"] by (metis list.set_map roomIDs_def)
  then show ?thesis
    using assms by (intro roomTables_rooms tableOk_updWhere) (auto simp: roomTablesOk_def)
qed

section \<open>The writers\<close>

lemma rooms_members:
  shows "keeps (dbInv roomTablesOk) (insertMember env m)" "keeps (dbInv roomTablesOk) (upsertMember env m)"
    "keeps (dbInv roomTablesOk) (LeaveRoom env i u t)" "keeps (dbInv roomTablesOk) (KickMember env a i u t)"
    "keeps (dbInv roomTablesOk) (UpdateMemberRole env a i u role)"
  unfolding insertMember_def upsertMember_def LeaveRoom_def KickMember_def UpdateMemberRole_def markLeft_def
  by (intro keeps_intros; auto intro!: roomTables_members tableOk_intros
      simp: checkAll_Inr memberChecks_def roomExists_iff roomTablesOk_def memberOk_def memKey_def
        memberOf_def find_None_iff)+

lemma roomTables_roomAdded:
  assumes "roomTablesOk d" and "crRoomID r \<notin> roomIDs d" and "roomOk r"
  shows "roomTablesOk (d\<lparr>tChatRooms := tChatRooms d @ [r]\<rparr>)"
  using assms by (intro roomTables_rooms tableOk_append) (auto simp: roomIDs_def, simp add: roomTablesOk_def)

lemma rooms_rows:
  shows "keeps (dbInv roomTablesOk) (insertRoom env r)" "keeps (dbInv roomTablesOk) (UpdateRoom env u i ti de ah t)"
    "keeps (dbInv roomTablesOk) (DeleteRoom env u i t)"
  unfolding insertRoom_def UpdateRoom_def DeleteRoom_def
  by (intro keeps_intros; auto intro!: roomTables_roomAdded roomTables_roomRow
      simp: checkAll_Inr roomExists_iff roomOk_def roomRow_def updateRoomRow_def)+

lemma rooms_direct:
  assumes "drLeftUserPublicKey x < drRightUserPublicKey x"
  shows "keeps (dbInv roomTablesOk) (insertDirect env x)"
  unfolding insertDirect_def using assms
  by (intro keeps_intros) (auto intro!: tableOk_intros simp: checkAll_Inr roomExists_iff roomTablesOk_def directOk_def)

lemma rooms_invitations:
  shows "keeps (dbInv roomTablesOk) (CreateInvitation env iv)"
    "keeps (dbInv roomTablesOk) (UpdateInvitationState env i u s t ss)"
  unfolding CreateInvitation_def UpdateInvitationState_def setInvitationState_def Let_def
  by (intro keeps_intros; auto intro!: roomTables_invitations tableOk_intros
      simp: checkAll_Inr checkThen_Inr roomExists_iff roomTablesOk_def invitationOk_def)+

lemma rooms_permissions:
  shows "keeps (dbInv roomTablesOk) (CreateMemberPermission env u pm)"
    "keeps (dbInv roomTablesOk) (UpdateMemberPermission env u i a t)" "keeps (dbInv roomTablesOk) (DeleteMemberPermission env u i)"
  unfolding CreateMemberPermission_def UpdateMemberPermission_def DeleteMemberPermission_def
  by (intro keeps_intros; auto intro!: roomTables_permissions tableOk_intros distinct_upsertBy_other
      simp: checkAll_Inr roomExists_iff roomTablesOk_def permissionOk_def pmKey_def distinct_map_delWhere map_updWhere)+

lemma rooms_states: "keeps (dbInv roomTablesOk) (insertState env st)"
  unfolding insertState_def
  by (intro keeps_intros) (auto intro!: tableOk_intros simp: checkAll_Inr roomExists_iff roomTablesOk_def stateOk_def)

lemma rooms_state_added: "keeps (dbInv roomTablesOk) (AddRoomState env u st)"
  unfolding AddRoomState_def by (intro keeps_intros rooms_states roomTables_roomRow) (simp_all add: roomOk_def)

lemma rooms_data:
  shows "keeps (dbInv roomTablesOk) (UpsertRoomGroupInfo env u gi)" "keeps (dbInv roomTablesOk) (UpsertRoomWelcome env wl)"
  unfolding UpsertRoomGroupInfo_def UpsertRoomWelcome_def
  by (intro keeps_intros; auto intro!: tableOk_intros
      simp: checkAll_Inr roomExists_iff roomTablesOk_def infoOk_def welcomeOk_def wlKey_def)+

lemma orderedPublicKeyPair_less:
  "u \<noteq> v \<Longrightarrow> fst (orderedPublicKeyPair u v) < snd (orderedPublicKeyPair u v)"
  by (auto simp: orderedPublicKeyPair_def bytesCompare_def)

lemma rooms_created: "keeps (dbInv roomTablesOk) (CreateChatRoom env u ti de vis)"
  unfolding CreateChatRoom_def CreateRoom_def by (intro keeps_intros rooms_rows rooms_members)

lemma rooms_direct_created: "keeps (dbInv roomTablesOk) (CreateDirectRoom env u v)"
proof (cases "u = v")
  case True
  then show ?thesis by (simp add: CreateDirectRoom_def guardErr_def keeps_intros)
next
  case False
  then have "drLeftUserPublicKey (directRecord i u v t) < drRightUserPublicKey (directRecord i u v t)" for i t
    using orderedPublicKeyPair_less [of u v]
    by (cases "orderedPublicKeyPair u v") (simp add: directRecord_def)
  then show ?thesis
    by (intro keeps_CreateDirectRoom_tx, unfold directRoomTx_def storeCreateDirectRoom_def CreateRoom_def)
      (intro keeps_intros rooms_rows rooms_members rooms_direct)
qed

lemma rooms_joined:
  shows "keeps (dbInv roomTablesOk) (JoinRoom env m)" "keeps (dbInv roomTablesOk) (UpsertRoomMembership env m)"
  unfolding JoinRoom_def UpsertRoomMembership_def by (intro keeps_intros rooms_members)+

lemma rooms_eventFree: "eventFree roomTablesOk"
  by (simp add: eventFree_def roomTablesOk_def roomIDs_def)

lemma rooms_calls:
  shows "keeps (dbInv roomTablesOk) (SendExternalCommit env cfg u i cb)"
    "keeps (dbInv roomTablesOk) (AcceptChatInvitation env cfg u i cb)"
  unfolding SendExternalCommit_def AcceptChatInvitation_def acceptInvitationTx_def
  by (intro keeps_intros rooms_joined rooms_invitations rooms_eventFree; simp add: invitation_states)+

lemma rooms_deleted: "keeps (dbInv roomTablesOk) (DeleteAccount env u)"
  unfolding DeleteAccount_def storeDeleteAccount_def
  by (intro keeps_intros) (auto simp: accountDeletions_def intro!: keeps_intros roomTables_frame roomTables_members
      roomTables_invitations roomTables_permissions tableOk_intros
      simp: roomTablesOk_def memberOk_def memKey_def distinct_map_delWhere)

interpretation rooms: client_invariant env roomTablesOk for env
  by unfold_locales
    (auto intro!: rooms_members rooms_rows rooms_invitations rooms_permissions rooms_data rooms_state_added rooms_created
      rooms_direct_created rooms_joined rooms_calls rooms_deleted rooms_eventFree frame_intros roomTables_frame
      simp: roomTablesOk_def roomIDs_def)

lemma roomTablesOk_empty: "roomTablesOk emptyDb"
  by (simp add: roomTablesOk_def emptyDb_def)

lemma rooms_pair_unique:
  assumes "roomTablesOk d" and "r \<in> set (tDirectRooms d)" and "s \<in> set (tDirectRooms d)"
    and "{drLeftUserPublicKey r, drRightUserPublicKey r} = {drLeftUserPublicKey s, drRightUserPublicKey s}"
  shows "r = s"
proof -
  have "drLeftUserPublicKey r < drRightUserPublicKey r" "drLeftUserPublicKey s < drRightUserPublicKey s"
    using assms(1-3) by (auto simp: roomTablesOk_def tableOk_def directOk_def list_all_iff)
  then have "drKey r = drKey s" using assms(4) by (auto simp: drKey_def doubleton_eq_iff)
  moreover have "inj_on drKey (set (tDirectRooms d))"
    using assms(1) by (simp add: roomTablesOk_def distinct_map)
  ultimately show ?thesis using assms(2,3) by (auto dest: inj_onD)
qed

text \<open>C30: In every state the server reaches, whatever its clients send and whichever statements fail, the tables of rooms are
  well typed: room ids, memberships, invitations, permissions, states, group infos and welcomes have unique keys, public
  keys have 32 bytes, titles, roles, visibilities and invitation states are in range, and every row belongs to a room of the
  table. In particular two users have at most one direct room, in whichever order they are named.\<close>

theorem room_tables_typed:
  assumes "reachable freshServer (serverStep cd env acfg ccfg ocfg) w"
  shows "roomTablesOk (db w)
     \<and> (r \<in> set (tDirectRooms (db w)) \<and> s \<in> set (tDirectRooms (db w))
          \<and> {drLeftUserPublicKey r, drRightUserPublicKey r} = {drLeftUserPublicKey s, drRightUserPublicKey s}
        \<longrightarrow> r = s)"
  using rooms.reachable_keeps [OF roomTablesOk_empty assms] rooms_pair_unique by blast

text \<open>Users 1 and 2 are friends and user 1 has opened a direct room with user 2.\<close>

definition sampleDirect :: world where
  "sampleDirect = sampleCall 1 3 sampleFriends"

lemma sampleDirect_reachable: "reachable freshServer sampleStep sampleDirect"
  unfolding sampleDirect_def by (intro sampleCall_step sampleFriends_reachable)

lemmas direct_runs = CreateDirectRoom_def AreFriends_def areFriends_def FindDirectRoomIDByUsers_def directRoomOf_def
  directRoomTx_def storeCreateDirectRoom_def CreateRoom_def insertRoom_def insertMember_def insertDirect_def directRoom_def
  directRecord_def plainMember_def memberChecks_def roomExists_def orderedPublicKeyPair_def liveRoom_def roomRow_def
  role_defs visibility_defs memKey_def

lemma sampleKeys_ordered: "sampleKey 1 < sampleKey 2" "sampleKey (Suc 0) < sampleKey 2"
  by (simp_all add: sampleKey_def numeral_eq_Suc)

lemma sampleDirect_room: "map drKey (tDirectRooms (db sampleDirect)) = [(sampleKey 1, sampleKey 2)]"
  by (simp add: sampleDirect_def sampleFriends_def handler_runs handleFriendMethods_def handleRoomMethods_def friend_runs
      core_runs event_runs direct_runs bytesCompare_def sampleKeys_ordered drKey_def)

theorem room_tables_typed_witness:
  "roomTablesOk (db sampleDirect) \<and> map drKey (tDirectRooms (db sampleDirect)) = [(sampleKey 1, sampleKey 2)]"
  using room_tables_typed [OF sampleDirect_reachable] sampleDirect_room by blast

end
