(* ===== verification/RoomProps.thy ===== *)
theory RoomProps
  imports RoomTables
begin

text \<open>
  Properties of chat rooms: how users become members of private rooms, who may administer a room, direct rooms and messages.
\<close>

section \<open>Membership of private rooms\<close>

text \<open>The room is there, it is private, and the user is not an active member.\<close>

definition outsider :: "uuid \<Rightarrow> bytes \<Rightarrow> database \<Rightarrow> bool" where
  "outsider i x d \<longleftrightarrow>
     list_ex (\<lambda>r. crRoomID r = i) (tChatRooms d)
     \<and> list_all (\<lambda>r. crRoomID r = i \<longrightarrow> crVisibility r = VisibilityPrivate) (tChatRooms d)
     \<and> list_all (\<lambda>m. \<not> activeMember i x m) (tChatMembers d)"

lemma list_all_updWhere: "list_all q rs \<Longrightarrow> (\<And>r. p r \<Longrightarrow> q r \<Longrightarrow> q (f r)) \<Longrightarrow> list_all q (updWhere p f rs)"
  by (auto simp: list_all_iff updWhere_def)

lemma list_ex_updWhere: "list_ex q rs \<Longrightarrow> (\<And>r. q r \<Longrightarrow> q (f r)) \<Longrightarrow> list_ex q (updWhere p f rs)"
  by (auto simp: list_ex_iff updWhere_def)

lemma list_all_upsertBy:
  "list_all q rs \<Longrightarrow> (\<And>x. key x = key r \<Longrightarrow> q x \<Longrightarrow> q (f x)) \<Longrightarrow> q r \<Longrightarrow> list_all q (upsertBy key f r rs)"
  by (auto simp: upsertBy_def intro: list_all_updWhere)

lemma outsider_members:
  "outsider i x d \<Longrightarrow> list_all (\<lambda>m. \<not> activeMember i x m) t \<Longrightarrow> outsider i x (d\<lparr>tChatMembers := t\<rparr>)"
  by (simp add: outsider_def)

lemma outsider_roomRow:
  assumes "outsider i x d" and "\<And>r. crRoomID (f r) = crRoomID r" and "\<And>r. crVisibility (f r) = crVisibility r"
  shows "outsider i x (d\<lparr>tChatRooms := updWhere p f (tChatRooms d)\<rparr>)"
  using assms by (auto simp: outsider_def intro!: list_all_updWhere list_ex_updWhere)

lemma outsider_leavers:
  shows "keeps (dbInv (outsider i x)) (LeaveRoom env j u t)" "keeps (dbInv (outsider i x)) (KickMember env a j u t)"
    "keeps (dbInv (outsider i x)) (UpdateMemberRole env a j u role)"
  unfolding LeaveRoom_def KickMember_def UpdateMemberRole_def markLeft_def
  by (intro keeps_intros; auto intro!: outsider_members list_all_updWhere simp: checkAll_Inr outsider_def activeMember_def)+

lemma outsider_rooms:
  shows "keeps (dbInv (outsider i x)) (UpdateRoom env u j ti de ah t)" "keeps (dbInv (outsider i x)) (DeleteRoom env u j t)"
  unfolding UpdateRoom_def DeleteRoom_def
  by (intro keeps_intros; auto intro!: outsider_roomRow simp: updateRoomRow_def)+

lemma outsider_state: "keeps (dbInv (outsider i x)) (AddRoomState env u st)"
  unfolding AddRoomState_def insertState_def
  by (intro keeps_intros outsider_roomRow) (auto simp: checkAll_Inr outsider_def)

text \<open>A membership of another room, or of another user.\<close>

lemma outsider_upsert:
  assumes "(cmRoomID m, cmUserPublicKey m) \<noteq> (i, x)"
  shows "keeps (dbInv (outsider i x)) (upsertMember env m)" "keeps (dbInv (outsider i x)) (insertMember env m)"
  unfolding upsertMember_def insertMember_def using assms
  by (intro keeps_intros; auto intro!: outsider_members list_all_upsertBy simp: checkAll_Inr outsider_def activeMember_def memKey_def)+

text \<open>Rooms are created under a new id, with members of their own.\<close>

lemma insertRoom_outsider:
  assumes "insertRoom env r w = (Ret y, w')" and "outsider i x (db w)"
  shows "rmRoomID r \<noteq> i" and "outsider i x (db w')"
  using assms unfolding insertRoom_def
  by (auto elim!: sqlChecked_RetE simp: outsider_def roomExists_def list_ex_iff list_all_iff roomRow_def)

lemma CreateRoom_outsider:
  assumes "CreateRoom env r m w = (Ret y, w')" and "outsider i x (db w)" and "cmRoomID m = rmRoomID r"
  shows "rmRoomID r \<noteq> i \<and> outsider i x (db w')"
proof -
  obtain v where "insertRoom env r w = (Ret (), v)" and m: "insertMember env m v = (Ret y, w')"
    using assms(1) unfolding CreateRoom_def by (auto elim: andThen_RetE)
  then have "rmRoomID r \<noteq> i" and v: "outsider i x (db v)" using insertRoom_outsider assms(2) by blast+
  then show ?thesis
    using keeps_Ret [OF outsider_upsert(2) m v] assms(3) by auto
qed

lemma insertDirect_outsider: "keeps (dbInv (outsider i x)) (insertDirect env y)"
  unfolding insertDirect_def by (intro keeps_intros) (auto simp: checkAll_Inr outsider_def)

lemma outsider_created: "keeps (dbInv (outsider i x)) (CreateChatRoom env u ti de vis)"
  unfolding CreateChatRoom_def
proof (intro keeps_andThen keeps_clockNow keeps_uuidNew keeps_ret keeps_tx)
  fix t r w y w'
  assume "CreateRoom env \<lparr>rmRoomID = r, rmOwnerPublicKey = u, rmTitle = ti, rmDescription = de, rmVisibility = vis,
        rmAvatarHash = [], rmAvatarBytes = [], rmAvatarContentType = [], rmStateID = None, rmCreatedAt = t,
        rmUpdatedAt = t, rmDeletedAt = None\<rparr> ((plainMember r u t)\<lparr>cmRole := RoleOwner\<rparr>) w = (Ret y, w')"
    and "outsider i x (db w)"
  then show "outsider i x (db w')" using CreateRoom_outsider by (simp add: plainMember_def)
qed

lemma outsider_direct: "keeps (dbInv (outsider i x)) (CreateDirectRoom env u v)"
proof (intro keeps_CreateDirectRoom_tx keeps_tx)
  fix r t w y w'
  assume run: "directRoomTx env u v r t w = (Ret y, w')" and out: "outsider i x (db w)"
  let ?w = "w\<lparr>nStmt := Suc (nStmt w)\<rparr>"
  from run obtain w2 w3 where "CreateRoom env (directRoom r u t) ((plainMember r u t)\<lparr>cmRole := RoleOwner\<rparr>) ?w = (Ret (), w2)"
    and direct: "insertDirect env (directRecord r u v t) w2 = (Ret (), w3)"
    and member: "insertMember env (plainMember r v t) w3 = (Ret y, w')"
    unfolding directRoomTx_def storeCreateDirectRoom_def FindDirectRoomIDByUsers_def
    by (auto elim!: andThen_RetE sqlQuery_RetE split: option.splits)
  then have "r \<noteq> i \<and> outsider i x (db w2)"
    using CreateRoom_outsider [of env "directRoom r u t" _ ?w "()" w2 i x] out by (simp add: plainMember_def directRoom_def)
  then show "outsider i x (db w')"
    using keeps_Ret [OF insertDirect_outsider direct] keeps_Ret [OF outsider_upsert(2) member]
    by (simp add: plainMember_def)
qed

text \<open>Nobody joins a private room of their own accord.\<close>

lemma outsider_getRoom:
  assumes "GetRoom env j w = (Ret room, w')" and "outsider i x (db w)" and "rmVisibility room \<noteq> VisibilityPrivate"
  shows "j \<noteq> i"
  using assms unfolding GetRoom_def
  by (auto elim!: queryOne_RetE simp: liveRoom_def find_Some_iff outsider_def list_all_iff roomRecord_def)

lemma keeps_andThen_Ret:
  assumes "keeps I m" and "\<And>x w v. I w \<Longrightarrow> m w = (Ret x, v) \<Longrightarrow> keeps I (k x)"
  shows "keeps I (andThen m k)"
proof (rule keepsI)
  fix w assume I: "I w"
  then have "I (snd (m w))" using assms(1) by (rule keepsD [rotated])
  then show "I (snd (andThen m k w))"
    using assms(2) [OF I] by (cases "m w"; cases "fst (m w)") (auto simp: andThen_def dest: keepsD)
qed

lemma outsider_visible:
  assumes "GetRoom env j w = (Ret room, w')" and "dbInv (outsider i x) w" and "\<not> c \<Longrightarrow> rmVisibility room \<noteq> VisibilityPrivate"
    and "j \<noteq> i \<Longrightarrow> keeps (dbInv (outsider i x)) m"
  shows "keeps (dbInv (outsider i x)) (guardErr c e m)"
  using outsider_getRoom [OF assms(1)] assms(2-4) by (cases c) (auto simp: guardErr_def dbInv_def keeps_intros)

lemma outsider_joined: "keeps (dbInv (outsider i x)) (JoinRoom env (plainMember j u t))"
  unfolding JoinRoom_def
proof (rule keeps_andThen_Ret)
  fix room w v
  assume inv: "dbInv (outsider i x) w" and room: "GetRoom env (cmRoomID (plainMember j u t)) w = (Ret room, v)"
  show "keeps (dbInv (outsider i x)) (guardErr (rmVisibility room = VisibilityPrivate) ErrForbidden
      (upsertMember env (plainMember j u t)))"
    by (rule outsider_visible [OF room inv]) (auto simp: plainMember_def intro!: outsider_upsert)
qed (intro keeps_intros)

lemma outsider_eventFree: "eventFree (outsider i x)"
  by (simp add: eventFree_def outsider_def)

lemma outsider_commit: "keeps (dbInv (outsider i x)) (SendExternalCommit env cfg u j cb)"
  unfolding SendExternalCommit_def
proof (rule keeps_andThen [OF keeps_clockNow], rule keeps_andThen_Ret)
  fix now room w v
  assume inv: "dbInv (outsider i x) w" and room: "GetRoom env j w = (Ret room, v)"
  have upsert: "j \<noteq> i \<Longrightarrow> keeps (dbInv (outsider i x)) (upsertMember env (plainMember j u now))"
    by (intro outsider_upsert) (simp add: plainMember_def)
  show "keeps (dbInv (outsider i x)) (guardErr (rmVisibility room \<noteq> VisibilityPublic) ErrForbidden
     (andThen (GetRoomGroupInfo env j) (\<lambda>_.
     andThen (ListActiveRoomMemberPublicKeys env j) (\<lambda>existingMembers.
     andThen (WithinTransaction env NoTx (\<lambda>txCtx. UpsertRoomMembership env (plainMember j u now))) (\<lambda>_.
     andThen (announceCommit env cfg u j cb existingMembers) (\<lambda>_.
     ret [(''acceptedAt'', stamp env now)]))))))"
    unfolding UpsertRoomMembership_def
    by (rule outsider_visible [OF room inv], simp add: visibility_defs)
      (intro keeps_intros upsert outsider_eventFree)
qed (intro keeps_intros)

text \<open>An invitation the user accepts: it was pending, and the user is one of the two it names.\<close>

definition invited :: "uuid \<Rightarrow> bytes \<Rightarrow> database \<Rightarrow> bool" where
  "invited i x d \<longleftrightarrow> list_ex (\<lambda>iv. ivRoomID iv = i \<and> x \<in> {ivInviterPublicKey iv, ivInviteePublicKey iv}
     \<and> ivState iv = InvitationPending) (tInvitations d)"

lemma UpdateInvitationState_RetE:
  assumes "UpdateInvitationState env j u s t ss w = (Ret iv, w')"
  obtains iv0 where "invitationOf j (db w) = Some iv0" and "u \<in> {ivInviterPublicKey iv0, ivInviteePublicKey iv0}"
    and "ivState iv0 \<in> set ss" and "iv = iv0\<lparr>ivState := s, ivUpdatedAt := t\<rparr>"
    and "db w' = setInvitationState j s t (db w)"
proof -
  let ?u = "w\<lparr>nStmt := Suc (nStmt w)\<rparr>"
  obtain iv0 where iv: "invitationOf j (db w) = Some iv0" "u \<in> {ivInviterPublicKey iv0, ivInviteePublicKey iv0}" "ivState iv0 \<in> set ss"
    and upd: "andThen (sql env (\<lambda>d. checkThen [(0 < s, CheckViolation)]
       (\<lambda>d. let d' = setInvitationState j s t d in (invitationOf j d', d')) d))
       (\<lambda>row. case row of None \<Rightarrow> fail ErrNoRows | Some out \<Rightarrow> ret out) ?u = (Ret iv, w')"
    using assms unfolding UpdateInvitationState_def GetInvitation_def containsState_def
    by (elim andThen_RetE [of "queryOne env ErrNotFound (invitationOf j)"] queryOne_RetE guardErr_RetE) blast
  from upd show ?thesis
    by (rule updateReturning_RetE)
      (use that [OF iv] iv(1) in \<open>simp add: invitationOf_def setInvitationState_def find_updWhere_same\<close>)
qed

definition stranger :: "uuid \<Rightarrow> bytes \<Rightarrow> bytes \<Rightarrow> database \<Rightarrow> bool" where
  "stranger i x u d \<longleftrightarrow> outsider i x d \<and> (x = u \<longrightarrow> \<not> invited i x d)"

lemma stranger_eventFree: "eventFree (stranger i x u)"
  by (simp add: eventFree_def stranger_def outsider_def invited_def)

lemma stranger_upsert:
  assumes "(j, u) \<noteq> (i, x)"
  shows "keeps (dbInv (stranger i x u)) (upsertMember env (plainMember j u t))"
proof -
  have "keeps (dbInv (\<lambda>d. \<not> invited i x d)) (upsertMember env (plainMember j u t))"
    unfolding upsertMember_def by (intro keeps_intros) (auto simp: checkAll_Inr invited_def)
  moreover have "keeps (dbInv (outsider i x)) (upsertMember env (plainMember j u t))"
    using assms by (intro outsider_upsert) (simp add: plainMember_def)
  ultimately show ?thesis by (auto simp: keeps_def dbInv_def stranger_def)
qed

lemma invited_setInvitationState:
  "s \<noteq> InvitationPending \<Longrightarrow> invited i x (setInvitationState j s t d) \<Longrightarrow> invited i x d"
  by (auto simp: invited_def setInvitationState_def updWhere_def list_ex_iff split: if_splits)

lemma stranger_accepted: "keeps (dbInv (stranger i x u)) (AcceptChatInvitation env cfg u j cb)"
  unfolding AcceptChatInvitation_def GetInvitation_def ListActiveRoomMemberPublicKeys_def
proof (intro keeps_andThen keeps_if keeps_clockNow keeps_ret keeps_queryOne keeps_sqlQuery keeps_announceCommit stranger_eventFree keeps_tx)
  fix t w y w'
  assume "acceptInvitationTx env cfg u j t w = (Ret y, w')" and inv: "stranger i x u (db w)"
  then obtain iv v1 v2 where upd: "UpdateInvitationState env j u InvitationAccepted t [InvitationPending] w = (Ret iv, v1)"
    and join: "UpsertRoomMembership env (plainMember (ivRoomID iv) u t) v1 = (Ret (), v2)"
    and event: "\<exists>r p. appendEvent env cfg (ivInviterPublicKey iv) ''room.invitationAccepted'' p v2 = (r, w')"
    unfolding acceptInvitationTx_def by (elim andThen_RetE) auto
  from upd obtain iv0 where iv0: "invitationOf j (db w) = Some iv0" "u \<in> {ivInviterPublicKey iv0, ivInviteePublicKey iv0}"
    "ivState iv0 = InvitationPending" "ivRoomID iv = ivRoomID iv0"
    and v1: "db v1 = setInvitationState j InvitationAccepted t (db w)"
    by (rule UpdateInvitationState_RetE) auto
  then have "iv0 \<in> set (tInvitations (db w))" by (auto simp: invitationOf_def find_Some_iff)
  then have other: "(ivRoomID iv, u) \<noteq> (i, x)"
    using inv iv0 by (auto simp: stranger_def invited_def list_ex_iff)
  have "stranger i x u (db v1)"
    using inv invited_setInvitationState [of InvitationAccepted i x j t "db w"]
    by (auto simp: stranger_def v1 invitation_states) (simp_all add: outsider_def setInvitationState_def)
  moreover have "keeps (dbInv (stranger i x u)) (UpsertRoomMembership env (plainMember (ivRoomID iv) u t))"
    unfolding UpsertRoomMembership_def by (intro keeps_intros stranger_upsert other)
  ultimately have "stranger i x u (db v2)" using keeps_Ret join by blast
  then show "stranger i x u (db w')" using event appendEvent_frame [OF _ stranger_eventFree] by blast
qed

lemma outsider_deleted: "keeps (dbInv (outsider i x)) (DeleteAccount env u)"
  unfolding DeleteAccount_def storeDeleteAccount_def
  by (intro keeps_intros) (auto simp: accountDeletions_def outsider_def activeMember_def intro!: keeps_intros list_all_updWhere)

interpretation outside: client_store env "outsider i x" for env i x
  by unfold_locales
    (auto intro!: outsider_leavers outsider_rooms outsider_state outsider_created outsider_direct outsider_joined
      outsider_commit outsider_eventFree frame_intros simp: outsider_def)

lemma memberOf_None: "memberOf i x d = None \<longleftrightarrow> list_all (\<lambda>m. \<not> activeMember i x m) (tChatMembers d)"
  by (auto simp: memberOf_def find_None_iff list_all_iff)

lemma outsiderI:
  assumes "roomTablesOk d" and "r \<in> set (tChatRooms d)" and "crVisibility r = VisibilityPrivate"
    and "memberOf (crRoomID r) x d = None"
  shows "outsider (crRoomID r) x d"
proof -
  have "inj_on crRoomID (set (tChatRooms d))"
    using assms(1) by (simp add: roomTablesOk_def tableOk_def distinct_map)
  then have "list_all (\<lambda>r'. crRoomID r' = crRoomID r \<longrightarrow> crVisibility r' = VisibilityPrivate) (tChatRooms d)"
    using assms(2,3) by (auto simp: list_all_iff dest!: inj_onD)
  then show ?thesis using assms(2,4) by (auto simp: outsider_def memberOf_None list_ex_iff)
qed

lemma dispatch_accept:
  "dispatchClientMethod env cfg f ''acceptChatInvitation'' params st =
     AcceptChatInvitation env cfg (csUserPublicKey st) (mustUUID env params ''invitationId'') (optionalBytes params ''commitBytes'')"
  by (simp add: dispatchClientMethod_def handleInvitationMethods_def)

text \<open>C31: The one way into a private room, other than creating it, is an invitation: if a client call makes a user an active
  member of a private room in which the user was none, then the call is an \<open>acceptChatInvitation\<close>, the user is the caller,
  and there was a pending invitation to that room that names the user. (The tables are well typed in every state the server
  reaches.) Nobody adds another user to a private room, and neither
  joining, nor an external commit, nor a change of roles, nor the creation of other rooms does.\<close>

theorem private_membership_by_invitation:
  assumes "roomTablesOk (db w)" and "r \<in> set (tChatRooms (db w))" and "crVisibility r = VisibilityPrivate"
    and "memberOf (crRoomID r) x (db w) = None"
    and "memberOf (crRoomID r) x (db (snd (dispatchClientMethod env cfg f rpcCall params st w))) \<noteq> None"
  shows "rpcCall = ''acceptChatInvitation'' \<and> x = csUserPublicKey st \<and> invited (crRoomID r) x (db w)"
proof (rule ccontr)
  let ?w = "snd (dispatchClientMethod env cfg f rpcCall params st w)"
  assume no: "\<not> ?thesis"
  have out: "outsider (crRoomID r) x (db w)"
    using assms(1-4) by (rule outsiderI)
  have "outsider (crRoomID r) x (db ?w)"
  proof (cases "rpcCall = ''acceptChatInvitation''")
    case True
    then have "stranger (crRoomID r) x (csUserPublicKey st) (db w)" using no out by (simp add: stranger_def)
    then show ?thesis
      using keepsD [OF stranger_accepted] unfolding True dispatch_accept by (simp add: stranger_def dbInv_def)
  next
    case False
    then have "keeps (dbInv (outsider (crRoomID r) x)) (dispatchClientMethod env cfg f rpcCall params st)"
      by (intro outside.call_keeps_unless outsider_deleted) simp
    then show ?thesis using out by (auto simp: dbInv_def dest: keepsD)
  qed
  then show False using assms(5) by (simp add: outsider_def memberOf_None)
qed

section \<open>Administration\<close>

definition isAdmin :: "uuid \<Rightarrow> bytes \<Rightarrow> database \<Rightarrow> bool" where
  "isAdmin i u d \<longleftrightarrow> (case memberOf i u d of None \<Rightarrow> False | Some m \<Rightarrow> RoleAdmin \<le> cmRole m)"

definition isOwner :: "uuid \<Rightarrow> bytes \<Rightarrow> database \<Rightarrow> bool" where
  "isOwner i u d \<longleftrightarrow> (case liveRoom i d of None \<Rightarrow> False | Some r \<Rightarrow> crOwnerPublicKey r = u)"

text \<open>The call ends in an error and changes nothing.\<close>

definition refused :: "'a io \<Rightarrow> world \<Rightarrow> bool" where
  "refused m w \<longleftrightarrow> (case m w of (Err _, w') \<Rightarrow> db w' = db w | _ \<Rightarrow> False)"

lemma refused_first: "refused m w \<Longrightarrow> refused (andThen m k) w"
  by (auto simp: refused_def andThen_def split: prod.splits outcome.splits)

lemma refused_ensureRoomAdmin: "\<not> isAdmin i u (db w) \<Longrightarrow> refused (ensureRoomAdmin env i u) w"
  unfolding ensureRoomAdmin_def ensureMember_def queryOne_def
  by (auto simp: refused_def isAdmin_def go_simps sqlQuery_def sql_def Let_def split: option.splits)

lemma refused_ownerCalls:
  assumes "\<not> isOwner i u (db w)"
  shows "refused (UpdateRoom env u i ti de ah t) w" "refused (DeleteRoom env u i t) w"
  using assms unfolding UpdateRoom_def DeleteRoom_def GetRoom_def queryOne_def
  by (auto simp: refused_def isOwner_def go_simps sqlQuery_def sql_def Let_def roomRecord_def split: option.splits)

lemma refused_clock: "(\<And>t. refused (k t) (w\<lparr>nClock := Suc (nClock w)\<rparr>)) \<Longrightarrow> refused (andThen (clockNow env) k) w"
  by (fastforce simp: refused_def andThen_def clockNow_def split: prod.splits outcome.splits)

lemma refused_uuid: "(\<And>t. refused (k t) (w\<lparr>nUUID := Suc (nUUID w)\<rparr>)) \<Longrightarrow> refused (andThen (uuidNew env) k) w"
  by (fastforce simp: refused_def andThen_def uuidNew_def split: prod.splits outcome.splits)

lemma refused_members:
  assumes "\<And>us. refused (k us) (w\<lparr>nStmt := Suc (nStmt w)\<rparr>)"
  shows "refused (andThen (membersOrNone env i) k) w"
proof -
  have "\<exists>us. membersOrNone env i w = (Ret us, w\<lparr>nStmt := Suc (nStmt w)\<rparr>)"
    unfolding membersOrNone_def ListActiveRoomMemberPublicKeys_def by (simp add: go_simps sqlQuery_def sql_def Let_def)
  then obtain us where "membersOrNone env i w = (Ret us, w\<lparr>nStmt := Suc (nStmt w)\<rparr>)" by blast
  then show ?thesis using assms [of us] by (auto simp: refused_def andThen_def split: prod.splits outcome.splits)
qed

text \<open>C32: A room is administered by its administrators only: a user who is not an active member of the room with the role of an
  administrator cannot kick members, change roles, grant permissions or invite, and a user who does not own the
  room (or whose room is deleted) can neither rename nor delete it. Each such call ends in an error and changes nothing.\<close>

theorem room_administration_refused:
  "(\<not> isAdmin i u (db w) \<longrightarrow> list_all (\<lambda>m. refused m w)
      [KickChatMember env cfg u i v, UpdateChatMemberRole env cfg u i v role,
       CreateChatMemberPermission env u i v key allowed, SendChatInvitation env cfg u i v expires tok sig])
   \<and> (\<not> isOwner i u (db w) \<longrightarrow> list_all (\<lambda>m. refused m w)
      [UpdateChatRoom env u i title description avatar, DeleteChatRoom env cfg u i])"
proof (intro conjI impI)
  assume "\<not> isAdmin i u (db w)"
  then show "list_all (\<lambda>m. refused m w)
      [KickChatMember env cfg u i v, UpdateChatMemberRole env cfg u i v role,
       CreateChatMemberPermission env u i v key allowed, SendChatInvitation env cfg u i v expires tok sig]"
    unfolding KickChatMember_def UpdateChatMemberRole_def CreateChatMemberPermission_def SendChatInvitation_def
      KickMember_def UpdateMemberRole_def CreateMemberPermission_def CreateInvitation_def
    by (auto intro!: refused_clock refused_uuid) (intro refused_first refused_ensureRoomAdmin; simp)+
next
  assume no: "\<not> isOwner i u (db w)"
  have "refused (DeleteChatRoom env cfg u i) w"
    unfolding DeleteChatRoom_def using no
    by (intro refused_clock refused_members) (auto intro!: refused_first refused_ownerCalls)
  moreover have "refused (UpdateChatRoom env u i title description avatar) w"
    unfolding UpdateChatRoom_def using no by (intro refused_clock refused_first refused_ownerCalls) simp
  ultimately show "list_all (\<lambda>m. refused m w) [UpdateChatRoom env u i title description avatar, DeleteChatRoom env cfg u i]"
    by simp
qed

section \<open>Direct rooms\<close>

lemma orderedPublicKeyPair_sym: "orderedPublicKeyPair u v = orderedPublicKeyPair v u"
  by (auto simp: orderedPublicKeyPair_def bytesCompare_def)

lemma directRoomOf_sym: "directRoomOf u v d = directRoomOf v u d"
  by (simp add: directRoomOf_def orderedPublicKeyPair_sym [of u v])

lemma areFriends_sym: "areFriends u v d = areFriends v u d"
  by (simp add: areFriends_def list_ex_iff) metis

lemma CreateDirectRoom_again:
  assumes "noFaults env" and "length u = 32" and "u \<noteq> v" and "areFriends u v (db w)" and "directRoomOf u v (db w) = Some i"
  shows "fst (CreateDirectRoom env v u w) = Ret (existingRoom i)"
  using assms directRoomOf_sym [of u v] areFriends_sym [of u v]
  by (simp add: CreateDirectRoom_def AreFriends_def FindDirectRoomIDByUsers_def go_simps sqlQuery_def sql_noFaults)

lemma find_append_new: "(\<And>x. x \<in> set xs \<Longrightarrow> \<not> p x) \<Longrightarrow> find p (xs @ [y]) = (if p y then Some y else None)"
  by (induction xs) auto

lemma storeCreateDirectRoom_RetE:
  assumes "storeCreateDirectRoom env room left right direct w = (Ret x, w')"
  obtains "\<not> roomExists (rmRoomID room) (db w)" and "drKey direct \<notin> drKey ` set (tDirectRooms (db w))"
    and "length (cmUserPublicKey left) = 32"
    and "db w' = (db w)\<lparr>tChatRooms := tChatRooms (db w) @ [roomRow room],
       tChatMembers := tChatMembers (db w) @ [left\<lparr>cmLeftAt := None\<rparr>, right\<lparr>cmLeftAt := None\<rparr>],
       tDirectRooms := tDirectRooms (db w) @ [direct]\<rparr>"
proof -
  from assms obtain w1 w2 w3 where "insertRoom env room w = (Ret (), w1)" "insertMember env left w1 = (Ret (), w2)"
    "insertDirect env direct w2 = (Ret (), w3)" "insertMember env right w3 = (Ret x, w')"
    unfolding storeCreateDirectRoom_def CreateRoom_def by (elim andThen_RetE) auto
  then show ?thesis
    unfolding insertRoom_def insertMember_def insertDirect_def
    by (elim sqlChecked_RetE) (rule that; simp add: memberChecks_def)
qed

lemma directRoomTx_Ret:
  assumes "directRoomTx env u v i t w = (Ret x, w')" and "u \<noteq> v"
  shows "directRoomOf u v (db w') = Some i" and "memberOf i u (db w') \<noteq> None" and "memberOf i v (db w') \<noteq> None"
    and "tFriends (db w') = tFriends (db w)" and "length u = 32"
proof -
  let ?left = "(plainMember i u t)\<lparr>cmRole := RoleOwner\<rparr>" and ?right = "plainMember i v t"
  from assms(1) have "storeCreateDirectRoom env (directRoom i u t) ?left ?right (directRecord i u v t)
      (w\<lparr>nStmt := Suc (nStmt w)\<rparr>) = (Ret x, w')"
    unfolding directRoomTx_def FindDirectRoomIDByUsers_def
    by (elim andThen_RetE sqlQuery_RetE) (auto split: option.splits)
  then have new: "\<not> roomExists i (db w)" "drKey (directRecord i u v t) \<notin> drKey ` set (tDirectRooms (db w))" and len: "length u = 32"
    and w': "db w' = (db w)\<lparr>tChatRooms := tChatRooms (db w) @ [roomRow (directRoom i u t)],
       tChatMembers := tChatMembers (db w) @ [?left\<lparr>cmLeftAt := None\<rparr>, ?right\<lparr>cmLeftAt := None\<rparr>],
       tDirectRooms := tDirectRooms (db w) @ [directRecord i u v t]\<rparr>"
    by (elim storeCreateDirectRoom_RetE; simp add: plainMember_def directRoom_def)+
  have key: "drKey (directRecord i u v t) = orderedPublicKeyPair u v" "drRoomID (directRecord i u v t) = i"
    by (cases "orderedPublicKeyPair u v"; simp add: directRecord_def drKey_def)+
  have rooms: "tChatRooms (db w') = tChatRooms (db w) @ [roomRow (directRoom i u t)]"
    "tDirectRooms (db w') = tDirectRooms (db w) @ [directRecord i u v t]"
    using w' by simp_all
  have "liveRoom i (db w') = Some (roomRow (directRoom i u t))"
    using new(1) unfolding liveRoom_def rooms by (subst find_append_new) (auto simp: roomExists_def roomRow_def directRoom_def)
  then show "directRoomOf u v (db w') = Some i"
    using new(2) key unfolding directRoomOf_def rooms by (subst find_append_new) (auto simp: image_iff)
  show "memberOf i u (db w') \<noteq> None" "memberOf i v (db w') \<noteq> None"
    by (simp_all add: w' memberOf_None activeMember_def plainMember_def)
  show "tFriends (db w') = tFriends (db w)" "length u = 32" using w' len by simp_all
qed

text \<open>Only the database makes the creation fail; the conflict is raised only when the pair has a room.\<close>

definition sqlErrors :: "'a io \<Rightarrow> bool" where
  "sqlErrors m \<longleftrightarrow> (\<forall>w e w'. m w = (Err e, w') \<longrightarrow> (\<exists>x. e = ErrSQL x))"

lemma sqlErrors_sql: "sqlErrors (sql env f)"
  by (auto simp: sqlErrors_def sql_def Let_def split: sum.splits prod.splits if_splits)

lemma sqlErrors_andThen: "sqlErrors m \<Longrightarrow> (\<And>x. sqlErrors (k x)) \<Longrightarrow> sqlErrors (andThen m k)"
  by (fastforce simp: sqlErrors_def andThen_def split: prod.splits outcome.splits)

lemma WithinTransaction_ErrE:
  assumes "WithinTransaction env NoTx fn w = (Err e, w')" and "noFaults env"
  obtains z where "fn InTx (w\<lparr>nStmt := Suc (nStmt w)\<rparr>) = (Err e, z)"
  using assms(1)
  by (auto simp: WithinTransaction_def currentTx_def rollbackTo_def go_simps sqlNop_noFaults [OF assms(2)]
      split: prod.splits outcome.splits)

lemma directRoomTx_no_conflict:
  assumes "WithinTransaction env NoTx (\<lambda>txCtx. directRoomTx env u v i t) w = (Err e, w')" and "directRoomOf u v (db w) = None"
    and "noFaults env"
  shows "\<not> errIs e ErrConflict"
proof -
  have create: "sqlErrors (storeCreateDirectRoom env a b c d)" for a b c d
    unfolding storeCreateDirectRoom_def CreateRoom_def insertRoom_def insertMember_def insertDirect_def
    by (intro sqlErrors_andThen sqlErrors_sql)
  have "\<exists>x. f = ErrSQL x" if "directRoomTx env u v i t z = (Err f, z')" and "db z = db w" for z z' f
    using that assms(2) create unfolding directRoomTx_def FindDirectRoomIDByUsers_def
    by (auto simp: andThen_def sqlQuery_def sql_def Let_def sqlErrors_def split: if_splits) blast
  then show ?thesis using assms(1,3) by (fastforce elim: WithinTransaction_ErrE)
qed


section \<open>Examples\<close>

text \<open>User 1 has a private room and has invited user 2.\<close>

definition sampleRoom :: ChatRoomRow where
  "sampleRoom = \<lparr>crRoomID = 1, crOwnerPublicKey = sampleKey 1, crTitle = ''room'', crDescription = None,
     crVisibility = VisibilityPrivate, crAvatarHash = None, crAvatarBytes = None, crAvatarContentType = None, crStateID = None,
     crCreatedAt = 0, crUpdatedAt = 0, crDeletedAt = None\<rparr>"

definition sampleInvitation :: ChatInvitationRecord where
  "sampleInvitation = \<lparr>ivInvitationID = 3, ivRoomID = 1, ivInviterPublicKey = sampleKey 1, ivInviteePublicKey = sampleKey 2,
     ivExpiresAt = None, ivInviteToken = [], ivInviteTokenSignature = [], ivState = InvitationPending, ivCreatedAt = 0,
     ivUpdatedAt = 0\<rparr>"

definition sampleInvited :: world where
  "sampleInvited = sampleWorld (emptyDb\<lparr>tChatRooms := [sampleRoom],
     tChatMembers := [(plainMember 1 (sampleKey 1) 0)\<lparr>cmRole := RoleOwner\<rparr>], tInvitations := [sampleInvitation]\<rparr>)"

lemmas sampleInvited_defs = sampleInvited_def sampleRoom_def sampleInvitation_def plainMember_def sampleWorld_def emptyDb_def
  role_defs visibility_defs invitation_states

lemma sampleInvited_ok: "roomTablesOk (db sampleInvited)"
  by (simp add: sampleInvited_defs roomTablesOk_def tableOk_def row_oks roomIDs_def)

lemmas accept_runs = AcceptChatInvitation_def acceptInvitationTx_def UpdateInvitationState_def GetInvitation_def invitationOf_def
  containsState_def setInvitationState_def UpsertRoomMembership_def GetRoom_def liveRoom_def upsertMember_def memberChecks_def
  roomExists_def memKey_def announceCommit_def roomRecord_def activeMember_def memberOf_def mustUUID_def field_def optionalBytes_def
  sliceBytes_def roomIdField_def mustBytes_def anySlice_def

lemma sampleInvited_accepted:
  "memberOf 1 (sampleKey 2) (db (snd (dispatchClientMethod sampleEnv sampleClient (\<lambda>_. []) ''acceptChatInvitation''
     [(''invitationId'', GUUID 3)] (loggedIn 2) sampleInvited))) \<noteq> None"
  unfolding dispatch_accept
  by (simp add: accept_runs sampleInvited_defs core_runs event_runs loggedIn_def)

theorem private_membership_by_invitation_witness:
  "memberOf 1 (sampleKey 2) (db (snd (dispatchClientMethod sampleEnv sampleClient (\<lambda>_. []) ''acceptChatInvitation''
       [(''invitationId'', GUUID 3)] (loggedIn 2) sampleInvited))) \<noteq> None
     \<and> invited 1 (sampleKey 2) (db sampleInvited)"
proof -
  have "invited (crRoomID sampleRoom) (sampleKey 2) (db sampleInvited)"
    using private_membership_by_invitation [OF sampleInvited_ok, of sampleRoom "sampleKey 2"] sampleInvited_accepted
    by (simp add: sampleInvited_defs memberOf_None activeMember_def sampleKey_eq)
  then show ?thesis using sampleInvited_accepted by (simp add: sampleRoom_def)
qed

theorem room_administration_refused_witness:
  "refused (KickChatMember sampleEnv sampleClient (sampleKey 2) 1 (sampleKey 1)) sampleInvited
     \<and> refused (DeleteChatRoom sampleEnv sampleClient (sampleKey 2) 1) sampleInvited"
proof -
  have "\<not> isAdmin 1 (sampleKey 2) (db sampleInvited)" "\<not> isOwner 1 (sampleKey 2) (db sampleInvited)"
    by (simp_all add: isAdmin_def isOwner_def memberOf_def activeMember_def liveRoom_def sampleInvited_defs sampleKey_eq)
  then show ?thesis using room_administration_refused by simp
qed

text \<open>Friends without a direct room.\<close>

definition samplePair :: world where
  "samplePair = sampleWorld (emptyDb\<lparr>tFriends :=
     [\<lparr>frID = 1, frUserPublicKey = sampleKey 1, frFriendPublicKey = sampleKey 2, frAcceptedAt = 0\<rparr>,
      \<lparr>frID = 2, frUserPublicKey = sampleKey 2, frFriendPublicKey = sampleKey 1, frAcceptedAt = 0\<rparr>]\<rparr>)"

lemma samplePair_room: "\<exists>out w'. CreateDirectRoom sampleEnv (sampleKey 1) (sampleKey 2) samplePair = (Ret out, w')"
  by (simp add: samplePair_def direct_runs core_runs bytesCompare_def sampleKeys_ordered)


end
