(* ===== verification/MessageProps.thy ===== *)
theory MessageProps
  imports RoomProps
begin

text \<open>
  What the members of a room are told: messages reach every active member as a user event and every device of
  the member as an outbox row; only active members send them, and only friends in a direct room.
\<close>

section \<open>Events appended\<close>

text \<open>The events are appended for their users, and each is queued for every device of its user.\<close>

definition announced :: "env \<Rightarrow> Event list \<Rightarrow> database \<Rightarrow> database \<Rightarrow> bool" where
  "announced env es d d' \<longleftrightarrow>
     d' = d\<lparr>tUserEvents := tUserEvents d @ es, tOutbox := tOutbox d', tOutboxSegments := tOutboxSegments d'\<rparr>
     \<and> set (tOutbox d) \<subseteq> set (tOutbox d')
     \<and> (\<forall>e\<in>set es. \<forall>v\<in>set (targetDevices env (evUserPublicKey e) d).
          outboxEventID env (evEventID e) v \<in> obEventID ` set (tOutbox d'))"

lemma targetDevices_frame [simp]:
  "targetDevices env u (d\<lparr>tUserEvents := a, tOutbox := b, tOutboxSegments := c\<rparr>) = targetDevices env u d"
  by (simp add: targetDevices_def)

lemma announced_Nil [simp]: "announced env [] d d"
  by (simp add: announced_def)

lemma announced_append:
  assumes "announced env es d d1" and "announced env fs d1 d2"
  shows "announced env (es @ fs) d d2"
proof -
  have d1: "d1 = d\<lparr>tUserEvents := tUserEvents d @ es, tOutbox := tOutbox d1, tOutboxSegments := tOutboxSegments d1\<rparr>"
    and d2: "d2 = d1\<lparr>tUserEvents := tUserEvents d1 @ fs, tOutbox := tOutbox d2, tOutboxSegments := tOutboxSegments d2\<rparr>"
    using assms unfolding announced_def by blast+
  have "tUserEvents d1 = tUserEvents d @ es" by (subst d1) simp
  then have "d2 = d\<lparr>tUserEvents := tUserEvents d @ es @ fs, tOutbox := tOutbox d2, tOutboxSegments := tOutboxSegments d2\<rparr>"
    by (subst d2, subst d1) simp
  moreover have "targetDevices env u d1 = targetDevices env u d" for u by (subst d1) simp
  ultimately show ?thesis using assms unfolding announced_def by (auto simp: image_iff) blast+
qed

lemma announced_events:
  assumes "announced env es d d'"
  shows "tUserEvents d' = tUserEvents d @ es"
proof -
  have "d' = d\<lparr>tUserEvents := tUserEvents d @ es, tOutbox := tOutbox d', tOutboxSegments := tOutboxSegments d'\<rparr>"
    using assms unfolding announced_def by (rule conjunct1)
  then show ?thesis by (rule ssubst [where P = "\<lambda>x. tUserEvents x = tUserEvents d @ es"]) simp
qed

text \<open>Queuing for a device announces no event of its own.\<close>

lemma enqueueFor_Ret:
  assumes "enqueueFor env e p v w = (Ret x, w')"
  shows "announced env [] (db w) (db w') \<and> outboxEventID env (evEventID e) v \<in> obEventID ` set (tOutbox (db w'))"
  using assms unfolding enqueueFor_def insertOutbox_def upsertSegment_def announced_def
  by (auto elim!: andThen_RetE sqlChecked_RetE sqlExec_RetE simp: outboxRow_def)

lemma announced_queue: "announced env es d d' \<Longrightarrow> obEventID ` set (tOutbox d) \<subseteq> obEventID ` set (tOutbox d')"
  by (auto simp: announced_def)

lemma forEach_enqueueFor:
  assumes "forEach (enqueueFor env e p) vs w = (Ret x, w')"
  shows "announced env [] (db w) (db w')
     \<and> (\<forall>v\<in>set vs. outboxEventID env (evEventID e) v \<in> obEventID ` set (tOutbox (db w')))"
  using assms
proof (induction vs arbitrary: w)
  case (Cons v vs)
  then obtain u where one: "enqueueFor env e p v w = (Ret (), u)" and rest: "forEach (enqueueFor env e p) vs u = (Ret x, w')"
    by (auto elim: andThen_RetE)
  note first = enqueueFor_Ret [OF one] and later = Cons.IH [OF rest]
  have "announced env ([] @ []) (db w) (db w')" using first later by (blast intro: announced_append)
  moreover have "outboxEventID env (evEventID e) v \<in> obEventID ` set (tOutbox (db w'))"
    using first later announced_queue by blast
  ultimately show ?case using later by simp
qed simp

lemma appendOutbox_Ret:
  assumes "appendOutbox env e w = (Ret x, w')"
  shows "announced env [] (db w) (db w') \<and> (\<forall>v\<in>set (targetDevices env (evUserPublicKey e) (db w)).
     outboxEventID env (evEventID e) v \<in> obEventID ` set (tOutbox (db w')))"
proof -
  let ?u = "w\<lparr>nStmt := Suc (nStmt w)\<rparr>" and ?vs = "targetDevices env (evUserPublicKey e) (db w)"
  have "?vs = [] \<and> w' = ?u \<or> (\<exists>p. forEach (enqueueFor env e p) ?vs ?u = (Ret x, w'))"
    using assms unfolding appendOutbox_def listTargetDeviceIDs_def
    by (auto elim!: andThen_RetE sqlQuery_RetE split: if_splits option.splits)
  then show ?thesis using forEach_enqueueFor [of env e _ ?vs ?u x w'] by auto
qed

lemma onBus_RetE:
  assumes "onBus m w = (Ret x, w')"
  obtains "db w' = db w"
  using assms by (auto simp: onBus_def Let_def split: prod.splits)

lemma announced_insert:
  assumes "announced env [] (d\<lparr>tUserEvents := tUserEvents d @ [e]\<rparr>) d'"
    and "\<forall>v\<in>set (targetDevices env (evUserPublicKey e) d). outboxEventID env (evEventID e) v \<in> obEventID ` set (tOutbox d')"
  shows "announced env [e] d d'"
proof -
  have "d' = d\<lparr>tUserEvents := tUserEvents d @ [e], tOutbox := tOutbox d', tOutboxSegments := tOutboxSegments d'\<rparr>"
    using assms(1) by (simp add: announced_def)
  then show ?thesis using assms by (auto simp: announced_def)
qed

text \<open>The event a call of \<open>appendEvent\<close> adds for the user.\<close>

definition told :: "env \<Rightarrow> string \<Rightarrow> payload \<Rightarrow> bytes \<Rightarrow> Event \<Rightarrow> bool" where
  "told env ty p u e \<longleftrightarrow> evUserPublicKey e = u \<and> evEventType e = ty \<and> jsonMap env p = Some (evPayload e)"

lemma appendEvent_Ret:
  assumes "appendEvent env cfg u ty p w = (Ret x, w')" and "length u = 32"
  shows "\<exists>e. told env ty p u e \<and> announced env [e] (db w) (db w')"
proof -
  let ?e = "clientEvent cfg (eUUID env (nUUID w)) u ty p (eClock env (nClock w))"
  let ?w = "w\<lparr>nClock := Suc (nClock w), nUUID := Suc (nUUID w)\<rparr>"
  have "u \<noteq> []" using assms(2) by auto
  with assms have "andThen (Append env ?e) (\<lambda>_. onBus (Notify u)) ?w = (Ret x, w')"
    unfolding appendEvent_def NotifyingAppend_def
    by (simp add: clientEvent_def andThen_def clockNow_def uuidNew_def)
  then obtain w1 where app: "Append env ?e ?w = (Ret (), w1)" and bus: "db w' = db w1"
    by (auto elim!: andThen_RetE onBus_RetE)
  then obtain q v where q: "jsonMap env p = Some q" and out: "appendOutbox env ?e v = (Ret (), w1)"
    and ins: "insertEvent env (?e\<lparr>evPayload := q\<rparr>) ?w = (Ret (), v)"
    unfolding Append_def by (auto elim!: andThen_RetE simp: clientEvent_def split: option.splits)
  let ?e' = "?e\<lparr>evPayload := q\<rparr>"
  have v: "db v = (db w)\<lparr>tUserEvents := tUserEvents (db w) @ [?e']\<rparr>"
    using ins unfolding insertEvent_def by (auto elim!: sqlChecked_RetE)
  have "announced env [?e'] (db w) (db w')"
    using appendOutbox_Ret [OF out] unfolding bus v by (intro announced_insert) (auto simp: clientEvent_def targetDevices_def)
  moreover have "told env ty p u ?e'" using q by (simp add: told_def clientEvent_def)
  ultimately show ?thesis by blast
qed

lemma forEach_appendEvent:
  assumes "forEach (\<lambda>u. appendEvent env cfg u ty p) us w = (Ret x, w')" and "list_all (\<lambda>u. length u = 32) us"
  shows "\<exists>es. list_all2 (told env ty p) us es \<and> announced env es (db w) (db w')"
  using assms
proof (induction us arbitrary: w)
  case (Cons u us)
  then obtain v where one: "appendEvent env cfg u ty p w = (Ret (), v)"
    and rest: "forEach (\<lambda>u. appendEvent env cfg u ty p) us v = (Ret x, w')"
    by (auto elim: andThen_RetE)
  obtain e where "told env ty p u e" "announced env [e] (db w) (db v)"
    using appendEvent_Ret [OF one] Cons.prems(2) by auto
  moreover obtain es where "list_all2 (told env ty p) us es" "announced env es (db v) (db w')"
    using Cons.IH [OF rest] Cons.prems(2) by auto
  ultimately show ?case
    using announced_append [of env "[e]" "db w" "db v" es] by (intro exI [of _ "e # es"]) auto
qed auto

section \<open>Messages\<close>

lemma activeKeys_sizes: "roomTablesOk d \<Longrightarrow> list_all (\<lambda>u. length u = 32) (activeKeys i d)"
  by (auto simp: activeKeys_def roomTablesOk_def tableOk_def memberOk_def list_all_iff)

lemma checkPeer_Ret:
  assumes "checkPeer env u us w = (Ret x, w')" and "u \<in> set us"
  shows "db w' = db w" and "\<exists>peer\<in>set us. peer \<noteq> u \<and> areFriends u peer (db w)" and "length us = 2"
  using assms unfolding checkPeer_def AreFriends_def
  by (auto elim!: guardErr_RetE andThen_RetE sqlQuery_RetE simp: Let_def find_Some_iff split: option.splits)

lemma SendMessage_RetE:
  assumes "SendMessage env cfg u i clientMsgID body w = (Ret out, w')"
  obtains v v1 v2 messageID where "u \<in> set (activeKeys i (db w))" and "db v = db w" and "db v2 = db v1"
    and "(if isDirect i (db w) then checkPeer env u (activeKeys i (db w)) else ret ()) v = (Ret (), v1)"
    and "forEach (\<lambda>member. appendEvent env cfg member ''mlsMessageReceived''
        (messagePayload env u i messageID clientMsgID body)) (activeKeys i (db w)) v2 = (Ret (), w')"
    and "field out ''messageId'' = GUUID messageID"
proof -
  from assms obtain now us v0 where us: "us = activeKeys i (db w)" and v0: "db v0 = db w"
    and rest: "guardErr (u \<notin> set us) ErrForbidden
     (andThen (IsDirectRoom env i) (\<lambda>direct. andThen (if direct then checkPeer env u us else ret ()) (\<lambda>_.
       andThen (uuidNew env) (\<lambda>messageID.
       andThen (forEach (\<lambda>member. appendEvent env cfg member ''mlsMessageReceived''
          (messagePayload env u i messageID clientMsgID body)) us) (\<lambda>_.
       ret [(''messageId'', GUUID messageID), (''createdAt'', stamp env now)]))))) v0 = (Ret out, w')"
    unfolding SendMessage_def ListActiveRoomMemberPublicKeys_def
    by (elim andThen_RetE [of "clockNow env"] andThen_RetE [of "sqlQuery env (activeKeys i)"] clockNow_RetE sqlQuery_RetE)
      (rule that [rotated 2], assumption, simp_all)
  from rest obtain direct v v1 where "u \<in> set us" and direct: "IsDirectRoom env i v0 = (Ret direct, v)"
    and peer: "(if direct then checkPeer env u us else ret ()) v = (Ret (), v1)"
    and send: "andThen (uuidNew env) (\<lambda>messageID.
       andThen (forEach (\<lambda>member. appendEvent env cfg member ''mlsMessageReceived''
          (messagePayload env u i messageID clientMsgID body)) us) (\<lambda>_.
       ret [(''messageId'', GUUID messageID), (''createdAt'', stamp env now)])) v1 = (Ret out, w')"
    by (elim guardErr_RetE andThen_RetE [of "IsDirectRoom env i"] andThen_RetE [where m = "if x then y else z" for x y z]) auto
  from send obtain v2 messageID where v2: "uuidNew env v1 = (Ret messageID, v2)"
    and run: "forEach (\<lambda>member. appendEvent env cfg member ''mlsMessageReceived''
        (messagePayload env u i messageID clientMsgID body)) us v2 = (Ret (), w')"
    and out: "out = [(''messageId'', GUUID messageID), (''createdAt'', stamp env now)]"
    by (elim andThen_RetE) auto
  show ?thesis
    by (rule that [of v v2 v1, OF _ _ _ _ run [unfolded us]])
      (use us v0 direct peer v2 out \<open>u \<in> set us\<close> in \<open>auto simp: field_def IsDirectRoom_def elim!: sqlQuery_RetE uuidNew_RetE\<close>)
qed


section \<open>Example\<close>

text \<open>User 1 writes to the room of which user 1 is the only member.\<close>

lemma sampleInvited_message:
  "\<exists>out w'. SendMessage sampleEnv sampleClient (sampleKey 1) 1 9 [Some [5]] sampleInvited = (Ret out, w')"
  by (simp add: SendMessage_def ListActiveRoomMemberPublicKeys_def activeKeys_def IsDirectRoom_def isDirect_def messagePayload_def
      roomIdField_def sampleInvited_defs core_runs event_runs)
    (auto simp: image_iff)


end
