(* ===== verification/ConnectionProps.thy ===== *)
theory ConnectionProps
  imports NoPanic HandlerProps
begin

text \<open>
  The WebSocket and TCP connections and the bus together: the subscriptions of the bus are those of the push loops that
  run, so a dispatched event wakes exactly the connections of its device, and a connection that ended, however it ended,
  leaves nothing behind.
\<close>

section \<open>Calls that keep the subscriptions\<close>

lemma calm_quiet: "calm m \<Longrightarrow> keeps (busIs subs i) m"
  by (simp add: calm_def keeps_def)

lemma offDb_busIs: "offDb (busIs subs i)"
  by (simp add: offDb_def)

lemma keeps_busIs_sources:
  "keeps (busIs subs i) (clockNow env)" "keeps (busIs subs i) (uuidNew env)" "keeps (busIs subs i) (randomRead env n)"
  by (simp_all add: keeps_def clockNow_def uuidNew_def randomRead_def split: option.splits)

lemmas quiet = keeps_busIs_sources keeps_offDb_sql [OF offDb_busIs] keeps_offDb_statements [OF offDb_busIs]
  keeps_offDb_WithinTransaction [OF offDb_busIs] calm_quiet [OF calm_NotifyKey] calm_quiet [OF calm_notify]

lemma calm_outbox_notifier [calm_intros]:
  "calm (ntNotifyKey outboxNotifier key)" "calm (ntNotifyOutboxEvent outboxNotifier e)"
proof -
  have "calm (pushEnqueue n e)" for n
    by (simp add: calm_def pushEnqueue_def)
  then show "calm (ntNotifyKey outboxNotifier key)" "calm (ntNotifyOutboxEvent outboxNotifier e)"
    by (auto simp: outboxNotifier_def MultiNotifier_def NewMultiNotifier_def busNotifier_def pushNotifier_def
        intro!: calm_intros)
qed

lemma calm_scanOutboxEvent [calm_intros]: "calm (scanOutboxEvent env r)"
  unfolding scanOutboxEvent_def by (intro calm_intros)

lemma calm_claimLoop [calm_intros]: "calm (claimLoop env now tm m cs)"
  by (induction cs) (auto simp: claimOne_def dropSegmentTail_def intro!: calm_intros)

lemma calm_outbox [calm_intros]:
  "calm (DispatchOnce env cfg (Some outboxNotifier))" "calm (OutboxListInflight env cfg dev n)" "calm (janitorRun env cfg)"
  "calm (OutboxAcknowledge env (Some outboxNotifier) j dev seg)" "calm (recordUserUsage env h u r k n)"
  unfolding DispatchOnce_def notifyEvents_def ClaimPending_def OutboxListInflight_def ListInflight_def janitorRun_def
    DropExpiredHeads_def DeleteTerminal_def dropSegmentTail_def OutboxAcknowledge_def AcknowledgeOutbox_def
    recordUserUsage_def RecordUserUsage_def storeRecordUserUsage_def option.case
  by (intro calm_intros)+

lemma quiet_auth:
  "keeps (busIs subs i) (RequestAuthChallenge env cfg input)" "keeps (busIs subs i) (SolveAuthChallenge env cfg j sig)"
  "keeps (busIs subs i) (SubscribeToEvents env cfg j)" "keeps (busIs subs i) (UnsubscribeFromEvents env j)"
  "keeps (busIs subs i) (PullEvents env cfg u n)" "keeps (busIs subs i) (LookupSession env j)"
  unfolding RequestAuthChallenge_def marshalAuthChallengePayload_def CreateSession_def SolveAuthChallenge_def GetSession_def
    ed25519Verify_def authenticateTx_def MarkAuthenticated_def TouchProfile_def SubscribeToEvents_def CreateSubscription_def
    UnsubscribeFromEvents_def DeactivateSubscription_def PullEvents_def ListPending_def MarkDelivered_def LookupSession_def
    NotifyingAppend_def Append_def insertEvent_def appendOutbox_def listTargetDeviceIDs_def enqueueFor_def insertOutbox_def
    upsertSegment_def queryOne_def fromSum_def
  by (intro quiet keeps_intros)+

lemma quiet_signed_packets:
  assumes "0 < ccEventBatchSize ccfg"
  shows "keeps (busIs subs i) (handlePacket cd env (serverHandler acfg ccfg ocfg) packet st)"
  unfolding handlePacket_def signedCall_def resolveSigner_def ed25519Verify_def respond_def errorResponse_def
    runCall_def onRequestAuthChallenge_def onSolveAuthChallenge_def onSubscribeToEvents_def onUnsubscribeFromEvents_def
    onAcknowledgeEvent_def handleClientAPICall_def decodeMapParameters_def DecodeParameters_def decoded_def
    profileCompleted_def GetProfile_def serverHandler_simps option.case prod.case
  by (intro quiet quiet_auth keeps_intros calm_quiet [OF calm_dispatch [OF assms]] calm_quiet [OF calm_people_store(1)]
      calm_quiet [OF calm_people_store(2)] calm_quiet [OF calm_outbox(4)])

lemma quiet_packets:
  assumes "0 < ccEventBatchSize ccfg"
  shows "keeps (busIs subs i) (runPackets cd env (serverHandler acfg ccfg ocfg) packets st code)"
  by (induction packets arbitrary: st code) (auto intro!: keeps_intros quiet_signed_packets [OF assms])

lemma calm_pullOutboxPackets: "calm (pullOutboxPackets env (serverHandler acfg ccfg ocfg) dev sent)"
  unfolding pullOutboxPackets_def inflightOf_def serverHandler_simps option.case prod.case
  by (intro calm_intros)

lemma quiet_batch:
  assumes "0 < ccEventBatchSize ccfg"
  shows "keeps (busIs subs i) (handleBatch cd env (serverHandler acfg ccfg ocfg) raw st sent)"
  unfolding handleBatch_def handlePackets_def respond_def
  by (intro quiet quiet_auth keeps_intros quiet_packets [OF assms] calm_quiet [OF calm_pullOutboxPackets])

lemma calm_recordUsage [calm_intros]: "calm (recordUsage env h st r k n)"
  unfolding recordUsage_def by (intro calm_intros)

lemma quiet_http:
  assumes "0 < ccEventBatchSize ccfg"
  shows "keeps (busIs subs i) (handleHTTP cd env (serverHandler acfg ccfg ocfg) request scopes)"
  unfolding handleHTTP_def by (intro keeps_intros quiet_batch [OF assms] calm_quiet [OF calm_recordUsage])

section \<open>The subscription of one connection\<close>

definition connSub :: "connection \<Rightarrow> string \<Rightarrow> 64 word \<Rightarrow> nat option" where
  "connSub c k j =
     (case cnPush c of
        None \<Rightarrow> None
      | Some (started, ch, i) \<Rightarrow> if cnPushing c \<and> k = csDeviceID started \<and> j = i then Some ch else None)"

text \<open>The bus has the subscription of the connection, if it has one, and those of the others.\<close>

definition connBus :: "(string \<Rightarrow> 64 word \<Rightarrow> nat option) \<Rightarrow> connection \<Rightarrow> Bus \<Rightarrow> bool" where
  "connBus others c b \<longleftrightarrow> busOk b
     \<and> (\<forall>k j. busLookup b k j = (case connSub c k j of None \<Rightarrow> others k j | Some ch \<Rightarrow> Some ch))
     \<and> (\<forall>k j. connSub c k j \<noteq> None \<longrightarrow> others k j = None)
     \<and> (\<forall>k j. busLookup b k j \<noteq> None \<longrightarrow> j \<le> busNext b)
     \<and> (\<forall>started ch i. cnPush c = Some (started, ch, i) \<longrightarrow> csAuthenticated started \<and> csDeviceID started \<noteq> [])"

lemma connSub_fields [simp]:
  "connSub (c\<lparr>cnState := x\<rparr>) = connSub c" "connSub (c\<lparr>cnSent := y\<rparr>) = connSub c"
  "connSub (c\<lparr>cnCanceled := v\<rparr>) = connSub c" "connSub (endRead c) = connSub c" "connSub newConnection = (\<lambda>_ _. None)"
  by (cases "cnPush c"; auto simp: fun_eq_iff connSub_def endRead_def newConnection_def)+

lemma connBus_fields [simp]:
  "connBus others (c\<lparr>cnState := x\<rparr>) b = connBus others c b" "connBus others (c\<lparr>cnSent := y\<rparr>) b = connBus others c b"
  "connBus others (c\<lparr>cnCanceled := v\<rparr>) b = connBus others c b" "connBus others (endRead c) b = connBus others c b"
  by (simp_all add: connBus_def) (simp_all add: endRead_def)

definition onConn :: "(string \<Rightarrow> 64 word \<Rightarrow> nat option) \<Rightarrow> connection \<Rightarrow> world \<Rightarrow> bool" where
  "onConn others c w \<longleftrightarrow> connBus others c (wBus w)"

lemma onConn_fields [simp]:
  "onConn others (c\<lparr>cnState := x\<rparr>) = onConn others c" "onConn others (c\<lparr>cnSent := y\<rparr>) = onConn others c"
  "onConn others (c\<lparr>cnCanceled := v\<rparr>) = onConn others c" "onConn others (endRead c) = onConn others c"
  by (simp_all add: fun_eq_iff onConn_def)

lemma onConn_busIs: "onConn others c w \<Longrightarrow> busIs (busSubs (wBus w)) (busNext (wBus w)) w"
  by (simp add: onConn_def connBus_def busIs_def)

lemma onConn_frame:
  assumes "onConn others c w" and "busIs (busSubs (wBus w)) (busNext (wBus w)) w'"
  shows "onConn others c w'" and "busNext (wBus w') = busNext (wBus w)"
proof -
  have "busLookup (wBus w') = busLookup (wBus w)"
    using assms(2) by (simp add: fun_eq_iff busLookup_def busIs_def)
  then show "onConn others c w'" "busNext (wBus w') = busNext (wBus w)"
    using assms by (simp_all add: onConn_def connBus_def busIs_def)
qed

lemma onConn_quiet:
  assumes "\<And>subs i. keeps (busIs subs i) m"
  shows "keeps (onConn others c) m" and "keeps (\<lambda>w. onConn others c w \<and> busNext (wBus w) \<noteq> - 1) m"
proof -
  have "onConn others c (snd (m w))" "busNext (wBus (snd (m w))) = busNext (wBus w)" if "onConn others c w" for w
    using onConn_frame [OF that keepsD [OF assms onConn_busIs [OF that]]] by simp_all
  then show "keeps (onConn others c) m" "keeps (\<lambda>w. onConn others c w \<and> busNext (wBus w) \<noteq> - 1) m"
    by (simp_all add: keeps_def)
qed

lemma onConn_calm:
  assumes "calm m" and "noErr m"
  shows "returns (onConn others c) m (\<lambda>_. onConn others c)"
  unfolding returns_def
proof (intro allI impI)
  fix w assume c: "onConn others c w"
  obtain r w' where run: "m w = (r, w')" by fastforce
  have "\<forall>p. r \<noteq> Panic p" "onConn others c w'"
    using calmD [OF assms(1) onConn_busIs [OF c] run] onConn_frame [OF c] by auto
  moreover have "\<forall>e. r \<noteq> Err e" using run noErrD [OF assms(2), of w] by auto
  ultimately show "\<exists>x t. m w = (Ret x, t) \<and> onConn others c t" using run by (cases r) auto
qed

lemma returns_stopLoop:
  "returns (onConn others c) (stopLoop c) (\<lambda>c' w. onConn others c' w \<and> (\<not> cnPushing c' \<or> cnPush c' = None))"
  unfolding returns_def
proof (intro allI impI)
  fix w assume c: "onConn others c w"
  show "\<exists>c' w'. stopLoop c w = (Ret c', w') \<and> onConn others c' w' \<and> (\<not> cnPushing c' \<or> cnPush c' = None)"
  proof (cases "cnPushing c \<and> cnPush c \<noteq> None")
    case False
    then have "stopLoop c w = (Ret c, w)"
      by (cases "cnPush c") (auto simp: stopLoop_def ret_def)
    then show ?thesis using c False by blast
  next
    case True
    then obtain started ch i where push: "cnPush c = Some (started, ch, i)" "cnPushing c" by auto
    let ?b = "snd (Unsubscribe (csDeviceID started) i (wBus w))" and ?c = "c\<lparr>cnPushing := False\<rparr>"
    have run: "stopLoop c w = (Ret ?c, w\<lparr>wBus := ?b\<rparr>)"
      using push by (simp add: stopLoop_def andThen_def onBus_def Unsubscribe_def ret_def Let_def split: option.splits)
    have next': "busNext ?b = busNext (wBus w)"
      by (simp add: Unsubscribe_def Let_def split: option.splits)
    have none: "connSub ?c k j = None" for k j
      using push by (simp add: connSub_def)
    have "others (csDeviceID started) i = None"
      using c push by (auto simp: onConn_def connBus_def connSub_def)
    then have "connBus others ?c ?b"
      using c push none unfolding onConn_def connBus_def next' busLookup_unsubscribe
      by (auto simp: connSub_def busOk_unsubscribe split: if_splits)
    then show ?thesis using run by (simp add: onConn_def)
  qed
qed

lemma returns_stopPush: "returns (onConn others c) (stopPush c) (onConn others)"
  unfolding stopPush_def
proof (rule returns_andThen [OF returns_stopLoop])
  fix c'
  show "returns (\<lambda>w. onConn others c' w \<and> (\<not> cnPushing c' \<or> cnPush c' = None)) (ret (c'\<lparr>cnPush := None\<rparr>)) (onConn others)"
  proof (rule returns_weaken [OF returns_ret])
    fix w assume w: "onConn others c' w \<and> (\<not> cnPushing c' \<or> cnPush c' = None)"
    then have "connSub (c'\<lparr>cnPush := None\<rparr>) k j = None" "connSub c' k j = None" for k j
      by (auto simp: connSub_def split: option.splits)
    then show "onConn others (c'\<lparr>cnPush := None\<rparr>) w" using w by (simp add: onConn_def connBus_def)
  qed
qed

text \<open>A subscription gets an unused number, as long as the counter of the bus did not run around.\<close>

lemma returns_startPush:
  assumes "csAuthenticated (cnState c)"
  shows "returns (\<lambda>w. onConn others c w \<and> busNext (wBus w) \<noteq> - 1) (startPush env h c) (onConn others)"
proof (cases "cnPush c \<noteq> None \<or> \<not> hBus h \<or> csDeviceID (cnState c) = [] \<or> hOutbox h = None")
  case True
  then show ?thesis by (simp add: startPush_def returns_def ret_def)
next
  case False
  have "\<exists>c' w'. startPush env h c w = (Ret c', w') \<and> onConn others c' w'"
    if w: "onConn others c w" and no_wrap: "busNext (wBus w) \<noteq> - 1" for w
  proof -
    let ?b = "wBus w" and ?dev = "csDeviceID (cnState c)"
    let ?i = "busNext ?b + 1" and ?ch = "length (busChans ?b)"
    let ?c = "c\<lparr>cnPush := Some (cnState c, ?ch, ?i), cnPushing := True\<rparr>" and ?b' = "snd (SubscribeKey ?dev ?b)"
    have run: "startPush env h c w = (Ret ?c, w\<lparr>wBus := ?b'\<rparr>)"
      unfolding startPush_def if_not_P [OF False] by (simp add: andThen_def onBus_def SubscribeKey_def Let_def ret_def)
    have fresh: "j < ?i" if "j \<le> busNext ?b" for j
      using that no_wrap inc_less_eq_self_iff_eq [of "busNext ?b"] by (meson linorder_not_le order_le_less_trans)
    have own: "connSub c k j = None" for k j
      using False by (cases "cnPush c") (auto simp: connSub_def)
    have look: "busLookup ?b k j = others k j" for k j
      using w own by (simp add: onConn_def connBus_def)
    have low: "j < ?i" if "others k j \<noteq> None" for k j
      using that w fresh unfolding look [symmetric] onConn_def connBus_def by blast
    have new: "others k ?i = None" for k
      using low [of k ?i] by (cases "others k ?i") auto
    have next': "busNext ?b' = ?i" by (simp add: SubscribeKey_def Let_def)
    have "connBus others ?c ?b'"
      using assms w False low new unfolding onConn_def connBus_def next' busLookup_subscribe look
      by (auto simp: connSub_def busOk_subscribe split: if_splits dest: less_imp_le)
    then show ?thesis using run by (simp add: onConn_def)
  qed
  then show ?thesis by (simp add: returns_def)
qed

section \<open>Turns of a connection\<close>

lemma hoare_returns: "returns P m Q \<Longrightarrow> hoare P m Q E"
  unfolding returns_def hoare_def by fastforce

lemma hoare_onBatch:
  assumes "0 < ccEventBatchSize ccfg"
  shows "hoare (\<lambda>w. onConn others c w \<and> busNext (wBus w) \<noteq> - 1) (onBatch cd env (serverHandler acfg ccfg ocfg) raw c)
    (\<lambda>(_, _, c'). onConn others c') (onConn others c)"
proof -
  let ?P = "\<lambda>c w. onConn others c w \<and> busNext (wBus w) \<noteq> - 1" and ?h = "serverHandler acfg ccfg ocfg"
  have batch: "hoare (?P c) (handleBatch cd env ?h raw (cnState c) (cnSent c)) (\<lambda>_. ?P c) (onConn others c)"
    by (rule hoare_keeps [OF onConn_quiet(2) [OF quiet_batch [OF assms]]]) simp
  have start: "hoare (?P c') (if csAuthenticated (cnState c') \<and> hOutbox ?h \<noteq> None then startPush env ?h c' else ret c')
      (onConn others) E" for c' E
    by (rule hoare_returns, cases "csAuthenticated (cnState c')")
      (simp_all add: returns_startPush, simp add: returns_def ret_def)
  show ?thesis
    unfolding onBatch_def
  proof (rule hoare_andThen [OF batch], safe)
    fix responses st code n sent
    let ?c = "c\<lparr>cnState := st, cnSent := sent\<rparr>"
    have "hoare (?P c) (if csAuthenticated st \<and> hOutbox ?h \<noteq> None then startPush env ?h ?c else ret ?c)
        (onConn others) (onConn others c)"
      using start [of ?c] by simp
    then show "hoare (?P c) (andThen (if csAuthenticated st \<and> hOutbox ?h \<noteq> None then startPush env ?h ?c else ret ?c)
        (\<lambda>c'. ret (responses, n, c'))) (\<lambda>(_, _, c'). onConn others c') (onConn others c)"
      by (rule hoare_andThen) (rule hoare_pre [OF hoare_ret], simp)
  qed
qed

text \<open>After the batch nothing fails: the turn ends with a connection, or with the panic of a packet, which leaves the
  subscription as it was.\<close>

lemma noErr_recordUserUsage: "noErr (recordUserUsage env h u r k n)" "noErr (recordUsage env h st r k n)"
proof -
  show *: "noErr (recordUserUsage env h u r k n)" for u
    by (auto simp: noErr_def recordUserUsage_def ignoreErr_def ret_def split: prod.splits outcome.splits)
  show "noErr (recordUsage env h st r k n)"
    using * by (simp add: recordUsage_def noErr_ret)
qed

lemmas returns_usage = onConn_calm [OF calm_recordUsage noErr_recordUserUsage(2)]
  onConn_calm [OF calm_outbox(5) noErr_recordUserUsage(1)]

lemma hoare_messages:
  assumes "0 < ccEventBatchSize ccfg"
  shows "hoare (\<lambda>w. onConn others c w \<and> busNext (wBus w) \<noteq> - 1)
      (webSocketMessage cd env (serverHandler acfg ccfg ocfg) send raw c) (\<lambda>(_, c'). onConn others c') (onConn others c)"
    and "hoare (\<lambda>w. onConn others c w \<and> busNext (wBus w) \<noteq> - 1)
      (streamMessage cd env (serverHandler acfg ccfg ocfg) send raw c) (\<lambda>(_, c'). onConn others c') (onConn others c)"
proof -
  have fin: "returns (onConn others c') (ret (e, c')) (\<lambda>(_, c'). onConn others c')" for e :: "err option" and c'
    by (simp add: returns_def ret_def)
  note after = hoare_returns [OF returns_andThen [OF returns_stopPush]] hoare_returns [OF returns_andThen [OF returns_usage(1)]]
  show "hoare (\<lambda>w. onConn others c w \<and> busNext (wBus w) \<noteq> - 1)
      (webSocketMessage cd env (serverHandler acfg ccfg ocfg) send raw c) (\<lambda>(_, c'). onConn others c') (onConn others c)"
    unfolding webSocketMessage_def
    by (rule hoare_andThen [OF hoare_onBatch [OF assms]]) (auto intro!: after fin split: sum.split)
  show "hoare (\<lambda>w. onConn others c w \<and> busNext (wBus w) \<noteq> - 1)
      (streamMessage cd env (serverHandler acfg ccfg ocfg) send raw c) (\<lambda>(_, c'). onConn others c') (onConn others c)"
    unfolding streamMessage_def
    by (rule hoare_andThen [OF hoare_onBatch [OF assms]])
      (auto intro!: after fin returns_andThen [OF returns_stopPush] split: sum.split)
qed

lemma hoare_turns:
  assumes "0 < ccEventBatchSize ccfg"
  shows "hoare (\<lambda>w. onConn others c w \<and> busNext (wBus w) \<noteq> - 1)
      (handleWebSocketTurn cd env (serverHandler acfg ccfg ocfg) send read c) (onConn others) (onConn others c)"
    and "hoare (\<lambda>w. onConn others c w \<and> busNext (wBus w) \<noteq> - 1)
      (HandleStreamTurn cd env (serverHandler acfg ccfg ocfg) send item c) (\<lambda>(_, c'). onConn others c') (onConn others c)"
proof -
  have stop: "hoare (\<lambda>w. onConn others c w \<and> busNext (wBus w) \<noteq> - 1) (andThen (stopPush c) (\<lambda>c'. ret (f c'))) Q E"
    if "\<And>c' w. onConn others c' w \<Longrightarrow> Q (f c') w" for f :: "connection \<Rightarrow> 'a" and Q E
    by (rule hoare_pre [OF hoare_returns [OF returns_andThen [OF returns_stopPush]]])
      (auto simp: returns_def ret_def that)
  have end': "hoare P (andThen m (\<lambda>x. ret (f x))) Q E" if "hoare P m R E" and "\<And>x w. R x w \<Longrightarrow> Q (f x) w"
    for P Q R E and m :: "'b io" and f :: "'b \<Rightarrow> 'c"
    by (rule hoare_andThen [OF that(1)]) (rule hoare_pre [OF hoare_ret], rule that(2))
  have "hoare (\<lambda>w. onConn others c w \<and> busNext (wBus w) \<noteq> - 1)
      (andThen (webSocketMessage cd env (serverHandler acfg ccfg ocfg) send raw c) (\<lambda>x. ret (case x of (e, c') \<Rightarrow>
        if e = None then c' else endRead c'))) (onConn others) (onConn others c)" for raw
    by (rule end' [OF hoare_messages(1) [OF assms]]) auto
  then show "hoare (\<lambda>w. onConn others c w \<and> busNext (wBus w) \<noteq> - 1)
      (handleWebSocketTurn cd env (serverHandler acfg ccfg ocfg) send read c) (onConn others) (onConn others c)"
    unfolding handleWebSocketTurn_def
    by (cases read) (simp_all add: stop case_prod_beta', simp add: hoare_def ret_def)
  have "hoare (\<lambda>w. onConn others c w \<and> busNext (wBus w) \<noteq> - 1)
      (andThen (streamMessage cd env (serverHandler acfg ccfg ocfg) send raw c) (\<lambda>x. ret (case x of (e, c') \<Rightarrow>
        (case e of None \<Rightarrow> (None, c') | Some e' \<Rightarrow> (Some (Some e'), endRead c'))))) (\<lambda>(_, c'). onConn others c') (onConn others c)" for raw
    by (rule end' [OF hoare_messages(2) [OF assms]]) (auto split: option.splits)
  then show "hoare (\<lambda>w. onConn others c w \<and> busNext (wBus w) \<noteq> - 1)
      (HandleStreamTurn cd env (serverHandler acfg ccfg ocfg) send item c) (\<lambda>(_, c'). onConn others c') (onConn others c)"
    unfolding HandleStreamTurn_def
    by (cases item) (simp_all add: stop case_prod_beta')
qed

text \<open>The push loop never panics, and an iteration of it returns.\<close>

lemma noErr_pullOutboxPackets: "noErr (pullOutboxPackets env h dev sent)"
proof -
  have "noErr (onErr m (\<lambda>e. ret (f e)))" for m :: "'a io" and f
    by (auto simp: noErr_def onErr_def ret_def split: prod.splits outcome.splits)
  moreover have "noErr (clockNow env)" by (simp add: noErr_def clockNow_def)
  ultimately show ?thesis
    by (auto simp: pullOutboxPackets_def Let_def intro!: noErr_andThen noErr_ret split: option.split)
qed

lemma calm_receive: "calm (onBus (\<lambda>b. (Ret (), chanRecv ch b)))"
  by (auto simp: calm_def onBus_def busIs_def busOk_recv) (simp_all add: chanRecv_def)

lemma returns_pushRound:
  "returns (onConn others c) (pushRound cd env (serverHandler acfg ccfg ocfg) send started c) (\<lambda>(_, c'). onConn others c')"
proof -
  have ret: "returns (onConn others c') (ret (v, c')) (\<lambda>(_, c'). onConn others c')" for v :: pushNext and c'
    by (simp add: returns_def ret_def)
  have stop: "returns (onConn others c) (andThen (stopLoop c') (\<lambda>c'. ret (PushDone, c'))) (\<lambda>(_, c'). onConn others c')"
    if "onConn others c' = onConn others c" for c'
  proof -
    have "returns (onConn others c) (stopLoop c') (onConn others)"
      by (rule returns_weaken [OF returns_stopLoop [of others]]) (auto simp: that)
    then show ?thesis by (rule returns_andThen) (rule ret)
  qed
  have usage: "returns (onConn others c) (andThen (recordUserUsage env h u 0 0 n) (\<lambda>_. ret (PushAgain, c')))
      (\<lambda>(_, c'). onConn others c')" if "onConn others c' = onConn others c" for h u n c'
    by (rule returns_andThen [OF returns_usage(2)]) (use ret [of c'] that in simp)
  show ?thesis
  proof (cases "cnCanceled c")
    case True
    then show ?thesis by (simp add: pushRound_def stop)
  next
    case False
    have "returns (onConn others c) (case result of
          Inl _ \<Rightarrow> ret (PushWait, c\<lparr>cnSent := sent\<rparr>)
        | Inr packets \<Rightarrow>
            if packets = [] then ret (PushWait, c\<lparr>cnSent := sent\<rparr>)
            else (case writePackets cd send packets of
                Inl _ \<Rightarrow> andThen (stopLoop (c\<lparr>cnSent := sent, cnCanceled := True\<rparr>)) (\<lambda>c''. ret (PushDone, c''))
              | Inr bytesOut \<Rightarrow>
                  andThen (recordUserUsage env (serverHandler acfg ccfg ocfg) (csUserPublicKey started) 0 0 bytesOut)
                    (\<lambda>_. ret (PushAgain, c\<lparr>cnSent := sent\<rparr>)))) (\<lambda>(_, c'). onConn others c')"
      for result :: "err + ResponsePacket list" and sent
      using ret [of "c\<lparr>cnSent := sent\<rparr>"] by (auto intro!: stop usage split: sum.split)
    then show ?thesis
      using False unfolding pushRound_def
      by simp (rule returns_andThen [OF onConn_calm [OF calm_pullOutboxPackets noErr_pullOutboxPackets]],
        auto simp: Let_def)
  qed
qed

lemma returns_pushTurn: "returns (onConn others c) (pushTurn cd env (serverHandler acfg ccfg ocfg) send notified c)
    (\<lambda>(_, c'). onConn others c')"
proof -
  have "noErr (onBus (\<lambda>b. (Ret (), chanRecv ch b)))" for ch
    by (simp add: noErr_def onBus_def)
  then have "returns (onConn others c) (if notified then onBus (\<lambda>b. (Ret (), chanRecv ch b)) else ret ()) (\<lambda>_. onConn others c)" for ch
    using onConn_calm [OF calm_receive] by (simp add: returns_def ret_def)
  then show ?thesis
    unfolding pushTurn_def
    by (auto intro!: returns_andThen returns_pushRound split: option.split) (simp add: returns_def ret_def)
qed

section \<open>All connections\<close>

text \<open>The world and the connections of the server, by a number each.\<close>

record connServer =
  ksWorld :: world
  ksConns :: "nat \<Rightarrow> connection option"

text \<open>Every connection takes turns of its read loop until that ends, and of its push loop while it runs; \<^verbatim>\<open>net/http\<close> recovers
  from the panic of a WebSocket handler, whose deferred \<open>cancel\<close> runs. A panic on a TCP stream ends the
  server. The bus has not yet counted \<open>2 ^ 64 - 1\<close> subscriptions when a connection is read.\<close>

inductive connectionStep ::
  "codec \<Rightarrow> env \<Rightarrow> AuthConfig \<Rightarrow> ClientConfig \<Rightarrow> OutboxConfig \<Rightarrow> connServer \<Rightarrow> connServer \<Rightarrow> bool"
  for cd env acfg ccfg ocfg where
  conn_accept: "cs k = None \<Longrightarrow>
    connectionStep cd env acfg ccfg ocfg \<lparr>ksWorld = w, ksConns = cs\<rparr> \<lparr>ksWorld = w, ksConns = cs(k \<mapsto> newConnection)\<rparr>"
| conn_webSocket: "cs k = Some c \<Longrightarrow> \<not> cnDone c \<Longrightarrow> busNext (wBus w) \<noteq> - 1 \<Longrightarrow>
    handleWebSocketTurn cd env (serverHandler acfg ccfg ocfg) send read c w = (Ret c', w') \<Longrightarrow>
    connectionStep cd env acfg ccfg ocfg \<lparr>ksWorld = w, ksConns = cs\<rparr> \<lparr>ksWorld = w', ksConns = cs(k \<mapsto> c')\<rparr>"
| conn_recovered: "cs k = Some c \<Longrightarrow> \<not> cnDone c \<Longrightarrow> busNext (wBus w) \<noteq> - 1 \<Longrightarrow>
    handleWebSocketTurn cd env (serverHandler acfg ccfg ocfg) send read c w = (Panic p, w') \<Longrightarrow>
    connectionStep cd env acfg ccfg ocfg \<lparr>ksWorld = w, ksConns = cs\<rparr> \<lparr>ksWorld = w', ksConns = cs(k \<mapsto> endRead c)\<rparr>"
| conn_stream: "cs k = Some c \<Longrightarrow> \<not> cnDone c \<Longrightarrow> busNext (wBus w) \<noteq> - 1 \<Longrightarrow>
    HandleStreamTurn cd env (serverHandler acfg ccfg ocfg) send item c w = (Ret (result, c'), w') \<Longrightarrow>
    connectionStep cd env acfg ccfg ocfg \<lparr>ksWorld = w, ksConns = cs\<rparr> \<lparr>ksWorld = w', ksConns = cs(k \<mapsto> c')\<rparr>"
| conn_push: "cs k = Some c \<Longrightarrow> cnPushing c \<Longrightarrow>
    pushTurn cd env (serverHandler acfg ccfg ocfg) send notified c w = (Ret (next, c'), w') \<Longrightarrow>
    connectionStep cd env acfg ccfg ocfg \<lparr>ksWorld = w, ksConns = cs\<rparr> \<lparr>ksWorld = w', ksConns = cs(k \<mapsto> c')\<rparr>"
| conn_gone: "cs k = Some c \<Longrightarrow> cnDone c \<Longrightarrow> \<not> cnPushing c \<Longrightarrow>
    connectionStep cd env acfg ccfg ocfg \<lparr>ksWorld = w, ksConns = cs\<rparr> \<lparr>ksWorld = w, ksConns = cs(k := None)\<rparr>"
| conn_http: "connectionStep cd env acfg ccfg ocfg \<lparr>ksWorld = w, ksConns = cs\<rparr>
    \<lparr>ksWorld = snd (handleHTTP cd env (serverHandler acfg ccfg ocfg) request scopes w), ksConns = cs\<rparr>"
| conn_dispatch: "connectionStep cd env acfg ccfg ocfg \<lparr>ksWorld = w, ksConns = cs\<rparr>
    \<lparr>ksWorld = snd (DispatchOnce env ocfg (Some outboxNotifier) w), ksConns = cs\<rparr>"
| conn_janitor: "connectionStep cd env acfg ccfg ocfg \<lparr>ksWorld = w, ksConns = cs\<rparr>
    \<lparr>ksWorld = snd (janitorRun env ocfg w), ksConns = cs\<rparr>"

inductive_cases connectionStepE: "connectionStep cd env acfg ccfg ocfg s t"

text \<open>The start: a configuration \<open>NewService\<close> accepted, a new bus and no connection.\<close>

definition noConnection :: "ClientConfig \<Rightarrow> connServer \<Rightarrow> bool" where
  "noConnection ccfg s \<longleftrightarrow> 0 < ccEventBatchSize ccfg \<and> wBus (ksWorld s) = newBus \<and> ksConns s = (\<lambda>_. None)"

text \<open>The subscriptions of the other connections.\<close>

definition othersOf :: "(nat \<Rightarrow> connection option) \<Rightarrow> nat \<Rightarrow> Bus \<Rightarrow> string \<Rightarrow> 64 word \<Rightarrow> nat option" where
  "othersOf cs n b k j =
     (if \<exists>m d. m \<noteq> n \<and> cs m = Some d \<and> connSub d k j \<noteq> None then busLookup b k j else None)"

definition subsInv :: "(nat \<Rightarrow> connection option) \<Rightarrow> Bus \<Rightarrow> bool" where
  "subsInv cs b \<longleftrightarrow> busOk b
     \<and> (\<forall>k j ch. busLookup b k j = Some ch \<longleftrightarrow> (\<exists>n c. cs n = Some c \<and> connSub c k j = Some ch))
     \<and> (\<forall>n m c d k j ch ch'. cs n = Some c \<longrightarrow> cs m = Some d \<longrightarrow> connSub c k j = Some ch \<longrightarrow> connSub d k j = Some ch' \<longrightarrow> n = m)
     \<and> (\<forall>k j ch. busLookup b k j = Some ch \<longrightarrow> j \<le> busNext b)
     \<and> (\<forall>n c started ch i. cs n = Some c \<longrightarrow> cnPush c = Some (started, ch, i)
          \<longrightarrow> csAuthenticated started \<and> csDeviceID started \<noteq> [])"

lemma subsInvD:
  assumes "subsInv cs b"
  shows "busOk b" and "busLookup b k j = Some ch \<longleftrightarrow> (\<exists>n c. cs n = Some c \<and> connSub c k j = Some ch)"
    and "cs n = Some c \<Longrightarrow> cs m = Some d \<Longrightarrow> connSub c k j = Some ch \<Longrightarrow> connSub d k j = Some ch' \<Longrightarrow> n = m"
    and "busLookup b k j = Some ch \<Longrightarrow> j \<le> busNext b"
    and "cs n = Some c \<Longrightarrow> cnPush c = Some (started, ch, i) \<Longrightarrow> csAuthenticated started \<and> csDeviceID started \<noteq> []"
  using assms unfolding subsInv_def by (elim conjE; simp; fail | elim conjE; metis)+

lemma subsInvI:
  assumes "busOk b" and "\<And>k j ch. busLookup b k j = Some ch \<longleftrightarrow> (\<exists>n c. cs n = Some c \<and> connSub c k j = Some ch)"
    and "\<And>n m c d k j ch ch'. cs n = Some c \<Longrightarrow> cs m = Some d \<Longrightarrow> connSub c k j = Some ch \<Longrightarrow> connSub d k j = Some ch' \<Longrightarrow> n = m"
    and "\<And>k j ch. busLookup b k j = Some ch \<Longrightarrow> j \<le> busNext b"
    and "\<And>n c started ch i. cs n = Some c \<Longrightarrow> cnPush c = Some (started, ch, i) \<Longrightarrow> csAuthenticated started \<and> csDeviceID started \<noteq> []"
  shows "subsInv cs b"
  unfolding subsInv_def using assms by blast

lemma othersOf_Some:
  assumes "subsInv cs b"
  shows "othersOf cs n b k j = Some ch \<longleftrightarrow> (\<exists>m d. m \<noteq> n \<and> cs m = Some d \<and> connSub d k j = Some ch)"
proof -
  have "busLookup b k j = connSub d k j" if "cs m = Some d" and "connSub d k j \<noteq> None" for m d
    using that subsInvD(2) [OF assms] by fastforce
  then show ?thesis unfolding othersOf_def by (smt (verit) option.distinct(1))
qed

lemma subsInv_conn:
  assumes "subsInv cs b" and "cs n = Some c"
  shows "connBus (othersOf cs n b) c b"
proof -
  have "busLookup b k j = (case connSub c k j of None \<Rightarrow> othersOf cs n b k j | Some ch \<Rightarrow> Some ch)" for k j
  proof (cases "connSub c k j")
    case None
    have "busLookup b k j = Some ch \<longleftrightarrow> othersOf cs n b k j = Some ch" for ch
      unfolding othersOf_Some [OF assms(1)] subsInvD(2) [OF assms(1)]
    proof -
      have "m \<noteq> n" if "cs m = Some d" and "connSub d k j = Some ch" for m d
        using that None assms(2) by auto
      then show "(\<exists>m d. cs m = Some d \<and> connSub d k j = Some ch)
          \<longleftrightarrow> (\<exists>m d. m \<noteq> n \<and> cs m = Some d \<and> connSub d k j = Some ch)" by blast
    qed
    then have "busLookup b k j = othersOf cs n b k j" by (metis not_None_eq)
    then show ?thesis using None by simp
  next
    case (Some ch)
    then have "busLookup b k j = Some ch" unfolding subsInvD(2) [OF assms(1)] using assms(2) by blast
    then show ?thesis using Some by simp
  qed
  moreover have "othersOf cs n b k j = None" if "connSub c k j = Some ch" for k j ch
  proof (cases "othersOf cs n b k j")
    case (Some ch')
    then obtain m d where "m \<noteq> n" "cs m = Some d" "connSub d k j = Some ch'"
      by (auto simp: othersOf_Some [OF assms(1)])
    then show ?thesis using subsInvD(3) [OF assms(1) assms(2) _ that] by blast
  qed simp
  ultimately show ?thesis
    using subsInvD(1,4,5) [OF assms(1)] assms(2) unfolding connBus_def by blast
qed

lemma conn_subsInv:
  assumes inv: "subsInv cs b" and "connBus (othersOf cs n b) c b'"
  shows "subsInv (cs(n \<mapsto> c)) b'"
proof -
  have look: "busLookup b' k j = (case connSub c k j of None \<Rightarrow> othersOf cs n b k j | Some ch \<Rightarrow> Some ch)" for k j
    using assms(2) by (simp add: connBus_def)
  have free: "m = n" if "connSub c k j = Some ch" "cs m = Some d" "connSub d k j = Some ch'" for m d k j ch ch'
    using that assms(2) othersOf_Some [OF inv, of n k j ch'] unfolding connBus_def by force
  have "busLookup b' k j = Some ch \<longleftrightarrow> (\<exists>m d. (cs(n \<mapsto> c)) m = Some d \<and> connSub d k j = Some ch)" for k j ch
  proof (cases "connSub c k j")
    case None
    then show ?thesis unfolding look by (auto simp: othersOf_Some [OF inv] split: if_splits)
  next
    case (Some ch')
    then show ?thesis using free [OF Some] by (auto simp: look split: if_splits)
  qed
  moreover have "m = m'" if "(cs(n \<mapsto> c)) m = Some d" "(cs(n \<mapsto> c)) m' = Some d'" "connSub d k j = Some ch"
      "connSub d' k j = Some ch'" for m m' d d' k j ch ch'
    using that free subsInvD(3) [OF inv, of m d m' d' k j ch ch'] by (auto split: if_splits)
  moreover have "csAuthenticated started \<and> csDeviceID started \<noteq> []"
    if "(cs(n \<mapsto> c)) m = Some d" "cnPush d = Some (started, ch, i)" for m d started ch i
    using that assms(2) subsInvD(5) [OF inv] by (auto simp: connBus_def split: if_splits)
  moreover have "busOk b'" "busLookup b' k j = Some ch \<Longrightarrow> j \<le> busNext b'" for k j ch
    using assms(2) unfolding connBus_def by blast+
  ultimately show ?thesis by (intro subsInvI)
qed

text \<open>A connection without a subscription comes and goes.\<close>

lemma cnPush_new: "cnPush newConnection = None"
  by (simp add: newConnection_def)

lemma subsInv_come:
  assumes "subsInv cs b" and "cs n = None"
  shows "subsInv (cs(n \<mapsto> newConnection)) b"
proof -
  have "(\<exists>m d. (cs(n \<mapsto> newConnection)) m = Some d \<and> connSub d k j = Some ch) \<longleftrightarrow>
      (\<exists>m d. cs m = Some d \<and> connSub d k j = Some ch)" for k j ch
    using assms(2) by (metis connSub_fields(5) fun_upd_apply option.distinct(1) option.inject)
  then show ?thesis
    using subsInvD [OF assms(1)] by (intro subsInvI) (auto simp: cnPush_new split: if_splits)
qed

lemma subsInv_gone:
  assumes "subsInv cs b" and "cs n = Some c" and "\<not> cnPushing c"
  shows "subsInv (cs(n := None)) b"
proof -
  have "connSub c k j = None" for k j
    using assms(3) by (simp add: connSub_def split: option.split)
  then have "(\<exists>m d. (cs(n := None)) m = Some d \<and> connSub d k j = Some ch) \<longleftrightarrow>
      (\<exists>m d. cs m = Some d \<and> connSub d k j = Some ch)" for k j ch
    using assms(2) by (metis fun_upd_apply option.distinct(1) option.inject)
  then show ?thesis
    using subsInvD [OF assms(1)] by (intro subsInvI) (auto split: if_splits)
qed

lemma subsInv_quiet:
  assumes "subsInv cs (wBus w)" and "\<And>subs i. keeps (busIs subs i) m"
  shows "subsInv cs (wBus (snd (m w)))"
proof -
  have "busIs (busSubs (wBus w)) (busNext (wBus w)) (snd (m w))"
    by (rule keepsD [OF assms(2) busIs_self [OF subsInvD(1) [OF assms(1)]]])
  moreover from this have "busLookup (wBus (snd (m w))) = busLookup (wBus w)"
    by (simp add: fun_eq_iff busLookup_def busIs_def)
  ultimately show ?thesis
    using assms(1) by (simp add: subsInv_def busIs_def)
qed

definition connsInv :: "ClientConfig \<Rightarrow> connServer \<Rightarrow> bool" where
  "connsInv ccfg s \<longleftrightarrow> 0 < ccEventBatchSize ccfg \<and> subsInv (ksConns s) (wBus (ksWorld s))"

lemma turn_keeps:
  assumes "connsInv ccfg \<lparr>ksWorld = w, ksConns = cs\<rparr>" and "cs k = Some c"
    and "onConn (othersOf cs k (wBus w)) c w \<Longrightarrow> onConn (othersOf cs k (wBus w)) c' w'"
  shows "connsInv ccfg \<lparr>ksWorld = w', ksConns = cs(k \<mapsto> c')\<rparr>"
  using assms subsInv_conn [of cs "wBus w" k c] conn_subsInv [of cs "wBus w" k c' "wBus w'"]
  by (simp add: connsInv_def onConn_def)

interpretation connm: invariant_system "noConnection ccfg" "connectionStep cd env acfg ccfg ocfg" "connsInv ccfg"
  for cd env acfg ccfg ocfg
proof
  fix s assume "noConnection ccfg s"
  then show "connsInv ccfg s"
    by (simp add: noConnection_def connsInv_def subsInv_def busOk_new) (simp add: newBus_def busLookup_def)
next
  fix s t assume "connectionStep cd env acfg ccfg ocfg s t" and inv: "connsInv ccfg s"
  then show "connsInv ccfg t"
  proof cases
    case (conn_accept cs k w)
    then show ?thesis using inv subsInv_come by (simp add: connsInv_def)
  next
    case (conn_webSocket cs k c w send read c' w')
    show ?thesis
      unfolding conn_webSocket(2)
      using hoareD(1) [OF hoare_turns(1) _ conn_webSocket(6)] inv conn_webSocket
      by (intro turn_keeps [of ccfg w cs k c]) (auto simp: connsInv_def)
  next
    case (conn_recovered cs k c w send read p w')
    show ?thesis
      unfolding conn_recovered(2)
      using hoareD(3) [OF hoare_turns(1) _ conn_recovered(6)] inv conn_recovered
      by (intro turn_keeps [of ccfg w cs k c]) (auto simp: connsInv_def)
  next
    case (conn_stream cs k c w send item result c' w')
    show ?thesis
      unfolding conn_stream(2)
      using hoareD(1) [OF hoare_turns(2) _ conn_stream(6)] inv conn_stream
      by (intro turn_keeps [of ccfg w cs k c]) (auto simp: connsInv_def)
  next
    case (conn_push cs k c send notified w next' c' w')
    show ?thesis
      unfolding conn_push(2)
      using hoareD(1) [OF hoare_returns [OF returns_pushTurn] _ conn_push(5)] inv conn_push
      by (intro turn_keeps [of ccfg w cs k c]) auto
  next
    case (conn_gone cs k c w)
    then show ?thesis using inv subsInv_gone by (simp add: connsInv_def)
  next
    case (conn_http w cs request scopes)
    then show ?thesis using inv subsInv_quiet [OF _ quiet_http] by (simp add: connsInv_def)
  next
    case (conn_dispatch w cs)
    then show ?thesis using inv subsInv_quiet [OF _ calm_quiet [OF calm_outbox(1)]] by (simp add: connsInv_def)
  next
    case (conn_janitor w cs)
    then show ?thesis using inv subsInv_quiet [OF _ calm_quiet [OF calm_outbox(3)]] by (simp add: connsInv_def)
  qed
qed

section \<open>Properties\<close>

lemma push_channel:
  assumes "connsInv ccfg s" and "ksConns s n = Some c" and "cnPushing c" and "cnPush c = Some (started, ch, i)"
  shows "busLookup (wBus (ksWorld s)) (csDeviceID started) i = Some ch" and "ch < length (busChans (wBus (ksWorld s)))"
    and "csAuthenticated started \<and> csDeviceID started \<noteq> []"
proof -
  have inv: "subsInv (ksConns s) (wBus (ksWorld s))" using assms(1) by (simp add: connsInv_def)
  show look: "busLookup (wBus (ksWorld s)) (csDeviceID started) i = Some ch"
    using assms(2-4) unfolding subsInvD(2) [OF inv] by (intro exI [of _ n] exI [of _ c]) (simp add: connSub_def)
  show "ch < length (busChans (wBus (ksWorld s)))"
    using busOkD(3) [OF subsInvD(1) [OF inv] look] by simp
  show "csAuthenticated started \<and> csDeviceID started \<noteq> []"
    by (rule subsInvD(5) [OF inv assms(2,4)])
qed

lemma no_subscription:
  assumes "connsInv ccfg s" and "\<And>n c. ksConns s n = Some c \<Longrightarrow> \<not> cnPushing c"
  shows "busSubs (wBus (ksWorld s)) = []"
proof (rule ccontr)
  let ?b = "wBus (ksWorld s)"
  have inv: "subsInv (ksConns s) ?b" using assms(1) by (simp add: connsInv_def)
  assume "busSubs ?b \<noteq> []"
  then obtain k m where km: "(k, m) \<in> set (busSubs ?b)" by (metis hd_in_set prod.collapse)
  have m: "map_of (busSubs ?b) k = Some m" "m \<noteq> []" "distinct (map fst m)"
    using km busOkD(1,2) [OF subsInvD(1) [OF inv]] by auto
  then have "busLookup ?b k (fst (hd m)) = Some (snd (hd m))"
    by (simp add: busLookup_def)
  then obtain n c where "ksConns s n = Some c" "connSub c k (fst (hd m)) \<noteq> None"
    unfolding subsInvD(2) [OF inv] by auto
  then show False
    using assms(2) by (auto simp: connSub_def split: option.splits if_splits)
qed

lemma pushTurn_returns:
  assumes "connsInv ccfg s" and "ksConns s n = Some c"
  shows "\<exists>x w'. pushTurn cd env (serverHandler acfg ccfg ocfg) send woken c (ksWorld s) = (Ret x, w')"
proof -
  have "onConn (othersOf (ksConns s) n (wBus (ksWorld s))) c (ksWorld s)"
    using assms subsInv_conn by (simp add: connsInv_def onConn_def)
  from returnsD [OF returns_pushTurn this] show ?thesis by blast
qed


section \<open>Example\<close>

text \<open>A user with a pending challenge solves it on a new WebSocket connection; the push loop of the tablet starts.\<close>

definition solveCodec :: codec where
  "solveCodec = sampleCodec\<lparr>cdPayload := (\<lambda>p. Inr \<lparr>rpRequestID = 77, rpRPCCall = ''solveAuthChallenge'', rpTimestamp = 0,
       rpVersion = 1, rpParameters = p\<rparr>),
     cdSolveAuth := (\<lambda>p. Inr \<lparr>svSessionID = 1, svSignature = p\<rparr>)\<rparr>"

definition challengedWorld :: world where
  "challengedWorld = sampleWorld (emptyDb\<lparr>tAuthSessions := [\<lparr>sesSessionID = 1, sesUserPublicKey = sampleKey 1,
     sesClaimedPublicIP = [], sesDeviceID = ''tablet'', sesClientNonce = [9], sesChallengePayload = [9], sesIsAuthenticated = False,
     sesAuthenticatedAt = None, sesExpiresAt = minute, sesCreatedAt = 0, sesUpdatedAt = 0\<rparr>]\<rparr>)"

definition solvedTurn :: "connection outcome \<times> world" where
  "solvedTurn = handleWebSocketTurn solveCodec sampleEnv sampleHandler (\<lambda>_. None) (BinaryMessage (replicate 64 9))
     newConnection challengedWorld"

definition subscribed :: "connection outcome \<Rightarrow> bool" where
  "subscribed r = (case r of
       Ret c \<Rightarrow> cnPushing c \<and> (case cnPush c of Some (started, ch, i) \<Rightarrow> csDeviceID started = ''tablet'' \<and> ch = 0 | None \<Rightarrow> False)
     | _ \<Rightarrow> False)"

lemma solvedTurn_subscribed: "subscribed (fst solvedTurn)"
  by code_simp

lemma first_turn_reachable:
  assumes "wBus w0 = newBus" and "handleWebSocketTurn solveCodec sampleEnv sampleHandler send read newConnection w0 = (Ret c, w)"
  shows "reachable (noConnection sampleClient) (connectionStep solveCodec sampleEnv sampleAuth sampleClient sampleOutbox)
    \<lparr>ksWorld = w, ksConns = [0 \<mapsto> c]\<rparr>"
proof (rule reach_step [OF reach_step [OF reach_start]])
  show "noConnection sampleClient \<lparr>ksWorld = w0, ksConns = \<lambda>_. None\<rparr>"
    using assms(1) by (simp add: noConnection_def sampleClient_def)
  show "connectionStep solveCodec sampleEnv sampleAuth sampleClient sampleOutbox
      \<lparr>ksWorld = w0, ksConns = \<lambda>_. None\<rparr> \<lparr>ksWorld = w0, ksConns = [0 \<mapsto> newConnection]\<rparr>"
    by (rule conn_accept) simp
  have "connectionStep solveCodec sampleEnv sampleAuth sampleClient sampleOutbox
      \<lparr>ksWorld = w0, ksConns = [0 \<mapsto> newConnection]\<rparr> \<lparr>ksWorld = w, ksConns = [0 \<mapsto> newConnection, 0 \<mapsto> c]\<rparr>"
    by (rule conn_webSocket) (use assms in \<open>simp_all add: newConnection_def newBus_def\<close>)
  then show "connectionStep solveCodec sampleEnv sampleAuth sampleClient sampleOutbox
      \<lparr>ksWorld = w0, ksConns = [0 \<mapsto> newConnection]\<rparr> \<lparr>ksWorld = w, ksConns = [0 \<mapsto> c]\<rparr>"
    by simp
qed


end
