(* ===== verification/Logging.thy ===== *)
theory Logging
  imports Schema "HOL-Library.AList"
begin

text \<open>
  The log handler \<^verbatim>\<open>platform/logging/serilog.go\<close>: a record of \<^verbatim>\<open>log/slog\<close> becomes a map of fields, written
  as one line of JSON. \<^verbatim>\<open>encoding/json\<close>, the texts of errors and the stack frame of a program counter
  are parameters.
\<close>

section \<open>Values and records of slog\<close>

text \<open>\<^verbatim>\<open>slog.Value\<close> by its kind. A value of kind \<^verbatim>\<open>Any\<close> is an error or anything else; durations are
  counted in nanoseconds; a \<^verbatim>\<open>LogValuer\<close> is given by the value it stands for.\<close>

datatype slogValue =
    VErr err
  | VAny any
  | VBool bool
  | VDuration int
  | VFloat64 int
  | VInt64 int
  | VString string
  | VTime time
  | VUint64 int
  | VGroup "(string \<times> slogValue) list"
  | VLogValuer slogValue

type_synonym attr = "string \<times> slogValue"

fun Resolve :: "slogValue \<Rightarrow> slogValue" where
  "Resolve (VLogValuer v) = Resolve v"
| "Resolve v = v"

definition LevelDebug :: int where "LevelDebug = -4"
definition LevelInfo :: int where "LevelInfo = 0"
definition LevelWarn :: int where "LevelWarn = 4"
definition LevelError :: int where "LevelError = 8"

text \<open>A call of a logger: level, message and attributes.\<close>

record LogCall =
  lcLevel :: int
  lcMessage :: string
  lcAttrs :: "attr list"

abbreviation logDebug :: "string \<Rightarrow> attr list \<Rightarrow> LogCall" where
  "logDebug msg attrs \<equiv> \<lparr>lcLevel = LevelDebug, lcMessage = msg, lcAttrs = attrs\<rparr>"

abbreviation logInfo :: "string \<Rightarrow> attr list \<Rightarrow> LogCall" where
  "logInfo msg attrs \<equiv> \<lparr>lcLevel = LevelInfo, lcMessage = msg, lcAttrs = attrs\<rparr>"

abbreviation logWarn :: "string \<Rightarrow> attr list \<Rightarrow> LogCall" where
  "logWarn msg attrs \<equiv> \<lparr>lcLevel = LevelWarn, lcMessage = msg, lcAttrs = attrs\<rparr>"

text \<open>\<^verbatim>\<open>slog.Record\<close>: the zero time is \<open>None\<close>; so is a zero program counter, and otherwise the frame names
  the function and the line.\<close>

record LogRecord =
  lrTime :: "time option"
  lrFrame :: "(string \<times> int) option"
  lrCall :: LogCall

text \<open>What the handler calls: the formatting of instants, the texts of errors, the JSON encoder and the
  writer, which returns its error.\<close>

record logEnv =
  leRFC3339 :: "time \<Rightarrow> string"
  leErrText :: "err \<Rightarrow> string"
  leMarshal :: "payload \<Rightarrow> err + bytes"
  leWrite :: "bytes \<Rightarrow> err option"
  leNow :: time

section \<open>Durations as text\<close>

text \<open>\<^verbatim>\<open>time.Duration.String\<close>: \<open>fracPart n u\<close> is the text of \<open>u / 10 ^ n\<close> without trailing zeros.\<close>

fun dropZeros :: "string \<Rightarrow> string" where
  "dropZeros [] = []"
| "dropZeros (c # cs) = (if c = CHR ''0'' then dropZeros cs else c # cs)"

definition padLeft :: "nat \<Rightarrow> string \<Rightarrow> string" where
  "padLeft n s = replicate (n - length s) (CHR ''0'') @ s"

definition fracPart :: "nat \<Rightarrow> nat \<Rightarrow> string" where
  "fracPart n u =
     (let frac = rev (dropZeros (rev (padLeft n (natToDec (u mod 10 ^ n)))))
      in natToDec (u div 10 ^ n) @ (if frac = [] then [] else CHR ''.'' # frac))"

definition durationText :: "nat \<Rightarrow> string" where
  "durationText u =
     (if u = 0 then ''0s''
      else if u < 1000 then natToDec u @ ''ns''
      else if u < 1000000 then fracPart 3 u @ [CHR 0xC2, CHR 0xB5, CHR ''s'']
      else if u < 1000000000 then fracPart 6 u @ ''ms''
      else
        let minutes = u div 60000000000; seconds = fracPart 9 (u mod 60000000000) @ ''s''
        in if minutes = 0 then seconds
           else if minutes < 60 then natToDec minutes @ ''m'' @ seconds
           else natToDec (minutes div 60) @ ''h'' @ natToDec (minutes mod 60) @ ''m'' @ seconds)"

definition durationString :: "int \<Rightarrow> string" where
  "durationString d = (if d < 0 then CHR ''-'' # durationText (nat (- d)) else durationText (nat d))"

section \<open>Fields\<close>

fun logValue :: "logEnv \<Rightarrow> slogValue \<Rightarrow> any" where
  "logValue le (VErr e) = GString (leErrText le e)"
| "logValue le (VAny x) = x"
| "logValue le (VBool b) = GBool b"
| "logValue le (VDuration d) = GString (durationString d)"
| "logValue le (VFloat64 f) = GFloat64 f"
| "logValue le (VInt64 i) = GInt64 i"
| "logValue le (VString s) = GString s"
| "logValue le (VTime t) = GString (leRFC3339 le t)"
| "logValue le (VUint64 n) = GUint64 n"
| "logValue le (VGroup attrs) =
     GMap (fold (\<lambda>(k, v). AList.update k v) (map (\<lambda>(k, v). (k, logValue le v)) attrs) [])"
| "logValue le (VLogValuer v) = logValue le v"

definition serilogLevel :: "int \<Rightarrow> string" where
  "serilogLevel level =
     (if level \<le> LevelDebug then ''Debug''
      else if level < LevelWarn then []
      else if level < LevelError then ''Warning''
      else if level < LevelError + 4 then ''Error''
      else ''Fatal'')"

text \<open>\<^verbatim>\<open>fnv.New32a\<close> and \<^verbatim>\<open>%08x\<close>.\<close>

unbundle bit_operations_syntax

definition fnv32a :: "bytes \<Rightarrow> 32 word" where
  "fnv32a b = fold (\<lambda>c h. (h XOR ucast c) * 16777619) b 2166136261"

fun hexWord :: "nat \<Rightarrow> nat \<Rightarrow> string" where
  "hexWord 0 n = []"
| "hexWord (Suc k) n = hexWord k (n div 16) @ [hexDigit (n mod 16)]"

definition eventID :: "string \<Rightarrow> string" where
  "eventID message = hexWord 8 (unat (fnv32a (stringBytes message)))"

definition sourceContext :: "LogRecord \<Rightarrow> string" where
  "sourceContext r = (case lrFrame r of
       None \<Rightarrow> ''server_v2''
     | Some (f, line) \<Rightarrow> if f = [] then ''server_v2'' else f @ '':'' @ itoa line)"

section \<open>The handler\<close>

record SerilogHandler =
  shLevel :: int
  shAttrs :: "attr list"
  shGroups :: "string list"

definition NewSerilogHandler :: "int option \<Rightarrow> SerilogHandler" where
  "NewSerilogHandler level =
     \<lparr>shLevel = (case level of None \<Rightarrow> LevelInfo | Some l \<Rightarrow> l), shAttrs = [], shGroups = []\<rparr>"

definition Enabled :: "SerilogHandler \<Rightarrow> int \<Rightarrow> bool" where
  "Enabled h level \<longleftrightarrow> level \<ge> shLevel h"

definition WithAttrs :: "SerilogHandler \<Rightarrow> attr list \<Rightarrow> SerilogHandler" where
  "WithAttrs h attrs = h\<lparr>shAttrs := shAttrs h @ attrs\<rparr>"

definition WithGroup :: "SerilogHandler \<Rightarrow> string \<Rightarrow> SerilogHandler" where
  "WithGroup h name = (if name = [] then h else h\<lparr>shGroups := shGroups h @ [name]\<rparr>)"

definition WithSource :: "SerilogHandler \<Rightarrow> string \<Rightarrow> SerilogHandler" where
  "WithSource h source = WithAttrs h [(''SourceContext'', VString source)]"

text \<open>The prefix of the groups.\<close>

definition groupKey :: "string list \<Rightarrow> string \<Rightarrow> string" where
  "groupKey groups key = foldr (\<lambda>g k. g @ ''.'' @ k) groups key"

definition appendAttr :: "logEnv \<Rightarrow> SerilogHandler \<Rightarrow> attr \<Rightarrow> payload \<Rightarrow> payload" where
  "appendAttr le h attr event =
     (let v = Resolve (snd attr); key = groupKey (shGroups h) (fst attr)
      in if fst attr = [] \<and> v = VAny GNil then event
         else if key = [] then event
         else case v of
                VErr e \<Rightarrow>
                  if key = ''error''
                  then AList.update key (GString (leErrText le e)) (AList.update ''@x'' (GString (leErrText le e)) event)
                  else AList.update key (logValue le v) event
              | _ \<Rightarrow> AList.update key (logValue le v) event)"

text \<open>The fields of an event: \<^verbatim>\<open>event[key] = v\<close> is an update of an association list.\<close>

definition logFields :: "logEnv \<Rightarrow> SerilogHandler \<Rightarrow> LogRecord \<Rightarrow> payload" where
  "logFields le h r =
     (let level = serilogLevel (lcLevel (lrCall r));
          start =
            [(''@t'', GString (leRFC3339 le (case lrTime r of None \<Rightarrow> leNow le | Some t \<Rightarrow> t))),
             (''@m'', GString (lcMessage (lrCall r))),
             (''@i'', GString (eventID (lcMessage (lrCall r)))),
             (''SourceContext'', GString (sourceContext r))];
          event = fold (appendAttr le h) (shAttrs h @ lcAttrs (lrCall r))
            (if level \<noteq> [] then AList.update ''@l'' (GString level) start else start);
          event = (if ''SourceContext'' \<in> fst ` set event then event
                   else AList.update ''SourceContext'' (GString (sourceContext r)) event)
      in if ''@i'' \<in> fst ` set event then event
         else AList.update ''@i'' (GString (eventID (lcMessage (lrCall r)))) event)"

definition Handle :: "logEnv \<Rightarrow> SerilogHandler \<Rightarrow> LogRecord \<Rightarrow> err option" where
  "Handle le h r = (case leMarshal le (logFields le h r) of
       Inl e \<Rightarrow> Some (ErrWrap ''marshal log event'' e)
     | Inr payload \<Rightarrow> leWrite le (payload @ [10]))"

section \<open>The fields every event has\<close>

lemma appendAttr_form:
  "appendAttr le h a ev = ev
   \<or> (\<exists>v. appendAttr le h a ev = AList.update (groupKey (shGroups h) (fst a)) v ev)
   \<or> (\<exists>v. appendAttr le h a ev = AList.update (groupKey (shGroups h) (fst a)) v (AList.update ''@x'' v ev))"
  unfolding appendAttr_def Let_def by (cases "Resolve (snd a)") (simp_all, blast+)

lemma appendAttr_cases:
  obtains "appendAttr le h a ev = ev"
  | v where "appendAttr le h a ev = AList.update (groupKey (shGroups h) (fst a)) v ev"
  | v where "appendAttr le h a ev =
      AList.update (groupKey (shGroups h) (fst a)) v (AList.update ''@x'' v ev)"
  using appendAttr_form by blast

lemma appendAttr_keys: "fst ` set ev \<subseteq> fst ` set (appendAttr le h a ev)"
  by (rule appendAttr_cases [of le h a ev]) (auto simp: dom_update)

lemma appendAttr_distinct: "distinct (map fst ev) \<Longrightarrow> distinct (map fst (appendAttr le h a ev))"
  by (rule appendAttr_cases [of le h a ev]) (auto intro: distinct_update)

lemma appendAttr_other:
  "f \<noteq> ''@x'' \<Longrightarrow> f \<noteq> groupKey (shGroups h) (fst a) \<Longrightarrow>
     map_of (appendAttr le h a ev) f = map_of ev f"
  by (rule appendAttr_cases [of le h a ev]) (auto simp: update_conv')

lemma appendAttrs_distinct:
  "distinct (map fst ev) \<Longrightarrow> distinct (map fst (fold (appendAttr le h) attrs ev))"
  by (induction attrs arbitrary: ev) (simp_all add: appendAttr_distinct)

lemma appendAttrs_keys: "fst ` set ev \<subseteq> fst ` set (fold (appendAttr le h) attrs ev)"
proof (induction attrs arbitrary: ev)
  case (Cons a attrs)
  then show ?case using appendAttr_keys [of ev le h a] by simp (meson order_trans)
qed simp

lemma appendAttrs_other:
  assumes "f \<noteq> ''@x''" and "f \<notin> (\<lambda>a. groupKey (shGroups h) (fst a)) ` set attrs"
  shows "map_of (fold (appendAttr le h) attrs ev) f = map_of ev f"
  using assms by (induction attrs arbitrary: ev) (simp_all add: appendAttr_other)

text \<open>The fields before any attribute.\<close>

definition baseFields :: "logEnv \<Rightarrow> LogRecord \<Rightarrow> payload" where
  "baseFields le r =
     (let level = serilogLevel (lcLevel (lrCall r))
      in [(''@t'', GString (leRFC3339 le (case lrTime r of None \<Rightarrow> leNow le | Some t \<Rightarrow> t))),
          (''@m'', GString (lcMessage (lrCall r))),
          (''@i'', GString (eventID (lcMessage (lrCall r)))),
          (''SourceContext'', GString (sourceContext r))]
         @ (if level \<noteq> [] then [(''@l'', GString level)] else []))"

lemma logFields_alt:
  "logFields le h r = fold (appendAttr le h) (shAttrs h @ lcAttrs (lrCall r)) (baseFields le r)"
proof -
  let ?ev = "fold (appendAttr le h) (shAttrs h @ lcAttrs (lrCall r)) (baseFields le r)"
  have "fst ` set (baseFields le r) \<subseteq> fst ` set ?ev" by (rule appendAttrs_keys)
  then have "''SourceContext'' \<in> fst ` set ?ev" and "''@i'' \<in> fst ` set ?ev"
    by (auto simp: baseFields_def Let_def)
  moreover have "logFields le h r =
    (let event = ?ev; event = (if ''SourceContext'' \<in> fst ` set event then event
           else AList.update ''SourceContext'' (GString (sourceContext r)) event)
      in if ''@i'' \<in> fst ` set event then event
         else AList.update ''@i'' (GString (eventID (lcMessage (lrCall r)))) event)"
    by (simp add: logFields_def baseFields_def Let_def del: fold_append)
  ultimately show ?thesis by (simp add: Let_def del: fold_append)
qed

lemma hexWord_length: "length (hexWord k n) = k"
  by (induction k arbitrary: n) simp_all

text \<open>Whatever attributes a record carries, its event has every field name once, the timestamp, the message,
  the event id and the source context are there, the event id is eight hexadecimal digits, and a field of the
  handler's own that no attribute is named after has the value of the record; the level is named unless it
  is an ordinary one.\<close>

lemma log_event_fields:
  "distinct (map fst (logFields le h r))
   \<and> {''@t'', ''@m'', ''@i'', ''SourceContext''} \<subseteq> fst ` set (logFields le h r)
   \<and> length (eventID (lcMessage (lrCall r))) = 8
   \<and> (let named = (\<lambda>a. groupKey (shGroups h) (fst a)) ` set (shAttrs h @ lcAttrs (lrCall r));
          level = serilogLevel (lcLevel (lrCall r))
      in (''@m'' \<in> named \<or> map_of (logFields le h r) ''@m'' = Some (GString (lcMessage (lrCall r))))
       \<and> (''@i'' \<in> named \<or> map_of (logFields le h r) ''@i'' = Some (GString (eventID (lcMessage (lrCall r)))))
       \<and> (''@l'' \<in> named \<or> map_of (logFields le h r) ''@l'' = (if level = [] then None else Some (GString level))))"
proof -
  have keys: "distinct (map fst (baseFields le r))"
    "{''@t'', ''@m'', ''@i'', ''SourceContext''} \<subseteq> fst ` set (baseFields le r)"
    by (auto simp: baseFields_def Let_def)
  have vals: "map_of (baseFields le r) ''@m'' = Some (GString (lcMessage (lrCall r)))"
    "map_of (baseFields le r) ''@i'' = Some (GString (eventID (lcMessage (lrCall r))))"
    "map_of (baseFields le r) ''@l'' = (if serilogLevel (lcLevel (lrCall r)) = [] then None
       else Some (GString (serilogLevel (lcLevel (lrCall r)))))"
    by (simp_all add: baseFields_def Let_def)
  let ?attrs = "shAttrs h @ lcAttrs (lrCall r)"
  have other: "f \<in> (\<lambda>a. groupKey (shGroups h) (fst a)) ` set ?attrs
      \<or> map_of (fold (appendAttr le h) ?attrs (baseFields le r)) f = map_of (baseFields le r) f"
    if "f \<noteq> ''@x''" for f
    using appendAttrs_other [OF that] by blast
  have "length (eventID (lcMessage (lrCall r))) = 8" by (simp add: eventID_def hexWord_length)
  then show ?thesis
    unfolding Let_def logFields_alt vals [symmetric]
    by (intro conjI other appendAttrs_distinct [OF keys(1)]
        subset_trans [OF keys(2) appendAttrs_keys]) simp_all
qed

end
