(* ===== verification/Push.thy ===== *)
theory Push
  imports OutboxService ClientRepo Logging
begin

text \<open>
  The push notifier \<^verbatim>\<open>application/push\<close>: the queue of the outbox (theory \<open>OutboxService\<close>) is emptied
  by \<open>Run\<close>, each event is mapped to an envelope without content (\<open>MapOutboxEvent\<close>), and the envelope
  is handed to the sender if the device takes pushes. The sender is a parameter; theory \<open>Fcm\<close> has
  the one the server installs.
\<close>

section \<open>Envelopes\<close>

definition KindMessage :: string where "KindMessage = ''message''"
definition KindFriendRequest :: string where "KindFriendRequest = ''friendRequest''"

record SafePayload =
  spTitle :: string
  spSubtitle :: string
  spSenderID :: string
  spSenderName :: string
  spPeerID :: string
  spDisplayName :: string
  spMessageCount :: int

record Envelope =
  evlEventID :: string
  evlEventType :: string
  evlKind :: string
  evlDeviceID :: string
  evlSegmentID :: string
  evlRoomID :: string
  evlCreatedAt :: time
  evlSafePayload :: SafePayload

text \<open>The zero \<^verbatim>\<open>time.Time\<close>, the first of January of the year 1.\<close>

definition zeroTime :: time where "zeroTime = -62135596800000000"

section \<open>What the notifier touches\<close>

text \<open>The world, the calls of the logger and what was handed to the sender.\<close>

record pushState =
  psWorld :: world
  psLog :: "LogCall list"
  psSent :: "(string \<times> Envelope) list"

type_synonym 'a push = "(pushState, 'a) go"

text \<open>A sender answers a token and an envelope with its error.\<close>

type_synonym Sender = "string \<Rightarrow> Envelope \<Rightarrow> err option"

definition onWorld :: "'a io \<Rightarrow> 'a push" where
  "onWorld m s = (let (r, w) = m (psWorld s) in (r, s\<lparr>psWorld := w\<rparr>))"

definition logCall :: "LogCall \<Rightarrow> unit push" where
  "logCall c s = (Ret (), s\<lparr>psLog := psLog s @ [c]\<rparr>)"

definition handOver :: "Sender \<Rightarrow> string \<Rightarrow> Envelope \<Rightarrow> unit push" where
  "handOver send token envelope s =
     ((case send token envelope of None \<Rightarrow> Ret () | Some e \<Rightarrow> Err e),
      s\<lparr>psSent := psSent s @ [(token, envelope)]\<rparr>)"

section \<open>Mapping\<close>

text \<open>Type assertions whose failure leaves the zero value.\<close>

definition assertString :: "payload \<Rightarrow> string \<Rightarrow> string" where
  "assertString p k = (case map_of p k of Some (GString s) \<Rightarrow> s | _ \<Rightarrow> [])"

definition assertBytes :: "payload \<Rightarrow> string \<Rightarrow> bytes" where
  "assertBytes p k = (case map_of p k of Some (GBytes b) \<Rightarrow> b | _ \<Rightarrow> [])"

definition fallbackString :: "string \<Rightarrow> string \<Rightarrow> string" where
  "fallbackString v fallback = (if v = [] then fallback else v)"

definition fallbackTime :: "env \<Rightarrow> time \<Rightarrow> time push" where
  "fallbackTime env v = (if v = zeroTime then onWorld (clockNow env) else ret v)"

definition mapMessageEvent ::
  "env \<Rightarrow> (bytes \<Rightarrow> string push) \<Rightarrow> OutboxEvent \<Rightarrow> Envelope option push" where
  "mapMessageEvent env resolveProfileName event =
     (let roomID = assertString (oePayload event) ''roomId'';
          messageID = assertString (oePayload event) ''messageId'';
          senderPublicKey = assertBytes (oePayload event) ''senderPublicKey''
      in if roomID = [] \<or> messageID = [] then ret None
         else
           andThen (if senderPublicKey \<noteq> []
                    then andThen (resolveProfileName senderPublicKey) (\<lambda>resolved.
                           ret (if resolved \<noteq> [] then resolved else ''New message''))
                    else ret ''New message'') (\<lambda>senderName.
           andThen (fallbackTime env (oeCreatedAt event)) (\<lambda>createdAt.
           ret (Some
             \<lparr>evlEventID = eUuidString env (oeEventID event), evlEventType = oeEventType event,
              evlKind = KindMessage, evlDeviceID = oeDeviceID event,
              evlSegmentID = fallbackString (oeSegmentID event) roomID, evlRoomID = roomID,
              evlCreatedAt = createdAt,
              evlSafePayload =
                \<lparr>spTitle = senderName, spSubtitle = ''1 new message'',
                 spSenderID = hexEncode senderPublicKey, spSenderName = senderName, spPeerID = [],
                 spDisplayName = [], spMessageCount = 1\<rparr>\<rparr>))))"

definition mapFriendRequestEvent ::
  "env \<Rightarrow> (bytes \<Rightarrow> string push) \<Rightarrow> OutboxEvent \<Rightarrow> Envelope option push" where
  "mapFriendRequestEvent env resolveProfileName event =
     (let senderPublicKey = assertBytes (oePayload event) ''senderPublicKey''
      in if senderPublicKey = [] then ret None
         else
           andThen (resolveProfileName senderPublicKey) (\<lambda>resolved.
           let displayName = (if resolved \<noteq> [] then resolved else ''New activity'');
               peerID = hexEncode senderPublicKey
           in andThen (fallbackTime env (oeCreatedAt event)) (\<lambda>createdAt.
              ret (Some
                \<lparr>evlEventID = eUuidString env (oeEventID event), evlEventType = oeEventType event,
                 evlKind = KindFriendRequest, evlDeviceID = oeDeviceID event,
                 evlSegmentID = fallbackString (oeSegmentID event) peerID, evlRoomID = [],
                 evlCreatedAt = createdAt,
                 evlSafePayload =
                   \<lparr>spTitle = displayName, spSubtitle = ''Sent you a friend request'',
                    spSenderID = [], spSenderName = [], spPeerID = peerID,
                    spDisplayName = displayName, spMessageCount = 0\<rparr>\<rparr>))))"

definition MapOutboxEvent ::
  "env \<Rightarrow> (bytes \<Rightarrow> string push) \<Rightarrow> OutboxEvent \<Rightarrow> Envelope option push" where
  "MapOutboxEvent env resolveProfileName event =
     (if oeEventType event = ''mlsMessageReceived''
      then mapMessageEvent env resolveProfileName event
      else if oeEventType event = ''friend.requestReceived''
      then mapFriendRequestEvent env resolveProfileName event
      else ret None)"

definition EnvelopeData :: "env \<Rightarrow> Envelope \<Rightarrow> (string \<times> string) list" where
  "EnvelopeData env e =
     (let p = evlSafePayload e; opt = (\<lambda>k v. if v \<noteq> [] then [(k, v)] else [])
      in [(''eventId'', evlEventID e), (''eventType'', evlEventType e), (''kind'', evlKind e),
          (''deviceId'', evlDeviceID e), (''segmentId'', evlSegmentID e),
          (''createdAt'', eRFC3339 env (evlCreatedAt e)), (''title'', spTitle p),
          (''subtitle'', spSubtitle p)]
         @ opt ''roomId'' (evlRoomID e) @ opt ''senderId'' (spSenderID p)
         @ opt ''senderName'' (spSenderName p) @ opt ''peerId'' (spPeerID p)
         @ opt ''displayName'' (spDisplayName p)
         @ (if spMessageCount p > 0 then [(''messageCount'', itoa (spMessageCount p))] else []))"

section \<open>Notifier\<close>

text \<open>The capacity of the queue.\<close>

definition NewNotifierWithLogger :: "int \<Rightarrow> Notifier" where
  "NewNotifierWithLogger queueSize = pushNotifier (nat (if queueSize \<le> 0 then 64 else queueSize))"

text \<open>The attributes that name the event, and the kind of its envelope where there is one.\<close>

definition eventAttrs :: "env \<Rightarrow> OutboxEvent \<Rightarrow> attr list \<Rightarrow> attr list" where
  "eventAttrs env event kind =
     [(''event_id'', VString (eUuidString env (oeEventID event))),
      (''event_type'', VString (oeEventType event))]
     @ kind @ [(''device_id'', VString (oeDeviceID event))]"

definition segmentAttr :: "OutboxEvent \<Rightarrow> attr list" where
  "segmentAttr event = [(''segment_id'', VString (oeSegmentID event))]"

definition kindAttr :: "Envelope \<Rightarrow> attr list" where
  "kindAttr envelope = [(''kind'', VString (evlKind envelope))]"

text \<open>The closure \<open>process\<close> passes to \<open>MapOutboxEvent\<close>.\<close>

definition resolveName :: "env \<Rightarrow> OutboxEvent \<Rightarrow> bytes \<Rightarrow> string push" where
  "resolveName env event publicKey =
     onErr (onWorld (LookupProfileName env publicKey)) (\<lambda>e.
       andThen (logCall (logDebug ''fcm push profile lookup failed''
         (eventAttrs env event [] @ [(''error'', VErr e)]))) (\<lambda>_. ret []))"

definition logSkipped ::
  "env \<Rightarrow> OutboxEvent \<Rightarrow> Envelope \<Rightarrow> TargetDevice \<Rightarrow> string \<Rightarrow> unit push" where
  "logSkipped env event envelope device reason =
     logCall (logInfo ''fcm push skipped''
       ([(''reason'', VString reason)] @ eventAttrs env event (kindAttr envelope) @ segmentAttr event
        @ [(''platform'', VInt64 (tdPlatform device)), (''device_found'', VBool (tdFound device)),
           (''push_enabled'', VBool (tdIsEnabled device)),
           (''has_push_token'', VBool (tdPushToken device \<noteq> []))]))"

definition sendPush ::
  "env \<Rightarrow> Sender \<Rightarrow> OutboxEvent \<Rightarrow> Envelope \<Rightarrow> TargetDevice \<Rightarrow> unit push" where
  "sendPush env send event envelope device =
     (let attrs = eventAttrs env event (kindAttr envelope) @ segmentAttr event
                    @ [(''platform'', VInt64 (tdPlatform device))]
      in (\<lambda>s. case handOver send (tdPushToken device) envelope s of
           (Ret _, s') \<Rightarrow> logCall (logInfo ''fcm push sent'' attrs) s'
         | (Err e, s') \<Rightarrow>
             if errIs e ErrDisabled then logSkipped env event envelope device ''fcm_disabled'' s'
             else logCall (logWarn ''fcm push send failed'' (attrs @ [(''error'', VErr e)])) s'
         | (Panic p, s') \<Rightarrow> (Panic p, s')))"

definition toDevice ::
  "env \<Rightarrow> Sender \<Rightarrow> OutboxEvent \<Rightarrow> Envelope \<Rightarrow> TargetDevice \<Rightarrow> unit push" where
  "toDevice env send event envelope device =
     (if \<not> tdFound device
      then logSkipped env event envelope device ''device_not_registered_for_push''
      else if \<not> tdIsEnabled device
      then logSkipped env event envelope device ''device_push_disabled''
      else if tdPushToken device = []
      then logSkipped env event envelope device ''device_push_token_empty''
      else if tdPlatform device \<noteq> 2
      then logSkipped env event envelope device ''platform_not_android''
      else sendPush env send event envelope device)"

definition pushProcess :: "env \<Rightarrow> Sender \<Rightarrow> OutboxEvent \<Rightarrow> unit push" where
  "pushProcess env send event =
     (if oeAttempts event > 1
      then logCall (logInfo ''fcm push skipped''
             ([(''reason'', VString ''outbox_retry_attempt'')] @ eventAttrs env event []
              @ segmentAttr event @ [(''attempts'', VInt64 (oeAttempts event))]))
      else
        andThen (MapOutboxEvent env (resolveName env event) event) (\<lambda>mapped.
        case mapped of
          None \<Rightarrow> logCall (logDebug ''fcm push skipped''
             ([(''reason'', VString ''unsupported_or_invalid_event'')] @ eventAttrs env event []
              @ segmentAttr event))
        | Some envelope \<Rightarrow> (\<lambda>s. case onWorld (LookupDevice env (oeDeviceID event)) s of
              (Ret device, s') \<Rightarrow> toDevice env send event envelope device s'
            | (Err e, s') \<Rightarrow> logCall (logWarn ''fcm push device lookup failed''
                (eventAttrs env event (kindAttr envelope) @ segmentAttr event
                 @ [(''error'', VErr e)])) s'
            | (Panic p, s') \<Rightarrow> (Panic p, s'))))"

text \<open>\<open>Run\<close>: each entry of the list is a turn of the loop in which the context is done (\<open>None\<close>) or an
  event is taken from the queue, if there is one, and processed with the answers of a sender. A notifier
  without its dependencies only waits for the context.\<close>

definition takeQueued :: "OutboxEvent option push" where
  "takeQueued s = (case wPushQueue (psWorld s) of
       [] \<Rightarrow> (Ret None, s)
     | e # q \<Rightarrow> (Ret (Some e), s\<lparr>psWorld := (psWorld s)\<lparr>wPushQueue := q\<rparr>\<rparr>))"

fun pushLoop :: "env \<Rightarrow> Sender option list \<Rightarrow> unit push" where
  "pushLoop env [] = ret ()"
| "pushLoop env (None # turns) = fail ctxDone"
| "pushLoop env (Some send # turns) =
     andThen takeQueued (\<lambda>taken. andThen (case taken of None \<Rightarrow> ret () | Some event \<Rightarrow> pushProcess env send event)
       (\<lambda>_. pushLoop env turns))"

definition PushRun :: "env \<Rightarrow> bool \<Rightarrow> Sender option list \<Rightarrow> unit push" where
  "PushRun env deps turns =
     (if \<not> deps then (if None \<in> set turns then fail ctxDone else ret ()) else pushLoop env turns)"

end
