(* ===== verification/PushProps.thy ===== *)
theory PushProps
  imports Push Samples
begin

text \<open>
  What a push is and who gets one: \<open>pushProcess\<close> hands an envelope to the sender exactly for an event of
  a supported kind, on its first attempt, whose device takes pushes; an event is pushed at most once
  over every history of the outbox and the notifier; and neither the content of an event nor the token
  of a device reaches places they should not.
\<close>

section \<open>One event\<close>

text \<open>What the lookups and the log leave alone.\<close>

definition quiet :: "pushState \<Rightarrow> pushState \<Rightarrow> bool" where
  "quiet s t \<longleftrightarrow> db (psWorld t) = db (psWorld s) \<and> wPushQueue (psWorld t) = wPushQueue (psWorld s)
     \<and> psSent t = psSent s"

lemma quiet_refl [simp]: "quiet s s"
  by (simp add: quiet_def)

lemma quiet_trans: "quiet s t \<Longrightarrow> quiet t u \<Longrightarrow> quiet s u"
  by (simp add: quiet_def)

lemma quiet_logCall: "logCall c s = (Ret (), t) \<Longrightarrow> quiet s t"
  by (auto simp: logCall_def quiet_def)

lemma sqlQuery_cases:
  obtains "sqlQuery env q w = (Ret (q (db w)), w\<lparr>nStmt := Suc (nStmt w)\<rparr>)" and "\<not> eFault env (nStmt w)"
  | "sqlQuery env q w = (Err (ErrSQL DriverFault), w\<lparr>nStmt := Suc (nStmt w)\<rparr>)" and "eFault env (nStmt w)"
  by (cases "eFault env (nStmt w)") (simp_all add: sqlQuery_def sql_def Let_def)

lemma resolveName_returns: "\<exists>n t. resolveName env event k s = (Ret n, t) \<and> quiet s t"
  by (rule sqlQuery_cases [of env "\<lambda>d. map_option profileRecord (profileOf k d)" "psWorld s"])
    (auto simp: resolveName_def onErr_def onWorld_def LookupProfileName_def storeGetProfile_def wrapErr_def
      andThen_def fail_def ret_def logCall_def quiet_def split: option.splits)

lemma fallbackTime_returns: "\<exists>v t. fallbackTime env v0 s = (Ret v, t) \<and> quiet s t"
  by (simp add: fallbackTime_def onWorld_def clockNow_def ret_def quiet_def)

text \<open>The events a push is made of.\<close>

definition pushable :: "OutboxEvent \<Rightarrow> bool" where
  "pushable event \<longleftrightarrow>
     oeEventType event = ''mlsMessageReceived'' \<and> assertString (oePayload event) ''roomId'' \<noteq> []
       \<and> assertString (oePayload event) ''messageId'' \<noteq> []
     \<or> oeEventType event = ''friend.requestReceived''
       \<and> assertBytes (oePayload event) ''senderPublicKey'' \<noteq> []"

definition envelopeFor :: "env \<Rightarrow> OutboxEvent \<Rightarrow> Envelope \<Rightarrow> bool" where
  "envelopeFor env event e \<longleftrightarrow> evlEventID e = eUuidString env (oeEventID event)
     \<and> evlDeviceID e = oeDeviceID event \<and> evlEventType e = oeEventType event"

lemma MapOutboxEvent_returns:
  "\<exists>r t. MapOutboxEvent env (resolveName env event) event s = (Ret r, t) \<and> quiet s t
     \<and> (case r of None \<Rightarrow> \<not> pushable event | Some e \<Rightarrow> pushable event \<and> envelopeFor env event e)"
proof -
  obtain n t where n: "resolveName env event (assertBytes (oePayload event) ''senderPublicKey'') s = (Ret n, t)"
    and q: "quiet s t" using resolveName_returns by blast
  obtain v t1 where v: "fallbackTime env (oeCreatedAt event) t = (Ret v, t1)" and q1: "quiet t t1"
    using fallbackTime_returns by blast
  obtain v' t2 where v': "fallbackTime env (oeCreatedAt event) s = (Ret v', t2)" and q2: "quiet s t2"
    using fallbackTime_returns by blast
  show ?thesis
    using n v v' q q1 q2 quiet_trans [OF q q1]
    by (auto simp: MapOutboxEvent_def mapMessageEvent_def mapFriendRequestEvent_def Let_def andThen_def
        ret_def pushable_def envelopeFor_def)
qed

text \<open>The token of a device that takes pushes: the newest row of the device is enabled, of the Android
  platform and has a token.\<close>

definition pushToken :: "database \<Rightarrow> string \<Rightarrow> string option" where
  "pushToken d deviceID =
     (case sort_key (\<lambda>v. - dvUpdatedAt v) (filter (\<lambda>v. dvDeviceID v = deviceID) (tDevices d)) of
        [] \<Rightarrow> None
      | v # _ \<Rightarrow> if dvIsEnabled v \<and> dvPlatform v = 2 \<and> dvPushToken v \<noteq> [] then Some (dvPushToken v) else None)"

lemma logSkipped_returns: "\<exists>t. logSkipped env event e device reason s = (Ret (), t) \<and> quiet s t"
  by (simp add: logSkipped_def logCall_def quiet_def)

lemma sendPush_returns:
  "\<exists>t. sendPush env send event e device s = (Ret (), t)
     \<and> quiet (s\<lparr>psSent := psSent s @ [(tdPushToken device, e)]\<rparr>) t"
  by (auto simp: sendPush_def handOver_def logCall_def logSkipped_def quiet_def Let_def split: option.splits)

text \<open>Handing over nothing, or one envelope.\<close>

definition handed :: "pushState \<Rightarrow> (string \<times> Envelope) list \<Rightarrow> pushState \<Rightarrow> bool" where
  "handed s sent t \<longleftrightarrow> quiet (s\<lparr>psSent := psSent s @ sent\<rparr>) t"

lemma handed_Nil [simp]: "handed s [] t \<longleftrightarrow> quiet s t"
  by (simp add: handed_def)

lemma quiet_handed: "quiet s t \<Longrightarrow> handed t sent u \<Longrightarrow> handed s sent u"
  by (simp add: quiet_def handed_def)

definition takesPush :: "TargetDevice \<Rightarrow> bool" where
  "takesPush device \<longleftrightarrow>
     tdFound device \<and> tdIsEnabled device \<and> tdPushToken device \<noteq> [] \<and> tdPlatform device = 2"

lemma toDevice_returns:
  "\<exists>t. toDevice env send event e device s = (Ret (), t)
     \<and> handed s (if takesPush device then [(tdPushToken device, e)] else []) t"
  using logSkipped_returns sendPush_returns by (simp add: toDevice_def handed_def takesPush_def)

lemma LookupDevice_returns:
  "\<exists>t. quiet s t \<and>
     (eFault env (nStmt (psWorld s)) \<and> onWorld (LookupDevice env i) s = (Err (ErrSQL DriverFault), t)
      \<or> (\<exists>device. onWorld (LookupDevice env i) s = (Ret device, t)
          \<and> pushToken (db (psWorld s)) i = (if takesPush device then Some (tdPushToken device) else None)))"
  by (auto simp: LookupDevice_def onWorld_def sqlQuery_def sql_def Let_def quiet_def pushToken_def
      zeroTarget_def takesPush_def split: list.splits)

text \<open>An envelope handed over for an event, and why none was.\<close>

definition pushed :: "env \<Rightarrow> OutboxEvent \<Rightarrow> database \<Rightarrow> (string \<times> Envelope) list \<Rightarrow> bool" where
  "pushed env event d sent \<longleftrightarrow> (\<exists>token e. sent = [(token, e)] \<and> oeAttempts event \<le> 1 \<and> pushable event
     \<and> pushToken d (oeDeviceID event) = Some token \<and> envelopeFor env event e)"

definition pushDue :: "OutboxEvent \<Rightarrow> database \<Rightarrow> bool" where
  "pushDue event d \<longleftrightarrow>
     oeAttempts event \<le> 1 \<and> pushable event \<and> pushToken d (oeDeviceID event) \<noteq> None"

text \<open>The second half of \<open>pushProcess\<close>, after the event was mapped.\<close>

lemma process_mapped:
  assumes "\<not> 1 < oeAttempts event" and "pushable event" and "envelopeFor env event e"
    and "MapOutboxEvent env (resolveName env event) event s = (Ret (Some e), t)" and q: "quiet s t"
  shows "\<exists>sent u. pushProcess env send event s = (Ret (), u) \<and> handed s sent u
     \<and> (sent = [] \<or> pushed env event (db (psWorld s)) sent)
     \<and> (noFaults env \<and> sent = [] \<longrightarrow> \<not> pushDue event (db (psWorld s)))"
proof -
  have d: "db (psWorld t) = db (psWorld s)" using q by (simp add: quiet_def)
  obtain t1 where q1: "quiet t t1" and
    "eFault env (nStmt (psWorld t))
       \<and> onWorld (LookupDevice env (oeDeviceID event)) t = (Err (ErrSQL DriverFault), t1)
     \<or> (\<exists>device. onWorld (LookupDevice env (oeDeviceID event)) t = (Ret device, t1)
        \<and> pushToken (db (psWorld t)) (oeDeviceID event) =
            (if takesPush device then Some (tdPushToken device) else None))"
    using LookupDevice_returns by meson
  then show ?thesis
  proof (elim disjE exE conjE)
    assume "eFault env (nStmt (psWorld t))"
      and "onWorld (LookupDevice env (oeDeviceID event)) t = (Err (ErrSQL DriverFault), t1)"
    then show ?thesis
      using assms q1
      by (intro exI [of _ "[]"]) (auto simp: pushProcess_def andThen_def logCall_def quiet_def noFaults_def)
  next
    fix device assume dev: "onWorld (LookupDevice env (oeDeviceID event)) t = (Ret device, t1)"
      and token: "pushToken (db (psWorld t)) (oeDeviceID event) =
            (if takesPush device then Some (tdPushToken device) else None)"
    obtain u where u: "toDevice env send event e device t1 = (Ret (), u)"
      and h: "handed t1 (if takesPush device then [(tdPushToken device, e)] else []) u"
      using toDevice_returns by blast
    have "pushProcess env send event s = (Ret (), u)"
      using assms dev u by (simp add: pushProcess_def andThen_def)
    with quiet_handed [OF quiet_trans [OF q q1] h] token assms(1-3) show ?thesis
      unfolding d
      by (intro exI [of _ "if takesPush device then [(tdPushToken device, e)] else []"] exI [of _ u])
        (simp add: pushed_def pushDue_def)
  qed
qed

lemma pushProcess_returns:
  "\<exists>sent t. pushProcess env send event s = (Ret (), t) \<and> handed s sent t
     \<and> (sent = [] \<or> pushed env event (db (psWorld s)) sent)
     \<and> (noFaults env \<and> sent = [] \<longrightarrow> \<not> pushDue event (db (psWorld s)))"
proof (cases "1 < oeAttempts event")
  case True
  then show ?thesis
    by (intro exI [of _ "[]"]) (simp add: pushProcess_def logCall_def quiet_def pushDue_def)
next
  case False
  obtain r t where r: "MapOutboxEvent env (resolveName env event) event s = (Ret r, t)" and q: "quiet s t"
    and c: "case r of None \<Rightarrow> \<not> pushable event | Some e \<Rightarrow> pushable event \<and> envelopeFor env event e"
    using MapOutboxEvent_returns by blast
  show ?thesis
  proof (cases r)
    case None
    then show ?thesis
      using False r q c
      by (intro exI [of _ "[]"]) (simp add: pushProcess_def andThen_def logCall_def quiet_def pushDue_def)
  next
    case (Some e)
    then show ?thesis using process_mapped [of event env e s t] False r q c by simp
  qed
qed

text \<open>C36: Processing an event of the queue always ends, changes no table, and hands at most one envelope to the
  sender: only for a message or friend request on its first attempt, with the token of the newest row of
  the event's own device, which must be enabled, of the Android platform and have a token. With a working
  database that is also exactly when an envelope is handed over.\<close>

theorem push_only_to_willing_device:
  "\<exists>sent t. pushProcess env send event s = (Ret (), t)
     \<and> db (psWorld t) = db (psWorld s) \<and> wPushQueue (psWorld t) = wPushQueue (psWorld s)
     \<and> psSent t = psSent s @ sent
     \<and> (sent = [] \<or> pushed env event (db (psWorld s)) sent)
     \<and> (noFaults env \<longrightarrow> (sent \<noteq> [] \<longleftrightarrow> pushDue event (db (psWorld s))))"
  using pushProcess_returns [of env send event s]
  by (fastforce simp: handed_def quiet_def pushed_def pushDue_def)

definition willingDevice :: DeviceRecord where
  "willingDevice = \<lparr>dvID = 5, dvSessionID = None, dvUserPublicKey = sampleKey 1, dvDeviceID = ''phone'', dvPlatform = 2,
     dvPushToken = ''token'', dvIsEnabled = True, dvUpdatedAt = 0\<rparr>"

definition willingState :: pushState where
  "willingState = \<lparr>psWorld = sampleWorld (emptyDb\<lparr>tDevices := [willingDevice]\<rparr>), psLog = [], psSent = []\<rparr>"

definition samplePushEvent :: OutboxEvent where
  "samplePushEvent = \<lparr>oeEventID = 1, oeDeviceID = ''phone'', oeSegmentID = ''g'', oeEventType = ''friend.requestReceived'',
     oePayload = [(''senderPublicKey'', GBytes [170])], oeCreatedAt = 0, oeExpiresAt = hour, oeInflightUntil = None,
     oeLastSentAt = None, oeAttempts = 1\<rparr>"

lemma samplePushEvent_due: "pushDue samplePushEvent (db (psWorld willingState))"
  by code_simp

theorem push_only_to_willing_device_witness:
  "\<exists>sent t. pushProcess sampleEnv (\<lambda>_ _. None) samplePushEvent willingState = (Ret (), t)
     \<and> db (psWorld t) = db (psWorld willingState) \<and> psSent t = psSent willingState @ sent
     \<and> pushed sampleEnv samplePushEvent (db (psWorld willingState)) sent"
  using push_only_to_willing_device [of sampleEnv "\<lambda>_ _. None" samplePushEvent willingState] samplePushEvent_due
    sampleEnv_noFaults by blast

section \<open>What a push gives away\<close>

text \<open>A push does not depend on the content of an event: with the room, the sender's key and the presence of a
  message id fixed, whatever else the payload holds (the encrypted message in particular) changes
  neither the envelope, nor the log, nor anything the notifier does.\<close>

lemma push_content_hidden:
  assumes "assertString p ''roomId'' = assertString (oePayload event) ''roomId''"
    and "assertBytes p ''senderPublicKey'' = assertBytes (oePayload event) ''senderPublicKey''"
    and "(assertString p ''messageId'' = []) = (assertString (oePayload event) ''messageId'' = [])"
  shows "pushProcess env send (event\<lparr>oePayload := p\<rparr>) = pushProcess env send event"
proof -
  have attrs: "eventAttrs env (event\<lparr>oePayload := p\<rparr>) = eventAttrs env event"
    "segmentAttr (event\<lparr>oePayload := p\<rparr>) = segmentAttr event"
    by (auto simp: eventAttrs_def segmentAttr_def)
  then have names: "resolveName env (event\<lparr>oePayload := p\<rparr>) = resolveName env event"
    by (auto simp: resolveName_def)
  have skip: "logSkipped env (event\<lparr>oePayload := p\<rparr>) = logSkipped env event"
    by (intro ext) (simp add: logSkipped_def attrs)
  have device: "toDevice env send (event\<lparr>oePayload := p\<rparr>) = toDevice env send event"
    by (intro ext) (unfold toDevice_def sendPush_def attrs skip, rule refl)
  have mapped: "MapOutboxEvent env r (event\<lparr>oePayload := p\<rparr>) = MapOutboxEvent env r event" for r
    using assms by (simp add: MapOutboxEvent_def mapMessageEvent_def mapFriendRequestEvent_def Let_def)
  have same: "oeAttempts (event\<lparr>oePayload := p\<rparr>) = oeAttempts event"
    "oeDeviceID (event\<lparr>oePayload := p\<rparr>) = oeDeviceID event" by simp_all
  show ?thesis unfolding pushProcess_def names attrs device mapped same by (rule refl)
qed

text \<open>Renaming the tokens of all devices.\<close>

definition retoken :: "(string \<Rightarrow> string) \<Rightarrow> pushState \<Rightarrow> pushState" where
  "retoken f s = s\<lparr>psWorld := (psWorld s)\<lparr>db := (db (psWorld s))\<lparr>tDevices :=
       map (\<lambda>v. v\<lparr>dvPushToken := f (dvPushToken v)\<rparr>) (tDevices (db (psWorld s)))\<rparr>\<rparr>,
     psSent := map (apfst f) (psSent s)\<rparr>"

definition blind :: "(string \<Rightarrow> string) \<Rightarrow> 'a push \<Rightarrow> bool" where
  "blind f m \<longleftrightarrow> (\<forall>s. m (retoken f s) = apsnd (retoken f) (m s))"

lemma blind_ret: "blind f (ret x)"
  by (simp add: blind_def ret_def)

lemma blind_logCall: "blind f (logCall c)"
  by (simp add: blind_def logCall_def retoken_def)

lemma blind_andThen: "blind f m \<Longrightarrow> (\<And>x. blind f (k x)) \<Longrightarrow> blind f (andThen m k)"
  by (auto simp: blind_def andThen_def split: prod.splits outcome.splits)

lemma blind_onErr: "blind f m \<Longrightarrow> (\<And>e. blind f (h e)) \<Longrightarrow> blind f (onErr m h)"
  by (auto simp: blind_def onErr_def split: prod.splits outcome.splits)

lemma blind_clock: "blind f (onWorld (clockNow env))"
  by (simp add: blind_def onWorld_def clockNow_def retoken_def)

lemma blind_name: "blind f (resolveName env event k)"
proof -
  have "blind f (onWorld (LookupProfileName env k))"
    unfolding blind_def
  proof
    fix s
    show "onWorld (LookupProfileName env k) (retoken f s) = apsnd (retoken f) (onWorld (LookupProfileName env k) s)"
      by (cases "eFault env (nStmt (psWorld s))"; cases "profileOf k (db (psWorld s))")
        (simp_all add: onWorld_def LookupProfileName_def storeGetProfile_def sqlQuery_def sql_def Let_def retoken_def
          profileOf_def wrapErr_def onErr_def andThen_def fail_def ret_def)
  qed
  then show ?thesis
    unfolding resolveName_def by (intro blind_onErr blind_andThen blind_logCall blind_ret)
qed

lemma blind_map: "blind f (MapOutboxEvent env (resolveName env event) event)"
  unfolding MapOutboxEvent_def mapMessageEvent_def mapFriendRequestEvent_def fallbackTime_def Let_def
  by (auto intro!: blind_andThen blind_name blind_clock blind_ret)

lemma toDevice_retoken:
  assumes "\<And>t. f t = [] \<longleftrightarrow> t = []" and "\<And>t e. send (f t) e = send t e"
  shows "toDevice env send event e (device\<lparr>tdPushToken := f (tdPushToken device)\<rparr>) (retoken f s)
    = apsnd (retoken f) (toDevice env send event e device s)"
proof -
  have skip: "logSkipped env event e (device\<lparr>tdPushToken := f (tdPushToken device)\<rparr>) reason (retoken f s)
      = apsnd (retoken f) (logSkipped env event e device reason s)" for reason s
    by (simp add: logSkipped_def logCall_def retoken_def assms(1))
  show ?thesis
    by (cases "send (tdPushToken device) e")
      (simp_all add: toDevice_def skip sendPush_def handOver_def assms Let_def logCall_def,
       simp_all add: logSkipped_def logCall_def retoken_def assms)
qed

lemma sort_key_map: "(\<And>x. k (g x) = k x) \<Longrightarrow> sort_key k (map g xs) = map g (sort_key k xs)"
proof (induction xs)
  case (Cons x xs)
  have "insort_key k (g x) (map g ys) = map g (insort_key k x ys)" for ys
    by (induction ys) (simp_all add: Cons.prems)
  then show ?case using Cons by simp
qed simp

lemma LookupDevice_retoken:
  assumes "f [] = []"
  shows "onWorld (LookupDevice env i) (retoken f s) = (case onWorld (LookupDevice env i) s of
     (Ret device, t) \<Rightarrow> (Ret (device\<lparr>tdPushToken := f (tdPushToken device)\<rparr>), retoken f t)
   | (Err e, t) \<Rightarrow> (Err e, retoken f t) | (Panic p, t) \<Rightarrow> (Panic p, retoken f t))"
proof -
  have renamed: "sort_key (\<lambda>v. - dvUpdatedAt v) (filter (\<lambda>v. dvDeviceID v = i) (map (\<lambda>v. v\<lparr>dvPushToken := f (dvPushToken v)\<rparr>) ds))
      = map (\<lambda>v. v\<lparr>dvPushToken := f (dvPushToken v)\<rparr>) (sort_key (\<lambda>v. - dvUpdatedAt v) (filter (\<lambda>v. dvDeviceID v = i) ds))"
    for ds
    by (simp add: filter_map comp_def sort_key_map)
  show ?thesis
    by (cases "eFault env (nStmt (psWorld s))";
        cases "sort_key (\<lambda>v. - dvUpdatedAt v) (filter (\<lambda>v. dvDeviceID v = i) (tDevices (db (psWorld s))))")
      (simp_all add: onWorld_def LookupDevice_def sqlQuery_def sql_def Let_def retoken_def zeroTarget_def assms
        renamed)
qed

lemma push_token_not_logged:
  assumes "\<And>t. f t = [] \<longleftrightarrow> t = []" and "\<And>t e. send (f t) e = send t e"
  shows "psLog (snd (pushProcess env send event (retoken f s))) = psLog (snd (pushProcess env send event s))
    \<and> psSent (snd (pushProcess env send event (retoken f s))) = map (apfst f) (psSent (snd (pushProcess env send event s)))"
proof -
  have "blind f (\<lambda>s. case onWorld (LookupDevice env (oeDeviceID event)) s of
              (Ret device, s') \<Rightarrow> toDevice env send event e device s'
            | (Err e', s') \<Rightarrow> logCall (logWarn ''fcm push device lookup failed''
                (eventAttrs env event (kindAttr e) @ segmentAttr event @ [(''error'', VErr e')])) s'
            | (Panic p, s') \<Rightarrow> (Panic p, s'))" for e
    using toDevice_retoken [of f send env event, OF assms] LookupDevice_retoken [of f env "oeDeviceID event"] assms(1)
      blind_logCall
    by (auto simp: blind_def split: prod.splits outcome.splits)
  then have "blind f (pushProcess env send event)"
    unfolding pushProcess_def by (auto intro!: blind_andThen blind_map blind_logCall split: option.splits)
  then have "pushProcess env send event (retoken f s) = apsnd (retoken f) (pushProcess env send event s)"
    by (simp add: blind_def)
  then show ?thesis by (simp add: retoken_def apsnd_def)
qed

text \<open>C37: A push gives away neither the content of an event nor the token of a device. Two runs of the notifier that
  differ in the payload (with the same room, sender's key and presence of a message id: the encrypted message in
  particular may differ) and in the tokens of all devices (renamed by \<open>f\<close>, an empty one staying empty, with a sender that
  answers alike) write the same log, and hand over the same envelopes, to the renamed tokens.\<close>

theorem push_confidential:
  assumes "assertString p ''roomId'' = assertString (oePayload event) ''roomId''"
    and "assertBytes p ''senderPublicKey'' = assertBytes (oePayload event) ''senderPublicKey''"
    and "(assertString p ''messageId'' = []) = (assertString (oePayload event) ''messageId'' = [])"
    and "\<And>t. f t = [] \<longleftrightarrow> t = []" and "\<And>t e. send (f t) e = send t e"
  shows "psLog (snd (pushProcess env send (event\<lparr>oePayload := p\<rparr>) (retoken f s)))
      = psLog (snd (pushProcess env send event s))
    \<and> psSent (snd (pushProcess env send (event\<lparr>oePayload := p\<rparr>) (retoken f s)))
      = map (apfst f) (psSent (snd (pushProcess env send event s)))"
  unfolding push_content_hidden [OF assms(1-3)] by (rule push_token_not_logged [of f send, OF assms(4,5)])

theorem push_confidential_witness:
  "psLog (snd (pushProcess sampleEnv (\<lambda>_ _. None)
       (samplePushEvent\<lparr>oePayload := [(''senderPublicKey'', GBytes [170]), (''secret'', GString ''s'')]\<rparr>)
       (retoken (\<lambda>t. if t = [] then [] else ''other'') willingState)))
   = psLog (snd (pushProcess sampleEnv (\<lambda>_ _. None) samplePushEvent willingState))"
  using push_confidential [of "[(''senderPublicKey'', GBytes [170]), (''secret'', GString ''s'')]" samplePushEvent
      "\<lambda>t. if t = [] then [] else ''other''" "\<lambda>_ _. None" sampleEnv willingState]
  by (simp add: samplePushEvent_def assertString_def assertBytes_def)

end
