(* ===== verification/PushOnce.thy ===== *)
theory PushOnce
  imports PushProps OutboxProps
begin

text \<open>
  The dispatcher of the outbox and the push notifier together: an event is handed to the push sender at
  most once, however often it is dispatched again and wherever statements fail.
\<close>

section \<open>Attempts only grow\<close>

definition rowsAt :: "uuid \<Rightarrow> int \<Rightarrow> database \<Rightarrow> bool" where
  "rowsAt i k d \<longleftrightarrow> (\<forall>r\<in>set (tOutbox d). obEventID r = i \<longrightarrow> k \<le> obAttempts r)"

lemma rowsAt_segs [simp]: "rowsAt i k (d\<lparr>tOutboxSegments := ss\<rparr>) = rowsAt i k d"
  by (simp add: rowsAt_def)

lemma rowsAt_weaken: "rowsAt i k d \<Longrightarrow> j \<le> k \<Longrightarrow> rowsAt i j d"
  by (auto simp: rowsAt_def)

lemma rowsAt_updWhere:
  assumes "rowsAt i k d" and "\<And>r. obEventID (f r) = obEventID r" and "\<And>r. obAttempts r \<le> obAttempts (f r)"
  shows "rowsAt i k (d\<lparr>tOutbox := updWhere p f (tOutbox d)\<rparr>)"
  using assms by (fastforce simp: rowsAt_def updWhere_def intro: order_trans)

lemma keeps_rowsAt_dropSegmentTail:
  "keeps (dbInv (rowsAt i k)) (dropSegmentTail env dev seg t now reason)"
  unfolding dropSegmentTail_def
  by (intro keeps_intros) (auto simp: dropRows_def clearSegment_def intro: rowsAt_updWhere)

lemma dropSegmentTail_rows:
  "dropSegmentTail env dev seg t now reason w = (r, v) \<Longrightarrow> rowsAt i k (db w) \<Longrightarrow> rowsAt i k (db v)"
  using keepsD [OF keeps_rowsAt_dropSegmentTail, of i k w] by (metis dbInv_def snd_conv)

lemma keeps_rowsAt_janitor: "keeps (dbInv (rowsAt i k)) (janitorRun env cfg)"
  unfolding janitorRun_def DropExpiredHeads_def DeleteTerminal_def
  by (intro keeps_intros keeps_rowsAt_dropSegmentTail)
    (auto simp: Let_def rowsAt_def delWhere_def)

lemma keeps_rowsAt_ack:
  "keeps (dbInv (rowsAt i k)) (OutboxAcknowledge env (Some outboxNotifier) j dev seg)"
  unfolding OutboxAcknowledge_def AcknowledgeOutbox_def option.case
  by (intro keeps_intros keeps_readonly [OF multin.key_readonly])
    (auto simp: ackRow_def clearInflight_def setHead_def intro: rowsAt_updWhere)

text \<open>Publishing adds rows that were never tried; it adds none with the id of an event it does not
  carry.\<close>

definition carries :: "env \<Rightarrow> Event \<Rightarrow> uuid \<Rightarrow> bool" where
  "carries env e i \<longleftrightarrow> (\<exists>dev. outboxEventID env (evEventID e) dev = i)"

lemma keeps_rowsAt_publish:
  assumes "k \<le> 0 \<or> \<not> carries env e i"
  shows "keeps (dbInv (rowsAt i k)) (NotifyingAppend env e)"
  unfolding NotifyingAppend_def Append_def insertEvent_def appendOutbox_def listTargetDeviceIDs_def
    enqueueFor_def insertOutbox_def upsertSegment_def
  using assms
  by (intro keeps_intros) (auto simp: checkAll_Inr rowsAt_def carries_def outboxRow_def split: if_splits)

section \<open>A dispatch tries every event at most once more\<close>

lemma rowsAt_mark:
  assumes "rowsAt i k d"
  shows "rowsAt i (k + 1) (d\<lparr>tOutbox := updWhere (\<lambda>r. obEventID r = i) (markInFlight now t) (tOutbox d)\<rparr>)"
  unfolding rowsAt_def
proof (intro ballI impI)
  fix q assume "q \<in> set (tOutbox (d\<lparr>tOutbox := updWhere (\<lambda>r. obEventID r = i) (markInFlight now t) (tOutbox d)\<rparr>))"
    and q: "obEventID q = i"
  then obtain r where r: "r \<in> set (tOutbox d)" and eq: "q = (if obEventID r = i then markInFlight now t r else r)"
    by (auto elim: in_updWhereE)
  then have "obEventID q = obEventID r" by simp
  with q have "obEventID r = i" by simp
  moreover from this eq have "obAttempts q = obAttempts r + 1" by simp
  ultimately show "k + 1 \<le> obAttempts q" using r assms by (simp add: rowsAt_def)
qed

lemma claimOne_RetE:
  assumes "claimOne env now tm c w = (Ret e, w')"
  obtains r where
    "tOutbox (db w') = updWhere (\<lambda>r. obEventID r = cdEventID c) (markInFlight now (now + tm)) (tOutbox (db w))"
    and "r \<in> set (tOutbox (db w'))" and "obEventID r = cdEventID c"
    and "oeEventID e = obEventID r" and "oeAttempts e = obAttempts r" and "oeDeviceID e = obDeviceID r"
proof -
  let ?rows = "updWhere (\<lambda>r. obEventID r = cdEventID c) (markInFlight now (now + tm)) (tOutbox (db w))"
  have "\<exists>u v. db u = (db w)\<lparr>tOutbox := ?rows\<rparr>
      \<and> scanOutboxEvent env (find (\<lambda>r. obEventID r = cdEventID c) ?rows) u = (Ret e, v)
      \<and> tOutbox (db w') = tOutbox (db v)"
    using assms unfolding claimOne_def
    by (auto simp: Let_def elim!: andThen_RetE sql_RetE sqlExec_RetE intro!: exI)
  then obtain u v where u: "db u = (db w)\<lparr>tOutbox := ?rows\<rparr>"
    and scan: "scanOutboxEvent env (find (\<lambda>r. obEventID r = cdEventID c) ?rows) u = (Ret e, v)"
    and rest: "tOutbox (db w') = tOutbox (db v)"
    by blast
  from scan obtain r where "find (\<lambda>r. obEventID r = cdEventID c) ?rows = Some r" "v = u"
    "oeEventID e = obEventID r" "oeAttempts e = obAttempts r" "oeDeviceID e = obDeviceID r"
    by (auto simp: scanOutboxEvent_def split: option.splits)
  moreover from this have "r \<in> set ?rows" "obEventID r = cdEventID c"
    by (auto simp: find_Some_iff)
  ultimately show thesis using that u rest by simp
qed

lemma claimOne_rows:
  assumes run: "claimOne env now tm c w = (Ret e, w')" and rows: "rowsAt i k (db w)"
  shows "rowsAt i k (db w')" and "oeEventID e = i \<Longrightarrow> k < oeAttempts e \<and> rowsAt i (k + 1) (db w')"
proof -
  from run obtain r where
    upd: "tOutbox (db w') = updWhere (\<lambda>r. obEventID r = cdEventID c) (markInFlight now (now + tm)) (tOutbox (db w))"
    and r: "r \<in> set (tOutbox (db w'))" "obEventID r = cdEventID c" "oeEventID e = obEventID r" "oeAttempts e = obAttempts r"
    by (elim claimOne_RetE) (rule that)
  show "rowsAt i k (db w')"
    using rowsAt_updWhere [OF rows, of "markInFlight now (now + tm)" "\<lambda>r. obEventID r = cdEventID c"] upd
    by (simp add: rowsAt_def)
  assume "oeEventID e = i"
  with r upd rowsAt_mark [OF rows, of now "now + tm"] have "rowsAt i (k + 1) (db w')"
    by (simp add: rowsAt_def)
  with r \<open>oeEventID e = i\<close> show "k < oeAttempts e \<and> rowsAt i (k + 1) (db w')"
    by (force simp: rowsAt_def)
qed

text \<open>The events of a batch that are on their first attempt.\<close>

definition firstOf :: "uuid \<Rightarrow> OutboxEvent \<Rightarrow> bool" where
  "firstOf i e \<longleftrightarrow> oeEventID e = i \<and> oeAttempts e \<le> 1"

abbreviation firsts :: "uuid \<Rightarrow> OutboxEvent list \<Rightarrow> nat" where
  "firsts i es \<equiv> length (filter (firstOf i) es)"

lemma claimLoop_tried:
  assumes "claimLoop env now tm M cs w = (Ret es, w')" and "rowsAt i 1 (db w)"
  shows "rowsAt i 1 (db w') \<and> firsts i es = 0"
  using assms
proof (induction cs arbitrary: w es)
  case (Cons c cs)
  show ?case
  proof (cases "exhausted now M c")
    case True
    then show ?thesis
      using Cons dropSegmentTail_rows by (fastforce elim!: andThen_RetE)
  next
    case False
    with Cons.prems(1) obtain e v fs where "claimOne env now tm c w = (Ret e, v)"
      and "claimLoop env now tm M cs v = (Ret fs, w')" and "es = e # fs"
      by (auto elim!: andThen_RetE)
    then show ?thesis
      using claimOne_rows [of env now tm c w e v i 1] Cons.IH [of v fs] Cons.prems(2) by (auto simp: firstOf_def)
  qed
qed simp

lemma claimLoop_first:
  assumes "claimLoop env now tm M cs w = (Ret es, w')" and "rowsAt i 0 (db w)"
  shows "rowsAt i 0 (db w') \<and> (firsts i es = 0 \<or> firsts i es = 1 \<and> rowsAt i 1 (db w'))"
  using assms
proof (induction cs arbitrary: w es)
  case (Cons c cs)
  show ?case
  proof (cases "exhausted now M c")
    case True
    then show ?thesis
      using Cons dropSegmentTail_rows by (fastforce elim!: andThen_RetE)
  next
    case False
    with Cons.prems(1) obtain e v fs where e: "claimOne env now tm c w = (Ret e, v)"
      and fs: "claimLoop env now tm M cs v = (Ret fs, w')" and es: "es = e # fs"
      by (auto elim!: andThen_RetE)
    note e = claimOne_rows [OF e Cons.prems(2)]
    show ?thesis
    proof (cases "oeEventID e = i")
      case True
      then have "rowsAt i 1 (db w') \<and> firsts i fs = 0" using e claimLoop_tried [OF fs] by simp
      then show ?thesis using es rowsAt_weaken [of i 1 _ 0] by auto
    next
      case False
      then show ?thesis using Cons.IH [OF fs e(1)] es by (simp add: firstOf_def)
    qed
  qed
qed simp

section \<open>Every call of the outbox keeps the count\<close>

text \<open>With \<open>n\<close> envelopes of the event handed over before and the events \<open>es\<close> still to be queued: the
  event was or will be pushed at most once, and if it was, it has been tried.\<close>

definition countOk :: "uuid \<Rightarrow> nat \<Rightarrow> OutboxEvent list \<Rightarrow> world \<Rightarrow> bool" where
  "countOk i n es w \<longleftrightarrow> rowsAt i 0 (db w)
     \<and> (let m = n + firsts i (wPushQueue w) + firsts i es in m = 0 \<or> m = 1 \<and> rowsAt i 1 (db w))"

definition queueIs :: "OutboxEvent list \<Rightarrow> world \<Rightarrow> bool" where
  "queueIs q w \<longleftrightarrow> wPushQueue w = q"

lemma offDb_queueIs: "offDb (queueIs q)"
  by (simp add: offDb_def queueIs_def)

lemma keeps_queueIs:
  "keeps (queueIs q) (clockNow env)" "keeps (queueIs q) (onBus m)"
  by (simp_all add: keeps_def queueIs_def clockNow_def onBus_def case_prod_beta Let_def)

lemmas keeps_queue = keeps_queueIs keeps_offDb_sql [OF offDb_queueIs] keeps_offDb_statements [OF offDb_queueIs]
  keeps_offDb_WithinTransaction [OF offDb_queueIs]

lemma keeps_queue_notifyKey: "keeps (queueIs q) (ntNotifyKey outboxNotifier key)"
  by (simp add: outboxNotifier_def MultiNotifier_def NewMultiNotifier_def busNotifier_def pushNotifier_def
      keeps_andThen keeps_ret keeps_queueIs)

lemma keeps_queue_calls:
  "keeps (queueIs q) (OutboxAcknowledge env (Some outboxNotifier) j dev seg)"
  "keeps (queueIs q) (janitorRun env cfg)"
  "keeps (queueIs q) (NotifyingAppend env e)"
  unfolding OutboxAcknowledge_def AcknowledgeOutbox_def janitorRun_def DropExpiredHeads_def DeleteTerminal_def
    dropSegmentTail_def NotifyingAppend_def Append_def insertEvent_def appendOutbox_def listTargetDeviceIDs_def
    enqueueFor_def insertOutbox_def upsertSegment_def option.case
  by (intro keeps_queue keeps_queue_notifyKey keeps_intros)+

text \<open>A call that keeps the queue and both bounds on the attempts keeps the count.\<close>

lemma countOk_frame:
  assumes "countOk i n es w" and "keeps (queueIs (wPushQueue w)) m"
    and "keeps (dbInv (rowsAt i 0)) m" and "keeps (dbInv (rowsAt i 1)) m"
  shows "countOk i n es (snd (m w))"
proof -
  have "wPushQueue (snd (m w)) = wPushQueue w"
    using keepsD [OF assms(2), of w] by (simp add: queueIs_def)
  then show ?thesis
    using assms(1) keepsD [OF assms(3), of w] keepsD [OF assms(4), of w]
    by (auto simp: countOk_def dbInv_def Let_def)
qed

text \<open>Queueing an event that was to be queued, or dropping it, keeps the count; so does waking the bus.\<close>

lemma firsts_le_drop: "countOk i n (e # es) w \<Longrightarrow> countOk i n es w"
  by (auto simp: countOk_def Let_def split: if_splits)

lemma keeps_countOk_bus: "keeps (countOk i n es) (onBus m)"
  by (simp add: keeps_def countOk_def onBus_def case_prod_beta Let_def)

lemma notifyOne_count:
  assumes "countOk i n (e # es) w"
  shows "countOk i n es (snd (andThen (ntNotifyOutboxEvent outboxNotifier e)
    (\<lambda>_. ntNotifyKey outboxNotifier (oeDeviceID e)) w))"
proof -
  have run: "andThen (ntNotifyOutboxEvent outboxNotifier e) (\<lambda>_. ntNotifyKey outboxNotifier (oeDeviceID e)) w
      = andThen (onBus (NotifyKey (oeDeviceID e))) (\<lambda>_. ret ()) (snd (pushEnqueue 256 e w))"
    by (simp add: outboxNotifier_def MultiNotifier_def NewMultiNotifier_def busNotifier_def pushNotifier_def
        andThen_def ret_def pushEnqueue_def split: prod.splits outcome.splits)
  have "countOk i n es (snd (pushEnqueue 256 e w))"
    using assms by (auto simp: pushEnqueue_def countOk_def Let_def split: if_splits)
  then show ?thesis
    unfolding run by (rule keepsD [OF keeps_andThen [OF keeps_countOk_bus keeps_ret]])
qed

lemma notifyEvents_count:
  "countOk i n es w \<Longrightarrow> countOk i n [] (snd (notifyEvents (Some outboxNotifier) es w))"
proof (induction es arbitrary: w)
  case Nil
  then show ?case by (simp add: notifyEvents_def ret_def)
next
  case (Cons e es)
  let ?one = "andThen (ntNotifyOutboxEvent outboxNotifier e) (\<lambda>_. ntNotifyKey outboxNotifier (oeDeviceID e))"
  have one: "countOk i n es (snd (?one w))" by (rule notifyOne_count [OF Cons.prems])
  have drop: "countOk i n [] v" if "countOk i n es v" for v
    using that by (induction es) (auto intro: firsts_le_drop)
  show ?case
    using Cons.IH [OF one] drop [OF one]
    by (cases "?one w"; cases "fst (?one w)") (simp_all add: notifyEvents_def andThen_def [of ?one])
qed

lemma ClaimPending_count:
  assumes "ClaimPending env ctx now b tm M u = (Ret es, v)" and "countOk i n [] u" and "wPushQueue v = wPushQueue u"
  shows "countOk i n es v"
proof (cases "b \<le> 0")
  case True
  then show ?thesis using assms by (simp add: ClaimPending_def)
next
  case False
  with assms(1) have loop: "claimLoop env now tm M (claimCandidates now b (db u)) (u\<lparr>nStmt := Suc (nStmt u)\<rparr>)
      = (Ret es, v)"
    by (auto simp: ClaimPending_def elim!: andThen_RetE sqlQuery_RetE split: if_splits)
  then show ?thesis
    using assms(2,3) claimLoop_first [OF loop, of i] claimLoop_tried [OF loop, of i]
    by (auto simp: countOk_def Let_def)
qed

lemma dispatch_count:
  assumes "countOk i n [] w"
  shows "countOk i n [] (snd (DispatchOnce env cfg (Some outboxNotifier) w))"
proof -
  let ?u = "w\<lparr>nClock := Suc (nClock w)\<rparr>"
  let ?tx = "WithinTransaction env NoTx (\<lambda>txCtx. ClaimPending env txCtx (eClock env (nClock w))
    (ocBatchSizeSegments cfg) (ocAckTimeout cfg) (ocMaxAttempts cfg))"
  obtain r v where v: "?tx ?u = (r, v)" by fastforce
  have "notified (wBus w) (wPushQueue w) (snd (?tx ?u))"
    by (rule keepsD [OF keeps_offDb_WithinTransaction [OF offDb_notified keeps_offDb_ClaimPending [OF offDb_notified]]])
      (simp add: notified_def)
  then have q: "wPushQueue v = wPushQueue w" using v by (simp add: notified_def)
  have run: "snd (DispatchOnce env cfg (Some outboxNotifier) w) =
      (case r of Ret es \<Rightarrow> snd (notifyEvents (Some outboxNotifier) es v) | _ \<Rightarrow> v)"
    using v by (auto simp: DispatchOnce_def andThen_def clockNow_def ret_def split: prod.splits outcome.splits)
  show ?thesis
  proof (cases r)
    case (Ret es)
    obtain t t' where t: "ClaimPending env InTx (eClock env (nClock w)) (ocBatchSizeSegments cfg)
        (ocAckTimeout cfg) (ocMaxAttempts cfg) t = (Ret es, t')"
      and u: "t = ?u\<lparr>nStmt := nStmt t\<rparr>" and v': "v = t'\<lparr>nStmt := nStmt v\<rparr>"
      using txm.tx_returned [of env _ ?u es v] v Ret by blast
    have "countOk i n [] t" using assms by (subst u) (simp add: countOk_def)
    moreover have "wPushQueue t' = wPushQueue t" using q by (subst (asm) v', subst u) simp
    ultimately have "countOk i n es t'" by (rule ClaimPending_count [OF t])
    then have "countOk i n es v" by (subst v') (simp add: countOk_def)
    then show ?thesis unfolding run Ret by (simp add: notifyEvents_count)
  qed (use run assms txm.tx_failed [OF v] q in \<open>simp_all add: countOk_def\<close>)
qed

section \<open>The outbox and the notifier as a transition system\<close>

definition sentCount :: "env \<Rightarrow> uuid \<Rightarrow> pushState \<Rightarrow> nat" where
  "sentCount env i s = length (filter (\<lambda>x. evlEventID (snd x) = eUuidString env i) (psSent s))"

text \<open>No push of the event was made or is waiting.\<close>

definition unpushed :: "env \<Rightarrow> pushState \<Rightarrow> uuid \<Rightarrow> bool" where
  "unpushed env s i \<longleftrightarrow> i \<notin> oeEventID ` set (wPushQueue (psWorld s)) \<and> sentCount env i s = 0"

text \<open>Publishing an event with new ids, dispatching, acknowledging, cleaning up, a turn of the notifier's loop
  with any answer of the sender, and whatever leaves outbox, queue and pushes alone.\<close>

inductive pushStep :: "env \<Rightarrow> OutboxConfig \<Rightarrow> pushState \<Rightarrow> pushState \<Rightarrow> bool" for env cfg where
  ps_publish: "\<forall>i. carries env e i \<longrightarrow> unpushed env s i \<Longrightarrow>
    pushStep env cfg s (s\<lparr>psWorld := snd (NotifyingAppend env e (psWorld s))\<rparr>)"
| ps_dispatch: "pushStep env cfg s (s\<lparr>psWorld := snd (DispatchOnce env cfg (Some outboxNotifier) (psWorld s))\<rparr>)"
| ps_ack: "pushStep env cfg s (s\<lparr>psWorld := snd (OutboxAcknowledge env (Some outboxNotifier) i dev seg (psWorld s))\<rparr>)"
| ps_janitor: "pushStep env cfg s (s\<lparr>psWorld := snd (janitorRun env cfg (psWorld s))\<rparr>)"
| ps_turn: "pushStep env cfg s (snd (pushLoop env [Some send] s))"
| ps_elsewhere: "tOutbox (db (psWorld t)) = tOutbox (db (psWorld s)) \<Longrightarrow>
    wPushQueue (psWorld t) = wPushQueue (psWorld s) \<Longrightarrow> psSent t = psSent s \<Longrightarrow> pushStep env cfg s t"

definition noPushes :: "pushState \<Rightarrow> bool" where
  "noPushes s \<longleftrightarrow> tOutbox (db (psWorld s)) = [] \<and> wPushQueue (psWorld s) = [] \<and> psSent s = []"

definition onceInv :: "env \<Rightarrow> pushState \<Rightarrow> bool" where
  "onceInv env s \<longleftrightarrow> (inj (eUuidString env) \<longrightarrow>
     (\<forall>i. countOk i (sentCount env i s) [] (psWorld s))
     \<and> (\<forall>x\<in>set (psSent s). evlEventID (snd x) \<in> range (eUuidString env)))"

lemma sentCount_world [simp]: "sentCount env i (s\<lparr>psWorld := w\<rparr>) = sentCount env i s"
  by (simp add: sentCount_def)

lemma onceInv_world:
  assumes "onceInv env s" and "\<And>i. countOk i (sentCount env i s) [] (psWorld s) \<Longrightarrow> countOk i (sentCount env i s) [] w"
  shows "onceInv env (s\<lparr>psWorld := w\<rparr>)"
  using assms by (simp add: onceInv_def)

lemma publish_count:
  assumes "\<forall>i. carries env e i \<longrightarrow> unpushed env s i" and c: "countOk i (sentCount env i s) [] (psWorld s)"
  shows "countOk i (sentCount env i s) [] (snd (NotifyingAppend env e (psWorld s)))"
proof (cases "carries env e i")
  case True
  then have none: "firsts i (wPushQueue (psWorld s)) = 0" "sentCount env i s = 0"
    using assms(1) by (auto simp: unpushed_def filter_empty_conv firstOf_def image_iff)
  have "wPushQueue (snd (NotifyingAppend env e (psWorld s))) = wPushQueue (psWorld s)"
    using keepsD [OF keeps_queue_calls(3), of "wPushQueue (psWorld s)" "psWorld s" env e] by (simp add: queueIs_def)
  then show ?thesis
    using c none keepsD [OF keeps_rowsAt_publish [of 0 env e i], of "psWorld s"]
    by (simp add: countOk_def dbInv_def)
qed (use c in \<open>intro countOk_frame keeps_queue_calls keeps_rowsAt_publish, simp_all\<close>)

text \<open>A turn of the loop moves an event from the queue to the pushes, or drops it.\<close>

lemma turn_shape:
  "snd (pushLoop env [Some send] s) = s \<or>
   (\<exists>event q sent t. wPushQueue (psWorld s) = event # q \<and> snd (pushLoop env [Some send] s) = t
      \<and> db (psWorld t) = db (psWorld s) \<and> wPushQueue (psWorld t) = q \<and> psSent t = psSent s @ sent
      \<and> (sent = [] \<or> pushed env event (db (psWorld s)) sent))"
proof (cases "wPushQueue (psWorld s)")
  case Nil
  then show ?thesis by (simp add: takeQueued_def andThen_def ret_def)
next
  case (Cons event q)
  let ?s = "s\<lparr>psWorld := (psWorld s)\<lparr>wPushQueue := q\<rparr>\<rparr>"
  obtain sent t where "pushProcess env send event ?s = (Ret (), t)" and "handed ?s sent t"
    and "sent = [] \<or> pushed env event (db (psWorld ?s)) sent"
    using pushProcess_returns by meson
  then show ?thesis
    using Cons by (simp add: takeQueued_def andThen_def ret_def handed_def quiet_def)
qed

lemma turn_once:
  assumes "onceInv env s"
  shows "onceInv env (snd (pushLoop env [Some send] s))"
proof (cases "snd (pushLoop env [Some send] s) = s")
  case False
  with turn_shape [of env send s] obtain event q sent t where
    q: "wPushQueue (psWorld s) = event # q" and t: "snd (pushLoop env [Some send] s) = t"
    and d: "db (psWorld t) = db (psWorld s)" "wPushQueue (psWorld t) = q" "psSent t = psSent s @ sent"
    and sent: "sent = [] \<or> pushed env event (db (psWorld s)) sent"
    by blast
  have "countOk i (sentCount env i t) [] (psWorld t)"
    if "inj (eUuidString env)" and "countOk i (sentCount env i s) [] (psWorld s)" for i
    using that sent unfolding pushed_def countOk_def sentCount_def d q Let_def
    by (auto simp: envelopeFor_def firstOf_def inj_eq split: if_splits)
  then show ?thesis
    using assms sent d(3) unfolding onceInv_def t by (auto simp: pushed_def envelopeFor_def)
qed (use assms in simp)

interpretation pushm: invariant_system noPushes "pushStep env cfg" "onceInv env" for env cfg
proof
  show "onceInv env s" if "noPushes s" for s
    using that by (simp add: noPushes_def onceInv_def countOk_def sentCount_def rowsAt_def)
  show "onceInv env t" if "pushStep env cfg s t" and inv: "onceInv env s" for s t
    using that(1)
  proof cases
    case (ps_publish e)
    then show ?thesis using inv by (auto intro: onceInv_world publish_count)
  next
    case ps_dispatch
    then show ?thesis using inv by (auto intro: onceInv_world dispatch_count)
  next
    case ps_ack
    then show ?thesis
      using inv by (auto intro!: onceInv_world countOk_frame keeps_queue_calls keeps_rowsAt_ack)
  next
    case ps_janitor
    then show ?thesis
      using inv by (auto intro!: onceInv_world countOk_frame keeps_queue_calls keeps_rowsAt_janitor)
  next
    case ps_turn
    then show ?thesis using turn_once [OF inv] by metis
  next
    case ps_elsewhere
    then show ?thesis using inv by (simp add: onceInv_def countOk_def rowsAt_def sentCount_def)
  qed
qed

lemma distinct_by_counts:
  assumes "\<And>k. length (filter (\<lambda>x. f x = k) xs) \<le> 1"
  shows "distinct (map f xs)"
  using assms
proof (induction xs)
  case (Cons x xs)
  have "length (filter (\<lambda>y. f y = k) xs) \<le> 1" for k
    using Cons.prems [of k] by (auto split: if_splits)
  moreover have "filter (\<lambda>y. f y = f x) xs = []" using Cons.prems [of "f x"] by simp
  ultimately show ?case using Cons.IH by (auto simp: filter_empty_conv)
qed simp

text \<open>C7: An event is pushed to a device at most once: over every history of publishing (with new ids), dispatching,
  acknowledging, cleaning up and turns of the notifier, with database statements and the push service
  failing anywhere and events sent again and again by the dispatcher, no two envelopes handed to the
  push sender name the same outbox event.\<close>

theorem push_at_most_once:
  assumes "inj (eUuidString env)" and "reachable noPushes (pushStep env cfg) s"
  shows "distinct (map (\<lambda>x. evlEventID (snd x)) (psSent s))"
proof -
  have inv: "onceInv env s" using assms(2) by (rule pushm.reachable_inv)
  have "length (filter (\<lambda>x. evlEventID (snd x) = k) (psSent s)) \<le> 1" for k
  proof (cases "k \<in> range (eUuidString env)")
    case True
    then obtain i where "k = eUuidString env i" by blast
    moreover have "countOk i (sentCount env i s) [] (psWorld s)" using inv assms(1) by (simp add: onceInv_def)
    ultimately show ?thesis by (auto simp: countOk_def sentCount_def Let_def)
  next
    case False
    then have "filter (\<lambda>x. evlEventID (snd x) = k) (psSent s) = []"
      using inv assms(1) by (auto simp: onceInv_def filter_empty_conv)
    then show ?thesis by simp
  qed
  then show ?thesis by (rule distinct_by_counts)
qed

section \<open>A friend request pushed once, though it is sent twice\<close>

definition pushEnv :: env where
  "pushEnv = sampleEnv\<lparr>eUuidString := (\<lambda>u. replicate (unat u) (CHR ''x'')), eUuidSHA1 := (\<lambda>s. of_nat (length s)),
     eUncborPayload := (\<lambda>_. Some [(''senderPublicKey'', GBytes [170])])\<rparr>"

definition pushConfig :: OutboxConfig where
  "pushConfig = sampleOutboxConfig\<lparr>ocAckTimeout := 1\<rparr>"

definition pushDevice :: DeviceRecord where
  "pushDevice = \<lparr>dvID = 5, dvSessionID = None, dvUserPublicKey = sampleKey 1, dvDeviceID = ''phone'', dvPlatform = 2,
     dvPushToken = ''token'', dvIsEnabled = True, dvUpdatedAt = 0\<rparr>"

definition pushRequest :: Event where
  "pushRequest = sampleMessage\<lparr>evEventID := 1, evEventType := ''friend.requestReceived'', evPayload := [(''requestId'', GString ''q'')]\<rparr>"

definition pushStart :: pushState where
  "pushStart = \<lparr>psWorld = sampleWorld (emptyDb\<lparr>tDevices := [pushDevice]\<rparr>), psLog = [], psSent = []\<rparr>"

definition pushPublished :: pushState where
  "pushPublished = pushStart\<lparr>psWorld := snd (NotifyingAppend pushEnv pushRequest (psWorld pushStart))\<rparr>"

text \<open>A dispatch and a turn of the notifier.\<close>

definition dispatchAndPush :: "pushState \<Rightarrow> pushState" where
  "dispatchAndPush s = snd (pushLoop pushEnv [Some (\<lambda>_ _. None)]
     (s\<lparr>psWorld := snd (DispatchOnce pushEnv pushConfig (Some outboxNotifier) (psWorld s))\<rparr>))"

lemma pushEnv_inj: "inj (eUuidString pushEnv)"
  by (rule injI) (simp add: pushEnv_def replicate_eq_replicate word_unat_eq_iff)

lemma dispatchAndPush_reachable:
  assumes "reachable noPushes (pushStep pushEnv pushConfig) s"
  shows "reachable noPushes (pushStep pushEnv pushConfig) (dispatchAndPush s)"
  unfolding dispatchAndPush_def by (rule reach_step [OF reach_step [OF assms ps_dispatch] ps_turn])

lemma pushPublished_reachable: "reachable noPushes (pushStep pushEnv pushConfig) pushPublished"
proof -
  have "reachable noPushes (pushStep pushEnv pushConfig) pushStart"
    by (rule reach_start) (simp add: noPushes_def pushStart_def sampleWorld_def emptyDb_def)
  then show ?thesis
    unfolding pushPublished_def
    by (rule reach_step) (rule ps_publish, simp add: unpushed_def pushStart_def sampleWorld_def sentCount_def)
qed

lemma dispatchAndPush_sent: "length (psSent (dispatchAndPush (dispatchAndPush pushPublished))) = 1"
  by code_simp

theorem push_at_most_once_witness:
  "distinct (map (\<lambda>x. evlEventID (snd x)) (psSent (dispatchAndPush (dispatchAndPush pushPublished))))
   \<and> length (psSent (dispatchAndPush (dispatchAndPush pushPublished))) = 1"
  using push_at_most_once [OF pushEnv_inj dispatchAndPush_reachable [OF dispatchAndPush_reachable [OF pushPublished_reachable]]]
    dispatchAndPush_sent by simp

end
