(* ===== verification/Delivery.thy ===== *)
theory Delivery
  imports ConnectionProps OutboxLive PushOnce
begin

text \<open>
  The dispatcher, the bus and the push loop of a connection together: an event that is due for a device is put in flight,
  the connection of the device is woken, and its next turn hands the event over.
\<close>

section \<open>What a dispatch leaves of the rows\<close>

text \<open>Claiming marks rows; it neither adds nor removes one, nor changes its event, device or payload.\<close>

definition rowIdent :: "OutboxRow \<Rightarrow> uuid \<times> string \<times> bytes" where
  "rowIdent r = (obEventID r, obDeviceID r, obPayload r)"

definition sameRows :: "(uuid \<times> string \<times> bytes) list \<Rightarrow> database \<Rightarrow> bool" where
  "sameRows ids d \<longleftrightarrow> map rowIdent (tOutbox d) = ids"

lemma sameRows_updWhere:
  assumes "\<And>r. rowIdent (f r) = rowIdent r"
  shows "sameRows ids (d\<lparr>tOutbox := updWhere p f (tOutbox d)\<rparr>) = sameRows ids d"
  using assms by (simp add: sameRows_def map_updWhere)

lemma sameRows_segs [simp]: "sameRows ids (d\<lparr>tOutboxSegments := ss\<rparr>) = sameRows ids d"
  by (simp add: sameRows_def)

lemma keeps_sameRows_dropSegmentTail: "keeps (dbInv (sameRows ids)) (dropSegmentTail env dev seg t now reason)"
  unfolding dropSegmentTail_def
  by (intro keeps_intros) (auto simp: dropRows_def clearSegment_def sameRows_updWhere rowIdent_def)

lemma keeps_sameRows_claimOne: "keeps (dbInv (sameRows ids)) (claimOne env now tm c)"
  unfolding claimOne_def
  by (intro keeps_intros) (auto simp: Let_def sameRows_updWhere rowIdent_def markInFlight_def)

text \<open>A head that is not exhausted is among the claimed events, with the device of its row.\<close>

lemma hoare_claimOne_event:
  assumes dev: "\<And>i dv p. (i, dv, p) \<in> set ids \<Longrightarrow> i = cdEventID c \<Longrightarrow> dv = dev"
  shows "hoare (dbInv (sameRows ids)) (claimOne env now tm c)
    (\<lambda>e. dbInv (\<lambda>d. sameRows ids d \<and> oeDeviceID e = dev)) (\<lambda>_. True)"
proof -
  have "sameRows ids (db w') \<and> oeDeviceID e = dev"
    if "sameRows ids (db w)" and run: "claimOne env now tm c w = (Ret e, w')" for w e w'
  proof -
    have same: "sameRows ids (db w')"
      using keepsD [OF keeps_sameRows_claimOne, of ids w] that by (metis dbInv_def snd_conv)
    obtain r where r: "r \<in> set (tOutbox (db w'))" "obEventID r = cdEventID c" "oeDeviceID e = obDeviceID r"
      using run by (elim claimOne_RetE) (rule that)
    then have "rowIdent r \<in> set ids" using same by (auto simp: sameRows_def)
    then show ?thesis using same r dev [of "obEventID r" "obDeviceID r" "obPayload r"] by (simp add: rowIdent_def)
  qed
  then show ?thesis unfolding dbInv_def by (rule hoare_RetI)
qed

lemma hoare_claimLoop_event:
  assumes dev: "\<And>i dv p. (i, dv, p) \<in> set ids \<Longrightarrow> i = cdEventID c \<Longrightarrow> dv = dev" and due: "\<not> exhausted now M c"
  shows "hoare (dbInv (sameRows ids)) (claimLoop env now tm M items)
    (\<lambda>es. dbInv (\<lambda>d. sameRows ids d \<and> (c \<in> set items \<longrightarrow> dev \<in> oeDeviceID ` set es))) (\<lambda>_. True)"
proof (induction items)
  case Nil
  show ?case by (simp add: hoare_def ret_def dbInv_def)
next
  case (Cons x xs)
  show ?case
  proof (cases "exhausted now M x")
    case True
    have "hoare (dbInv (sameRows ids)) (dropSegmentTail env (cdDeviceID x) (cdSegmentID x) (cdCreatedAt x) now
        ''expired_or_attempts_exceeded'') (\<lambda>_. dbInv (sameRows ids)) (\<lambda>_. True)"
      by (rule hoare_keeps [OF keeps_sameRows_dropSegmentTail]) simp
    then show ?thesis
      using True due by simp (erule hoare_andThen, rule hoare_weaken [OF Cons.IH], auto simp: dbInv_def)
  next
    case False
    have one: "hoare (dbInv (sameRows ids)) (claimOne env now tm x)
        (\<lambda>e. dbInv (\<lambda>d. sameRows ids d \<and> (x = c \<longrightarrow> oeDeviceID e = dev))) (\<lambda>_. True)"
    proof (cases "x = c")
      case True
      then show ?thesis using hoare_claimOne_event [OF dev] by simp
    next
      case False
      then show ?thesis by simp (rule hoare_keeps [OF keeps_sameRows_claimOne], simp)
    qed
    have rest: "hoare (dbInv (\<lambda>d. sameRows ids d \<and> (x = c \<longrightarrow> oeDeviceID e = dev))) (andThen (claimLoop env now tm M xs) (\<lambda>es. ret (e # es)))
        (\<lambda>es. dbInv (\<lambda>d. sameRows ids d \<and> (c \<in> set (x # xs) \<longrightarrow> dev \<in> oeDeviceID ` set es))) (\<lambda>_. True)" for e
    proof (rule hoare_fact)
      show "x = c \<longrightarrow> oeDeviceID e = dev"
        if "dbInv (\<lambda>d. sameRows ids d \<and> (x = c \<longrightarrow> oeDeviceID e = dev)) w" for w
        using that by (simp add: dbInv_def)
      assume "x = c \<longrightarrow> oeDeviceID e = dev"
      then show ?thesis
        by (intro hoare_andThen [OF hoare_pre [OF Cons.IH]]) (auto simp: dbInv_def hoare_def ret_def)
    qed
    show ?thesis using False hoare_andThen [OF one rest] by simp
  qed
qed

lemma hoare_ClaimPending_event:
  assumes c: "c \<in> set (claimCandidates now n d)" "\<not> exhausted now M c"
    and dev: "\<And>r. r \<in> set (tOutbox d) \<Longrightarrow> obEventID r = cdEventID c \<Longrightarrow> obDeviceID r = dev"
  shows "hoare (dbInv ((=) d)) (ClaimPending env InTx now n tm M)
    (\<lambda>es. dbInv (\<lambda>d'. sameRows (map rowIdent (tOutbox d)) d' \<and> (0 < n \<longrightarrow> dev \<in> oeDeviceID ` set es))) (\<lambda>_. True)"
proof (cases "n \<le> 0")
  case True
  then show ?thesis by (simp add: ClaimPending_def hoare_def ret_def dbInv_def sameRows_def)
next
  case False
  let ?cs = "claimCandidates now n d" and ?ids = "map rowIdent (tOutbox d)"
  let ?Q = "\<lambda>es. dbInv (\<lambda>d'. sameRows ?ids d' \<and> (0 < n \<longrightarrow> dev \<in> oeDeviceID ` set es))"
  have "hoare (dbInv (sameRows ?ids)) (claimLoop env now tm M ?cs)
      (\<lambda>es. dbInv (\<lambda>d'. sameRows ?ids d' \<and> (c \<in> set ?cs \<longrightarrow> dev \<in> oeDeviceID ` set es))) (\<lambda>_. True)"
    by (rule hoare_claimLoop_event) (use c(2) dev in \<open>auto simp: rowIdent_def\<close>)
  then have loop: "hoare (dbInv (sameRows ?ids)) (claimLoop env now tm M ?cs) ?Q (\<lambda>_. True)"
    by (rule hoare_weaken) (use c(1) in \<open>auto simp: dbInv_def\<close>)
  have "hoare (dbInv (\<lambda>d'. d' = d \<and> cs = ?cs)) (claimLoop env now tm M cs) ?Q (\<lambda>_. True)" for cs
    by (rule hoare_fact [of _ "cs = ?cs"], simp add: dbInv_def)
      (rule hoare_pre, simp only:, rule loop, simp add: dbInv_def sameRows_def)
  moreover have "hoare (dbInv ((=) d)) (wrapErr ''select outbox segments'' (sqlQuery env (claimCandidates now n)))
      (\<lambda>cs. dbInv (\<lambda>d'. d' = d \<and> cs = ?cs)) (\<lambda>_. True)"
    by (rule hoare_weaken [OF hoare_wrapErr [OF hoare_sqlQuery [where E = "\<lambda>_. True"]]]) auto
  ultimately show ?thesis
    using False by (simp add: ClaimPending_def currentTx_def hoare_andThen)
qed

section \<open>A notification wakes the connection\<close>

lemma returns_notify_wakes:
  "returns (\<lambda>w. busOk (wBus w) \<and> db w = d \<and> nClock w = k \<and> busLookup (wBus w) dev i = Some ch
       \<and> (dev \<in> oeDeviceID ` set es \<or> chFull (busChans (wBus w) ! ch)))
     (notifyEvents (Some outboxNotifier) es)
     (\<lambda>_ w. db w = d \<and> nClock w = k \<and> chFull (busChans (wBus w) ! ch))"
proof -
  define L where "L es w \<longleftrightarrow> busOk (wBus w) \<and> db w = d \<and> nClock w = k \<and> busLookup (wBus w) dev i = Some ch
      \<and> (dev \<in> oeDeviceID ` set es \<or> chFull (busChans (wBus w) ! ch))" for es :: "OutboxEvent list" and w :: world
  have bus: "returns (L (e # es)) (onBus (NotifyKey (oeDeviceID e))) (\<lambda>_. L es)" for e es
    unfolding returns_def
  proof (intro allI impI)
    fix w assume w: "L (e # es) w"
    let ?b = "markFull (notifySnapshot (oeDeviceID e) (wBus w)) (wBus w)"
    have run: "onBus (NotifyKey (oeDeviceID e)) w = (Ret (), w\<lparr>wBus := ?b\<rparr>)"
      using w by (simp add: L_def onBus_def NotifyKey_ok)
    have "ch \<in> set (notifySnapshot dev (wBus w))" "ch < length (busChans (wBus w))"
      using w in_notifySnapshot [of "wBus w"] busOkD(3) unfolding L_def by blast+
    then have "dev \<in> oeDeviceID ` set es \<or> chFull (busChans ?b ! ch)"
      using w by (auto simp: L_def nth_markFull)
    then show "\<exists>x t. onBus (NotifyKey (oeDeviceID e)) w = (Ret x, t) \<and> L es t"
      using run w by (simp add: L_def busOk_markFull markFull_frame)
  qed
  have push: "returns (L es) (pushEnqueue n e) (\<lambda>_. L es)" for n e es
    by (simp add: returns_def pushEnqueue_def L_def)
  note unfold = outboxNotifier_def MultiNotifier_def NewMultiNotifier_def busNotifier_def pushNotifier_def
  have event: "returns (L es) (ntNotifyOutboxEvent outboxNotifier e) (\<lambda>_. L es)" for e es
    by (simp add: unfold) (intro returns_andThen [where R = "\<lambda>_. L es"] push returns_ret)
  have key: "returns (L (e # es)) (ntNotifyKey outboxNotifier (oeDeviceID e)) (\<lambda>_. L es)" for e es
    by (simp add: unfold) (rule returns_andThen [OF bus], intro returns_andThen [where R = "\<lambda>_. L es"] returns_ret)
  have "returns (L es) (notifyEvents (Some outboxNotifier) es) (\<lambda>_. L [])"
    unfolding notifyEvents_def option.case
    by (rule returns_forEach [where L = L]) (rule returns_andThen [OF event key])
  then show ?thesis by (rule returns_weaken) (auto simp: L_def)
qed

section \<open>The next pull hands the event over\<close>

lemma newPackets_names:
  assumes "i \<in> oeEventID ` set events" and "i \<notin> fst ` set sent"
  shows "i \<in> rsRequestID ` set (fst (newPackets now events sent))"
  using assms
proof (induction now events sent rule: newPackets.induct)
  case (2 now e es sent)
  show ?case
  proof (cases "oeEventID e = i")
    case True
    then have "\<not> sentRecently now sent e"
      using 2(4) by (force simp: sentRecently_def split: option.splits dest: map_of_SomeD)
    then show ?thesis
      using True by (auto simp: eventPacket_def image_iff Let_def split: prod.splits)
  next
    case False
    then have "i \<in> oeEventID ` set es" "i \<notin> fst ` set (markSent e sent)"
      using 2(3,4) by (auto simp: markSent_def update_conv' simp flip: dom_map_of_conv_image_fst split: option.splits)
    then show ?thesis using 2 False by (auto simp: split: prod.splits)
  qed
qed simp

text \<open>All the rows in flight of a device are listed, if there are at most as many as the limit.\<close>

lemma mapEach_scan:
  assumes "\<And>r. r \<in> set rs \<Longrightarrow> eUncborPayload env (obPayload r) \<noteq> None"
  shows "\<exists>es. mapEach (\<lambda>r. scanOutboxEvent env (Some r)) rs w = (Ret es, w) \<and> map oeEventID es = map obEventID rs"
  using assms
proof (induction rs)
  case (Cons r rs)
  then obtain es where "mapEach (\<lambda>r. scanOutboxEvent env (Some r)) rs w = (Ret es, w)" "map oeEventID es = map obEventID rs"
    by auto
  moreover obtain p where "eUncborPayload env (obPayload r) = Some p" using Cons.prems [of r] by auto
  ultimately show ?case by (simp add: andThen_def scanOutboxEvent_def ret_def)
qed (simp add: ret_def)

lemma ListInflight_all:
  assumes nf: "noFaults env" and dec: "\<forall>r\<in>set (tOutbox (db w)). eUncborPayload env (obPayload r) \<noteq> None"
    and n: "length (filter (\<lambda>r. obDeviceID r = dev) (tOutbox (db w))) \<le> nat n"
    and r: "r \<in> set (tOutbox (db w))" "obDeviceID r = dev" "obStatus r = StatusInFlight" "obInflightUntil r = Some t" "now < t"
  shows "\<exists>es w'. ListInflight env dev now n w = (Ret es, w') \<and> obEventID r \<in> oeEventID ` set es \<and> nClock w' = nClock w"
proof -
  let ?p = "\<lambda>r. obStatus r = StatusInFlight \<and> (case obInflightUntil r of None \<Rightarrow> False | Some t \<Rightarrow> now < t)"
  let ?rs = "limitOffset n 0 (sort_key obCreatedAt (filter (\<lambda>r. obDeviceID r = dev \<and> ?p r) (tOutbox (db w))))"
  have "length (filter (\<lambda>r. obDeviceID r = dev \<and> ?p r) (tOutbox (db w))) \<le> nat n"
    using n length_filter_le [of ?p "filter (\<lambda>r. obDeviceID r = dev) (tOutbox (db w))"]
    by (simp add: conj_commute)
  then have rows: "set ?rs = {r \<in> set (tOutbox (db w)). obDeviceID r = dev \<and> ?p r}"
    by (simp add: limitOffset_def)
  obtain es where es: "mapEach (\<lambda>r. scanOutboxEvent env (Some r)) ?rs (w\<lparr>nStmt := Suc (nStmt w)\<rparr>) = (Ret es, w\<lparr>nStmt := Suc (nStmt w)\<rparr>)"
    "map oeEventID es = map obEventID ?rs"
    using mapEach_scan [of ?rs env] rows dec by blast
  have "wrapErr ''query inflight outbox'' (sqlQuery env (\<lambda>d. limitOffset n 0 (sort_key obCreatedAt
      (filter (\<lambda>r. obDeviceID r = dev \<and> ?p r) (tOutbox d))))) w = (Ret ?rs, w\<lparr>nStmt := Suc (nStmt w)\<rparr>)"
    by (simp only: wrapErr_Ret) (simp add: sqlQuery_def sql_noFaults [OF nf])
  then have "ListInflight env dev now n w = (Ret es, w\<lparr>nStmt := Suc (nStmt w)\<rparr>)"
    using es(1) by (simp only: ListInflight_def andThen_def prod.case outcome.case)
  moreover have "obEventID r \<in> oeEventID ` set es"
    using arg_cong [OF es(2), of set] rows r by force
  ultimately show ?thesis by auto
qed

text \<open>A pull after the dispatch, whose readings of the clock come before the acknowledgement timeout.\<close>

lemma pull_hands_over:
  assumes nf: "noFaults env" and dec: "\<forall>r\<in>set (tOutbox (db w)). eUncborPayload env (obPayload r) \<noteq> None"
    and few: "length (filter (\<lambda>r. obDeviceID r = dev) (tOutbox (db w))) \<le> 128"
    and r: "r \<in> set (tOutbox (db w))" "obDeviceID r = dev" "obStatus r = StatusInFlight" "obInflightUntil r = Some t"
    and before: "eClock env (Suc (nClock w)) < t" and dev: "dev \<noteq> []"
    and old: "\<forall>until. (obEventID r, until) \<in> set sent \<longrightarrow> until \<le> eClock env (nClock w)"
  obtains packets sent' w' where
    "pullOutboxPackets env (serverHandler acfg ccfg ocfg) dev sent w = (Ret (Inr packets, sent'), w')"
    and "obEventID r \<in> rsRequestID ` set packets"
proof -
  let ?now = "eClock env (nClock w)" and ?w = "w\<lparr>nClock := Suc (nClock w)\<rparr>"
  let ?v = "w\<lparr>nClock := Suc (Suc (nClock w))\<rparr>" and ?live = "filter (\<lambda>(i, until). ?now < until) sent"
  obtain es w' where list: "ListInflight env dev (eClock env (Suc (nClock w))) 128 ?v = (Ret es, w')"
    and es: "obEventID r \<in> oeEventID ` set es"
    using ListInflight_all [OF nf, of ?v dev 128 r t "eClock env (Suc (nClock w))"] dec few r before by auto
  have "OutboxListInflight env ocfg dev 128 ?w = (Ret es, w')"
    using list dev by (simp add: OutboxListInflight_def guardErr_def andThen_def clockNow_def)
  moreover have "es \<noteq> []" using es by auto
  ultimately have "inflightOf env ocfg (Some outboxNotifier) dev ?w = (Ret es, w')"
    by (simp add: inflightOf_def andThen_def ret_def)
  moreover obtain packets sent' where new: "newPackets ?now es ?live = (packets, sent')" by fastforce
  ultimately have "pullOutboxPackets env (serverHandler acfg ccfg ocfg) dev sent w = (Ret (Inr packets, sent'), w')"
    using dev by (simp add: pullOutboxPackets_def andThen_def clockNow_def onErr_def ret_def Let_def)
  moreover have "obEventID r \<notin> fst ` set ?live" using old by fastforce
  then have "obEventID r \<in> rsRequestID ` set packets" using newPackets_names [OF es, of ?live ?now] new by simp
  ultimately show thesis by (rule that)
qed

lemma pushTurn_hands_over:
  assumes pull: "pullOutboxPackets env (serverHandler acfg ccfg ocfg) (csDeviceID started) (cnSent c) (w\<lparr>wBus := chanRecv ch (wBus w)\<rparr>)
      = (Ret (Inr packets, sent'), w')"
    and c: "\<not> cnCanceled c" "cnPush c = Some (started, ch, i)" "packets \<noteq> []"
    and inv: "connsInv ccfg \<lparr>ksWorld = w, ksConns = cs\<rparr>" "cs n = Some c"
  shows "\<exists>c' w''. pushTurn cd env (serverHandler acfg ccfg ocfg) send True c w =
    (Ret (case writePackets cd send packets of Inl _ \<Rightarrow> PushDone | Inr _ \<Rightarrow> PushAgain, c'), w'')"
proof -
  obtain next' c' w'' where run: "pushTurn cd env (serverHandler acfg ccfg ocfg) send True c w = (Ret (next', c'), w'')"
    using pushTurn_returns [OF inv(1), of n c] inv(2) by fastforce
  have "pushTurn cd env (serverHandler acfg ccfg ocfg) send True c w
    = pushRound cd env (serverHandler acfg ccfg ocfg) send started c (w\<lparr>wBus := chanRecv ch (wBus w)\<rparr>)"
    using c by (simp add: pushTurn_def andThen_def onBus_def)
  also have "\<dots> = (case writePackets cd send packets of
      Inl _ \<Rightarrow> andThen (stopLoop (c\<lparr>cnSent := sent', cnCanceled := True\<rparr>)) (\<lambda>c''. ret (PushDone, c''))
    | Inr bytesOut \<Rightarrow> andThen (recordUserUsage env (serverHandler acfg ccfg ocfg) (csUserPublicKey started) 0 0 bytesOut)
        (\<lambda>_. ret (PushAgain, c\<lparr>cnSent := sent'\<rparr>))) w'"
    using c pull by (simp add: pushRound_def andThen_def [of "pullOutboxPackets _ _ _ _"] Let_def split: sum.split)
  finally have eq: "pushTurn cd env (serverHandler acfg ccfg ocfg) send True c w = \<dots>" .
  have "next' = (case writePackets cd send packets of Inl _ \<Rightarrow> PushDone | Inr _ \<Rightarrow> PushAgain)"
    using run unfolding eq by (auto elim!: andThen_RetE simp: ret_def split: sum.splits)
  then show ?thesis using run by blast
qed

section \<open>From the outbox to the connection\<close>

lemma offDb_nClock: "offDb (\<lambda>w. nClock w = k)"
  by (simp add: offDb_def)

lemma sameRows_rows:
  assumes "map rowIdent rs = map rowIdent qs"
  shows "(\<forall>r\<in>set rs. P (obPayload r)) \<longleftrightarrow> (\<forall>r\<in>set qs. P (obPayload r))"
    and "length (filter (\<lambda>r. obDeviceID r = dev) rs) = length (filter (\<lambda>r. obDeviceID r = dev) qs)"
proof -
  have payload: "map obPayload rs = map obPayload qs" and dev: "map obDeviceID rs = map obDeviceID qs"
    using arg_cong [OF assms, of "map (snd \<circ> snd)"] arg_cong [OF assms, of "map (fst \<circ> snd)"]
    by (simp_all add: rowIdent_def comp_def)
  have "(\<forall>x\<in>set (map obPayload rs). P x) \<longleftrightarrow> (\<forall>x\<in>set (map obPayload qs). P x)" by (simp only: payload)
  then show "(\<forall>r\<in>set rs. P (obPayload r)) \<longleftrightarrow> (\<forall>r\<in>set qs. P (obPayload r))" by simp
  show "length (filter (\<lambda>r. obDeviceID r = dev) rs) = length (filter (\<lambda>r. obDeviceID r = dev) qs)"
    using arg_cong [OF dev, of "\<lambda>xs. length (filter (\<lambda>x. x = dev) xs)"] by (simp add: filter_map comp_def)
qed

lemma claim_leaves:
  assumes tx: "WithinTransaction env NoTx (\<lambda>txCtx. ClaimPending env txCtx now n tm M) (w\<lparr>nClock := k\<rparr>) = (Ret es, v)"
    and wf: "outboxWf M (db w)" and n: "length (joinHeads (claimable now) (db w)) \<le> nat n"
    and head: "s \<in> set (tOutboxSegments (db w))" "r \<in> set (tOutbox (db w))" "sgHeadEventID s = Some (obEventID r)"
      "claimable now r"
    and due: "now < obExpiresAt r" "obAttempts r < M"
  shows "nClock v = k" and "sameRows (map rowIdent (tOutbox (db w))) (db v)" and "obDeviceID r \<in> oeDeviceID ` set es"
proof -
  let ?d = "db w" and ?c = "headCandidate s r"
  have "nClock (snd (WithinTransaction env NoTx (\<lambda>txCtx. ClaimPending env txCtx now n tm M) (w\<lparr>nClock := k\<rparr>))) = k"
    by (rule keepsD [OF keeps_offDb_WithinTransaction [OF offDb_nClock keeps_offDb_ClaimPending [OF offDb_nClock]]]) simp
  then show "nClock v = k" by (simp add: tx)
  have pos: "0 < n" by (rule headCandidate_claimed(1) [OF wf head n])
  have c: "?c \<in> set (claimCandidates now n ?d)" "\<not> exhausted now M ?c"
    using head n due pos by (auto simp: claimCandidates_def limitOffset_def joinHeads_def headCandidate_def exhausted_def)
  have dev: "obDeviceID q = obDeviceID r" if "q \<in> set (tOutbox ?d)" "obEventID q = cdEventID ?c" for q
    using that head(2) wf inj_on_contraD [of obEventID "set (tOutbox ?d)" q r]
    by (auto simp: headCandidate_def outboxWf_def outboxOk_def distinct_map)
  have "hoare (dbInv ((=) ?d)) (ClaimPending env InTx now n tm M) (\<lambda>es. dbInv (\<lambda>d'.
      sameRows (map rowIdent (tOutbox ?d)) d' \<and> (0 < n \<longrightarrow> obDeviceID r \<in> oeDeviceID ` set es))) (\<lambda>_. True)"
    by (rule hoare_ClaimPending_event [OF c]) (rule dev)
  from hoareD(1) [OF hoare_WithinTransaction [where fn = "\<lambda>txCtx. ClaimPending env txCtx now n tm M", OF this] _ tx]
  show "sameRows (map rowIdent (tOutbox ?d)) (db v)" "obDeviceID r \<in> oeDeviceID ` set es"
    using pos by (simp_all add: dbInv_def)
qed

text \<open>C4: Delivery: in every reachable state of the server and its connections, with a working database and a
  head of an outbox segment that is due, unexpired and has an attempt left, one round of the dispatcher returns and
  leaves a token for every connection whose push loop serves the device of the head; when the loop takes the token,
  before the acknowledgement timeout, it writes packets among which is the event, whatever else is in flight: the
  loop goes on if the packets could be written, and ends otherwise. The connection has not been closed and has not sent
  the event within the current timeout; the batch is large enough for the segments due, and the device has at most
  128 rows in the outbox, the limit of a pull.\<close>

theorem due_event_delivered:
  assumes "reachable (noConnection ccfg) (connectionStep cd env acfg ccfg ocfg) \<lparr>ksWorld = w, ksConns = cs\<rparr>"
    and "noFaults env" and "outboxWf (ocMaxAttempts ocfg) (db w)"
    and "\<forall>r\<in>set (tOutbox (db w)). eUncborPayload env (obPayload r) \<noteq> None"
    and "now = eClock env (nClock w)"
    and "length (joinHeads (claimable now) (db w)) \<le> nat (ocBatchSizeSegments ocfg)"
    and "s \<in> set (tOutboxSegments (db w))" and "r \<in> set (tOutbox (db w))"
    and "sgHeadEventID s = Some (obEventID r)" and "claimable now r" and "now < obExpiresAt r"
    and "obAttempts r < ocMaxAttempts ocfg"
    and "cs n = Some c" and "cnPushing c" and "\<not> cnCanceled c" and "cnPush c = Some (started, ch, i)"
    and "csDeviceID started = obDeviceID r"
    and "length (filter (\<lambda>q. obDeviceID q = obDeviceID r) (tOutbox (db w))) \<le> 128"
    and "eClock env (Suc (Suc (nClock w))) < now + ocAckTimeout ocfg"
    and "\<forall>until. (obEventID r, until) \<in> set (cnSent c) \<longrightarrow> until \<le> eClock env (Suc (nClock w))"
  shows "\<exists>k w'. DispatchOnce env ocfg (Some outboxNotifier) w = (Ret k, w') \<and> chFull (busChans (wBus w') ! ch)
    \<and> (\<exists>packets. obEventID r \<in> rsRequestID ` set packets
        \<and> (\<forall>send. \<exists>c' w''. pushTurn cd env (serverHandler acfg ccfg ocfg) send True c w' =
              (Ret (case writePackets cd send packets of Inl _ \<Rightarrow> PushDone | Inr _ \<Rightarrow> PushAgain, c'), w'')))"
proof -
  let ?dev = "obDeviceID r" and ?ids = "map rowIdent (tOutbox (db w))" and ?r = "markInFlight now (now + ocAckTimeout ocfg) r"
  let ?s = "\<lparr>ksWorld = w, ksConns = cs\<rparr>"
  have inv: "connsInv ccfg ?s" by (rule connm.reachable_inv [OF assms(1)])
  then have ok: "busOk (wBus w)" by (auto simp: connsInv_def subsInvD(1))
  obtain es v v' where tx: "WithinTransaction env NoTx (\<lambda>txCtx. ClaimPending env txCtx now (ocBatchSizeSegments ocfg)
        (ocAckTimeout ocfg) (ocMaxAttempts ocfg)) (w\<lparr>nClock := Suc (nClock w)\<rparr>) = (Ret es, v)"
    and v: "wBus v = wBus w" "notifyEvents (Some outboxNotifier) es v = (Ret (), v')" "db v' = db v"
    and run: "DispatchOnce env ocfg (Some outboxNotifier) w = (Ret (int (length es)), v')"
    and row: "?r \<in> set (tOutbox (db v))"
    using dispatch_run [OF assms(2) ok assms(3-12)] by metis
  note left = claim_leaves [OF tx assms(3,6-12)]
  have chan: "busLookup (wBus w) ?dev i = Some ch" "?dev \<noteq> []"
    using push_channel [OF inv, of n c started ch i] assms(13,14,16,17) by simp_all
  then have woken: "db v' = db v" "nClock v' = Suc (nClock w)" "chFull (busChans (wBus v') ! ch)"
    using returnsD [OF returns_notify_wakes, of v "db v" "Suc (nClock w)" ?dev i ch es] v ok left by auto
  have step: "connectionStep cd env acfg ccfg ocfg ?s \<lparr>ksWorld = v', ksConns = cs\<rparr>"
    using conn_dispatch [of cd env acfg ccfg ocfg w cs] run by simp
  let ?w = "v'\<lparr>wBus := chanRecv ch (wBus v')\<rparr>"
  have rows: "map rowIdent (tOutbox (db ?w)) = ?ids" using left(2) woken(1) by (simp add: sameRows_def)
  obtain packets sent' w' where pull: "pullOutboxPackets env (serverHandler acfg ccfg ocfg) ?dev (cnSent c) ?w = (Ret (Inr packets, sent'), w')"
    and names: "obEventID ?r \<in> rsRequestID ` set packets"
  proof (rule pull_hands_over [OF assms(2), of ?w ?dev ?r])
    show "\<forall>q\<in>set (tOutbox (db ?w)). eUncborPayload env (obPayload q) \<noteq> None"
      "length (filter (\<lambda>q. obDeviceID q = ?dev) (tOutbox (db ?w))) \<le> 128"
      using assms(4,18) sameRows_rows(1) [OF rows, of "\<lambda>p. eUncborPayload env p \<noteq> None"] sameRows_rows(2) [OF rows] by simp_all
    show "obDeviceID ?r = ?dev" "obStatus ?r = StatusInFlight" "obInflightUntil ?r = Some (now + ocAckTimeout ocfg)"
      by (simp_all add: markInFlight_def)
  qed (use row woken assms(19,20) chan(2) that in simp_all)
  have "packets \<noteq> []" using names by auto
  from pushTurn_hands_over [OF pull [folded assms(17)] assms(15,16) this connm.reachable_inv [OF reach_step [OF assms(1) step]] assms(13)]
  show ?thesis using run woken(3) names by auto
qed

section \<open>Example\<close>

text \<open>The connection of \<open>solvedTurn\<close>, with a message that becomes due for the tablet after the challenge was solved.\<close>

definition tabletRow :: OutboxRow where
  "tabletRow = \<lparr>obEventID = 33, obDeviceID = ''tablet'', obSegmentID = ''r'', obEventType = ''m'', obPayload = [1], obStatus = StatusPending,
     obSendAfter = 7 * second, obInflightUntil = None, obAttempts = 0, obCreatedAt = 0, obExpiresAt = hour, obAckedAt = None,
     obLastSentAt = None, obLastError = None\<rparr>"

definition tabletSegment :: OutboxSegment where
  "tabletSegment = \<lparr>sgDeviceID = ''tablet'', sgSegmentID = ''r'', sgHeadEventID = Some 33, sgInflightEventID = None, sgUpdatedAt = 0\<rparr>"

definition dueWorld :: world where
  "dueWorld = challengedWorld\<lparr>db := (db challengedWorld)\<lparr>tOutbox := [tabletRow], tOutboxSegments := [tabletSegment]\<rparr>\<rparr>"

definition dueTurn :: "connection outcome \<times> world" where
  "dueTurn = handleWebSocketTurn solveCodec sampleEnv sampleHandler (\<lambda>_. None) (BinaryMessage (replicate 64 9)) newConnection dueWorld"

definition deliverable :: "connection outcome \<Rightarrow> world \<Rightarrow> bool" where
  "deliverable t w = (case t of
       Ret c \<Rightarrow> cnPushing c \<and> \<not> cnCanceled c \<and> 33 \<notin> fst ` set (cnSent c)
         \<and> (case cnPush c of Some (started, ch, i) \<Rightarrow> csDeviceID started = ''tablet'' \<and> ch = 0 | None \<Rightarrow> False)
         \<and> nClock w = 7 \<and> outboxWf 5 (db w) \<and> length (tOutbox (db w)) = 2 \<and> length (joinHeads (claimable (7 * second)) (db w)) = 1
         \<and> tabletRow \<in> set (tOutbox (db w)) \<and> tabletSegment \<in> set (tOutboxSegments (db w))
     | _ \<Rightarrow> False)"

lemma dueTurn_deliverable: "deliverable (fst dueTurn) (snd dueTurn)"
  by code_simp

theorem due_event_delivered_witness:
  "\<exists>k w'. DispatchOnce sampleEnv sampleOutbox (Some outboxNotifier) (snd dueTurn) = (Ret k, w') \<and> chFull (busChans (wBus w') ! 0)"
proof -
  obtain t w where run: "dueTurn = (t, w)" by fastforce
  have ready: "deliverable t w" using dueTurn_deliverable unfolding run fst_conv snd_conv .
  then obtain c started i where c: "t = Ret c" "cnPushing c" "\<not> cnCanceled c" "33 \<notin> fst ` set (cnSent c)"
      "cnPush c = Some (started, 0, i)" "csDeviceID started = ''tablet''"
    by (auto simp: deliverable_def split: outcome.splits option.splits)
  have w: "nClock w = 7" "outboxWf 5 (db w)" "length (tOutbox (db w)) = 2" "length (joinHeads (claimable (7 * second)) (db w)) = 1"
    "tabletRow \<in> set (tOutbox (db w))" "tabletSegment \<in> set (tOutboxSegments (db w))"
    using ready c(1) by (simp_all add: deliverable_def)
  have "reachable (noConnection sampleClient) (connectionStep solveCodec sampleEnv sampleAuth sampleClient sampleOutbox)
      \<lparr>ksWorld = w, ksConns = [0 \<mapsto> c]\<rparr>"
    by (rule first_turn_reachable [of dueWorld])
      (use run c(1) in \<open>simp_all add: dueTurn_def dueWorld_def challengedWorld_def sampleWorld_def\<close>)
  from due_event_delivered [OF this sampleEnv_noFaults, where now = "7 * second" and s = tabletSegment and r = tabletRow
      and c = c and started = started and ch = 0 and i = i and n = 0]
  have "\<exists>k w'. DispatchOnce sampleEnv sampleOutbox (Some outboxNotifier) w = (Ret k, w') \<and> chFull (busChans (wBus w') ! 0)"
    using c w length_filter_le [of "\<lambda>q. obDeviceID q = ''tablet''" "tOutbox (db w)"]
    by (force simp: sampleOutbox_def sampleEnv_def tabletRow_def tabletSegment_def claimable_def)
  then show ?thesis unfolding run snd_conv .
qed

end
