(* ===== verification/Config.thy ===== *)
theory Config
  imports GoLib "HOL-Library.AList"
begin

text \<open>
  The configuration \<^verbatim>\<open>internal/config\<close>: the structs, their validation, the overrides from the
  environment and \<^verbatim>\<open>Load\<close>, with the file system, the YAML decoder, the environment and
  \<^verbatim>\<open>time.ParseDuration\<close> as parameters; the texts made of them (connection strings, log level).
  Durations are counted in nanoseconds, as \<^verbatim>\<open>time.Duration\<close> does.
\<close>

section \<open>Structs\<close>

record AppPortsConfiguration =
  poTCPPort :: int
  poTCPTLSPort :: int
  poHTTPPort :: int
  poHTTPSPort :: int
  poWSPort :: int
  poWSSPort :: int

record AppTLSConfiguration =
  tlsCertFile :: string
  tlsKeyFile :: string

record AppConfiguration =
  apName :: string
  apHost :: string
  apPorts :: AppPortsConfiguration
  apOutputPorts :: AppPortsConfiguration
  apSessionChallengeTTL :: int
  apEventRetention :: int
  apEventBatchSize :: int
  apEventRedeliveryCooldown :: int
  apOutboxPollInterval :: int
  apOutboxBatchSizeSegments :: int
  apOutboxAckTimeout :: int
  apOutboxMaxAttempts :: int
  apOutboxJanitorInterval :: int
  apOutboxAckRetention :: int
  apOutboxDropRetention :: int
  apTLS :: AppTLSConfiguration

record PushFCMConfiguration =
  fcEnabled :: bool
  fcCredentialsFile :: string
  fcProjectID :: string
  fcEndpoint :: string
  fcTimeout :: int

record PushConfiguration =
  puFCM :: PushFCMConfiguration

record LoggerConfig =
  lgLevel :: string
  lgHumanReadable :: bool

record PostgresConfig =
  pgHost :: string
  pgPort :: int
  pgDatabase :: string
  pgUsername :: string
  pgPassword :: string
  pgSSLMode :: string
  pgConnectTimeoutS :: int

record RedisConfig =
  rdHost :: string
  rdPort :: int
  rdDatabase :: int
  rdPassword :: string

record Config =
  cfApp :: AppConfiguration
  cfPush :: PushConfiguration
  cfLogger :: LoggerConfig
  cfPostgres :: PostgresConfig
  cfRedis :: RedisConfig

section \<open>Validation\<close>

text \<open>A chain of \<^verbatim>\<open>if bad { return fmt.Errorf(...) }\<close>, and of validations.\<close>

fun firstBad :: "(bool \<times> string) list \<Rightarrow> err option" where
  "firstBad [] = None"
| "firstBad ((bad, msg) # rest) = (if bad then Some (ErrMsg msg) else firstBad rest)"

fun firstErr :: "err option list \<Rightarrow> err option" where
  "firstErr [] = None"
| "firstErr (None # rest) = firstErr rest"
| "firstErr (Some e # rest) = Some e"

lemma firstBad_None [simp]: "firstBad cs = None \<longleftrightarrow> (\<forall>c\<in>set cs. \<not> fst c)"
  by (induction cs rule: firstBad.induct) auto

lemma firstErr_None [simp]: "firstErr es = None \<longleftrightarrow> (\<forall>e\<in>set es. e = None)"
  by (induction es rule: firstErr.induct) auto

definition isAllowedDuplicate :: "string list \<Rightarrow> string \<Rightarrow> string \<Rightarrow> bool" where
  "isAllowedDuplicate names name1 name2 \<longleftrightarrow>
     length names = 2 \<and> (names = [name1, name2] \<or> names = [name2, name1])"

text \<open>\<open>duplicates[port] = append(duplicates[port], name)\<close>.\<close>

definition registerPort :: "int \<Rightarrow> string \<Rightarrow> (int \<times> string list) list \<Rightarrow> (int \<times> string list) list" where
  "registerPort port name duplicates =
     AList.update port ((case map_of duplicates port of None \<Rightarrow> [] | Some names \<Rightarrow> names) @ [name]) duplicates"

definition portNames :: "AppPortsConfiguration \<Rightarrow> (int \<times> string list) list" where
  "portNames p = registerPort (poWSPort p) ''ws_port'' (registerPort (poHTTPPort p) ''http_port''
     (registerPort (poTCPPort p) ''tcp_port'' []))"

definition unsupportedReuse :: "int \<times> string list \<Rightarrow> bool" where
  "unsupportedReuse d \<longleftrightarrow> \<not> length (snd d) < 2 \<and> \<not> isAllowedDuplicate (snd d) ''http_port'' ''ws_port''"

fun joinComma :: "string list \<Rightarrow> string" where
  "joinComma [] = []"
| "joinComma [s] = s"
| "joinComma (s # t # rest) = s @ '', '' @ joinComma (t # rest)"

text \<open>The loop over the map stops at the first entry of unsupported reuse; the order of the map does not
  matter, since three names make at most one such entry (\<open>one_unsupported\<close> below).\<close>

definition ValidateInternal :: "AppPortsConfiguration \<Rightarrow> string \<Rightarrow> err option" where
  "ValidateInternal p section0 =
     (let section = (if isBlank section0 then ''app.ports'' else section0)
      in firstErr
        [firstBad
          [(poTCPPort p \<le> 0, section @ ''.tcp_port must be > 0''),
           (poHTTPPort p \<le> 0, section @ ''.http_port must be > 0''),
           (poWSPort p \<le> 0, section @ ''.ws_port must be > 0'')],
         map_option (\<lambda>(port, names). ErrMsg (''port '' @ itoa port @ '' is reused by unsupported combination: ''
             @ joinComma names))
           (find unsupportedReuse (portNames p))])"

definition ValidatePublic :: "AppPortsConfiguration \<Rightarrow> string \<Rightarrow> err option" where
  "ValidatePublic p section0 =
     (let section = (if isBlank section0 then ''app.output_ports'' else section0)
      in firstBad
        [(poTCPPort p \<le> 0, section @ ''.tcp_port must be > 0''),
         (poTCPTLSPort p \<le> 0, section @ ''.tcp_tls_port must be > 0''),
         (poHTTPPort p \<le> 0, section @ ''.http_port must be > 0''),
         (poHTTPSPort p \<le> 0, section @ ''.https_port must be > 0''),
         (poWSPort p \<le> 0, section @ ''.ws_port must be > 0''),
         (poWSSPort p \<le> 0, section @ ''.wss_port must be > 0'')])"

definition AppValidate :: "AppConfiguration \<Rightarrow> err option" where
  "AppValidate a = firstErr
     [firstBad
        [(isBlank (apName a), ''app.name is required''),
         (isBlank (apHost a), ''app.host is required'')],
      ValidateInternal (apPorts a) ''app.ports'',
      ValidatePublic (apOutputPorts a) ''app.output_ports'',
      firstBad
        [(apSessionChallengeTTL a \<le> 0, ''app.session_challenge_ttl must be > 0''),
         (apEventRetention a \<le> 0, ''app.event_retention must be > 0''),
         (apEventBatchSize a \<le> 0, ''app.event_batch_size must be > 0''),
         (apEventRedeliveryCooldown a < 0, ''app.event_redelivery_cooldown must be >= 0''),
         (apOutboxPollInterval a < 0, ''app.outbox_poll_interval must be >= 0''),
         (apOutboxBatchSizeSegments a < 0, ''app.outbox_batch_size_segments must be >= 0''),
         (apOutboxAckTimeout a < 0, ''app.outbox_ack_timeout must be >= 0''),
         (apOutboxMaxAttempts a < 0, ''app.outbox_max_attempts must be >= 0''),
         (apOutboxJanitorInterval a < 0, ''app.outbox_janitor_interval must be >= 0''),
         (apOutboxAckRetention a < 0, ''app.outbox_ack_retention must be >= 0''),
         (apOutboxDropRetention a < 0, ''app.outbox_drop_retention must be >= 0'')]]"

definition PushValidate :: "PushConfiguration \<Rightarrow> err option" where
  "PushValidate p =
     (if \<not> fcEnabled (puFCM p) then None
      else firstBad [(isBlank (fcCredentialsFile (puFCM p)),
        ''push.fcm.credentials_file is required when push.fcm.enabled = true'')])"

definition LoggerValidate :: "LoggerConfig \<Rightarrow> err option" where
  "LoggerValidate l = firstBad [(isBlank (lgLevel l), ''logger.level is required'')]"

definition PostgresValidate :: "PostgresConfig \<Rightarrow> err option" where
  "PostgresValidate p = firstBad
     [(isBlank (pgHost p), ''postgres.host is required''),
      (pgPort p \<le> 0, ''postgres.port must be > 0''),
      (isBlank (pgDatabase p), ''postgres.database is required''),
      (isBlank (pgUsername p), ''postgres.username is required'')]"

definition RedisValidate :: "RedisConfig \<Rightarrow> err option" where
  "RedisValidate r = firstBad
     [(isBlank (rdHost r), ''redis.host is required''),
      (rdPort r \<le> 0, ''redis.port must be > 0''),
      (rdDatabase r < 0, ''redis.database must be >= 0'')]"

definition validate :: "Config \<Rightarrow> err option" where
  "validate c = firstErr [AppValidate (cfApp c), PushValidate (cfPush c), LoggerValidate (cfLogger c),
     PostgresValidate (cfPostgres c), RedisValidate (cfRedis c)]"

section \<open>Environment and loading\<close>

text \<open>What loading calls: the environment, \<^verbatim>\<open>time.ParseDuration\<close> (which computes fractions in floating point),
  the file system and the YAML decoder with unknown fields refused.\<close>

record configEnv =
  ceGetenv :: "string \<Rightarrow> string"
  ceParseDuration :: "string \<Rightarrow> int option"
  ceReadFile :: "string \<Rightarrow> err + bytes"
  ceDecodeYAML :: "string \<Rightarrow> err + Config"

definition DefaultPath :: string where "DefaultPath = ''config/config.yaml''"

text \<open>An override applies if the variable is set to something that parses.\<close>

definition override :: "configEnv \<Rightarrow> string \<Rightarrow> (string \<Rightarrow> 'a option) \<Rightarrow> ('a \<Rightarrow> 'c \<Rightarrow> 'c) \<Rightarrow> 'c \<Rightarrow> 'c" where
  "override ce name parse upd c =
     (let v = trimSpace (ceGetenv ce name)
      in if v \<noteq> [] then (case parse v of Some x \<Rightarrow> upd x c | None \<Rightarrow> c) else c)"

definition asciiLower :: "char \<Rightarrow> char" where
  "asciiLower c = (let v = (of_char c :: nat) in if 65 \<le> v \<and> v \<le> 90 then char_of (v + 32) else c)"

text \<open>\<^verbatim>\<open>strings.EqualFold(value, "true")\<close>: no other rune folds to one of these letters.\<close>

definition parseFlag :: "string \<Rightarrow> bool option" where
  "parseFlag v = Some (v = ''1'' \<or> map asciiLower v = ''true'')"

definition applyAppOverrides :: "configEnv \<Rightarrow> AppConfiguration \<Rightarrow> AppConfiguration" where
  "applyAppOverrides ce a =
     (let dur = ceParseDuration ce;
          a = override ce ''APP_EVENT_RETENTION'' dur (\<lambda>x a. a\<lparr>apEventRetention := x\<rparr>) a;
          a = override ce ''APP_SESSION_CHALLENGE_TTL'' dur (\<lambda>x a. a\<lparr>apSessionChallengeTTL := x\<rparr>) a;
          a = override ce ''APP_EVENT_BATCH_SIZE'' atoi (\<lambda>x a. a\<lparr>apEventBatchSize := x\<rparr>) a;
          a = override ce ''APP_EVENT_REDELIVERY_COOLDOWN'' dur (\<lambda>x a. a\<lparr>apEventRedeliveryCooldown := x\<rparr>) a;
          a = override ce ''APP_OUTBOX_POLL_INTERVAL'' dur (\<lambda>x a. a\<lparr>apOutboxPollInterval := x\<rparr>) a;
          a = override ce ''APP_OUTBOX_BATCH_SIZE_SEGMENTS'' atoi (\<lambda>x a. a\<lparr>apOutboxBatchSizeSegments := x\<rparr>) a;
          a = override ce ''APP_OUTBOX_ACK_TIMEOUT'' dur (\<lambda>x a. a\<lparr>apOutboxAckTimeout := x\<rparr>) a;
          a = override ce ''APP_OUTBOX_MAX_ATTEMPTS'' atoi (\<lambda>x a. a\<lparr>apOutboxMaxAttempts := x\<rparr>) a;
          a = override ce ''APP_OUTBOX_JANITOR_INTERVAL'' dur (\<lambda>x a. a\<lparr>apOutboxJanitorInterval := x\<rparr>) a;
          a = override ce ''APP_OUTBOX_ACK_RETENTION'' dur (\<lambda>x a. a\<lparr>apOutboxAckRetention := x\<rparr>) a
      in override ce ''APP_OUTBOX_DROP_RETENTION'' dur (\<lambda>x a. a\<lparr>apOutboxDropRetention := x\<rparr>) a)"

definition applyPushOverrides :: "configEnv \<Rightarrow> PushFCMConfiguration \<Rightarrow> PushFCMConfiguration" where
  "applyPushOverrides ce f =
     (let f = override ce ''PUSH_FCM_ENABLED'' parseFlag (\<lambda>x f. f\<lparr>fcEnabled := x\<rparr>) f;
          f = override ce ''PUSH_FCM_CREDENTIALS_FILE'' Some (\<lambda>x f. f\<lparr>fcCredentialsFile := x\<rparr>) f;
          f = override ce ''PUSH_FCM_PROJECT_ID'' Some (\<lambda>x f. f\<lparr>fcProjectID := x\<rparr>) f;
          f = override ce ''PUSH_FCM_ENDPOINT'' Some (\<lambda>x f. f\<lparr>fcEndpoint := x\<rparr>) f
      in override ce ''PUSH_FCM_TIMEOUT'' (ceParseDuration ce) (\<lambda>x f. f\<lparr>fcTimeout := x\<rparr>) f)"

definition applyEnvOverrides :: "configEnv \<Rightarrow> Config \<Rightarrow> Config" where
  "applyEnvOverrides ce c =
     c\<lparr>cfApp := applyAppOverrides ce (cfApp c),
       cfPush := (cfPush c)\<lparr>puFCM := applyPushOverrides ce (puFCM (cfPush c))\<rparr>\<rparr>"

definition Load :: "configEnv \<Rightarrow> string \<Rightarrow> err + Config" where
  "Load ce path =
     (case ceReadFile ce (if isBlank path then DefaultPath else path) of
        Inl e \<Rightarrow> Inl (ErrWrap ''read config file'' e)
      | Inr data \<Rightarrow>
          (case ceDecodeYAML ce (bytesString data) of
             Inl e \<Rightarrow> Inl (ErrWrap ''decode yaml config'' e)
           | Inr decoded \<Rightarrow>
               (let cfg = applyEnvOverrides ce decoded
                in case validate cfg of Some e \<Rightarrow> Inl e | None \<Rightarrow> Inr cfg)))"

section \<open>Connection strings and the log level\<close>

definition fallbackBlank :: "string \<Rightarrow> string \<Rightarrow> string" where
  "fallbackBlank v fallback = (if isBlank v then fallback else v)"

text \<open>\<^verbatim>\<open>net/url\<close>: what each part of a URL leaves as it is; everything else becomes \<^verbatim>\<open>%XX\<close>.\<close>

datatype urlPart = UserPassword | HostPart | PathPart | QueryPart

definition alnum :: "char \<Rightarrow> bool" where
  "alnum c = (let v = (of_char c :: nat) in
     48 \<le> v \<and> v \<le> 57 \<or> 65 \<le> v \<and> v \<le> 90 \<or> 97 \<le> v \<and> v \<le> 122)"

fun urlKeeps :: "urlPart \<Rightarrow> char \<Rightarrow> bool" where
  "urlKeeps UserPassword c \<longleftrightarrow> alnum c \<or> c \<in> set ''-_.~$&+,;=''"
| "urlKeeps HostPart c \<longleftrightarrow> alnum c \<or> c \<in> set ''-_.~!$&()*+,;=:[]<>'' \<or> c = CHR 0x27 \<or> c = CHR 0x22"
| "urlKeeps PathPart c \<longleftrightarrow> alnum c \<or> c \<in> set ''-_.~$&+,/:;=@''"
| "urlKeeps QueryPart c \<longleftrightarrow> alnum c \<or> c \<in> set ''-_.~''"

definition upperHex :: "nat \<Rightarrow> char" where
  "upperHex n = (if n < 10 then char_of (48 + n) else char_of (55 + n))"

fun urlEscape :: "urlPart \<Rightarrow> string \<Rightarrow> string" where
  "urlEscape part [] = []"
| "urlEscape part (c # cs) =
     (if urlKeeps part c then [c]
      else if part = QueryPart \<and> c = CHR '' '' then ''+''
      else [CHR ''%'', upperHex (of_char c div 16), upperHex (of_char c mod 16)]) @ urlEscape part cs"

definition DSN :: "PostgresConfig \<Rightarrow> string" where
  "DSN p =
     (let query = (if pgConnectTimeoutS p > 0
                   then ''connect_timeout='' @ urlEscape QueryPart (itoa (pgConnectTimeoutS p)) @ ''&'' else [])
                  @ ''sslmode='' @ urlEscape QueryPart (fallbackBlank (pgSSLMode p) ''disable'');
          host = fallbackBlank (pgHost p) ''localhost'';
          port = (if pgPort p = 0 then 5432 else pgPort p);
          database = fallbackBlank (pgDatabase p) ''postgres'';
          userInfo = urlEscape UserPassword (pgUsername p)
            @ (if pgPassword p \<noteq> [] then '':'' @ urlEscape UserPassword (pgPassword p) else []);
          path = (if database = ''*'' then ''*'' else urlEscape PathPart database)
      in ''postgres://'' @ userInfo @ ''@'' @ urlEscape HostPart (host @ '':'' @ itoa port)
         @ (if path \<noteq> [] \<and> hd path \<noteq> CHR ''/'' then ''/'' else []) @ path @ ''?'' @ query)"

definition RedisAddr :: "RedisConfig \<Rightarrow> string" where
  "RedisAddr r = fallbackBlank (rdHost r) ''localhost'' @ '':''
     @ itoa (if rdPort r = 0 then 6379 else rdPort r)"

definition RedisURL :: "RedisConfig \<Rightarrow> string" where
  "RedisURL r = ''redis://'' @ (if rdPassword r \<noteq> [] then '':'' @ rdPassword r @ ''@'' else [])
     @ RedisAddr r @ ''/'' @ itoa (rdDatabase r)"

text \<open>\<^verbatim>\<open>strings.ToLower\<close> as far as ASCII results go: besides the capital letters, the dotted capital I (\<^verbatim>\<open>C4 B0\<close>) and the
  Kelvin sign (\<^verbatim>\<open>E2 84 AA\<close>) become ASCII letters. Only comparisons with ASCII words follow.\<close>

fun lowerWord :: "string \<Rightarrow> string" where
  "lowerWord [] = []"
| "lowerWord (c # cs) =
     (case stripPrefix [CHR 0xC4, CHR 0xB0] (c # cs) of
        Some _ \<Rightarrow> CHR ''i'' # lowerWord (tl cs)
      | None \<Rightarrow>
          (case stripPrefix [CHR 0xE2, CHR 0x84, CHR 0xAA] (c # cs) of
             Some _ \<Rightarrow> CHR ''k'' # lowerWord (drop 2 cs)
           | None \<Rightarrow> asciiLower c # lowerWord cs))"

text \<open>The levels of \<^verbatim>\<open>log/slog\<close>.\<close>

definition SlogLevel :: "LoggerConfig \<Rightarrow> int" where
  "SlogLevel l =
     (let w = lowerWord (trimSpace (lgLevel l))
      in if w = ''debug'' then -4
         else if w = ''warn'' \<or> w = ''warning'' then 4
         else if w = ''error'' then 8
         else 0)"

section \<open>Facts\<close>

text \<open>Three ports make at most one entry of unsupported reuse, so the order in which the map is visited does not
  matter.\<close>

lemma portNames_cases:
  "portNames p =
     (if poHTTPPort p = poTCPPort p
      then if poWSPort p = poTCPPort p then [(poTCPPort p, [''tcp_port'', ''http_port'', ''ws_port''])]
           else [(poTCPPort p, [''tcp_port'', ''http_port'']), (poWSPort p, [''ws_port''])]
      else if poWSPort p = poTCPPort p
      then [(poTCPPort p, [''tcp_port'', ''ws_port'']), (poHTTPPort p, [''http_port''])]
      else if poWSPort p = poHTTPPort p
      then [(poTCPPort p, [''tcp_port'']), (poHTTPPort p, [''http_port'', ''ws_port''])]
      else [(poTCPPort p, [''tcp_port'']), (poHTTPPort p, [''http_port'']), (poWSPort p, [''ws_port''])])"
  by (auto simp: portNames_def registerPort_def)

lemma one_unsupported: "length (filter unsupportedReuse (portNames p)) \<le> 1"
  by (simp add: portNames_cases unsupportedReuse_def)

lemma ValidateInternal_None:
  "ValidateInternal p s = None \<longleftrightarrow>
     0 < poTCPPort p \<and> 0 < poHTTPPort p \<and> 0 < poWSPort p
     \<and> poTCPPort p \<noteq> poHTTPPort p \<and> poTCPPort p \<noteq> poWSPort p"
  by (auto simp: ValidateInternal_def Let_def portNames_cases unsupportedReuse_def isAllowedDuplicate_def)

lemma ValidatePublic_None:
  "ValidatePublic p s = None \<longleftrightarrow> 0 < poTCPPort p \<and> 0 < poTCPTLSPort p \<and> 0 < poHTTPPort p
     \<and> 0 < poHTTPSPort p \<and> 0 < poWSPort p \<and> 0 < poWSSPort p"
  by (auto simp: ValidatePublic_def Let_def)

lemma Load_InrD: "Load ce path = Inr cfg \<Longrightarrow> validate cfg = None"
  by (auto simp: Load_def Let_def split: sum.splits option.splits)

end
