(* ===== verification/Runtime.thy ===== *)
theory Runtime
  imports Config Logging RpcHandler
begin

text \<open>
  The server around the handler, \<^verbatim>\<open>internal/server\<close>: the banner and the writing of it on a TCP connection, the
  listeners and the channel their errors are reported on, the binding of HTTP connections to the handler's
  sessions, the discovery route and the recording of answers for the access log. Sockets, \<^verbatim>\<open>net/http\<close> and the
  CBOR encoder are parameters.
\<close>

section \<open>The TCP banner\<close>

unbundle bit_operations_syntax

definition portFlag :: "int \<Rightarrow> nat \<Rightarrow> byte" where
  "portFlag port i = (if port > 0 then push_bit i 1 else 0)"

definition bigEndianPort :: "int \<Rightarrow> bytes" where
  "bigEndianPort port = putUint32 (word_of_int port)"

definition tcpDiscoveryBanner :: "AppPortsConfiguration \<Rightarrow> bytes" where
  "tcpDiscoveryBanner p =
     (portFlag (poTCPPort p) 0 OR portFlag (poTCPTLSPort p) 1 OR portFlag (poHTTPPort p) 2
        OR portFlag (poHTTPSPort p) 3 OR portFlag (poWSPort p) 4 OR portFlag (poWSSPort p) 5)
     # bigEndianPort (poTCPPort p) @ bigEndianPort (poTCPTLSPort p) @ bigEndianPort (poHTTPPort p)
     @ bigEndianPort (poHTTPSPort p) @ bigEndianPort (poWSPort p) @ bigEndianPort (poWSSPort p)"

text \<open>\<^verbatim>\<open>writeAll\<close> of this package: the \<open>k\<close>-th call of the writer takes the bytes left.\<close>

definition ErrShortWrite :: err where "ErrShortWrite = ErrMsg ''short write''"

function bannerWriteAll :: "(nat \<Rightarrow> bytes \<Rightarrow> int \<times> err option) \<Rightarrow> nat \<Rightarrow> bytes \<Rightarrow> err option outcome" where
  "bannerWriteAll wr k payload =
     (if payload = [] then Ret None
      else case wr k payload of
        (n, Some e) \<Rightarrow> Ret (Some e)
      | (n, None) \<Rightarrow>
          if n = 0 then Ret (Some ErrShortWrite)
          else if n < 0 \<or> n > int (length payload) then Panic ''slice bounds out of range''
          else bannerWriteAll wr (Suc k) (drop (nat n) payload))"
  by pat_completeness auto
termination
  by (relation "measure (\<lambda>(wr, k, payload). length payload)") auto

declare bannerWriteAll.simps [simp del]

definition ErrNetClosed :: err where "ErrNetClosed = ErrMsg ''use of closed network connection''"
definition ErrServerClosed :: err where "ErrServerClosed = ErrMsg ''http: Server closed''"

text \<open>A TCP connection until it is closed: the warnings it leaves. \<open>stream\<close> is the result of \<^verbatim>\<open>HandleStream\<close>, which is
  only called after the banner was written; without a stream handler nothing is written.\<close>

definition handleTCPConnection ::
  "AppPortsConfiguration \<Rightarrow> string \<Rightarrow> (nat \<Rightarrow> bytes \<Rightarrow> int \<times> err option) \<Rightarrow> err option outcome option
     \<Rightarrow> LogCall list outcome" where
  "handleTCPConnection ports remote wr stream =
     (case stream of
        None \<Rightarrow> Ret [logWarn ''tcp connection closed without stream handler'' [(''remote_addr'', VString remote)]]
      | Some handled \<Rightarrow>
          (case bannerWriteAll wr 0 (tcpDiscoveryBanner ports) of
             Ret (Some e) \<Rightarrow> Ret [logWarn ''tcp discovery banner write failed''
               [(''remote_addr'', VString remote), (''error'', VErr e)]]
           | Ret None \<Rightarrow>
               (case handled of
                  Ret None \<Rightarrow> Ret []
                | Ret (Some e) \<Rightarrow>
                    if errIs e ErrNetClosed then Ret [] else Ret [logWarn ''tcp client stream failed'' [(''error'', VErr e)]]
                | Err e \<Rightarrow> Err e
                | Panic p \<Rightarrow> Panic p)
           | Err e \<Rightarrow> Err e
           | Panic p \<Rightarrow> Panic p))"

section \<open>Listeners\<close>

text \<open>\<open>Runtime\<close>: the addresses it serves, and the channel for one error.\<close>

record Runtime =
  rtHTTPServers :: "string list"
  rtTCPListeners :: "string list"
  rtErrCh :: "err list"

definition NewRuntime :: Runtime where
  "NewRuntime = \<lparr>rtHTTPServers = [], rtTCPListeners = [], rtErrCh = []\<rparr>"

definition reportError :: "err \<Rightarrow> Runtime \<Rightarrow> Runtime" where
  "reportError e rt = (if length (rtErrCh rt) < 1 then rt\<lparr>rtErrCh := rtErrCh rt @ [e]\<rparr> else rt)"

definition uniquePorts :: "int \<Rightarrow> int \<Rightarrow> int list" where
  "uniquePorts port1 port2 = (if port1 = port2 then [port1] else [port1, port2])"

text \<open>\<^verbatim>\<open>net.JoinHostPort\<close>.\<close>

definition joinHostPort :: "string \<Rightarrow> string \<Rightarrow> string" where
  "joinHostPort host port =
     (if CHR '':'' \<in> set host then ''['' @ host @ '']:'' @ port else host @ '':'' @ port)"

definition startTCPListener :: "(string \<Rightarrow> err option) \<Rightarrow> string \<Rightarrow> int \<Rightarrow> Runtime \<Rightarrow> err option \<times> Runtime" where
  "startTCPListener listen host port rt =
     (let addr = joinHostPort host (itoa port)
      in case listen addr of
           Some e \<Rightarrow> (Some (ErrWrap (''listen on '' @ addr) e), rt)
         | None \<Rightarrow> (None, rt\<lparr>rtTCPListeners := rtTCPListeners rt @ [addr]\<rparr>))"

definition startHTTPServer :: "string \<Rightarrow> int \<Rightarrow> Runtime \<Rightarrow> Runtime" where
  "startHTTPServer host port rt = rt\<lparr>rtHTTPServers := rtHTTPServers rt @ [joinHostPort host (itoa port)]\<rparr>"

definition startAll :: "(string \<Rightarrow> err option) \<Rightarrow> AppConfiguration \<Rightarrow> Runtime \<Rightarrow> err option \<times> Runtime" where
  "startAll listen cfg rt =
     (case startTCPListener listen (apHost cfg) (poTCPPort (apPorts cfg)) rt of
        (Some e, rt') \<Rightarrow> (Some e, rt')
      | (None, rt') \<Rightarrow>
          (None, fold (startHTTPServer (apHost cfg))
             (uniquePorts (poHTTPPort (apPorts cfg)) (poWSPort (apPorts cfg))) rt'))"

text \<open>The goroutines of the listeners: \<^verbatim>\<open>ListenAndServe\<close> returned, or \<^verbatim>\<open>Accept\<close> failed.\<close>

definition httpServed :: "string \<Rightarrow> err option \<Rightarrow> Runtime \<Rightarrow> Runtime" where
  "httpServed addr result rt = (case result of
       None \<Rightarrow> rt
     | Some e \<Rightarrow> if errIs e ErrServerClosed then rt
                  else reportError (ErrWrap (''http/ws server on '' @ addr) e) rt)"

definition acceptFailed :: "string \<Rightarrow> err \<Rightarrow> Runtime \<Rightarrow> Runtime" where
  "acceptFailed addr e rt =
     (if errIs e ErrNetClosed then rt else reportError (ErrWrap (''accept TCP on '' @ addr) e) rt)"

text \<open>\<open>Run\<close>: the error of the start, or, once started and after the listeners ran as \<open>listeners\<close> says, the
  reported error; a done context (\<open>finished\<close>) may win over it. \<open>None\<close> in the first component: still waiting.\<close>

definition RuntimeRun ::
  "(string \<Rightarrow> err option) \<Rightarrow> AppConfiguration \<Rightarrow> (Runtime \<Rightarrow> Runtime) \<Rightarrow> bool \<Rightarrow> Runtime
     \<Rightarrow> err option option \<times> Runtime" where
  "RuntimeRun listen cfg listeners finished rt =
     (case startAll listen cfg rt of
        (Some e, rt') \<Rightarrow> (Some (Some e), rt')
      | (None, rt') \<Rightarrow>
          (let rt1 = listeners rt'
           in if finished then (Some None, rt1)
              else case rtErrCh rt1 of
                     [] \<Rightarrow> (None, rt1)
                   | e # rest \<Rightarrow> (Some (Some e), rt1\<lparr>rtErrCh := rest\<rparr>)))"

text \<open>\<open>Shutdown\<close>: the errors joined, none if the list is empty.\<close>

definition Shutdown ::
  "(string \<Rightarrow> err option) \<Rightarrow> (string \<Rightarrow> err option) \<Rightarrow> Runtime \<Rightarrow> err list" where
  "Shutdown closeListener shutdownServer rt =
     filter (\<lambda>e. \<not> errIs e ErrNetClosed) (List.map_filter closeListener (rtTCPListeners rt))
     @ filter (\<lambda>e. \<not> errIs e ErrServerClosed) (List.map_filter shutdownServer (rtHTTPServers rt))"

section \<open>HTTP connections\<close>

text \<open>A connection is a number; \<open>connIDs\<close> is the binder's map.\<close>

type_synonym connIDs = "(nat \<times> string) list"

datatype ConnState = StateNew | StateActive | StateIdle | StateHijacked | StateClosed

text \<open>The context of the connection carries the id; \<^verbatim>\<open>uuid.NewString\<close>.\<close>

definition ConnContext :: "env \<Rightarrow> nat \<Rightarrow> connIDs \<Rightarrow> (string \<times> connIDs) io" where
  "ConnContext env conn ids = andThen (uuidNew env) (\<lambda>u.
     let connectionID = eUuidString env u in ret (connectionID, AList.update conn connectionID ids))"

definition connStateChanged ::
  "nat \<Rightarrow> ConnState \<Rightarrow> connIDs \<times> httpConnectionSessions \<Rightarrow> connIDs \<times> httpConnectionSessions" where
  "connStateChanged conn state b =
     (if state \<noteq> StateClosed \<and> state \<noteq> StateHijacked then b
      else case map_of (fst b) conn of
             None \<Rightarrow> b
           | Some connectionID \<Rightarrow> (AList.delete conn (fst b), OnHTTPConnectionClosed connectionID (snd b)))"

definition HTTPConnectionIDFromContext :: "string option \<Rightarrow> string option" where
  "HTTPConnectionIDFromContext v = (case v of None \<Rightarrow> None | Some i \<Rightarrow> if i = [] then None else Some i)"

section \<open>Routes\<close>

text \<open>\<open>discoveryResponse\<close>, by the names of its fields.\<close>

definition discoveryResponse :: "AppPortsConfiguration \<Rightarrow> payload" where
  "discoveryResponse p =
     [(''tcp_port'', GInt (poTCPPort p)), (''tcp_tls_port'', GInt (poTCPTLSPort p)),
      (''http_port'', GInt (poHTTPPort p)), (''https_port'', GInt (poHTTPSPort p)),
      (''ws_port'', GInt (poWSPort p)), (''wss_port'', GInt (poWSSPort p))]"

definition discoveryRoute ::
  "(payload \<Rightarrow> bytes option) \<Rightarrow> AppPortsConfiguration \<Rightarrow> string \<Rightarrow> httpResponse" where
  "discoveryRoute marshal p httpMethod =
     (if httpMethod \<noteq> ''GET'' then httpError ''method not allowed'' StatusMethodNotAllowed
      else case marshal (discoveryResponse p) of
             None \<Rightarrow> httpError ''failed to encode discovery payload'' StatusInternalServerError
           | Some payload \<Rightarrow> \<lparr>hrStatus = StatusOK, hrBody = payload\<rparr>)"

text \<open>\<open>statusCapturingResponseWriter\<close> under the calls of a handler: \<open>WWrite\<close> carries how many bytes the writer took.\<close>

datatype writerCall = WWriteHeader int | WWrite nat

record statusCapturing =
  scStatusCode :: int
  scBytes :: nat

fun captureCall :: "writerCall \<Rightarrow> statusCapturing \<Rightarrow> statusCapturing" where
  "captureCall (WWriteHeader code) w = w\<lparr>scStatusCode := code\<rparr>"
| "captureCall (WWrite written) w =
     w\<lparr>scStatusCode := (if scStatusCode w = 0 then StatusOK else scStatusCode w), scBytes := scBytes w + written\<rparr>"

text \<open>The access log of a request, without its duration.\<close>

definition accessLog ::
  "string \<Rightarrow> string \<Rightarrow> string \<Rightarrow> string \<Rightarrow> writerCall list \<Rightarrow> LogCall" where
  "accessLog httpMethod path remote agent calls =
     (let recorder = fold captureCall calls \<lparr>scStatusCode = 0, scBytes = 0\<rparr>;
          statusCode = (if scStatusCode recorder = 0 then StatusOK else scStatusCode recorder)
      in logInfo ''http request completed''
        [(''method'', VString httpMethod), (''path'', VString path), (''status_code'', VInt64 statusCode),
         (''response_bytes'', VInt64 (int (scBytes recorder))), (''remote_addr'', VString remote),
         (''user_agent'', VString agent)])"

lemma accessLog_response:
  "accessLog httpMethod path remote agent [WWriteHeader code, WWrite n] = logInfo ''http request completed''
     [(''method'', VString httpMethod), (''path'', VString path), (''status_code'', VInt64 (if code = 0 then StatusOK else code)),
      (''response_bytes'', VInt64 (int n)), (''remote_addr'', VString remote), (''user_agent'', VString agent)]"
  by (simp add: accessLog_def Let_def)

text \<open>\<open>Hijack\<close> of the wrapped writer, if that has one.\<close>

definition Hijack :: "(err + 'conn) option \<Rightarrow> err + 'conn" where
  "Hijack hijacker =
     (case hijacker of
        None \<Rightarrow> Inl (ErrMsg ''response writer does not support hijacking'')
      | Some result \<Rightarrow> result)"

text \<open>The routes of \<open>NewHandler\<close>, as \<^verbatim>\<open>http.ServeMux\<close> matches a clean path: a pattern that ends in a slash matches
  every path below it, and the path without the slash is redirected to it.\<close>

datatype route = RouteClient | RouteDiscovery | RouteRedirect | RouteNone

definition clientPath :: string where "clientPath = ''/api/v1/client''"
definition discoveryPath :: string where "discoveryPath = ''/api/v1/discovery/''"

definition muxRoute :: "string \<Rightarrow> route" where
  "muxRoute path =
     (if path = clientPath then RouteClient
      else if take (length discoveryPath) path = discoveryPath then RouteDiscovery
      else if path @ ''/'' = discoveryPath then RouteRedirect
      else RouteNone)"

text \<open>The handler of the server, for requests that do not upgrade; \<open>redirect\<close> is the answer of \<^verbatim>\<open>net/http\<close>.\<close>

definition serveRoutes ::
  "codec \<Rightarrow> env \<Rightarrow> Handler \<Rightarrow> (payload \<Rightarrow> bytes option) \<Rightarrow> httpResponse \<Rightarrow> AppPortsConfiguration \<Rightarrow> string \<Rightarrow> httpRequest
     \<Rightarrow> httpConnectionSessions \<Rightarrow> (httpResponse \<times> httpConnectionSessions) io" where
  "serveRoutes cd env h marshal redirect outputPorts path request scopes =
     (case muxRoute path of
        RouteClient \<Rightarrow> handleHTTP cd env h request scopes
      | RouteDiscovery \<Rightarrow> ret (discoveryRoute marshal outputPorts (hqMethod request), scopes)
      | RouteRedirect \<Rightarrow> ret (redirect, scopes)
      | RouteNone \<Rightarrow> ret (httpError ''404 page not found'' 404, scopes))"

text \<open>Only the path of the client reaches the services: every other request leaves the world and the sessions alone.\<close>

lemma serveRoutes_other:
  assumes "path \<noteq> clientPath"
  shows "\<exists>response. serveRoutes cd env h marshal redirect p path request scopes w = (Ret (response, scopes), w)"
  using assms by (auto simp: serveRoutes_def muxRoute_def ret_def)

end
