(* ===== verification/RuntimeProps.thy ===== *)
theory RuntimeProps
  imports Runtime HandlerProps
begin

text \<open>
  What the runtime promises: a client reads the ports it was configured with from the banner, sessions of HTTP
  connections live no longer than the connection, and the first error of a listener is the one that is kept.
\<close>

section \<open>Reading the banner\<close>

text \<open>A client's reading: a port is there if its flag is set, and is the big-endian number at its place.\<close>

definition readPort :: "bytes \<Rightarrow> nat \<Rightarrow> int" where
  "readPort b i = (if bit (b ! 0) i then uint (word_rcat (take 4 (drop (1 + 4 * i) b)) :: 32 word) else 0)"

definition readBanner :: "bytes \<Rightarrow> AppPortsConfiguration" where
  "readBanner b = \<lparr>poTCPPort = readPort b 0, poTCPTLSPort = readPort b 1, poHTTPPort = readPort b 2,
     poHTTPSPort = readPort b 3, poWSPort = readPort b 4, poWSSPort = readPort b 5\<rparr>"

lemma length_bigEndianPort [simp]: "length (bigEndianPort p) = 4"
  by (simp add: bigEndianPort_def putUint32_def)

lemma base256:
  fixes u :: int
  assumes "0 \<le> u" and "u < 4294967296"
  shows "u mod 256 + 256 * (u div 2 ^ 8 mod 256 + 256 * (u div 2 ^ 16 mod 256 + 256 * (u div 2 ^ 24 mod 256))) = u"
proof -
  have "u div 65536 = u div 256 div 256" and "u div 16777216 = u div 256 div 256 div 256"
    by (simp_all add: zdiv_zmult2_eq [symmetric])
  moreover have "u div 256 div 256 div 256 < 256" "0 \<le> u div 256 div 256 div 256" using assms by linarith+
  ultimately show ?thesis
    using div_mult_mod_eq [of u 256] div_mult_mod_eq [of "u div 256" 256] div_mult_mod_eq [of "u div 256 div 256" 256]
    by simp
qed

lemma rcat4: "word_rcat [a, b, c, d] = (word_of_int (uint d + 256 * (uint c + 256 * (uint b + 256 * uint a))) :: 32 word)"
  for a b c d :: byte
  by (simp add: word_rcat_def)

lemma rcat_putUint32: "word_rcat (putUint32 w) = (w :: 32 word)"
proof -
  have bound: "uint w < 4294967296" using uint_lt2p [of w] by simp
  have sum: "uint w mod 256 + 256 * (uint w div 2 ^ 8 mod 256 + 256 * (uint w div 2 ^ 16 mod 256
      + 256 * (uint w div 2 ^ 24 mod 256))) = uint w"
    using uint_ge_0 bound by (rule base256)
  have shift: "uint (ucast (drop_bit n w) :: byte) = uint w div 2 ^ n mod 256" for n
    unfolding unsigned_ucast_eq unsigned_drop_bit_eq using bound
    by (simp add: drop_bit_eq_div take_bit_eq_mod)
  have low: "uint (ucast w :: byte) = uint w mod 256"
    by (simp add: unsigned_ucast_eq take_bit_eq_mod)
  have "word_rcat (putUint32 w) = (word_of_int (uint w) :: 32 word)"
    unfolding putUint32_def rcat4 shift low sum by (rule refl)
  then show ?thesis by simp
qed

lemma bit_portFlag: "bit (portFlag p j) i \<longleftrightarrow> p > 0 \<and> i = j \<and> i < 8"
  by (auto simp: portFlag_def bit_exp_iff)

lemma readPort_banner:
  assumes "0 \<le> p" and "p < 4294967296" and "bit flags i \<longleftrightarrow> 0 < p" and "take 4 (drop (4 * i) rest) = bigEndianPort p"
  shows "readPort (flags # rest) i = p"
proof (cases "p = 0")
  case False
  with assms have "bit flags i" by simp
  moreover have "uint (word_of_int p :: 32 word) = p"
    using assms by (simp add: uint_word_of_int)
  ultimately show ?thesis
    using assms(4) by (simp add: readPort_def bigEndianPort_def rcat_putUint32)
qed (use assms in \<open>simp add: readPort_def\<close>)

text \<open>C39: The banner of a TCP connection tells the client the configured ports: it is 25 bytes long, and a client that
  takes the flags of the first byte and the big-endian numbers after it reads exactly the ports of the
  configuration; with a configuration that passed the validation all six flags are set.\<close>

theorem banner_roundtrip:
  assumes "\<forall>p\<in>set [poTCPPort ports, poTCPTLSPort ports, poHTTPPort ports, poHTTPSPort ports, poWSPort ports,
      poWSSPort ports]. 0 \<le> p \<and> p < 4294967296"
  shows "length (tcpDiscoveryBanner ports) = 25 \<and> readBanner (tcpDiscoveryBanner ports) = ports
    \<and> (ValidatePublic ports section = None \<longrightarrow> hd (tcpDiscoveryBanner ports) = 63)"
proof (intro conjI impI)
  show "length (tcpDiscoveryBanner ports) = 25" by (simp add: tcpDiscoveryBanner_def)
  have "readPort (tcpDiscoveryBanner ports) 0 = poTCPPort ports"
    "readPort (tcpDiscoveryBanner ports) 1 = poTCPTLSPort ports"
    "readPort (tcpDiscoveryBanner ports) 2 = poHTTPPort ports"
    "readPort (tcpDiscoveryBanner ports) 3 = poHTTPSPort ports"
    "readPort (tcpDiscoveryBanner ports) 4 = poWSPort ports"
    "readPort (tcpDiscoveryBanner ports) 5 = poWSSPort ports"
    unfolding tcpDiscoveryBanner_def
    using assms by (auto intro!: readPort_banner simp: bit_or_iff bit_portFlag)
  then show "readBanner (tcpDiscoveryBanner ports) = ports" by (simp add: readBanner_def)
  assume "ValidatePublic ports section = None"
  then show "hd (tcpDiscoveryBanner ports) = 63"
    by (simp add: ValidatePublic_None tcpDiscoveryBanner_def portFlag_def)
qed

theorem banner_roundtrip_witness:
  "readBanner (tcpDiscoveryBanner \<lparr>poTCPPort = 7000, poTCPTLSPort = 0, poHTTPPort = 8080, poHTTPSPort = 70000,
     poWSPort = 8080, poWSSPort = 443\<rparr>) = \<lparr>poTCPPort = 7000, poTCPTLSPort = 0, poHTTPPort = 8080, poHTTPSPort = 70000,
     poWSPort = 8080, poWSSPort = 443\<rparr>"
  using banner_roundtrip [of "\<lparr>poTCPPort = 7000, poTCPTLSPort = 0, poHTTPPort = 8080, poHTTPSPort = 70000,
     poWSPort = 8080, poWSSPort = 443\<rparr>" "[]"] by simp

section \<open>Errors of listeners\<close>

text \<open>The first reported error stays in the channel; the others are dropped.\<close>

lemma reportError_first: "rtErrCh rt = [] \<Longrightarrow> rtErrCh (fold reportError es rt) = take 1 es"
proof (induction es arbitrary: rt)
  case (Cons e es)
  have kept: "rtErrCh (fold reportError es rt') = [e]" if "rtErrCh rt' = [e]" for rt'
    using that by (induction es arbitrary: rt') (simp_all add: reportError_def)
  show ?case using Cons.prems kept [of "reportError e rt"] by (simp add: reportError_def [of e])
qed simp

section \<open>HTTP connections and their sessions\<close>

text \<open>The HTTP servers: the world, the binder's map, the sessions of the handler, and the open connections with the id
  their context carries.\<close>

record httpServers =
  hsWorld :: world
  hsConnIDs :: connIDs
  hsSessions :: httpConnectionSessions
  hsOpen :: "(nat \<times> string) list"

text \<open>\<^verbatim>\<open>net/http\<close> calls \<open>ConnContext\<close> for a new connection, the handler for each of its requests, and \<open>ConnState\<close> when its
  state changes; a closed or hijacked connection is done. A handler that panics leaves the session it made.\<close>

inductive httpStep :: "codec \<Rightarrow> env \<Rightarrow> Handler \<Rightarrow> httpServers \<Rightarrow> httpServers \<Rightarrow> bool" for cd env h where
  http_accept: "conn \<notin> fst ` set (hsOpen s) \<Longrightarrow> ConnContext env conn (hsConnIDs s) (hsWorld s) = (Ret (i, ids), w) \<Longrightarrow>
    httpStep cd env h s (s\<lparr>hsWorld := w, hsConnIDs := ids, hsOpen := (conn, i) # hsOpen s\<rparr>)"
| http_request: "(conn, i) \<in> set (hsOpen s) \<Longrightarrow>
    handleHTTP cd env h (request\<lparr>hqConnectionID := HTTPConnectionIDFromContext (Some i)\<rparr>) (hsSessions s) (hsWorld s)
      = (Ret (resp, sessions), w) \<Longrightarrow>
    httpStep cd env h s (s\<lparr>hsWorld := w, hsSessions := sessions\<rparr>)"
| http_panic: "(conn, i) \<in> set (hsOpen s) \<Longrightarrow>
    handleHTTP cd env h (request\<lparr>hqConnectionID := HTTPConnectionIDFromContext (Some i)\<rparr>) (hsSessions s) (hsWorld s)
      = (Panic p, w) \<Longrightarrow>
    httpStep cd env h s (s\<lparr>hsWorld := w, hsSessions := snd (sessionsGet i (hsSessions s))\<rparr>)"
| http_state: "conn \<in> fst ` set (hsOpen s) \<Longrightarrow> state \<noteq> StateClosed \<Longrightarrow> state \<noteq> StateHijacked \<Longrightarrow>
    connStateChanged conn state (hsConnIDs s, hsSessions s) = (ids, sessions) \<Longrightarrow>
    httpStep cd env h s (s\<lparr>hsConnIDs := ids, hsSessions := sessions\<rparr>)"
| http_done: "conn \<in> fst ` set (hsOpen s) \<Longrightarrow> state = StateClosed \<or> state = StateHijacked \<Longrightarrow>
    connStateChanged conn state (hsConnIDs s, hsSessions s) = (ids, sessions) \<Longrightarrow>
    httpStep cd env h s (s\<lparr>hsConnIDs := ids, hsSessions := sessions, hsOpen := filter (\<lambda>c. fst c \<noteq> conn) (hsOpen s)\<rparr>)"
| http_elsewhere: "httpStep cd env h s (s\<lparr>hsWorld := w\<rparr>)"

definition noConnections :: "httpServers \<Rightarrow> bool" where
  "noConnections s \<longleftrightarrow> hsConnIDs s = [] \<and> hsSessions s = [] \<and> hsOpen s = []"

text \<open>The ids of google/uuid are not blank.\<close>

definition visibleIDs :: "env \<Rightarrow> bool" where
  "visibleIDs env \<longleftrightarrow> (\<forall>u. \<not> isBlank (eUuidString env u))"

definition connShape :: "httpServers \<Rightarrow> bool" where
  "connShape s \<longleftrightarrow> distinct (map fst (hsOpen s)) \<and> map_of (hsConnIDs s) = map_of (hsOpen s)
     \<and> (\<forall>c\<in>set (hsOpen s). \<not> isBlank (snd c))
     \<and> distinct (map fst (hsSessions s)) \<and> fst ` set (hsSessions s) \<subseteq> snd ` set (hsOpen s)"

definition connInv :: "env \<Rightarrow> httpServers \<Rightarrow> bool" where
  "connInv env s \<longleftrightarrow> (visibleIDs env \<longrightarrow> connShape s)"

lemma sessionsGet_keys:
  "fst ` set (snd (sessionsGet i scopes)) \<subseteq> insert i (fst ` set scopes)"
  "distinct (map fst scopes) \<Longrightarrow> distinct (map fst (snd (sessionsGet i scopes)))"
  by (auto simp: sessionsGet_def Let_def dom_update distinct_update split: option.splits)

lemma handleHTTP_sessions:
  assumes "handleHTTP cd env h (request\<lparr>hqConnectionID := HTTPConnectionIDFromContext (Some i)\<rparr>) scopes w
      = (Ret (resp, scopes'), w')"
  shows "fst ` set scopes' \<subseteq> insert i (fst ` set scopes)"
    and "distinct (map fst scopes) \<Longrightarrow> distinct (map fst scopes')"
proof -
  obtain scope scopes1 where get: "sessionsGet i scopes = (scope, scopes1)" by fastforce
  have "scopes' = scopes \<or> (\<exists>v. scopes' = AList.update i v scopes1)"
    using assms get
    by (auto simp: handleHTTP_def HTTPConnectionIDFromContext_def Let_def elim!: andThen_RetE
        split: if_splits option.splits prod.splits)
  then show "fst ` set scopes' \<subseteq> insert i (fst ` set scopes)"
    and "distinct (map fst scopes) \<Longrightarrow> distinct (map fst scopes')"
    using sessionsGet_keys [where i = i and scopes = scopes] get
    by (elim disjE exE; simp add: dom_update distinct_update subset_insertI)+
qed

lemma closed_sessions:
  assumes "map_of (hsConnIDs s) = map_of (hsOpen s)" and "distinct (map fst (hsOpen s))" and "(conn, i) \<in> set (hsOpen s)"
    and "\<not> isBlank i" and "connStateChanged conn state (hsConnIDs s, hsSessions s) = (ids, sessions)"
    and "state = StateClosed \<or> state = StateHijacked"
  shows "ids = AList.delete conn (hsConnIDs s)" and "sessions = AList.delete i (hsSessions s)"
  using assms by (auto simp: connStateChanged_def OnHTTPConnectionClosed_def sessionsDelete_def)

lemma AList_delete_filter: "AList.delete k al = filter (\<lambda>x. fst x \<noteq> k) al"
  by (simp add: AList.delete_eq case_prod_beta' eq_commute)

lemma done_keeps:
  assumes inv: "connInv env s" and conn: "conn \<in> fst ` set (hsOpen s)" and st: "state = StateClosed \<or> state = StateHijacked"
    and run: "connStateChanged conn state (hsConnIDs s, hsSessions s) = (ids, sessions)"
  shows "connInv env (s\<lparr>hsConnIDs := ids, hsSessions := sessions, hsOpen := filter (\<lambda>c. fst c \<noteq> conn) (hsOpen s)\<rparr>)"
  unfolding connInv_def
proof
  assume "visibleIDs env"
  with inv have d: "distinct (map fst (hsOpen s))" and m: "map_of (hsConnIDs s) = map_of (hsOpen s)"
    and b: "\<forall>c\<in>set (hsOpen s). \<not> isBlank (snd c)"
    and ds: "distinct (map fst (hsSessions s))" and sub: "fst ` set (hsSessions s) \<subseteq> snd ` set (hsOpen s)"
    by (auto simp: connInv_def connShape_def)
  from conn obtain i where i: "(conn, i) \<in> set (hsOpen s)" by auto
  note closed = closed_sessions [OF m d i _ run st]
  have "snd c \<in> snd ` set (filter (\<lambda>c. fst c \<noteq> conn) (hsOpen s))" if "c \<in> set (hsOpen s)" and "snd c \<noteq> i" for c
  proof -
    have "fst c \<noteq> conn" using distinct_map_inj [OF d that(1) i] that(2) by (metis fst_conv snd_conv)
    then show ?thesis using that(1) by simp
  qed
  then have others: "snd ` set (hsOpen s) - {i} \<subseteq> snd ` set (filter (\<lambda>c. fst c \<noteq> conn) (hsOpen s))" by blast
  have "fst ` set (AList.delete i (hsSessions s)) \<subseteq> fst ` set (hsSessions s) - {i}"
    by (auto simp: AList_delete_filter)
  then have "fst ` set (AList.delete i (hsSessions s)) \<subseteq> snd ` set (filter (\<lambda>c. fst c \<noteq> conn) (hsOpen s))"
    using sub others by blast
  moreover have "map_of (AList.delete conn (hsConnIDs s)) = map_of (filter (\<lambda>c. fst c \<noteq> conn) (hsOpen s))"
    using m by (simp add: delete_conv' AList_delete_filter [symmetric])
  moreover have "\<not> isBlank i" using b i by auto
  ultimately show "connShape (s\<lparr>hsConnIDs := ids, hsSessions := sessions, hsOpen := filter (\<lambda>c. fst c \<noteq> conn) (hsOpen s)\<rparr>)"
    using d b ds closed by (simp add: connShape_def distinct_map_filter distinct_delete)
qed

lemma accept_keeps:
  assumes "connInv env s" and "conn \<notin> fst ` set (hsOpen s)"
    and "ConnContext env conn (hsConnIDs s) (hsWorld s) = (Ret (i, ids), w)"
  shows "connInv env (s\<lparr>hsWorld := w, hsConnIDs := ids, hsOpen := (conn, i) # hsOpen s\<rparr>)"
proof -
  have "ids = AList.update conn i (hsConnIDs s)" and "i \<in> range (eUuidString env)"
    using assms(3) by (auto simp: ConnContext_def uuidNew_def Let_def andThen_def ret_def)
  then show ?thesis
    using assms(1,2) by (auto simp: connInv_def connShape_def visibleIDs_def update_conv')
qed

lemma request_keeps:
  assumes "connInv env s" and "(conn, i) \<in> set (hsOpen s)"
    and "fst ` set sessions \<subseteq> insert i (fst ` set (hsSessions s))"
    and "distinct (map fst (hsSessions s)) \<Longrightarrow> distinct (map fst sessions)"
  shows "connInv env (s\<lparr>hsWorld := w, hsSessions := sessions\<rparr>)"
proof -
  have "fst ` set sessions \<subseteq> snd ` set (hsOpen s)" if "fst ` set (hsSessions s) \<subseteq> snd ` set (hsOpen s)"
  proof -
    have "insert i (fst ` set (hsSessions s)) \<subseteq> snd ` set (hsOpen s)"
      using that image_eqI [OF _ assms(2), of i snd] by simp
    then show ?thesis using assms(3) by (rule subset_trans [rotated])
  qed
  then show ?thesis using assms(1,4) by (simp add: connInv_def connShape_def)
qed

interpretation httpm: invariant_system noConnections "httpStep cd env h" "connInv env" for cd env h
proof
  show "connInv env s" if "noConnections s" for s
    using that by (simp add: noConnections_def connInv_def connShape_def)
  show "connInv env t" if "httpStep cd env h s t" and inv: "connInv env s" for s t
    using that(1)
  proof cases
    case (http_accept conn i ids w)
    then show ?thesis using accept_keeps [OF inv] by simp
  next
    case (http_request conn i request resp sessions w)
    then show ?thesis using request_keeps [OF inv] handleHTTP_sessions by metis
  next
    case (http_panic conn i request p w)
    then show ?thesis using request_keeps [OF inv] sessionsGet_keys by metis
  next
    case (http_state conn state ids sessions)
    then show ?thesis using inv by (auto simp: connStateChanged_def connInv_def connShape_def)
  next
    case (http_done conn state ids sessions)
    then show ?thesis using done_keeps [OF inv] by simp
  next
    case (http_elsewhere w)
    then show ?thesis using inv by (simp add: connInv_def connShape_def)
  qed
qed

text \<open>C40: Sessions live no longer than their connections: in every state the HTTP servers reach, whatever requests were made
  and whatever panicked, each session belongs to the id of an open connection, there are no more sessions than open
  connections, and the binder knows exactly the open connections; so once all connections are closed or handed over
  nothing is left of them.\<close>

theorem http_sessions_of_open_connections:
  assumes "visibleIDs env" and "reachable noConnections (httpStep cd env h) s"
  shows "fst ` set (hsSessions s) \<subseteq> snd ` set (hsOpen s) \<and> length (hsSessions s) \<le> length (hsOpen s)
    \<and> map_of (hsConnIDs s) = map_of (hsOpen s)"
proof -
  have s: "connShape s" using httpm.reachable_inv [OF assms(2)] assms(1) by (simp add: connInv_def)
  have "length (hsSessions s) = card (fst ` set (hsSessions s))"
    using s by (metis connShape_def distinct_card length_map set_map)
  also have "\<dots> \<le> card (snd ` set (hsOpen s))"
    using s by (simp add: connShape_def card_mono)
  also have "\<dots> \<le> length (hsOpen s)"
    using card_length [of "map snd (hsOpen s)"] by simp
  finally show ?thesis using s by (simp add: connShape_def)
qed

section \<open>A connection with a session\<close>

definition openEnv :: env where
  "openEnv = sampleEnv\<lparr>eUuidString := (\<lambda>_. ''c'')\<rparr>"

definition openWorld :: world where
  "openWorld = (sampleWorld emptyDb)\<lparr>nUUID := 1\<rparr>"

definition oneSession :: httpServers where
  "oneSession = \<lparr>hsWorld = snd (handleHTTP sampleCodec openEnv sampleHandler (samplePost\<lparr>hqConnectionID := Some ''c''\<rparr>) [] openWorld),
     hsConnIDs = [(7, ''c'')], hsSessions = [(''c'', \<lparr>coState = zeroState, coSent = []\<rparr>)], hsOpen = [(7, ''c'')]\<rparr>"

lemma openEnv_visible: "visibleIDs openEnv"
proof -
  have "\<not> isBlank ''c''" by code_simp
  then show ?thesis by (simp add: visibleIDs_def openEnv_def)
qed

lemma oneSession_run:
  "\<exists>resp. handleHTTP sampleCodec openEnv sampleHandler (samplePost\<lparr>hqConnectionID := Some ''c''\<rparr>) [] openWorld =
     (Ret (resp, hsSessions oneSession), hsWorld oneSession)"
  by (simp add: oneSession_def openWorld_def openEnv_def handleHTTP_def samplePost_def sessionsGet_def zeroState_def
      recordUsage_def handler_runs core_runs maxBody_def split: prod.split)

lemma oneSession_reachable: "reachable noConnections (httpStep sampleCodec openEnv sampleHandler) oneSession"
proof -
  let ?s0 = "\<lparr>hsWorld = sampleWorld emptyDb, hsConnIDs = [], hsSessions = [], hsOpen = []\<rparr>"
  let ?s1 = "\<lparr>hsWorld = openWorld, hsConnIDs = [(7, ''c'')], hsSessions = [], hsOpen = [(7, ''c'')]\<rparr>"
  have r0: "reachable noConnections (httpStep sampleCodec openEnv sampleHandler) ?s0"
    by (rule reach_start) (simp add: noConnections_def)
  have "httpStep sampleCodec openEnv sampleHandler ?s0 (?s0\<lparr>hsWorld := openWorld, hsConnIDs := [(7, ''c'')], hsOpen := (7, ''c'') # hsOpen ?s0\<rparr>)"
    by (rule http_accept) (simp_all add: ConnContext_def uuidNew_def andThen_def ret_def Let_def openEnv_def openWorld_def sampleWorld_def)
  then have r1: "reachable noConnections (httpStep sampleCodec openEnv sampleHandler) ?s1"
    using r0 by (auto intro: reach_step)
  obtain resp where run: "handleHTTP sampleCodec openEnv sampleHandler (samplePost\<lparr>hqConnectionID := Some ''c''\<rparr>) [] openWorld =
     (Ret (resp, hsSessions oneSession), hsWorld oneSession)" using oneSession_run by blast
  have "httpStep sampleCodec openEnv sampleHandler ?s1 (?s1\<lparr>hsWorld := hsWorld oneSession, hsSessions := hsSessions oneSession\<rparr>)"
    by (rule http_request [where conn = 7 and i = "''c''" and request = samplePost and resp = resp])
      (use run in \<open>simp_all add: HTTPConnectionIDFromContext_def\<close>)
  then show ?thesis
    using r1 by (auto simp: oneSession_def intro: reach_step)
qed

theorem http_sessions_of_open_connections_witness:
  "fst ` set (hsSessions oneSession) \<subseteq> snd ` set (hsOpen oneSession) \<and> length (hsSessions oneSession) \<le> length (hsOpen oneSession)
   \<and> hsSessions oneSession \<noteq> []"
  using http_sessions_of_open_connections [OF openEnv_visible oneSession_reachable] by (simp add: oneSession_def)

end
