(* ===== verification/Fcm.thy ===== *)
theory Fcm
  imports Push Config
begin

text \<open>
  The client of Firebase Cloud Messaging \<^verbatim>\<open>integrations/push/fcm\<close>, the sender the server gives its push
  notifier. The file of credentials, \<^verbatim>\<open>golang.org/x/oauth2\<close>, \<^verbatim>\<open>encoding/json\<close> and the HTTP exchange
  are parameters.
\<close>

definition defaultEndpoint :: string where "defaultEndpoint = ''https://fcm.googleapis.com''"
definition defaultChannelID :: string where "defaultChannelID = ''sgtp_app_notifications''"
definition defaultAndroidTTL :: string where "defaultAndroidTTL = ''2419200s''"

text \<open>\<open>feCredentials\<close> parses credentials and gives their project; \<open>feNewRequest\<close> refuses malformed URLs; \<open>feDo\<close> posts a body
  under a timeout and answers with a status and a body.\<close>

record fcmEnv =
  feReadFile :: "string \<Rightarrow> err + bytes"
  feCredentials :: "bytes \<Rightarrow> err + string"
  feMarshal :: "any \<Rightarrow> err + bytes"
  feNewRequest :: "string \<Rightarrow> err option"
  feDo :: "int \<Rightarrow> string \<Rightarrow> bytes \<Rightarrow> err + int \<times> bytes"

record Client =
  clEnabled :: bool
  clEndpoint :: string
  clProjectID :: string
  clTimeout :: int

definition trimSlashes :: "string \<Rightarrow> string" where
  "trimSlashes s = rev (dropWhile (\<lambda>c. c = CHR ''/'') (rev s))"

definition NewClient :: "fcmEnv \<Rightarrow> PushFCMConfiguration \<Rightarrow> err + Client" where
  "NewClient fe cfg =
     (if \<not> fcEnabled cfg then Inr \<lparr>clEnabled = False, clEndpoint = [], clProjectID = [], clTimeout = 0\<rparr>
      else
        let credentialsFile = trimSpace (fcCredentialsFile cfg)
        in if credentialsFile = [] then Inl (ErrMsg ''push.fcm.credentials_file is required when enabled'')
           else (case feReadFile fe credentialsFile of
             Inl e \<Rightarrow> Inl (ErrWrap ''read fcm credentials'' e)
           | Inr raw \<Rightarrow> (case feCredentials fe raw of
               Inl e \<Rightarrow> Inl (ErrWrap ''parse fcm credentials'' e)
             | Inr credentialsProject \<Rightarrow>
                 (let projectID = (if isBlank (fcProjectID cfg) then trimSpace credentialsProject
                                   else trimSpace (fcProjectID cfg));
                      endpoint = trimSlashes (trimSpace (fcEndpoint cfg))
                  in if projectID = []
                     then Inl (ErrMsg ''push.fcm.project_id is required when not present in credentials'')
                     else Inr \<lparr>clEnabled = True,
                       clEndpoint = (if endpoint = [] then defaultEndpoint else endpoint),
                       clProjectID = projectID,
                       clTimeout = (if fcTimeout cfg \<le> 0 then 10000000000 else fcTimeout cfg)\<rparr>))))"

definition notificationTitle :: "Envelope \<Rightarrow> string" where
  "notificationTitle e =
     (let title = trimSpace (spTitle (evlSafePayload e))
      in if title \<noteq> [] then title
         else if evlKind e = KindMessage then ''New message''
         else if evlKind e = KindFriendRequest then ''New activity''
         else ''SGTP'')"

definition notificationBody :: "Envelope \<Rightarrow> string" where
  "notificationBody e =
     (let body = trimSpace (spSubtitle (evlSafePayload e))
      in if body \<noteq> [] then body
         else if evlKind e = KindMessage then ''1 new message''
         else if evlKind e = KindFriendRequest then ''Sent you a friend request''
         else ''New notification'')"

text \<open>The body \<open>Send\<close> posts.\<close>

definition fcmBody :: "env \<Rightarrow> string \<Rightarrow> Envelope \<Rightarrow> any" where
  "fcmBody env token e = GMap
     [(''message'', GMap
       [(''token'', GString token),
        (''notification'', GMap
          [(''title'', GString (notificationTitle e)), (''body'', GString (notificationBody e))]),
        (''data'', GMap (map (\<lambda>(k, v). (k, GString v)) (EnvelopeData env e))),
        (''android'', GMap
          [(''priority'', GString ''high''),
           (''ttl'', GString defaultAndroidTTL),
           (''notification'', GMap
             [(''channel_id'', GString defaultChannelID),
              (''icon'', GString ''ic_stat_sgtp_notification''),
              (''sound'', GString ''default''),
              (''default_sound'', GBool True),
              (''default_vibrate_timings'', GBool True),
              (''notification_priority'', GString ''PRIORITY_HIGH''),
              (''visibility'', GString ''PUBLIC'')])])])]"

definition fcmURL :: "Client \<Rightarrow> string" where
  "fcmURL c = clEndpoint c @ ''/v1/projects/'' @ clProjectID c @ ''/messages:send''"

definition Send :: "env \<Rightarrow> fcmEnv \<Rightarrow> Client option \<Rightarrow> Sender" where
  "Send env fe client token envelope =
     (case client of
        None \<Rightarrow> Some ErrDisabled
      | Some c \<Rightarrow>
          if \<not> clEnabled c then Some ErrDisabled
          else (case feMarshal fe (fcmBody env token envelope) of
            Inl e \<Rightarrow> Some (ErrWrap ''marshal fcm request'' e)
          | Inr raw \<Rightarrow> (case feNewRequest fe (fcmURL c) of
              Some e \<Rightarrow> Some (ErrWrap ''build fcm request'' e)
            | None \<Rightarrow> (case feDo fe (clTimeout c) (fcmURL c) raw of
                Inl e \<Rightarrow> Some (ErrWrap ''send fcm request'' e)
              | Inr (status, body) \<Rightarrow>
                  if 200 \<le> status \<and> status < 300 then None
                  else Some (ErrMsg (''fcm send failed: status='' @ itoa status @ '' body=''
                         @ trimSpace (bytesString (take 4096 body))))))))"

lemma NewClient_disabled: "\<not> fcEnabled cfg \<Longrightarrow> NewClient fe cfg = Inr c \<Longrightarrow> Send env fe (Some c) token e = Some ErrDisabled"
  by (auto simp: NewClient_def Send_def)

lemma notification_text: "notificationTitle e \<noteq> [] \<and> notificationBody e \<noteq> []"
  by (simp add: notificationTitle_def notificationBody_def Let_def)

end
