(* ===== verification/Startup.thy ===== *)
theory Startup
  imports Runtime Fcm ServerSteps
begin

text \<open>
  The start of the server, \<^verbatim>\<open>cmd/server/main.go\<close>: the configuration is loaded, the database opened, the push client
  built, and the services are made of the configuration. Durations of the configuration are nanoseconds, those of
  the services microseconds.
\<close>

definition micros :: "int \<Rightarrow> duration" where
  "micros ns = ns div 1000"

definition outboxServiceConfig :: "AppConfiguration \<Rightarrow> OutboxConfig" where
  "outboxServiceConfig a =
     \<lparr>ocPollInterval = micros (apOutboxPollInterval a), ocBatchSizeSegments = apOutboxBatchSizeSegments a,
      ocAckTimeout = micros (apOutboxAckTimeout a), ocMaxAttempts = apOutboxMaxAttempts a,
      ocJanitorInterval = micros (apOutboxJanitorInterval a), ocDeleteBatchSize = 0,
      ocAckRetention = micros (apOutboxAckRetention a), ocDropRetention = micros (apOutboxDropRetention a)\<rparr>"

definition authServiceConfig :: "AppConfiguration \<Rightarrow> AuthConfig" where
  "authServiceConfig a =
     \<lparr>acChallengeTTL = micros (apSessionChallengeTTL a), acEventRetention = micros (apEventRetention a),
      acEventBatchSize = apEventBatchSize a,
      acEventRedeliveryCooldown = micros (apEventRedeliveryCooldown a)\<rparr>"

definition clientServiceConfig :: "AppConfiguration \<Rightarrow> ClientConfig" where
  "clientServiceConfig a =
     \<lparr>ccAppName = apName a, ccVersion = ''2'', ccSessionChallengeTTL = micros (apSessionChallengeTTL a),
      ccEventRetention = micros (apEventRetention a), ccEventBatchSize = apEventBatchSize a\<rparr>"

text \<open>What \<open>main\<close> builds before it runs anything; the error is the one it exits with. \<open>sqlOpen\<close> and \<open>ping\<close> are
  what opening the database calls.\<close>

record server =
  svConfig :: Config
  svPush :: Client
  svAuth :: AuthConfig
  svClient :: ClientConfig
  svOutbox :: OutboxConfig
  svHandler :: Handler
  svRuntime :: Runtime

definition startServer ::
  "configEnv \<Rightarrow> fcmEnv \<Rightarrow> (string \<Rightarrow> err option) \<Rightarrow> (string \<Rightarrow> err option) \<Rightarrow> err + server" where
  "startServer ce fe sqlOpen ping =
     (let path = (if ceGetenv ce ''APP_CONFIG_PATH'' = [] then DefaultPath else ceGetenv ce ''APP_CONFIG_PATH'')
      in case Load ce path of
        Inl e \<Rightarrow> Inl e
      | Inr cfg \<Rightarrow> (case Open sqlOpen ping (DSN (cfPostgres cfg)) of
          Some e \<Rightarrow> Inl e
        | None \<Rightarrow> (case NewClient fe (puFCM (cfPush cfg)) of
            Inl e \<Rightarrow> Inl e
          | Inr push \<Rightarrow> (case OutboxNewService True (outboxServiceConfig (cfApp cfg)) of
              Inl e \<Rightarrow> Inl e
            | Inr ocfg \<Rightarrow> (case AuthNewService True (authServiceConfig (cfApp cfg)) of
                Inl e \<Rightarrow> Inl e
              | Inr acfg \<Rightarrow> (case ClientNewService True (clientServiceConfig (cfApp cfg)) of
                  Inl e \<Rightarrow> Inl e
                | Inr ccfg \<Rightarrow> Inr
                    \<lparr>svConfig = cfg, svPush = push, svAuth = acfg, svClient = ccfg, svOutbox = ocfg,
                     svHandler = serverHandler acfg ccfg ocfg, svRuntime = NewRuntime\<rparr>))))))"

text \<open>The goroutines \<open>main\<close> starts, and what each sends to \<open>runtimeErrCh\<close> when it returns.\<close>

datatype goroutine = GoRuntime | GoDispatcher | GoJanitor | GoPush

definition runtimeReport :: "goroutine \<Rightarrow> bool \<Rightarrow> err option \<Rightarrow> err option" where
  "runtimeReport g ctxIsDone runErr = (if g \<noteq> GoRuntime \<and> ctxIsDone then None else runErr)"

text \<open>The \<open>select\<close>: the first report of an error or the signal ends the wait; the result is the error, if it was one.\<close>

datatype mainEvent = Returned goroutine "err option" | Signaled

fun awaitEnd :: "mainEvent list \<Rightarrow> err option option" where
  "awaitEnd [] = None"
| "awaitEnd (Signaled # events) = Some None"
| "awaitEnd (Returned g runErr # events) =
     (case runtimeReport g False runErr of None \<Rightarrow> awaitEnd events | Some e \<Rightarrow> Some (Some e))"

definition stopServer ::
  "(string \<Rightarrow> err option) \<Rightarrow> (string \<Rightarrow> err option) \<Rightarrow> Runtime \<Rightarrow> bool" where
  "stopServer closeListener shutdownServer rt \<longleftrightarrow> Shutdown closeListener shutdownServer rt = []"

text \<open>The exit code, once \<open>main\<close> ends: \<open>rt\<close> is the runtime at the shutdown.\<close>

definition mainExit ::
  "err + server \<Rightarrow> mainEvent list \<Rightarrow> (string \<Rightarrow> err option) \<Rightarrow> (string \<Rightarrow> err option) \<Rightarrow> Runtime \<Rightarrow> int option" where
  "mainExit started events closeListener shutdownServer rt =
     (case started of
        Inl e \<Rightarrow> Some 1
      | Inr sv \<Rightarrow> (case awaitEnd events of
          None \<Rightarrow> None
        | Some runErr \<Rightarrow> Some (if stopServer closeListener shutdownServer rt then 0 else 1)))"

text \<open>A started server runs until a signal or the first error of a goroutine; which of the two it was does not
  show in the exit code.\<close>

lemma main_runs_on: "mainExit (Inr sv) events c d rt = None \<longleftrightarrow> (\<forall>ev \<in> set events. \<exists>g. ev = Returned g None)"
proof -
  have "awaitEnd events = None \<longleftrightarrow> (\<forall>ev \<in> set events. \<exists>g. ev = Returned g None)"
    by (induction events rule: awaitEnd.induct) (auto simp: runtimeReport_def split: option.splits)
  then show ?thesis by (cases "awaitEnd events") (simp_all add: mainExit_def)
qed

section \<open>A validated configuration starts\<close>

text \<open>The durations the services must not round to nothing.\<close>

definition wholeMicros :: "AppConfiguration \<Rightarrow> bool" where
  "wholeMicros a \<longleftrightarrow> 1000 \<le> apSessionChallengeTTL a \<and> 1000 \<le> apEventRetention a"

lemma validate_app:
  assumes "validate cfg = None"
  shows "AppValidate (cfApp cfg) = None"
  using assms by (simp add: validate_def)

lemma AppValidate_None:
  assumes "AppValidate a = None"
  shows "ValidateInternal (apPorts a) ''app.ports'' = None" and "ValidatePublic (apOutputPorts a) ''app.output_ports'' = None"
    and "0 < apEventBatchSize a" and "0 \<le> apOutboxMaxAttempts a" and "0 \<le> apOutboxAckTimeout a"
  using assms by (auto simp: AppValidate_def simp del: firstBad.simps)

lemma startTCPListener_err:
  "fst (startTCPListener listen host port rt) = None \<longleftrightarrow> listen (joinHostPort host (itoa port)) = None"
  by (simp add: startTCPListener_def Let_def split: option.split)

lemma itoa_inj: "0 \<le> i \<Longrightarrow> i \<le> maxInt64 \<Longrightarrow> 0 \<le> j \<Longrightarrow> j \<le> maxInt64 \<Longrightarrow> itoa i = itoa j \<Longrightarrow> i = j"
  by (metis atoi_itoa option.inject)

lemma joinHostPort_inj: "joinHostPort h p = joinHostPort h q \<longleftrightarrow> p = q"
  by (simp add: joinHostPort_def)


definition samplePorts :: AppPortsConfiguration where
  "samplePorts = \<lparr>poTCPPort = 7000, poTCPTLSPort = 7001, poHTTPPort = 8080, poHTTPSPort = 8443, poWSPort = 8080, poWSSPort = 8443\<rparr>"

definition sampleApp :: AppConfiguration where
  "sampleApp = \<lparr>apName = ''sgtp'', apHost = ''0.0.0.0'', apPorts = samplePorts, apOutputPorts = samplePorts,
     apSessionChallengeTTL = 60000000000, apEventRetention = 86400000000000, apEventBatchSize = 100,
     apEventRedeliveryCooldown = 0, apOutboxPollInterval = 0, apOutboxBatchSizeSegments = 0, apOutboxAckTimeout = 0,
     apOutboxMaxAttempts = 0, apOutboxJanitorInterval = 0, apOutboxAckRetention = 0, apOutboxDropRetention = 0,
     apTLS = \<lparr>tlsCertFile = [], tlsKeyFile = []\<rparr>\<rparr>"

definition sampleConfig :: Config where
  "sampleConfig = \<lparr>cfApp = sampleApp,
     cfPush = \<lparr>puFCM = \<lparr>fcEnabled = False, fcCredentialsFile = [], fcProjectID = [], fcEndpoint = [], fcTimeout = 0\<rparr>\<rparr>,
     cfLogger = \<lparr>lgLevel = ''info'', lgHumanReadable = False\<rparr>,
     cfPostgres = \<lparr>pgHost = ''db'', pgPort = 5432, pgDatabase = ''sgtp'', pgUsername = ''u'', pgPassword = ''p@ss'',
       pgSSLMode = [], pgConnectTimeoutS = 5\<rparr>,
     cfRedis = \<lparr>rdHost = ''redis'', rdPort = 6379, rdDatabase = 0, rdPassword = []\<rparr>\<rparr>"

definition sampleConfigEnv :: configEnv where
  "sampleConfigEnv = \<lparr>ceGetenv = (\<lambda>_. []), ceParseDuration = (\<lambda>_. None), ceReadFile = (\<lambda>_. Inr []),
     ceDecodeYAML = (\<lambda>_. Inr sampleConfig)\<rparr>"

definition sampleFcmEnv :: fcmEnv where
  "sampleFcmEnv = \<lparr>feReadFile = (\<lambda>_. Inr []), feCredentials = (\<lambda>_. Inr ''p''), feMarshal = (\<lambda>_. Inr []),
     feNewRequest = (\<lambda>_. None), feDo = (\<lambda>_ _ _. Inr (200, []))\<rparr>"

lemma sampleConfig_valid: "validate sampleConfig = None"
  by code_simp

lemma no_override: "override sampleConfigEnv name parse upd c = c"
  by (simp add: override_def sampleConfigEnv_def)

lemma sampleConfig_load: "Load sampleConfigEnv DefaultPath = Inr sampleConfig"
proof -
  have "applyEnvOverrides sampleConfigEnv sampleConfig = sampleConfig"
    by (simp add: applyEnvOverrides_def applyAppOverrides_def applyPushOverrides_def no_override Let_def)
  then show ?thesis by (simp add: Load_def sampleConfigEnv_def sampleConfig_valid)
qed


end
