(* ===== verification/LintLimits.thy ===== *)
theory LintLimits
  imports GoLib
begin

text \<open>
  The tool \<^verbatim>\<open>cmd/lintlimits\<close> of the repository: it walks a tree of files and reports
  the Go files and functions that are too long. The file system and \<^verbatim>\<open>go/parser\<close> are given by the tree as the walk meets
  it, with what reading and parsing each file returns.
\<close>

section \<open>Sources\<close>

text \<open>The type of a receiver as far as \<open>functionName\<close> looks: an identifier, a pointer, or something else.\<close>

datatype recvType = Ident string | StarExpr recvType | OtherType

text \<open>A function: its name, the types of its receivers, whether it has a body, its first and its last line.\<close>

record FuncDecl =
  fdName :: string
  fdRecv :: "recvType list"
  fdHasBody :: bool
  fdStart :: int
  fdEnd :: int

text \<open>What \<^verbatim>\<open>filepath.WalkDir\<close> meets, with its path: a directory with its name and entries in lexical order,
  a directory that cannot be read, or a file with its content and its function declarations.\<close>

datatype dirEntry =
    Directory string string "dirEntry list"
  | Unreadable string string err
  | SourceFile string "err + bytes" "err + FuncDecl list"

record violation =
  vlPath :: string
  vlLine :: int
  vlMessage :: string

section \<open>The check\<close>

definition countLines :: "bytes \<Rightarrow> int" where
  "countLines content = (if content = [] then 0 else int (count_list content 10) + 1)"

definition functionName :: "FuncDecl \<Rightarrow> string" where
  "functionName fn =
     (case fdRecv fn of
        [] \<Rightarrow> fdName fn
      | expr # _ \<Rightarrow> (case expr of
            Ident name \<Rightarrow> name @ ''.'' @ fdName fn
          | StarExpr (Ident name) \<Rightarrow> name @ ''.'' @ fdName fn
          | _ \<Rightarrow> fdName fn))"

text \<open>\<^verbatim>\<open>filepath.Ext\<close>: from the last dot of the last element of the path.\<close>

definition pathExt :: "string \<Rightarrow> string" where
  "pathExt path =
     (let final = takeWhile (\<lambda>c. c \<noteq> CHR ''/'') (rev path)
      in if CHR ''.'' \<in> set final then CHR ''.'' # rev (takeWhile (\<lambda>c. c \<noteq> CHR ''.'') final) else [])"

definition fileViolation :: "int \<Rightarrow> string \<Rightarrow> bytes \<Rightarrow> violation list" where
  "fileViolation maxFileLines path content =
     (let fileLines = countLines content
      in if fileLines > maxFileLines
         then [\<lparr>vlPath = path, vlLine = 1, vlMessage = ''file has '' @ itoa fileLines @ '' lines, max allowed is '' @ itoa maxFileLines\<rparr>]
         else [])"

definition funcViolation :: "int \<Rightarrow> string \<Rightarrow> FuncDecl \<Rightarrow> violation list" where
  "funcViolation maxFuncLines path fn =
     (let lines = fdEnd fn - fdStart fn + 1
      in if \<not> fdHasBody fn \<or> lines \<le> maxFuncLines then []
         else [\<lparr>vlPath = path, vlLine = fdStart fn,
                vlMessage = ''function '' @ functionName fn @ '' has '' @ itoa lines @ '' lines, max allowed is '' @ itoa maxFuncLines\<rparr>])"

definition skippedDir :: "string \<Rightarrow> bool" where
  "skippedDir name \<longleftrightarrow> name \<in> {''.git'', ''vendor'', ''build''}"

text \<open>The violations found before the walk ends, and the error that ended it early, if any.\<close>

fun checkEntry :: "int \<Rightarrow> int \<Rightarrow> dirEntry \<Rightarrow> violation list \<times> err option"
  and checkEntries :: "int \<Rightarrow> int \<Rightarrow> dirEntry list \<Rightarrow> violation list \<times> err option" where
  "checkEntry maxFileLines maxFuncLines (Directory path name entries) =
     (if skippedDir name then ([], None) else checkEntries maxFileLines maxFuncLines entries)"
| "checkEntry maxFileLines maxFuncLines (Unreadable path name e) = ([], if skippedDir name then None else Some e)"
| "checkEntry maxFileLines maxFuncLines (SourceFile path content parsed) =
     (if pathExt path \<noteq> ''.go'' then ([], None)
      else case content of
        Inl e \<Rightarrow> ([], Some e)
      | Inr bytes \<Rightarrow> (case parsed of
          Inl e \<Rightarrow> (fileViolation maxFileLines path bytes, Some e)
        | Inr decls \<Rightarrow>
            (fileViolation maxFileLines path bytes @ concat (map (funcViolation maxFuncLines path) decls), None)))"
| "checkEntries maxFileLines maxFuncLines [] = ([], None)"
| "checkEntries maxFileLines maxFuncLines (entry # entries) =
     (case checkEntry maxFileLines maxFuncLines entry of
        (violations, Some e) \<Rightarrow> (violations, Some e)
      | (violations, None) \<Rightarrow>
          (let (more, e) = checkEntries maxFileLines maxFuncLines entries in (violations @ more, e)))"

text \<open>The exit code of the tool: the root is what \<^verbatim>\<open>Lstat\<close> finds.\<close>

definition lintExit :: "int \<Rightarrow> int \<Rightarrow> err + dirEntry \<Rightarrow> int" where
  "lintExit maxFileLines maxFuncLines root =
     (case root of
        Inl e \<Rightarrow> 1
      | Inr entry \<Rightarrow> if checkEntry maxFileLines maxFuncLines entry = ([], None) then 0 else 1)"

section \<open>What an exit without complaint means\<close>

text \<open>The Go files under an entry, by their content and functions as far as they can be read.\<close>

fun goFiles :: "dirEntry \<Rightarrow> (string \<times> (err + bytes) \<times> (err + FuncDecl list)) list" where
  "goFiles (Directory path name entries) = (if skippedDir name then [] else concat (map goFiles entries))"
| "goFiles (Unreadable path name e) = []"
| "goFiles (SourceFile path content parsed) = (if pathExt path = ''.go'' then [(path, content, parsed)] else [])"

definition withinLimits :: "int \<Rightarrow> int \<Rightarrow> string \<times> (err + bytes) \<times> (err + FuncDecl list) \<Rightarrow> bool" where
  "withinLimits maxFileLines maxFuncLines f =
     (case f of
        (path, Inr bytes, Inr decls) \<Rightarrow> countLines bytes \<le> maxFileLines
          \<and> (\<forall>fn \<in> set decls. fdHasBody fn \<longrightarrow> fdEnd fn - fdStart fn + 1 \<le> maxFuncLines)
      | _ \<Rightarrow> False)"

fun readable :: "dirEntry \<Rightarrow> bool" where
  "readable (Directory path name entries) = (skippedDir name \<or> list_all readable entries)"
| "readable (Unreadable path name e) = skippedDir name"
| "readable (SourceFile path content parsed) = True"

text \<open>The tool is silent exactly if every directory it visits can be read, and every Go file in them can be read and parsed and
  is within the limits, with all its functions.\<close>

lemma checkEntry_silent:
  "checkEntry m n entry = ([], None) \<longleftrightarrow> readable entry \<and> (\<forall>f \<in> set (goFiles entry). withinLimits m n f)"
  "checkEntries m n entries = ([], None) \<longleftrightarrow>
     list_all readable entries \<and> (\<forall>f \<in> set (concat (map goFiles entries)). withinLimits m n f)"
proof (induction m n entry and m n entries rule: checkEntry_checkEntries.induct)
  case (3 m n path content parsed)
  then show ?case
    by (auto simp: withinLimits_def fileViolation_def funcViolation_def Let_def split: sum.splits if_splits)
next
  case (5 m n entry entries)
  then show ?case
    by (cases "checkEntry m n entry"; cases "checkEntries m n entries"; cases "snd (checkEntry m n entry)") auto
qed auto

lemma lint_silent:
  "lintExit m n (Inr entry) = 0 \<longleftrightarrow> readable entry \<and> (\<forall>f \<in> set (goFiles entry). withinLimits m n f)"
  by (simp add: lintExit_def checkEntry_silent)

end
