(* ===== verification/Spec2Isabelle.thy ===== *)
theory Spec2Isabelle
  imports AuthProps EventProps OutboxProps OutboxLive OutboxFinal FriendProps PageProps NoPanic PeopleProps HandlerProps
    MessageProps ConnectionProps Delivery PushOnce RuntimeProps Startup LintLimits
begin

text \<open>
  A verification of the SecureGroupTP server: a messaging server in Go that stores users, devices, key
  packages, friends and chat rooms in PostgreSQL, authenticates connections by Ed25519 challenges, and delivers events
  to devices through a transactional outbox, an in-process event bus and Firebase push messages. Paths below are under
  \<^verbatim>\<open>src/internal\<close> unless they say otherwise.

  \<^bold>\<open>The program and how its parts interact.\<close> A client sends batches of signed CBOR packets over a
  TCP
  stream, a WebSocket or HTTP. The connection handler decodes a batch, checks each packet's signature, and either runs
  an
  authentication method (\<^verbatim>\<open>application/auth\<close>) or routes a client method to
  \<^verbatim>\<open>application/clientapi\<close>. Both services call the repositories
  (\<^verbatim>\<open>repository/postgres\<close>) inside
  transactions. Appending a user event also queues it in the outbox, one row for each device of the user. The
  dispatcher of \<^verbatim>\<open>application/outbox\<close> puts the head of each device's segment in flight and
  notifies the bus, which wakes the push loop of a connection, and the push notifier
  (\<^verbatim>\<open>application/push\<close>), which hands an envelope without content to the FCM client. An
  acknowledgement by the device settles the head and promotes the next event of the segment; a janitor
  deletes what is settled or expired.

  \<^bold>\<open>Theories and sources.\<close>
  \<^item> \<open>Prelude\<close>: bytes, instants, error values and \<^verbatim>\<open>errors.Is\<close>; a call that
    may fail or panic is a
    function from a state to an \<open>outcome\<close> (\<open>Ret\<close>, \<open>Err\<close>, \<open>Panic\<close>)
    and a state, sequenced by \<open>andThen\<close>;
    loops over slices; the rules of \<open>keeps_intros\<close>, by which a call keeps an invariant if its
    parts do; the locale \<open>invariant_system\<close> of step relations with an invariant.
  \<^item> \<open>GoLib\<close>: what the code uses of the Go library, computed: integer conversions at their widths,
    \<^verbatim>\<open>strings.TrimSpace\<close>, \<^verbatim>\<open>strconv\<close>, base64, hexadecimal.
  \<^item> \<open>EventBus\<close>: \<^verbatim>\<open>platform/eventbus/bus.go\<close>, on a heap of channels with a
    buffer of one.
  \<^item> \<open>Schema\<close>, \<open>Store\<close>: the structs of \<^verbatim>\<open>domain/auth\<close> and
    \<^verbatim>\<open>application/clientapi/types.go\<close>, the tables, the environment and the
    world; \<^verbatim>\<open>store.go\<close> and \<^verbatim>\<open>domain/tx\<close>, with the contract of a
    transaction manager as locale
    \<open>tx_manager\<close>, interpreted on \<open>WithinTransaction\<close>.
  \<^item> \<open>AuthRepo\<close>, \<open>OutboxRepo\<close>: \<^verbatim>\<open>auth_repository.go\<close> (with the
    JSON form of payloads), \<^verbatim>\<open>auth_repository_outbox.go\<close> and
    \<^verbatim>\<open>platform/eventbus/notifying_events.go\<close>. \<open>OutboxInv\<close> has the invariant of
    the outbox tables, kept at every statement.
  \<^item> \<open>ClientRepo\<close>, \<open>RoomRepo\<close>, \<open>Usage\<close>:
    \<^verbatim>\<open>client_repository*.go\<close>.
  \<^item> \<open>AuthService\<close>, \<open>OutboxService\<close>: \<^verbatim>\<open>application/auth\<close>;
    \<^verbatim>\<open>application/outbox\<close>, with the
    contract of a notifier as locale \<open>outbox_notifier\<close>, interpreted on the bus, the push queue and both
    together.
  \<^item> \<open>ClientMaps\<close>, \<open>PeopleService\<close>, \<open>RoomService\<close>:
    \<^verbatim>\<open>application/clientapi\<close>.
  \<^item> \<open>RpcDispatch\<close>, \<open>RpcHandler\<close>: \<^verbatim>\<open>delivery/clientrpc\<close> and
    \<^verbatim>\<open>domain/rpc\<close>. A connection is a
    record (\<open>connection\<close>) that says whether its push loop runs, was canceled or has ended; the turns of its
    reader (\<open>handleWebSocketTurn\<close>, \<open>HandleStreamTurn\<close>) and of its push loop
    (\<open>pushTurn\<close>) change it.
  \<^item> \<open>ServerSteps\<close>: the running server as a step relation \<open>serverStep\<close> (batches of any
    connection, push loops, dispatcher,
    janitor). The locales \<open>client_store\<close>, \<open>client_calls\<close> and \<open>client_invariant\<close>
    are the interface between repository and
    server: what every writer of the repository keeps, every step keeps.
  \<^item> \<open>Push\<close>, \<open>Fcm\<close>: \<^verbatim>\<open>application/push\<close> and
    \<^verbatim>\<open>integrations/push/fcm\<close>.
  \<^item> \<open>Logging\<close>, \<open>Config\<close>, \<open>Runtime\<close>, \<open>Startup\<close>:
    \<^verbatim>\<open>platform/logging\<close>, \<^verbatim>\<open>config\<close>,
    \<^verbatim>\<open>server\<close> (listeners, routes, access log) and
    \<^verbatim>\<open>src/cmd/server/main.go\<close>, from the
    configuration to the exit code. \<open>LintLimits\<close>: the tool \<^verbatim>\<open>src/cmd/lintlimits\<close>.
  \<^item> \<open>ClientFrame\<close>, \<open>ClientFacts\<close>: what each call leaves alone, and what it did when
    it returned. \<open>Samples\<close>,
    \<open>ClientSamples\<close>: a concrete environment, codec and world on which the theorems are exercised.

  \<^bold>\<open>What is shown.\<close>
  \<^item> Authentication (\<open>AuthProps\<close>, \<open>EventProps\<close>): in every history a session is
    authenticated only by a signature
    of its own challenge, in time; what a granted challenge and a solved one store, and that a failed call stores
    nothing; pulls return
    the caller's due events in order and do not repeat them within the cooldown.
  \<^item> Outbox (\<open>OutboxProps\<close>, \<open>OutboxLive\<close>, \<open>OutboxFinal\<close>,
    \<open>PushOnce\<close>): one event in flight for each device and segment, bounded attempts,
    dispatches entirely or not at all, progress of dispatch and acknowledgement, acknowledged rows never change,
    and an event is handed to the push sender at most once.
  \<^item> Bus (\<open>EventBus\<close>, \<open>NoPanic\<close>, \<open>ConnectionProps\<close>): a notification
    reaches the subscribers of its key; the race
    of a notification with an unsubscription panics; no client method panics by itself or changes a
    subscription. Over the steps \<open>connectionStep\<close> of any number of WebSocket and TCP connections, HTTP
    requests, the
    dispatcher and the janitor, the subscriptions of the bus are exactly those of the running push loops. \<open>Delivery\<close>
    composes outbox, bus and push loop: an event that is due is dispatched, wakes the connection of its device and is
    written by its next turn.
  \<^item> People (\<open>FriendProps\<close>, \<open>PeopleProps\<close>, \<open>PageProps\<close>): the tables of
    friends refine an abstract machine and are symmetric; settled requests are final; deleting an
    account; choice of key packages; usage counters; following the cursors of a listing gives the listing (locale
    \<open>pager\<close>, interpreted on the seven listings); \<open>UpdateProfile\<close> ends.
  \<^item> Rooms (\<open>RoomTables\<close>, \<open>RoomProps\<close>, \<open>MessageProps\<close>): the tables are
    well typed in every state the server reaches; private rooms are entered by
    invitation; administration is refused to others; direct rooms; messages reach every member.
  \<^item> Connections (\<open>HandlerProps\<close>, \<open>RuntimeProps\<close>): client calls are signed by the
    connection's key; batches are answered in order; events are not repeated; HTTP
    connections are isolated and their sessions end with them; a key of the wrong size panics; a challenge on an
    authenticated connection rebinds
    it; the TCP banner reads back as the configured ports.
  \<^item> Push and start (\<open>PushProps\<close>, \<open>Startup\<close>): who gets a push, and that neither the
    envelope nor the log depends on the content of an event or on device
    tokens; a configuration that \<open>Load\<close> accepts starts every service.

  \<^bold>\<open>How the program is modelled.\<close>
  \<^item> A SQL statement is a function on the tables (lists of rows in insertion order). The \<open>n\<close>-th
    statement fails if \<open>eFault n\<close> holds, for
    every schedule \<open>eFault\<close>; unique keys, checks and references of the migrations are tested before a row
    is written.
    \<^verbatim>\<open>ORDER BY\<close> is a stable sort, \<^verbatim>\<open>LIMIT\<close> and
    \<^verbatim>\<open>OFFSET\<close> are \<open>limitOffset\<close>; the order and the lower case of texts, which the
    database's locale
    decides, are the parameters \<open>eCollate\<close> and \<open>eLower\<close>. Soft-deleted rooms still satisfy
    references. A commit that fails has not
    committed.
  \<^item> Calls of services are steps that do not interleave, except where interleaving is the point: the two halves
    of a notification of the bus, the
    dispatcher, the push notifier and the connections are separate steps. Services are called with contexts that carry
    no transaction.
  \<^item> The clock, UUIDs, random bytes, Ed25519, CBOR, JSON texts, YAML,
    \<^verbatim>\<open>time.ParseDuration\<close> (whose fractions are computed in floating point), sockets and OAuth
    tokens
    are parameters: fields of \<open>env\<close>, \<open>codec\<close>, \<open>configEnv\<close>,
    \<open>fcmEnv\<close> and \<open>logEnv\<close>, or arguments. Theorems name what they need of them.
    An HTTP connection is a number; a handler that panics leaves the session it made.
  \<^item> Instants and durations of the services are microseconds, the resolution of the database; durations of the
    configuration are
    nanoseconds, converted by \<open>micros\<close>, and \<open>wholeMicros\<close> says that two of them do not
    vanish in the conversion. A nil slice of bytes is the empty one; strings hold
    UTF-8 bytes.
  \<^item> Integers that can wrap are words or are reduced at their width (\<open>GoLib\<close>); identifiers of new
    outbox rows are fresh by the guard of the publishing step.
  \<^item> Loops: those of \<open>RunDispatcher\<close> and \<open>RunJanitor\<close> run over a list of ticks
    (\<open>untilDone\<close>), that of the push notifier over a list of turns (\<open>pushLoop\<close>), for
    lists of every length. The loop of \<open>UpdateProfile\<close> over pages of friends has as fuel the number of
    rows of the friends table and one,
    and \<open>update_profile_terminates\<close> shows that this is enough; \<open>walkPages\<close>, a client that
    follows cursors, likewise has one page more than rows.
    Other loops are total functions with a measure.

  \<^bold>\<open>Not modelled.\<close> \<^verbatim>\<open>testutil\<close>, which starts a database for the tests, is
  not part of the server. Left out as
  input and output: the WebSocket upgrade, TLS (only its ports are configured), the cleaning of paths by
  \<^verbatim>\<open>http.ServeMux\<close> (its choice of a route for a clean path is modelled),
  \<^verbatim>\<open>Flush\<close>, HTTP headers, signals (a
  signal is one of the events that end \<open>awaitEnd\<close>), the limits of the connection pool, log lines other
  than those
  of the push notifier, the TCP runtime and the access log, and readings of the clock made only for a log line.
  A canceled context makes statements fail, which the arbitrary schedule \<open>eFault\<close> covers. The counter of
  subscriptions of the bus has 64 bits; the steps that read a connection have the guard that
  it does not wrap.
  Concurrent transactions and their isolation are PostgreSQL's and are not modelled.
\<close>

end
